(* ===== verification/Fx_Prelude.thy ===== *)
theory Fx_Prelude
  imports Main "HOL-Library.AList"
begin

text \<open>
  Shared vocabulary of the development: the named collections its automation uses, the parts of
  the Python language and standard library that every component relies on (text and byte strings,
  insertion-ordered dictionaries, exceptions as values), and the generic lemmas about them.

  Text.  A Python \<^verbatim>\<open>str\<close> is modelled by its UTF-8 encoding, one \<^typ>\<open>char\<close> per byte, so that
  \<^verbatim>\<open>encode('utf-8')\<close> is the identity, equality, concatenation and the substring tests coincide with
  Python's, and operations that count characters go through \<open>codepoints\<close>.  A Python \<^verbatim>\<open>bytes\<close> is the
  same type without the assumption that it is valid UTF-8; \<open>decode_utf8\<close> is the strict decoder.
  \<^verbatim>\<open>str.lower\<close> is modelled on the ASCII letters; the program only uses it in front of comparisons
  with ASCII literals that contain no letter outside ASCII maps to.
\<close>

section \<open>Collections of facts\<close>

named_theorems py_simps \<open>rewriting rules for the Python operations of the prelude\<close>
named_theorems handler_defs \<open>definitions of request handlers and their wrappers\<close>
named_theorems frame_simps \<open>what an operation leaves unchanged\<close>

section \<open>Text and bytes\<close>

type_synonym pystr = string
type_synonym bytes = string

definition byte_of :: "char \<Rightarrow> int" where
  "byte_of c = of_char c"

definition ascii_lower :: "char \<Rightarrow> char" where
  "ascii_lower c = (if 65 \<le> byte_of c \<and> byte_of c \<le> 90 then char_of (byte_of c + 32) else c)"

definition str_lower :: "pystr \<Rightarrow> pystr" where
  "str_lower s = map ascii_lower s"

definition str_upper :: "pystr \<Rightarrow> pystr" where
  "str_upper s =
     map (\<lambda>c. if 97 \<le> byte_of c \<and> byte_of c \<le> 122 then char_of (byte_of c - 32) else c) s"

fun startswith :: "'a list \<Rightarrow> 'a list \<Rightarrow> bool" where
  "startswith s [] = True"
| "startswith [] (p # ps) = False"
| "startswith (c # s) (p # ps) = (c = p \<and> startswith s ps)"

definition endswith :: "'a list \<Rightarrow> 'a list \<Rightarrow> bool" where
  "endswith s p = startswith (rev s) (rev p)"

text \<open>Python's \<^verbatim>\<open>p in s\<close> on strings.\<close>

fun contains :: "'a list \<Rightarrow> 'a list \<Rightarrow> bool" where
  "contains [] p = (p = [])"
| "contains (c # s) p = (startswith (c # s) p \<or> contains s p)"

fun split_on :: "char \<Rightarrow> pystr \<Rightarrow> pystr list" where
  "split_on d [] = [[]]"
| "split_on d (c # s) =
     (if c = d then [] # split_on d s
      else (case split_on d s of [] \<Rightarrow> [[c]] | w # ws \<Rightarrow> (c # w) # ws))"

fun join :: "pystr \<Rightarrow> pystr list \<Rightarrow> pystr" where
  "join d [] = []"
| "join d [w] = w"
| "join d (w # v # ws) = w @ d @ join d (v # ws)"

lemma startswith_iff [py_simps]: "startswith s p \<longleftrightarrow> (\<exists>r. s = p @ r)"
  by (induction s p rule: startswith.induct) auto

lemma endswith_iff [py_simps]: "endswith s p \<longleftrightarrow> (\<exists>r. s = r @ p)"
  unfolding endswith_def startswith_iff
  by (metis rev_append rev_rev_ident)

lemma contains_iff [py_simps]: "contains s p \<longleftrightarrow> (\<exists>l r. s = l @ p @ r)"
proof (induction s)
  case Nil
  then show ?case by auto
next
  case (Cons c s)
  show ?case
  proof
    assume "contains (c # s) p"
    then consider r where "c # s = p @ r" | l r where "s = l @ p @ r"
      using Cons.IH by (auto simp: startswith_iff simp del: startswith.simps)
    then show "\<exists>l r. c # s = l @ p @ r"
    proof cases
      case (1 r)
      then have "c # s = [] @ p @ r" by simp
      then show ?thesis by blast
    next
      case (2 l r)
      then have "c # s = (c # l) @ p @ r" by simp
      then show ?thesis by blast
    qed
  next
    assume "\<exists>l r. c # s = l @ p @ r"
    then obtain l r where eq: "c # s = l @ p @ r" by blast
    show "contains (c # s) p"
    proof (cases l)
      case Nil
      with eq have "startswith (c # s) p" unfolding startswith_iff by simp
      then show ?thesis by simp
    next
      case (Cons d l')
      with eq have "s = l' @ p @ r" by simp
      with Cons.IH show ?thesis by auto
    qed
  qed
qed

lemma ascii_lower_idem [simp]: "ascii_lower (ascii_lower c) = ascii_lower c"
  by (simp add: ascii_lower_def byte_of_def)

lemma str_lower_idem [simp]: "str_lower (str_lower s) = str_lower s"
  by (simp add: str_lower_def)

lemma str_lower_append [simp]: "str_lower (s @ t) = str_lower s @ str_lower t"
  by (simp add: str_lower_def)

lemma split_on_nonempty [simp]: "split_on d s \<noteq> []"
  by (induction s) (auto split: list.splits)

lemma join_Cons_head: "join d ((c # w) # ws) = c # join d (w # ws)"
  by (cases ws) simp_all

lemma join_Nil_head: "ws \<noteq> [] \<Longrightarrow> join d ([] # ws) = d @ join d ws"
  by (cases ws) simp_all

lemma join_split_on [simp]: "join [d] (split_on d s) = s"
proof (induction s)
  case Nil
  then show ?case by simp
next
  case (Cons c s)
  then show ?case
    by (auto simp: join_Cons_head join_Nil_head split: list.splits)
qed

lemma split_on_no_sep: "w \<in> set (split_on d s) \<Longrightarrow> d \<notin> set w"
proof (induction s arbitrary: w)
  case Nil
  then show ?case by simp
next
  case (Cons c s)
  then show ?case
    by (cases "split_on d s") (auto split: if_splits)
qed


lemma split_on_word: "d \<notin> set w \<Longrightarrow> split_on d w = [w]"
  by (induction w) auto

lemma split_on_append: "d \<notin> set w \<Longrightarrow> split_on d (w @ d # s) = w # split_on d s"
  by (induction w) auto

lemma split_on_join: "ws \<noteq> [] \<Longrightarrow> \<forall>w \<in> set ws. d \<notin> set w \<Longrightarrow> split_on d (join [d] ws) = ws"
  by (induction "[d]" ws rule: join.induct) (auto simp: split_on_word split_on_append)

subsection \<open>UTF-8\<close>

definition is_cont :: "char \<Rightarrow> bool" where
  "is_cont c \<longleftrightarrow> 128 \<le> byte_of c \<and> byte_of c < 192"

definition in_range :: "int \<Rightarrow> char \<Rightarrow> int \<Rightarrow> bool" where
  "in_range lo c hi \<longleftrightarrow> lo \<le> byte_of c \<and> byte_of c \<le> hi"

text \<open>
  The strict decoder's table of well-formed sequences: no overlong forms, no surrogates, nothing
  above U+10FFFF.
\<close>

definition ok2 :: "char \<Rightarrow> char \<Rightarrow> bool" where
  "ok2 a b \<longleftrightarrow> in_range 194 a 223 \<and> is_cont b"

definition ok3 :: "char \<Rightarrow> char \<Rightarrow> char \<Rightarrow> bool" where
  "ok3 a b c \<longleftrightarrow> is_cont c \<and>
     (byte_of a = 224 \<and> in_range 160 b 191 \<or> in_range 225 a 236 \<and> is_cont b \<or>
      byte_of a = 237 \<and> in_range 128 b 159 \<or> in_range 238 a 239 \<and> is_cont b)"

definition ok4 :: "char \<Rightarrow> char \<Rightarrow> char \<Rightarrow> char \<Rightarrow> bool" where
  "ok4 a b c d \<longleftrightarrow> is_cont c \<and> is_cont d \<and>
     (byte_of a = 240 \<and> in_range 144 b 191 \<or> in_range 241 a 243 \<and> is_cont b \<or>
      byte_of a = 244 \<and> in_range 128 b 143)"

fun utf8_valid :: "bytes \<Rightarrow> bool" where
  "utf8_valid [] = True"
| "utf8_valid [a] = (byte_of a < 128)"
| "utf8_valid [a, b] =
     (if byte_of a < 128 then utf8_valid [b] else ok2 a b)"
| "utf8_valid [a, b, c] =
     (if byte_of a < 128 then utf8_valid [b, c]
      else if ok2 a b then utf8_valid [c] else ok3 a b c)"
| "utf8_valid (a # b # c # d # s) =
     (if byte_of a < 128 then utf8_valid (b # c # d # s)
      else if ok2 a b then utf8_valid (c # d # s)
      else if ok3 a b c then utf8_valid (d # s)
      else ok4 a b c d \<and> utf8_valid s)"

definition decode_utf8 :: "bytes \<Rightarrow> pystr option" where
  "decode_utf8 b = (if utf8_valid b then Some b else None)"

text \<open>The characters of a text: each lead byte together with its continuation bytes.\<close>

function codepoints :: "pystr \<Rightarrow> pystr list" where
  "codepoints [] = []"
| "codepoints (c # s) = (c # takeWhile is_cont s) # codepoints (dropWhile is_cont s)"
  by pat_completeness auto
termination
  by (relation "measure length") (auto simp: le_imp_less_Suc length_dropWhile_le)

lemma concat_codepoints [simp]: "concat (codepoints s) = s"
  by (induction s rule: codepoints.induct) auto

lemma codepoints_nonempty: "w \<in> set (codepoints s) \<Longrightarrow> w \<noteq> []"
  by (induction s rule: codepoints.induct) auto

definition str_len :: "pystr \<Rightarrow> nat" where
  "str_len s = length (codepoints s)"

text \<open>Python's \<^verbatim>\<open>s[i:j]\<close> for \<open>0 \<le> i \<le> j\<close>.\<close>

definition str_slice :: "nat \<Rightarrow> nat \<Rightarrow> pystr \<Rightarrow> pystr" where
  "str_slice i j s = concat (take (j - i) (drop i (codepoints s)))"

lemma str_len_le: "str_len s \<le> length s"
  unfolding str_len_def
proof (induction s rule: codepoints.induct)
  case (2 c s)
  have "length (dropWhile is_cont s) \<le> length s" by (rule length_dropWhile_le)
  with 2 show ?case by simp
qed simp

lemma codepoints_ascii: "(\<forall>c \<in> set s. byte_of c < 128) \<Longrightarrow> codepoints s = map (\<lambda>c. [c]) s"
proof (induction s)
  case (Cons c s)
  have nc: "\<not> is_cont d" if "d \<in> set s" for d
    using Cons.prems that by (auto simp: is_cont_def)
  have "takeWhile is_cont s = [] \<and> dropWhile is_cont s = s"
    using nc by (cases s) auto
  with Cons show ?case by simp
qed simp

subsection \<open>White space\<close>

text \<open>The characters for which \<^verbatim>\<open>str.isspace\<close> holds, as UTF-8 sequences.\<close>

definition is_space :: "pystr \<Rightarrow> bool" where
  "is_space w = (case map byte_of w of
       [a] \<Rightarrow> 9 \<le> a \<and> a \<le> 13 \<or> 28 \<le> a \<and> a \<le> 32
     | [a, b] \<Rightarrow> a = 194 \<and> (b = 133 \<or> b = 160)
     | [a, b, c] \<Rightarrow>
         a = 225 \<and> b = 154 \<and> c = 128 \<or>
         a = 226 \<and> b = 128 \<and> (128 \<le> c \<and> c \<le> 138 \<or> c = 168 \<or> c = 169 \<or> c = 175) \<or>
         a = 226 \<and> b = 129 \<and> c = 159 \<or>
         a = 227 \<and> b = 128 \<and> c = 128
     | _ \<Rightarrow> False)"

definition str_strip :: "pystr \<Rightarrow> pystr" where
  "str_strip s = concat (rev (dropWhile is_space (rev (dropWhile is_space (codepoints s)))))"

lemma str_strip_infix: "contains s (str_strip s)"
proof -
  let ?c = "codepoints s" let ?d = "dropWhile is_space ?c"
  have c: "?c = takeWhile is_space ?c @ ?d" by simp
  have "?d = rev (dropWhile is_space (rev ?d)) @ rev (takeWhile is_space (rev ?d))"
    by (metis rev_append rev_rev_ident takeWhile_dropWhile_id)
  with c have "?c = takeWhile is_space ?c @ rev (dropWhile is_space (rev ?d))
      @ rev (takeWhile is_space (rev ?d))" by simp
  then have "concat ?c = concat (takeWhile is_space ?c) @ str_strip s
      @ concat (rev (takeWhile is_space (rev ?d)))"
    unfolding str_strip_def by (metis concat_append)
  then show ?thesis unfolding contains_iff concat_codepoints by blast
qed


section \<open>Decimal numerals\<close>

definition is_digit :: "char \<Rightarrow> bool" where
  "is_digit c \<longleftrightarrow> 48 \<le> byte_of c \<and> byte_of c \<le> 57"

definition digit_char :: "int \<Rightarrow> char" where
  "digit_char d = char_of (48 + d)"

text \<open>\<^verbatim>\<open>str(i)\<close> of a Python integer; \<open>dec_str\<close> is the digits of a non-negative one.\<close>

function dec_str :: "int \<Rightarrow> pystr" where
  "dec_str n = (if n < 10 then [digit_char n] else dec_str (n div 10) @ [digit_char (n mod 10)])"
  by pat_completeness auto
termination
  by (relation "measure nat") auto

declare dec_str.simps [simp del]

definition int_str :: "int \<Rightarrow> pystr" where
  "int_str i = (if i < 0 then CHR ''-'' # dec_str (- i) else dec_str i)"

definition digits_val :: "pystr \<Rightarrow> int" where
  "digits_val ds = foldl (\<lambda>a c. a * 10 + (byte_of c - 48)) 0 ds"

lemma byte_of_bounds: "0 \<le> byte_of c" "byte_of c < 256"
  unfolding byte_of_def
  by (metis of_char_mod_256 pos_mod_sign pos_mod_bound zero_less_numeral)+

lemma byte_of_digit_char [simp]: "0 \<le> d \<Longrightarrow> d < 10 \<Longrightarrow> byte_of (digit_char d) = 48 + d"
  by (simp add: byte_of_def digit_char_def)

lemma is_digit_digit_char [simp]: "0 \<le> d \<Longrightarrow> d < 10 \<Longrightarrow> is_digit (digit_char d)"
  by (simp add: is_digit_def)

lemma digits_val_Nil [simp]: "digits_val [] = 0"
  by (simp add: digits_val_def)

lemma digits_val_snoc [simp]: "digits_val (ds @ [c]) = digits_val ds * 10 + (byte_of c - 48)"
  by (simp add: digits_val_def)

lemma digits_val_append:
  "digits_val (xs @ ys) = digits_val xs * 10 ^ length ys + digits_val ys"
proof (induction ys rule: rev_induct)
  case (snoc y ys)
  have "digits_val (xs @ ys @ [y]) = digits_val ((xs @ ys) @ [y])" by simp
  also have "\<dots> = digits_val (xs @ ys) * 10 + (byte_of y - 48)" by (rule digits_val_snoc)
  finally show ?case using snoc by (simp add: algebra_simps)
qed simp

lemma dec_str_digits: "0 \<le> n \<Longrightarrow> c \<in> set (dec_str n) \<Longrightarrow> is_digit c"
proof (induction n rule: dec_str.induct)
  case (1 n)
  show ?case
  proof (cases "n < 10")
    case True
    with 1 show ?thesis by (simp add: dec_str.simps [of n])
  next
    case False
    with 1 show ?thesis by (auto simp: dec_str.simps [of n])
  qed
qed

lemma dec_str_nonempty [simp]: "dec_str n \<noteq> []"
  by (subst dec_str.simps) simp

lemma digits_val_dec_str [simp]: "0 \<le> n \<Longrightarrow> digits_val (dec_str n) = n"
proof (induction n rule: dec_str.induct)
  case (1 n)
  show ?case
  proof (cases "n < 10")
    case True
    with 1 show ?thesis by (simp add: dec_str.simps [of n] digits_val_def)
  next
    case False
    with 1 have "digits_val (dec_str (n div 10)) = n div 10" by simp
    with False show ?thesis by (simp add: dec_str.simps [of n])
  qed
qed

lemma dec_str_inject: "0 \<le> m \<Longrightarrow> 0 \<le> n \<Longrightarrow> dec_str m = dec_str n \<longleftrightarrow> m = n"
  by (metis digits_val_dec_str)

lemma length_dec_str_le: "0 \<le> n \<Longrightarrow> n < 10 ^ k \<Longrightarrow> 0 < k \<Longrightarrow> length (dec_str n) \<le> k"
proof (induction k arbitrary: n)
  case (Suc k)
  show ?case
  proof (cases "n < 10")
    case True
    then show ?thesis by (simp add: dec_str.simps [of n])
  next
    case False
    with Suc.prems have "0 < k" by (cases k) auto
    moreover from Suc.prems have "n div 10 < 10 ^ k" by auto
    ultimately have "length (dec_str (n div 10)) \<le> k" using Suc by simp
    with False show ?thesis by (simp add: dec_str.simps [of n])
  qed
qed simp

text \<open>
  A digit part of a numeric literal, as \<^verbatim>\<open>int\<close> and \<^verbatim>\<open>float\<close> read it: digits, with single underscores
  allowed between two digits.  Returns the digits and the unread rest.
\<close>

function digitpart :: "pystr \<Rightarrow> pystr \<times> pystr" where
  "digitpart [] = ([], [])"
| "digitpart (c # s) =
     (if is_digit c then
        (case digitpart
            (case s of
               u # d # r \<Rightarrow> if u = CHR ''_'' \<and> is_digit d then d # r else s
             | _ \<Rightarrow> s) of
           (ds, rest) \<Rightarrow> (c # ds, rest))
      else ([], c # s))"
  by pat_completeness auto
termination
  by (relation "measure length") (auto split: list.splits)

lemma digitpart_digits_then:
  assumes "\<forall>c \<in> set ds. is_digit c" and "r = [] \<or> (\<not> is_digit (hd r) \<and> hd r \<noteq> CHR ''_'')"
  shows "digitpart (ds @ r) = (ds, r)"
  using assms
proof (induction ds)
  case Nil
  then show ?case by (cases r) auto
next
  case (Cons c ds)
  have us: "\<not> is_digit (CHR ''_'')" by (simp add: is_digit_def byte_of_def)
  have "(case ds @ r of u # d # q \<Rightarrow> if u = CHR ''_'' \<and> is_digit d then d # q else ds @ r
          | _ \<Rightarrow> ds @ r) = ds @ r"
    using Cons.prems us by (cases "ds @ r") (auto split: list.splits simp: append_eq_Cons_conv)
  with Cons show ?case by simp
qed

lemmas digitpart_digits = digitpart_digits_then [where r = "[]", simplified]

text \<open>Python's \<^verbatim>\<open>int(s)\<close>; \<^const>\<open>None\<close> is \<^verbatim>\<open>ValueError\<close>.  CPython refuses more than 4300 digits.\<close>

definition read_sign :: "pystr \<Rightarrow> bool \<times> pystr" where
  "read_sign s = (case s of
       c # r \<Rightarrow> if c = CHR ''-'' then (True, r) else if c = CHR ''+'' then (False, r) else (False, s)
     | [] \<Rightarrow> (False, s))"

definition py_int :: "pystr \<Rightarrow> int option" where
  "py_int s =
     (case read_sign (str_strip s) of (neg, t) \<Rightarrow>
        (case digitpart t of (ds, rest) \<Rightarrow>
           if ds = [] \<or> rest \<noteq> [] \<or> 4300 < length ds then None
           else Some (if neg then - digits_val ds else digits_val ds)))"

lemma digit_not_space: "is_digit c \<Longrightarrow> \<not> is_space [c]"
  by (auto simp: is_digit_def is_space_def)

lemma byte_of_digit_bound: "is_digit c \<Longrightarrow> byte_of c < 128"
  by (simp add: is_digit_def)

lemma str_strip_ascii_id:
  assumes "\<forall>c \<in> set s. byte_of c < 128" and "\<forall>c \<in> set s. \<not> is_space [c]"
  shows "str_strip s = s"
proof -
  have cp: "codepoints s = map (\<lambda>c. [c]) s" using assms(1) by (rule codepoints_ascii)
  have "dropWhile is_space (map (\<lambda>c. [c]) t) = map (\<lambda>c. [c]) t" if "set t \<subseteq> set s" for t
    using that assms(2) by (cases t) auto
  then have "dropWhile is_space (codepoints s) = codepoints s"
    and "dropWhile is_space (rev (codepoints s)) = rev (codepoints s)"
    unfolding cp rev_map by auto
  then show ?thesis unfolding str_strip_def by simp
qed

lemma str_strip_digits: "\<forall>c \<in> set s. is_digit c \<Longrightarrow> str_strip s = s"
  by (rule str_strip_ascii_id) (auto simp: byte_of_digit_bound digit_not_space)

lemma read_sign_digits: "\<forall>c \<in> set s. is_digit c \<Longrightarrow> read_sign s = (False, s)"
  by (auto simp: read_sign_def is_digit_def byte_of_def split: list.splits)

lemma py_int_dec_str:
  assumes "0 \<le> n" and "length (dec_str n) \<le> 4300"
  shows "py_int (dec_str n) = Some n"
proof -
  have d: "\<forall>c \<in> set (dec_str n). is_digit c" using assms(1) by (auto dest: dec_str_digits)
  with assms show ?thesis
    by (simp add: py_int_def str_strip_digits read_sign_digits digitpart_digits)
qed

section \<open>Exceptions as values\<close>

text \<open>
  The exception classes the source raises or catches by name; every other class is
  \<open>OtherExn\<close> with its name.  \<open>HTTPExn\<close> is FastAPI's \<^verbatim>\<open>HTTPException\<close> with its status and detail,
  which is either the dictionary \<^verbatim>\<open>{"error": .., "message": ..}\<close> or a plain text.
\<close>

datatype detail = Detail (detail_error: pystr) (detail_message: pystr) | DetailText pystr

datatype exn =
    HTTPExn int detail
  | JSONDecodeError pystr
  | ValueError pystr
  | ImportError pystr
  | FuturesTimeoutError pystr
  | BadSignatureError pystr
  | OtherExn pystr pystr

type_synonym 'a result = "exn + 'a"

fun exn_str :: "exn \<Rightarrow> pystr" where
  "exn_str (HTTPExn c (Detail e m)) =
     dec_str c @ '': {'' @ [CHR 0x27] @ ''error'' @ [CHR 0x27] @ '': '' @ [CHR 0x27] @ e @ [CHR 0x27]
     @ '', '' @ [CHR 0x27] @ ''message'' @ [CHR 0x27] @ '': '' @ [CHR 0x27] @ m @ [CHR 0x27] @ ''}''"
| "exn_str (HTTPExn c (DetailText t)) = dec_str c @ '': '' @ t"
| "exn_str (JSONDecodeError m) = m"
| "exn_str (ValueError m) = m"
| "exn_str (ImportError m) = m"
| "exn_str (FuturesTimeoutError m) = m"
| "exn_str (BadSignatureError m) = m"
| "exn_str (OtherExn c m) = m"

text \<open>\<^verbatim>\<open>isinstance(e, ValueError)\<close>: \<^verbatim>\<open>json.JSONDecodeError\<close> is a subclass.\<close>

fun is_ValueError :: "exn \<Rightarrow> bool" where
  "is_ValueError (ValueError m) = True"
| "is_ValueError (JSONDecodeError m) = True"
| "is_ValueError e = False"

fun is_HTTPExn :: "exn \<Rightarrow> bool" where
  "is_HTTPExn (HTTPExn c d) = True"
| "is_HTTPExn e = False"

definition bindR :: "'a result \<Rightarrow> ('a \<Rightarrow> 'b result) \<Rightarrow> 'b result" where
  "bindR m f = (case m of Inl e \<Rightarrow> Inl e | Inr x \<Rightarrow> f x)"

definition catchR :: "'a result \<Rightarrow> (exn \<Rightarrow> 'a result) \<Rightarrow> 'a result" where
  "catchR m h = (case m of Inl e \<Rightarrow> h e | Inr x \<Rightarrow> Inr x)"

lemma bindR_simps [simp]: "bindR (Inl e) f = Inl e" "bindR (Inr x) f = f x"
  by (simp_all add: bindR_def)

lemma catchR_simps [simp]: "catchR (Inl e) h = h e" "catchR (Inr x) h = Inr x"
  by (simp_all add: catchR_def)

lemma bindR_eq_Inr [simp]: "bindR m f = Inr y \<longleftrightarrow> (\<exists>x. m = Inr x \<and> f x = Inr y)"
  by (cases m) auto

lemma bindR_eq_Inl [simp]:
  "bindR m f = Inl e \<longleftrightarrow> m = Inl e \<or> (\<exists>x. m = Inr x \<and> f x = Inl e)"
  by (cases m) auto

section \<open>Dictionaries\<close>

text \<open>
  A Python dictionary keeps insertion order: it is an association list with distinct keys, read by
  \<^const>\<open>map_of\<close> and written by \<^const>\<open>AList.update\<close>, which overwrites in place and otherwise appends.
\<close>

type_synonym ('k, 'v) dict = "('k \<times> 'v) list"

definition wf_dict :: "('k, 'v) dict \<Rightarrow> bool" where
  "wf_dict d \<longleftrightarrow> distinct (map fst d)"

lemma wf_dict_update [intro]: "wf_dict d \<Longrightarrow> wf_dict (AList.update k v d)"
  by (simp add: wf_dict_def distinct_update)

lemma map_of_update [simp]: "map_of (AList.update k v d) = (map_of d)(k \<mapsto> v)"
  by (rule update_conv')

lemma dom_update_present:
  "map_of d k = Some w \<Longrightarrow> map fst (AList.update k v d) = map fst d"
  by (induction d) (auto split: if_splits)

text \<open>\<^verbatim>\<open>list(dict.fromkeys(xs))\<close>: the first occurrence of every element, in order.\<close>

fun fromkeys :: "'a list \<Rightarrow> 'a list" where
  "fromkeys [] = []"
| "fromkeys (x # xs) = x # filter (\<lambda>y. y \<noteq> x) (fromkeys xs)"

lemma set_fromkeys [simp]: "set (fromkeys xs) = set xs"
  by (induction xs) auto

lemma distinct_fromkeys [simp]: "distinct (fromkeys xs)"
  by (induction xs) auto

lemma fromkeys_eq_Nil [simp]: "fromkeys xs = [] \<longleftrightarrow> xs = []"
  by (cases xs) auto

lemma hd_fromkeys: "xs \<noteq> [] \<Longrightarrow> hd (fromkeys xs) = hd xs"
  by (cases xs) auto

lemma fromkeys_distinct_id: "distinct xs \<Longrightarrow> fromkeys xs = xs"
proof (induction xs)
  case (Cons x xs)
  then have "filter (\<lambda>y. y \<noteq> x) xs = xs" by (auto intro: filter_True)
  with Cons show ?case by simp
qed simp

section \<open>Truth values\<close>

text \<open>The truth value of an optional text: \<^verbatim>\<open>None\<close> and the empty string are false.\<close>

definition truthy :: "pystr option \<Rightarrow> bool" where
  "truthy x = (case x of None \<Rightarrow> False | Some s \<Rightarrow> s \<noteq> [])"

text \<open>Python's \<^verbatim>\<open>x or d\<close> for an optional text \<open>x\<close> and a default text.\<close>

definition or_default :: "pystr option \<Rightarrow> pystr \<Rightarrow> pystr" where
  "or_default x d = (case x of None \<Rightarrow> d | Some s \<Rightarrow> if s = [] then d else s)"

lemma truthy_simps [simp]: "truthy None = False" "truthy (Some s) = (s \<noteq> [])"
  by (simp_all add: truthy_def)

lemma or_default_simps [simp]: "or_default None d = d" "or_default (Some s) d = (if s = [] then d else s)"
  by (simp_all add: or_default_def)

section \<open>Process environment\<close>

type_synonym environ = "pystr \<Rightarrow> pystr option"

text \<open>\<^verbatim>\<open>os.getenv(name, default)\<close>.\<close>

definition getenv :: "environ \<Rightarrow> pystr \<Rightarrow> pystr \<Rightarrow> pystr" where
  "getenv env name dflt = (case env name of None \<Rightarrow> dflt | Some v \<Rightarrow> v)"

end
