(* ===== verification/Xml_Lib.thy ===== *)
theory Xml_Lib
  imports Fx_Prelude
begin

text \<open>
  The XML and Factur-X packages the services call, as records of functions that are arguments of the
  services' definitions: \<^verbatim>\<open>lxml\<close> (parsing, XPath, element access) and \<^verbatim>\<open>facturx\<close> (reading and writing
  the attachment, detection, XSD check).  An element is a value of a type \<open>'x\<close> the services never look
  into.  The theory also holds the file-type test the services share.
\<close>

datatype 'x xnode = XEl 'x | XStr pystr

type_synonym nsmap = "(pystr \<times> pystr) list"

record 'x lxml =
  fromstring :: "bytes \<Rightarrow> 'x result"
  xpath :: "nsmap \<Rightarrow> pystr \<Rightarrow> 'x \<Rightarrow> 'x xnode list result"
  el_text :: "'x \<Rightarrow> pystr option"
  el_attr :: "'x \<Rightarrow> pystr \<Rightarrow> pystr option"

text \<open>
  \<open>get_xml_from_pdf\<close> is the call with \<^verbatim>\<open>check_xsd=False\<close>; its result is the second component of the
  pair the package returns, \<^const>\<open>None\<close> when there is no attachment.
\<close>

record 'x facturx =
  get_xml_from_pdf :: "bytes \<Rightarrow> bytes option result"
  get_flavor :: "'x \<Rightarrow> pystr result"
  get_level :: "'x \<Rightarrow> pystr result"
  xml_check_xsd :: "bytes \<Rightarrow> pystr \<Rightarrow> pystr \<Rightarrow> unit result"
  generate_from_binary :: "bytes \<Rightarrow> bytes \<Rightarrow> pystr \<Rightarrow> pystr \<Rightarrow> (pystr \<times> pystr) list \<Rightarrow> bytes result"

definition quoted :: "pystr \<Rightarrow> pystr" where
  "quoted s = [CHR 0x27] @ s @ [CHR 0x27]"

text \<open>Attribute and method access on an XPath result; a text result has no such attribute.\<close>

definition no_attr :: "pystr \<Rightarrow> exn" where
  "no_attr a = OtherExn ''AttributeError'' (''object has no attribute '' @ quoted a)"

fun node_text :: "'x lxml \<Rightarrow> 'x xnode \<Rightarrow> pystr option result" where
  "node_text X (XEl x) = Inr (el_text X x)"
| "node_text X (XStr s) = Inl (no_attr ''text'')"

fun node_get :: "'x lxml \<Rightarrow> pystr \<Rightarrow> 'x xnode \<Rightarrow> pystr option result" where
  "node_get X a (XEl x) = Inr (el_attr X x a)"
| "node_get X a (XStr s) = Inl (no_attr ''get'')"

fun node_xpath :: "'x lxml \<Rightarrow> nsmap \<Rightarrow> pystr \<Rightarrow> 'x xnode \<Rightarrow> 'x xnode list result" where
  "node_xpath X ns p (XEl x) = xpath X ns p x"
| "node_xpath X ns p (XStr s) = Inl (no_attr ''xpath'')"

definition get_or :: "pystr option \<Rightarrow> pystr \<Rightarrow> pystr" where
  "get_or v d = (case v of None \<Rightarrow> d | Some s \<Rightarrow> s)"

lemma get_or_simps [simp]: "get_or None d = d" "get_or (Some s) d = s"
  by (simp_all add: get_or_def)

section \<open>File types\<close>

text \<open>
  \<^verbatim>\<open>filename.lower().endswith('.pdf')\<close> on a file name that may be \<^verbatim>\<open>None\<close>, and the same or a content
  that starts with the PDF magic number.
\<close>

definition name_is_pdf :: "pystr option \<Rightarrow> bool result" where
  "name_is_pdf filename =
     (case filename of
        None \<Rightarrow> Inl (OtherExn ''AttributeError'' 
          (quoted ''NoneType'' @ '' object has no attribute '' @ quoted ''lower''))
      | Some s \<Rightarrow> Inr (endswith (str_lower s) ''.pdf''))"

definition is_pdf :: "pystr option \<Rightarrow> bytes \<Rightarrow> bool result" where
  "is_pdf filename content =
     bindR (name_is_pdf filename) (\<lambda>b. Inr (b \<or> startswith content ''%PDF''))"

lemma is_pdf_None [simp]: "is_pdf None c = Inl e \<longleftrightarrow> name_is_pdf None = Inl e"
  by (auto simp: is_pdf_def name_is_pdf_def)

lemma is_pdf_Some:
  "is_pdf (Some s) c = Inr (endswith (str_lower s) ''.pdf'' \<or> startswith c ''%PDF'')"
  by (simp add: is_pdf_def name_is_pdf_def)

end
