(* ===== verification/Xml_Tree.thy ===== *)
theory Xml_Tree
  imports Xml_Lib
begin

text \<open>
  Element trees: what an XML document of elements, attributes and character data is, its text, and the
  meaning of the XPath expressions the extraction service uses.  A path is a sequence of child and
  descendant steps; \<open>select\<close> runs it through a forest in document order and finds every node at most
  once.
\<close>

section \<open>Trees and their text\<close>

datatype xml = Txt pystr | Elem pystr "(pystr \<times> pystr) list" "xml list"

definition attr_text :: "pystr \<times> pystr \<Rightarrow> pystr" where
  "attr_text a = '' '' @ fst a @ ''='' @ [CHR 0x22] @ snd a @ [CHR 0x22]"

fun xml_text :: "xml \<Rightarrow> pystr" where
  "xml_text (Txt s) = s"
| "xml_text (Elem t as cs) =
     ''<'' @ t @ concat (map attr_text as) @ ''>'' @ concat (map xml_text cs) @ ''</'' @ t @ ''>''"

text \<open>
  The text of an element as lxml has it: the character data before the first child element, and \<^verbatim>\<open>None\<close> when
  there is none.
\<close>

fun leading_text :: "xml list \<Rightarrow> pystr" where
  "leading_text (Txt s # cs) = s @ leading_text cs"
| "leading_text cs = []"

fun tree_text :: "xml \<Rightarrow> pystr option" where
  "tree_text (Elem t as cs) = (let s = leading_text cs in if s = [] then None else Some s)"
| "tree_text (Txt s) = None"

fun tree_attr :: "xml \<Rightarrow> pystr \<Rightarrow> pystr option" where
  "tree_attr (Elem t as cs) a = map_of as a"
| "tree_attr (Txt s) a = None"

section \<open>Documents as text\<close>

definition sp :: "nat \<Rightarrow> pystr" where
  "sp n = replicate n (CHR '' '')"

definition nl :: "nat \<Rightarrow> pystr" where
  "nl n = CHR 0x0A # sp n"

definition xml_prolog :: pystr where
  "xml_prolog =
     ''<?xml version='' @ quoted ''1.0'' @ '' encoding='' @ quoted ''UTF-8'' @ '' ?>'' @ nl 0"

text \<open>
  Text that a parser returns as it stands: characters that XML allows, none of the three of markup, and no carriage
  return, which a parser turns into a line feed.  Any character outside ASCII may occur but the two that XML
  excludes, U+FFFE and U+FFFF.
\<close>

definition plain_text :: "pystr \<Rightarrow> bool" where
  "plain_text s \<longleftrightarrow> utf8_valid s \<and>
     list_all (\<lambda>c. (32 \<le> byte_of c \<or> c = CHR 0x09 \<or> c = CHR 0x0A) \<and> c \<notin> set [CHR ''<'', CHR ''&'', CHR ''>'']) s \<and>
     \<not> contains s [CHR 0xEF, CHR 0xBF, CHR 0xBE] \<and> \<not> contains s [CHR 0xEF, CHR 0xBF, CHR 0xBF]"

text \<open>An amount in euros with a typographic apostrophe behind it is plain; an ampersand is not.\<close>

lemma plain_text_examples:
  "plain_text (''12 '' @ [CHR 0xE2, CHR 0x82, CHR 0xAC] @ '' l'' @ [CHR 0xE2, CHR 0x80, CHR 0x99] @ ''an'')"
  "\<not> plain_text ''A & B''" "\<not> plain_text ''A <b>''"
  by code_simp+

definition plain_attr :: "pystr \<Rightarrow> bool" where
  "plain_attr s \<longleftrightarrow> plain_text s \<and> list_all (\<lambda>c. 32 \<le> byte_of c \<and> c \<noteq> CHR 0x22) s"

fun plain_tree :: "xml \<Rightarrow> bool" where
  "plain_tree (Txt s) = plain_text s"
| "plain_tree (Elem t as cs) = (list_all (\<lambda>a. plain_attr (snd a)) as \<and> list_all plain_tree cs)"

text \<open>
  Names a parser accepts: every element name has a declared prefix, attributes are distinct and not
  declarations, and all declarations stand at the root.
\<close>

definition letters :: "pystr \<Rightarrow> bool" where
  "letters s \<longleftrightarrow> s \<noteq> [] \<and>
     list_all (\<lambda>c. 65 \<le> byte_of c \<and> byte_of c \<le> 90 \<or> 97 \<le> byte_of c \<and> byte_of c \<le> 122) s"

definition good_name :: "pystr list \<Rightarrow> pystr \<Rightarrow> bool" where
  "good_name ps t = (case split_on (CHR '':'') t of [p, n] \<Rightarrow> p \<in> set ps \<and> letters n | _ \<Rightarrow> False)"

definition good_attrs :: "pystr list \<Rightarrow> bool" where
  "good_attrs ks \<longleftrightarrow> distinct ks \<and> list_all (\<lambda>k. letters k \<and> k \<noteq> ''xmlns'') ks"

fun well_named :: "pystr list \<Rightarrow> xml \<Rightarrow> bool" where
  "well_named ps (Txt s) = True"
| "well_named ps (Elem t as cs) = (good_name ps t \<and> good_attrs (map fst as) \<and> list_all (well_named ps) cs)"

fun well_formed :: "xml \<Rightarrow> bool" where
  "well_formed (Txt s) = False"
| "well_formed (Elem t as cs) =
     (let ps = map (\<lambda>a. drop 6 (fst a)) as in
      list_all (\<lambda>a. startswith (fst a) ''xmlns:'' \<and> snd a \<noteq> []) as \<and> distinct ps \<and>
      list_all (\<lambda>p. letters p \<and> \<not> startswith p ''xml'') ps \<and> well_named ps (Elem t [] cs))"

section \<open>Paths\<close>

datatype axis = Child | Desc

type_synonym path = "(axis \<times> pystr) list"

text \<open>What is left of a path below an element with the given name.\<close>

fun below :: "pystr \<Rightarrow> path \<Rightarrow> path list" where
  "below t [] = []"
| "below t ((Child, n) # p) = (if n = t then [p] else [])"
| "below t ((Desc, n) # p) = ((Desc, n) # p) # (if n = t then [p] else [])"

function select :: "path list \<Rightarrow> xml list \<Rightarrow> xml list" where
  "select ps [] = []"
| "select ps (Txt s # xs) = select ps xs"
| "select ps (Elem t as cs # xs) =
     (let qs = concat (map (below t) ps) in
      (if [] \<in> set qs then [Elem t as cs] else []) @ select (filter (\<lambda>p. p \<noteq> []) qs) cs @ select ps xs)"
  by pat_completeness auto
termination
  by (relation "measure (\<lambda>(ps, xs). size_list size xs)") auto

text \<open>The expressions: \<^verbatim>\<open>//a/b//c\<close> from the document, \<^verbatim>\<open>.//a/b\<close> from an element, with an attribute at the end or not.\<close>

fun read_steps :: "axis \<Rightarrow> pystr list \<Rightarrow> path option" where
  "read_steps ax [] = Some []"
| "read_steps ax (w # ws) =
     (if w = [] then (if ax = Child then read_steps Desc ws else None)
      else map_option (\<lambda>p. (ax, w) # p) (read_steps Child ws))"

section \<open>Selection\<close>

lemma select_append: "select ps (xs @ ys) = select ps xs @ select ps ys"
  by (induction ps xs rule: select.induct) (simp_all add: Let_def)

lemma select_concat: "select ps (concat xss) = concat (map (select ps) xss)"
  by (induction xss) (simp_all add: select_append)

text \<open>The names in a forest; a path with a name that does not occur has no part in the selection.\<close>

function forest_tags :: "xml list \<Rightarrow> pystr set" where
  "forest_tags [] = {}"
| "forest_tags (Txt s # xs) = forest_tags xs"
| "forest_tags (Elem t as cs # xs) = insert t (forest_tags cs \<union> forest_tags xs)"
  by pat_completeness auto
termination
  by (relation "measure (size_list size)") auto

lemma forest_tags_append [simp]: "forest_tags (xs @ ys) = forest_tags xs \<union> forest_tags ys"
  by (induction xs rule: forest_tags.induct) auto

definition live :: "pystr set \<Rightarrow> path list \<Rightarrow> path set" where
  "live T ps = {p \<in> set ps. snd ` set p \<subseteq> T}"

lemma below_names: "q \<in> set (below t p) \<Longrightarrow> snd ` set q \<subseteq> snd ` set p \<and> snd ` set p \<subseteq> insert t (snd ` set q)"
  by (cases "(t, p)" rule: below.cases) (auto split: if_splits)

lemma live_below:
  assumes "live T ps = live T ps'" and "t \<in> T" and "C \<subseteq> T"
  shows "live C (concat (map (below t) ps)) = live C (concat (map (below t) ps'))"
    and "[] \<in> set (concat (map (below t) ps)) \<longleftrightarrow> [] \<in> set (concat (map (below t) ps'))"
proof -
  have live_in: "p \<in> live T ps" if "p \<in> set ps" "q \<in> set (below t p)" "snd ` set q \<subseteq> C" for p q ps
    using that below_names [OF that(2)] assms(2,3) unfolding live_def by blast
  have mem: "q \<in> live C (concat (map (below t) ps)) \<longleftrightarrow> snd ` set q \<subseteq> C \<and> (\<exists>p \<in> set ps. q \<in> set (below t p))" for q ps
    by (auto simp: live_def)
  have "q \<in> live C (concat (map (below t) ps)) \<longleftrightarrow> snd ` set q \<subseteq> C \<and> (\<exists>p \<in> live T ps. q \<in> set (below t p))" for q ps
    unfolding mem using live_in [of _ ps q] live_def [of T ps] by blast
  then show "live C (concat (map (below t) ps)) = live C (concat (map (below t) ps'))"
    unfolding set_eq_iff by (simp only: assms(1) simp_thms)
  have "[] \<in> set (concat (map (below t) ps)) \<longleftrightarrow> (\<exists>p \<in> live T ps. [] \<in> set (below t p))" for ps
    using live_in [of _ ps "[]"] by (auto simp: live_def)
  then show "[] \<in> set (concat (map (below t) ps)) \<longleftrightarrow> [] \<in> set (concat (map (below t) ps'))"
    by (simp only: assms(1))
qed

lemma live_filter: "live C (filter (\<lambda>p. p \<noteq> []) qs) = live C qs - {[]}"
  by (auto simp: live_def)

lemma select_live:
  assumes "live T ps = live T ps'" and "forest_tags xs \<subseteq> T"
  shows "select ps xs = select ps' xs"
  using assms
proof (induction ps xs arbitrary: ps' T rule: select.induct)
  case (2 ps s xs)
  from 2(3) have "forest_tags xs \<subseteq> T" by (simp only: forest_tags.simps)
  from 2(1) [OF 2(2) this] show ?case by (simp only: select.simps)
next
  case (3 ps t as cs xs)
  let ?q = "concat (map (below t) ps)" and ?q' = "concat (map (below t) ps')"
  have t: "t \<in> T" "forest_tags cs \<subseteq> T" "forest_tags xs \<subseteq> T" using 3(4) by auto
  note b = live_below [OF 3(3) t(1,2)]
  have "select (filter (\<lambda>p. p \<noteq> []) ?q) cs = select (filter (\<lambda>p. p \<noteq> []) ?q') cs"
    by (rule 3(1)) (auto simp: live_filter b(1))
  moreover have "select ps xs = select ps' xs" by (rule 3(2) [OF refl 3(3) t(3)])
  ultimately show ?case using b(2) by (simp only: select.simps Let_def)
qed simp

lemma select_none [simp]: "select [] xs = []"
  by (induction "[] :: path list" xs rule: select.induct) simp_all

lemma select_absent:
  assumes "forest_tags xs \<subseteq> T" and "\<forall>p \<in> set ps. \<exists>n \<in> snd ` set p. n \<notin> T"
  shows "select ps xs = []"
proof -
  have "live T ps = live T []" using assms(2) by (auto simp: live_def)
  from select_live [OF this assms(1)] show ?thesis by simp
qed

end
