(* ===== verification/Py_Float.thy ===== *)
theory Py_Float
  imports Fx_Prelude Complex_Main
begin

text \<open>
  Python's \<^verbatim>\<open>float\<close>: IEEE 754 binary64 values, kept in canonical form, with the operations the
  program applies to amounts and durations: reading a decimal numeral (\<^verbatim>\<open>float(s)\<close>), addition,
  subtraction, multiplication, division and comparison (each rounded once, to nearest, ties to
  even), \<^verbatim>\<open>f"{x:.2f}"\<close> and \<^verbatim>\<open>str(x)\<close>.  All arithmetic is on natural numbers and integers, so closed
  terms evaluate in the kernel.  The lemmas relate a rounded value to the exact ratio and show that
  an amount written with two decimals survives reading and printing unchanged.
\<close>

section \<open>Representation\<close>

text \<open>\<open>FFin s m e\<close> is the value \<open>(-1)\<^sup>s * m * 2\<^sup>e\<close>.\<close>

datatype pyfloat = FNan | FInf bool | FFin bool int int

definition wf_float :: "pyfloat \<Rightarrow> bool" where
  "wf_float x = (case x of
       FFin s m e \<Rightarrow> 0 \<le> m \<and> m < 2 ^ 53 \<and> -1074 \<le> e \<and> e \<le> 971 \<and> (2 ^ 52 \<le> m \<or> e = -1074)
     | _ \<Rightarrow> True)"

definition fval :: "pyfloat \<Rightarrow> real" where
  "fval x = (case x of
       FFin s m e \<Rightarrow> (if s then -1 else 1) * of_int m * 2 powi e
     | _ \<Rightarrow> 0)"

section \<open>Rounding a ratio\<close>

function bit_len :: "int \<Rightarrow> int" where
  "bit_len n = (if n \<le> 0 then 0 else bit_len (n div 2) + 1)"
  by pat_completeness auto
termination
  by (relation "measure nat") auto

declare bit_len.simps [simp del]

text \<open>The ratio \<open>a / b\<close> divided by \<open>B\<^sup>e\<close>, as a ratio of integers.\<close>

definition scale :: "int \<Rightarrow> int \<Rightarrow> int \<Rightarrow> int \<Rightarrow> int \<times> int" where
  "scale B a b e = (if 0 \<le> e then (a, b * B ^ nat e) else (a * B ^ nat (- e), b))"

abbreviation scale2 :: "int \<Rightarrow> int \<Rightarrow> int \<Rightarrow> int \<times> int" where "scale2 \<equiv> scale 2"

abbreviation scale10 :: "int \<Rightarrow> int \<Rightarrow> int \<Rightarrow> int \<times> int" where "scale10 \<equiv> scale 10"

text \<open>The integer part of the binary logarithm of \<open>a / b\<close>.\<close>

definition log2_ratio :: "int \<Rightarrow> int \<Rightarrow> int" where
  "log2_ratio a b =
     (let k = bit_len a - bit_len b; (n, d) = scale2 a b k in if d \<le> n then k else k - 1)"

text \<open>Round to nearest, ties to even.\<close>

definition rne :: "int \<Rightarrow> int \<Rightarrow> int" where
  "rne n d =
     (let q = n div d; r = n mod d
      in if 2 * r < d then q else if d < 2 * r then q + 1 else if even q then q else q + 1)"

definition round_ratio :: "bool \<Rightarrow> int \<Rightarrow> int \<Rightarrow> pyfloat" where
  "round_ratio s a b =
     (if a = 0 then FFin s 0 (-1074)
      else
        (let e = max (log2_ratio a b - 52) (-1074);
             (n, d) = scale2 a b e;
             m = rne n d;
             (m', e') = (if m = 2 ^ 53 then (2 ^ 52, e + 1) else (m, e))
         in if 971 < e' then FInf s else FFin s m' e'))"

section \<open>Arithmetic\<close>

definition of_dyadic :: "bool \<Rightarrow> int \<Rightarrow> int \<Rightarrow> pyfloat" where
  "of_dyadic s n e = (let (a, b) = scale2 n 1 (- e) in round_ratio s a b)"

definition float_of_int :: "int \<Rightarrow> pyfloat" where
  "float_of_int i = round_ratio (i < 0) \<bar>i\<bar> 1"

abbreviation fzero :: pyfloat where "fzero \<equiv> FFin False 0 (-1074)"

definition aligned :: "bool \<Rightarrow> int \<Rightarrow> int \<Rightarrow> int \<Rightarrow> int" where
  "aligned s m e g = (if s then - 1 else 1) * m * 2 ^ nat (e - g)"

fun fadd :: "pyfloat \<Rightarrow> pyfloat \<Rightarrow> pyfloat" where
  "fadd FNan y = FNan"
| "fadd x FNan = FNan"
| "fadd (FInf s) (FInf t) = (if s = t then FInf s else FNan)"
| "fadd (FInf s) (FFin t n f) = FInf s"
| "fadd (FFin s m e) (FInf t) = FInf t"
| "fadd (FFin s m e) (FFin t n f) =
     (let g = min e f; x = aligned s m e g + aligned t n f g
      in if x = 0 then FFin (s \<and> t) 0 (-1074) else of_dyadic (x < 0) \<bar>x\<bar> g)"

fun fneg :: "pyfloat \<Rightarrow> pyfloat" where
  "fneg FNan = FNan"
| "fneg (FInf s) = FInf (\<not> s)"
| "fneg (FFin s m e) = FFin (\<not> s) m e"

definition fsub :: "pyfloat \<Rightarrow> pyfloat \<Rightarrow> pyfloat" where
  "fsub x y = fadd x (fneg y)"

fun fmul :: "pyfloat \<Rightarrow> pyfloat \<Rightarrow> pyfloat" where
  "fmul FNan y = FNan"
| "fmul x FNan = FNan"
| "fmul (FInf s) (FInf t) = FInf (s \<noteq> t)"
| "fmul (FInf s) (FFin t n f) = (if n = 0 then FNan else FInf (s \<noteq> t))"
| "fmul (FFin s m e) (FInf t) = (if m = 0 then FNan else FInf (s \<noteq> t))"
| "fmul (FFin s m e) (FFin t n f) = of_dyadic (s \<noteq> t) (m * n) (e + f)"

text \<open>Division; \<^const>\<open>None\<close> is \<^verbatim>\<open>ZeroDivisionError\<close>.\<close>

fun fdiv :: "pyfloat \<Rightarrow> pyfloat \<Rightarrow> pyfloat option" where
  "fdiv x (FFin t n f) =
     (if n = 0 then None
      else Some (case x of
          FNan \<Rightarrow> FNan
        | FInf s \<Rightarrow> FInf (s \<noteq> t)
        | FFin s m e \<Rightarrow>
            (let (a, b) = scale2 m n (f - e) in round_ratio (s \<noteq> t) a b)))"
| "fdiv FNan y = Some FNan"
| "fdiv x FNan = Some FNan"
| "fdiv (FInf s) (FInf t) = Some FNan"
| "fdiv (FFin s m e) (FInf t) = Some (FFin (s \<noteq> t) 0 (-1074))"

text \<open>Python's \<^verbatim>\<open>x < y\<close>; every comparison with a NaN is false.\<close>

fun flt :: "pyfloat \<Rightarrow> pyfloat \<Rightarrow> bool" where
  "flt FNan y = False"
| "flt x FNan = False"
| "flt (FInf s) (FInf t) = (s \<and> \<not> t)"
| "flt (FInf s) (FFin t n f) = s"
| "flt (FFin s m e) (FInf t) = (\<not> t)"
| "flt (FFin s m e) (FFin t n f) =
     (let g = min e f in aligned s m e g < aligned t n f g)"

text \<open>\<^verbatim>\<open>sum(xs)\<close> and \<^verbatim>\<open>sum(xs) / len(xs)\<close> on floats (the built-in of CPython 3.11 adds left to right).\<close>

definition fsum :: "pyfloat list \<Rightarrow> pyfloat" where
  "fsum xs = foldl fadd fzero xs"

section \<open>Reading and printing\<close>

definition read_exponent :: "pystr \<Rightarrow> int option" where
  "read_exponent s = (case s of
       [] \<Rightarrow> Some 0
     | c # r \<Rightarrow>
         if c = CHR ''e'' \<or> c = CHR ''E'' then
           (case read_sign r of (neg, t) \<Rightarrow>
              (case digitpart t of (ds, rest) \<Rightarrow>
                 if ds = [] \<or> rest \<noteq> [] then None
                 else Some (if neg then - digits_val ds else digits_val ds)))
         else None)"

definition read_decimal :: "bool \<Rightarrow> pystr \<Rightarrow> pyfloat option" where
  "read_decimal neg s =
     (case digitpart s of (i, r) \<Rightarrow>
        (case (case r of c # r' \<Rightarrow> if c = CHR ''.'' then digitpart r' else ([], r) | [] \<Rightarrow> ([], r)) of
           (f, r') \<Rightarrow>
             if i = [] \<and> f = [] then None
             else (case read_exponent r' of
                 None \<Rightarrow> None
               | Some x \<Rightarrow>
                   (case scale10 (digits_val (i @ f)) 1 (int (length f) - x) of
                      (a, b) \<Rightarrow> Some (round_ratio neg a b)))))"

text \<open>\<^verbatim>\<open>float(s)\<close>; \<^const>\<open>None\<close> is \<^verbatim>\<open>ValueError\<close>.\<close>

definition py_float :: "pystr \<Rightarrow> pyfloat option" where
  "py_float s =
     (case read_sign (str_strip s) of (neg, t) \<Rightarrow>
        if str_lower t = ''inf'' \<or> str_lower t = ''infinity'' then Some (FInf neg)
        else if str_lower t = ''nan'' then Some FNan
        else read_decimal neg t)"

definition pad_zeros :: "nat \<Rightarrow> pystr \<Rightarrow> pystr" where
  "pad_zeros p s = replicate (p - length s) (CHR ''0'') @ s"

text \<open>The numeral for \<open>N / 10\<^sup>p\<close>, with exactly \<open>p\<close> digits after the point.\<close>

definition fixed_digits :: "nat \<Rightarrow> int \<Rightarrow> pystr" where
  "fixed_digits p N =
     dec_str (N div 10 ^ p) @
     (if p = 0 then [] else CHR ''.'' # pad_zeros p (dec_str (N mod 10 ^ p)))"

text \<open>\<^verbatim>\<open>f"{x:.pf}"\<close>: the exact value rounded to \<open>p\<close> decimals, ties to even.\<close>

fun fmt_fixed :: "nat \<Rightarrow> pyfloat \<Rightarrow> pystr" where
  "fmt_fixed p FNan = ''nan''"
| "fmt_fixed p (FInf s) = (if s then ''-inf'' else ''inf'')"
| "fmt_fixed p (FFin s m e) =
     (case scale2 (m * 10 ^ p) 1 (- e) of (n, d) \<Rightarrow>
        (if s then ''-'' else []) @ fixed_digits p (rne n d))"

text \<open>\<^verbatim>\<open>repr(x)\<close>: the shortest decimal that reads back as \<open>x\<close>, the nearest one among those.\<close>

definition dec_exp :: "int \<Rightarrow> int \<Rightarrow> int" where
  "dec_exp a b =
     (if b \<le> a then int (length (dec_str (a div b))) - 1
      else - int (length (dec_str ((b + a - 1) div a - 1))))"

definition try_digits :: "bool \<Rightarrow> int \<Rightarrow> int \<Rightarrow> pyfloat \<Rightarrow> int \<Rightarrow> (int \<times> int) option" where
  "try_digits s a b x n =
     (let sc = n - 1 - dec_exp a b;
          (p, q) = scale10 a b (- sc);
          near = rne p q;
          other = (if near = p div q then near + 1 else p div q);
          ok = (\<lambda>D. case scale10 D 1 sc of (u, v) \<Rightarrow> round_ratio s u v = x)
      in if ok near then Some (near, sc) else if ok other then Some (other, sc) else None)"

fun shortest :: "bool \<Rightarrow> int \<Rightarrow> int \<Rightarrow> pyfloat \<Rightarrow> int list \<Rightarrow> int \<times> int" where
  "shortest s a b x [] = (let sc = 16 - dec_exp a b; (p, q) = scale10 a b (- sc) in (rne p q, sc))"
| "shortest s a b x (n # ns) =
     (case try_digits s a b x n of Some r \<Rightarrow> r | None \<Rightarrow> shortest s a b x ns)"

definition strip_zeros :: "pystr \<Rightarrow> pystr" where
  "strip_zeros s = rev (dropWhile (\<lambda>c. c = CHR ''0'') (rev s))"

definition repr_digits :: "pystr \<Rightarrow> int \<Rightarrow> pystr" where
  "repr_digits ds pt =
     (if -4 < pt \<and> pt \<le> 16 then
        (if pt \<le> 0 then ''0.'' @ replicate (nat (- pt)) (CHR ''0'') @ ds
         else if length ds \<le> nat pt then ds @ replicate (nat pt - length ds) (CHR ''0'') @ ''.0''
         else take (nat pt) ds @ ''.'' @ drop (nat pt) ds)
      else
        take 1 ds @ (if 1 < length ds then ''.'' @ drop 1 ds else []) @ ''e''
        @ (if pt - 1 < 0 then ''-'' else ''+'') @ pad_zeros 2 (dec_str \<bar>pt - 1\<bar>))"

fun float_repr :: "pyfloat \<Rightarrow> pystr" where
  "float_repr FNan = ''nan''"
| "float_repr (FInf s) = (if s then ''-inf'' else ''inf'')"
| "float_repr (FFin s m e) =
     (if s then ''-'' else []) @
     (if m = 0 then ''0.0''
      else case scale2 m 1 (- e) of (a, b) \<Rightarrow>
        (case shortest s a b (FFin s m e) [1, 2, 3, 4, 5, 6, 7, 8, 9, 10, 11, 12, 13, 14, 15, 16, 17] of
           (D, sc) \<Rightarrow> repr_digits (strip_zeros (dec_str D)) (int (length (dec_str D)) - sc)))"

section \<open>Rounding is correct\<close>

lemma bit_len_pos: "0 < n \<Longrightarrow> 0 < bit_len n"
proof (induction n rule: bit_len.induct)
  case (1 n)
  show ?case
  proof (cases "n = 1")
    case True
    then show ?thesis by (simp add: bit_len.simps)
  next
    case False
    with 1 have "0 < bit_len (n div 2)" by simp
    with 1 show ?thesis by (simp add: bit_len.simps [of n])
  qed
qed

lemma powi_add_1: "(2::real) powi (k + 1) = 2 * 2 powi k"
  by (simp add: power_int_add)

lemma bit_len_bounds:
  "0 < n \<Longrightarrow> 2 powi (bit_len n - 1) \<le> real_of_int n \<and> real_of_int n < 2 powi (bit_len n)"
proof (induction n rule: bit_len.induct)
  case (1 n)
  show ?case
  proof (cases "n = 1")
    case True
    then show ?thesis by (simp add: bit_len.simps)
  next
    case False
    let ?h = "n div 2"
    from 1 False have IH: "2 powi (bit_len ?h - 1) \<le> real_of_int ?h"
      "real_of_int ?h < 2 powi (bit_len ?h)" by simp_all
    have len: "bit_len n = bit_len ?h + 1" using "1.prems" by (simp add: bit_len.simps [of n])
    have pos: "0 < bit_len ?h" using "1.prems" False by (simp add: bit_len_pos)
    then have "(2::real) powi (bit_len ?h) = real_of_int (2 ^ nat (bit_len ?h))"
      by (simp add: power_int_def)
    with IH(2) have "?h + 1 \<le> 2 ^ nat (bit_len ?h)" by linarith
    then have "real_of_int (?h + 1) \<le> real_of_int (2 ^ nat (bit_len ?h))"
      by (simp only: of_int_le_iff)
    then have up: "real_of_int (?h + 1) \<le> 2 powi (bit_len ?h)"
      using pos by (simp add: power_int_def)
    have "2 powi (bit_len ?h) = 2 * (2::real) powi (bit_len ?h - 1)"
      using powi_add_1 [of "bit_len ?h - 1"] by simp
    with IH(1) have "2 powi (bit_len ?h) \<le> 2 * real_of_int ?h" by simp
    moreover have "real_of_int (2 * ?h) \<le> real_of_int n" "real_of_int n < real_of_int (2 * (?h + 1))"
      unfolding of_int_le_iff of_int_less_iff by auto
    ultimately show ?thesis
      using up unfolding len powi_add_1 add_diff_cancel by (intro conjI) linarith+
  qed
qed

lemma scale_ratio:
  assumes "scale B a b e = (n, d)" and "0 < b" and "0 < B"
  shows "0 < d"
    and "real_of_int n / real_of_int d = real_of_int a / real_of_int b / real_of_int B powi e"
    and "0 \<le> a \<Longrightarrow> 0 \<le> n"
proof -
  have "0 < d \<and>
    real_of_int n / real_of_int d = real_of_int a / real_of_int b / real_of_int B powi e"
  proof (cases "0 \<le> e")
    case True
    with assms have "n = a" "d = b * B ^ nat e" by (auto simp: scale_def)
    with True assms(2,3) show ?thesis by (simp add: power_int_def)
  next
    case False
    with assms have "n = a * B ^ nat (- e)" "d = b" by (auto simp: scale_def)
    moreover have "real_of_int B powi e = inverse (real_of_int B ^ nat (- e))"
      using False by (simp add: power_int_def power_inverse)
    ultimately show ?thesis using assms(2,3) by (simp add: field_simps)
  qed
  then show "0 < d"
    and "real_of_int n / real_of_int d = real_of_int a / real_of_int b / real_of_int B powi e"
    by auto
  show "0 \<le> n" if "0 \<le> a"
    using assms(1,3) that by (auto simp: scale_def split: if_splits)
qed

lemma log2_ratio_bounds:
  assumes "0 < a" and "0 < b"
  shows "2 powi (log2_ratio a b) \<le> real_of_int a / real_of_int b"
    and "real_of_int a / real_of_int b < 2 powi (log2_ratio a b + 1)"
proof -
  let ?k = "bit_len a - bit_len b" let ?v = "real_of_int a / real_of_int b"
  obtain n d where sc: "scale2 a b ?k = (n, d)" by fastforce
  note r = scale_ratio [OF sc assms(2), simplified]
  have A: "2 powi (bit_len a - 1) \<le> real_of_int a" "real_of_int a < 2 powi (bit_len a)"
    and B: "2 powi (bit_len b - 1) \<le> real_of_int b" "real_of_int b < 2 powi (bit_len b)"
    using bit_len_bounds assms by auto
  have "2 powi ?k = (2::real) powi (bit_len a) / 2 powi (bit_len b)"
    by (simp add: power_int_diff)
  also have "\<dots> = 2 * (2 powi (bit_len a - 1) / 2 powi (bit_len b))"
    using powi_add_1 [of "bit_len a - 1"] by simp
  finally have "(2::real) powi (?k - 1) = 2 powi (bit_len a - 1) / 2 powi (bit_len b)"
    using powi_add_1 [of "?k - 1"] by simp
  also have "\<dots> < ?v"
    using A(1) B(2) assms by (intro frac_less2) auto
  finally have lo: "2 powi (?k - 1) < ?v" .
  have "2 powi (?k + 1) = 2 powi (bit_len a) / ((2::real) powi (bit_len b - 1))"
    using powi_add_1 [of ?k] powi_add_1 [of "bit_len b - 1"]
    by (simp add: power_int_diff)
  moreover have "?v < 2 powi (bit_len a) / ((2::real) powi (bit_len b - 1))"
    using A(2) B(1) assms by (intro frac_less) auto
  ultimately have hi: "?v < 2 powi (?k + 1)" by simp
  have "d \<le> n \<longleftrightarrow> 1 \<le> real_of_int n / real_of_int d" using r(1) by simp
  also have "\<dots> \<longleftrightarrow> 2 powi ?k \<le> ?v" using assms(2) unfolding r(2)
    by (simp add: pos_le_divide_eq mult.commute)
  finally have le: "d \<le> n \<longleftrightarrow> 2 powi ?k \<le> ?v" .
  have "log2_ratio a b = (if d \<le> n then ?k else ?k - 1)"
    by (simp add: log2_ratio_def Let_def sc)
  then show "2 powi (log2_ratio a b) \<le> ?v" and "?v < 2 powi (log2_ratio a b + 1)"
    using le lo hi by (auto split: if_splits)
qed

lemma rne_bounds:
  assumes "0 \<le> n" and "0 < d"
  shows "\<bar>real_of_int (rne n d) - real_of_int n / real_of_int d\<bar> \<le> 1 / 2"
    and "n div d \<le> rne n d" and "rne n d \<le> n div d + 1"
    and "n mod d = 0 \<Longrightarrow> rne n d = n div d"
proof -
  let ?q = "n div d" let ?r = "n mod d"
  have n: "n = d * ?q + ?r" by simp
  then have "real_of_int n = real_of_int d * real_of_int ?q + real_of_int ?r"
    by (metis of_int_add of_int_mult)
  then have v: "real_of_int n / real_of_int d = real_of_int ?q + real_of_int ?r / real_of_int d"
    using assms(2) by (simp add: field_simps)
  have r: "0 \<le> ?r" "?r < d" using assms(2) by auto
  have le: "real_of_int ?r / real_of_int d \<le> 1 / 2 \<longleftrightarrow> 2 * ?r \<le> d"
    and ge: "1 / 2 \<le> real_of_int ?r / real_of_int d \<longleftrightarrow> d \<le> 2 * ?r"
    using assms(2) by (auto simp: field_simps)
  have nn: "0 \<le> real_of_int ?r / real_of_int d" "real_of_int ?r / real_of_int d \<le> 1"
    using r by (auto simp: field_simps)
  show "\<bar>real_of_int (rne n d) - real_of_int n / real_of_int d\<bar> \<le> 1 / 2"
    unfolding v using le ge nn by (auto simp: rne_def Let_def abs_le_iff)
  show "?q \<le> rne n d" "rne n d \<le> ?q + 1" by (auto simp: rne_def Let_def)
  show "rne n d = ?q" if "?r = 0" using that assms(2) by (simp add: rne_def)
qed

lemma rne_mono_int:
  assumes "0 \<le> n" and "0 < d"
  shows "real_of_int k \<le> real_of_int n / real_of_int d \<Longrightarrow> k \<le> rne n d"
    and "real_of_int n / real_of_int d < real_of_int k \<Longrightarrow> rne n d \<le> k"
proof -
  have fl: "n div d = \<lfloor>real_of_int n / real_of_int d\<rfloor>"
    by (simp add: floor_divide_of_int_eq)
  show "k \<le> rne n d" if "real_of_int k \<le> real_of_int n / real_of_int d"
    using that rne_bounds(2) [OF assms] unfolding fl le_floor_iff [symmetric] by linarith
  show "rne n d \<le> k" if "real_of_int n / real_of_int d < real_of_int k"
    using that rne_bounds(3) [OF assms] unfolding fl floor_less_iff [symmetric] by linarith
qed

text \<open>The exponent of the last place of the result, before a carry.\<close>

definition ulp_exp :: "int \<Rightarrow> int \<Rightarrow> int" where
  "ulp_exp a b = max (log2_ratio a b - 52) (-1074)"

lemma less_powi_shift: "x < 2 powi (e + 53) \<Longrightarrow> x / 2 powi e < real_of_int (2 ^ 53)"
  and powi_shift_le: "2 powi (e + 52) \<le> x \<Longrightarrow> real_of_int (2 ^ 52) \<le> x / 2 powi e"
  for x :: real
  by (simp_all add: power_int_add pos_divide_less_eq pos_le_divide_eq mult.commute)

lemma round_ratio_core:
  assumes "0 < a" and "0 < b" and "scale2 a b (ulp_exp a b) = (n, d)"
  shows "0 \<le> rne n d" and "rne n d \<le> 2 ^ 53" and "ulp_exp a b \<noteq> -1074 \<Longrightarrow> 2 ^ 52 \<le> rne n d"
    and "\<bar>real_of_int (rne n d) * 2 powi (ulp_exp a b) - real_of_int a / real_of_int b\<bar>
           \<le> 2 powi (ulp_exp a b - 1)"
proof -
  let ?v = "real_of_int a / real_of_int b" let ?e = "ulp_exp a b" let ?L = "log2_ratio a b"
  note r = scale_ratio [OF assms(3,2) zero_less_numeral, unfolded of_int_numeral]
  have n: "0 \<le> n" using r(3) assms(1) by simp
  note L = log2_ratio_bounds [OF assms(1,2)]
  have "(2::real) powi (?L + 1) \<le> 2 powi (?e + 53)"
    by (intro power_int_increasing) (auto simp: ulp_exp_def)
  then have "?v < 2 powi (?e + 53)" using L(2) by linarith
  then have "real_of_int n / real_of_int d < real_of_int (2 ^ 53)"
    unfolding r(2) by (rule less_powi_shift)
  then show "rne n d \<le> 2 ^ 53" by (rule rne_mono_int(2) [OF n r(1)])
  show "0 \<le> rne n d" using rne_mono_int(1) [OF n r(1), of 0] n r(1) by simp
  show "2 ^ 52 \<le> rne n d" if "?e \<noteq> -1074"
  proof (rule rne_mono_int(1) [OF n r(1)])
    from that have "?L = ?e + 52" by (auto simp: ulp_exp_def)
    with L(1) have "2 powi (?e + 52) \<le> ?v" by simp
    then show "real_of_int (2 ^ 52) \<le> real_of_int n / real_of_int d"
      unfolding r(2) by (rule powi_shift_le)
  qed
  have "\<bar>real_of_int (rne n d) - ?v / 2 powi ?e\<bar> \<le> 1 / 2"
    using rne_bounds(1) [OF n r(1)] unfolding r(2) .
  moreover have "real_of_int (rne n d) * 2 powi ?e - ?v
      = (real_of_int (rne n d) - ?v / 2 powi ?e) * 2 powi ?e"
    by (simp add: left_diff_distrib)
  ultimately have "\<bar>real_of_int (rne n d) * 2 powi ?e - ?v\<bar> \<le> 1 / 2 * 2 powi ?e"
    by (simp add: abs_mult mult_right_mono)
  then show "\<bar>real_of_int (rne n d) * 2 powi ?e - ?v\<bar> \<le> 2 powi (?e - 1)"
    using powi_add_1 [of "?e - 1"] by simp
qed

lemma round_ratio_unfold:
  assumes "a \<noteq> 0" and "scale2 a b (ulp_exp a b) = (n, d)"
  shows "round_ratio s a b =
     (if rne n d = 2 ^ 53
      then if 971 < ulp_exp a b + 1 then FInf s else FFin s (2 ^ 52) (ulp_exp a b + 1)
      else if 971 < ulp_exp a b then FInf s else FFin s (rne n d) (ulp_exp a b))"
  unfolding round_ratio_def Let_def ulp_exp_def [symmetric] assms(2)
  using assms(1) by simp

lemma round_ratio_wf:
  assumes "0 \<le> a" and "0 < b"
  shows "wf_float (round_ratio s a b)"
proof (cases "a = 0")
  case False
  obtain n d where sc: "scale2 a b (ulp_exp a b) = (n, d)" by fastforce
  have "0 < a" using assms(1) False by simp
  note c = round_ratio_core [OF this assms(2) sc]
  have "-1074 \<le> ulp_exp a b" by (simp add: ulp_exp_def)
  with c(1-3) show ?thesis
    unfolding round_ratio_unfold [OF False sc] by (auto simp: wf_float_def)
qed (simp add: round_ratio_def wf_float_def)

lemma round_ratio_error:
  assumes "0 < a" and "0 < b" and "round_ratio s a b = FFin t m e"
  shows "t = s" and "0 \<le> m"
    and "\<bar>real_of_int m * 2 powi e - real_of_int a / real_of_int b\<bar> \<le> 2 powi (ulp_exp a b - 1)"
proof -
  obtain n d where sc: "scale2 a b (ulp_exp a b) = (n, d)" by fastforce
  note c = round_ratio_core [OF assms(1,2) sc]
  have a0: "a \<noteq> 0" using assms(1) by simp
  have carry: "real_of_int (2 ^ 52) * 2 powi (ulp_exp a b + 1)
      = real_of_int (2 ^ 53) * 2 powi (ulp_exp a b)"
    unfolding powi_add_1 by simp
  show "t = s" and "0 \<le> m"
    using assms(3) c(1) unfolding round_ratio_unfold [OF a0 sc] by (auto split: if_splits)
  have "real_of_int m * 2 powi e = real_of_int (rne n d) * 2 powi (ulp_exp a b)"
    using assms(3) carry unfolding round_ratio_unfold [OF a0 sc] by (auto split: if_splits)
  with c(4) show
    "\<bar>real_of_int m * 2 powi e - real_of_int a / real_of_int b\<bar> \<le> 2 powi (ulp_exp a b - 1)"
    by simp
qed

lemma round_ratio_finite:
  assumes "0 < a" and "0 < b" and "ulp_exp a b < 971"
  shows "\<exists>m e. round_ratio s a b = FFin s m e"
proof -
  obtain n d where sc: "scale2 a b (ulp_exp a b) = (n, d)" by fastforce
  have a0: "a \<noteq> 0" using assms(1) by simp
  show ?thesis
    unfolding round_ratio_unfold [OF a0 sc] using assms(3) by simp
qed

lemma ulp_exp_le:
  assumes "0 < a" and "0 < b" and "real_of_int a / real_of_int b < 2 powi k" and "-1021 \<le> k"
  shows "ulp_exp a b \<le> k - 53"
proof -
  have "2 powi (log2_ratio a b) < (2::real) powi k"
    using log2_ratio_bounds(1) [OF assms(1,2)] assms(3) by linarith
  then have "log2_ratio a b < k"
    by (metis not_le power_int_increasing one_le_numeral)
  with assms(4) show ?thesis by (simp add: ulp_exp_def)
qed

section \<open>Two decimals survive reading and printing\<close>

lemma rne_near_int:
  assumes "0 \<le> n" and "0 < d" and "\<bar>real_of_int n / real_of_int d - real_of_int k\<bar> < 1 / 2"
  shows "rne n d = k"
proof -
  have "\<bar>real_of_int (rne n d) - real_of_int k\<bar> < 1"
    using rne_bounds(1) [OF assms(1,2)] assms(3) by linarith
  then show ?thesis by linarith
qed

lemma fmt_fixed_near:
  assumes "0 \<le> m" and "\<bar>real_of_int m * 2 powi e * 10 ^ p - real_of_int N\<bar> < 1 / 2"
  shows "fmt_fixed p (FFin s m e) = (if s then ''-'' else []) @ fixed_digits p N"
proof -
  obtain n d where sc: "scale2 (m * 10 ^ p) 1 (- e) = (n, d)" by fastforce
  note r = scale_ratio [OF sc zero_less_one zero_less_numeral, unfolded of_int_numeral]
  have "real_of_int n / real_of_int d = real_of_int m * 2 powi e * 10 ^ p"
    unfolding r(2) by (simp add: power_int_minus field_simps)
  with assms have "rne n d = N" using r(1,3) by (intro rne_near_int) auto
  with sc show ?thesis by simp
qed

lemma pad_zeros_digits:
  assumes "0 \<le> n" and "n < 10 ^ p" and "0 < p"
  shows "length (pad_zeros p (dec_str n)) = p"
    and "\<forall>c \<in> set (pad_zeros p (dec_str n)). is_digit c"
    and "digits_val (pad_zeros p (dec_str n)) = n"
proof -
  have len: "length (dec_str n) \<le> p" using assms by (rule length_dec_str_le)
  then show "length (pad_zeros p (dec_str n)) = p" by (simp add: pad_zeros_def)
  have zero: "is_digit (CHR ''0'')" by (simp add: is_digit_def byte_of_def)
  show "\<forall>c \<in> set (pad_zeros p (dec_str n)). is_digit c"
    using zero assms(1) by (auto simp: pad_zeros_def dest: dec_str_digits)
  have "digits_val (replicate k (CHR ''0'')) = 0" for k
  proof (induction k)
    case (Suc k)
    have "replicate (Suc k) (CHR ''0'') = replicate k (CHR ''0'') @ [CHR ''0'']"
      by (simp add: replicate_append_same)
    with Suc show ?case by (simp add: byte_of_def del: replicate_Suc)
  qed simp
  then show "digits_val (pad_zeros p (dec_str n)) = n"
    using assms(1) by (simp add: pad_zeros_def digits_val_append)
qed

lemma digit_lower [simp]: "is_digit c \<Longrightarrow> ascii_lower c = c"
  by (auto simp: is_digit_def ascii_lower_def)

lemma fixed_digits_chars:
  assumes "0 \<le> N" and "0 < p"
  shows "c \<in> set (fixed_digits p N) \<Longrightarrow> is_digit c \<or> c = CHR ''.''"
    and "\<exists>d r. fixed_digits p N = d # r \<and> is_digit d"
proof -
  have hi: "0 \<le> N div 10 ^ p" and lo: "0 \<le> N mod 10 ^ p" "N mod 10 ^ p < 10 ^ p"
    using assms(1) by (simp_all add: pos_imp_zdiv_nonneg_iff)
  show "is_digit c \<or> c = CHR ''.''" if "c \<in> set (fixed_digits p N)"
    using that hi pad_zeros_digits(2) [OF lo assms(2)] assms(2)
    by (auto simp: fixed_digits_def dest: dec_str_digits)
  show "\<exists>d r. fixed_digits p N = d # r \<and> is_digit d"
    using hi dec_str_digits [OF hi] dec_str_nonempty [of "N div 10 ^ p"]
    by (cases "dec_str (N div 10 ^ p)") (auto simp: fixed_digits_def)
qed

lemma read_decimal_parts:
  assumes "\<forall>c \<in> set i. is_digit c" and "\<forall>c \<in> set f. is_digit c" and "i \<noteq> []"
  shows "read_decimal s (i @ CHR ''.'' # f) =
           Some (round_ratio s (digits_val (i @ f)) (10 ^ length f))"
proof -
  have dot: "\<not> is_digit (CHR ''.'')" by (simp add: is_digit_def byte_of_def)
  have "digitpart (i @ CHR ''.'' # f) = (i, CHR ''.'' # f)"
    using dot assms(1) by (intro digitpart_digits_then) auto
  moreover have "digitpart f = (f, [])" using assms(2) by (rule digitpart_digits)
  ultimately show ?thesis
    using assms(3) by (simp add: read_decimal_def read_exponent_def scale_def)
qed

lemma read_decimal_fixed_digits:
  assumes "0 \<le> N" and "0 < p"
  shows "read_decimal s (fixed_digits p N) = Some (round_ratio s N (10 ^ p))"
proof -
  have hi: "0 \<le> N div 10 ^ p" and lo: "0 \<le> N mod 10 ^ p" "N mod 10 ^ p < 10 ^ p"
    using assms(1) by (simp_all add: pos_imp_zdiv_nonneg_iff)
  note f = pad_zeros_digits [OF lo assms(2)]
  have "digits_val (dec_str (N div 10 ^ p) @ pad_zeros p (dec_str (N mod 10 ^ p)))
      = N div 10 ^ p * 10 ^ p + N mod 10 ^ p"
    unfolding digits_val_append f(1,3) digits_val_dec_str [OF hi] ..
  also have "\<dots> = N" by (rule div_mult_mod_eq)
  finally show ?thesis
    using read_decimal_parts [of "dec_str (N div 10 ^ p)" _ s, OF _ f(2)] dec_str_digits [OF hi]
      f(1) assms(2)
    by (simp add: fixed_digits_def)
qed

lemma py_float_fixed_digits:
  assumes "0 \<le> N" and "0 < p"
  shows "py_float (fixed_digits p N) = Some (round_ratio False N (10 ^ p))"
    and "py_float (CHR ''-'' # fixed_digits p N) = Some (round_ratio True N (10 ^ p))"
proof -
  obtain d r where dr: "fixed_digits p N = d # r" "is_digit d"
    using fixed_digits_chars(2) [OF assms] by blast
  have sp: "\<forall>c \<in> set (fixed_digits p N). byte_of c < 128"
    "\<forall>c \<in> set (fixed_digits p N). \<not> is_space [c]"
    using fixed_digits_chars(1) [OF assms]
    by (fastforce simp: is_digit_def is_space_def byte_of_def)+
  have low: "str_lower (fixed_digits p N) \<noteq> c # w" if "\<not> is_digit c" for c w
    using dr that by (auto simp: str_lower_def)
  have nd: "\<not> is_digit (CHR ''i'')" "\<not> is_digit (CHR ''n'')"
    by (simp_all add: is_digit_def byte_of_def)
  have strip: "str_strip (fixed_digits p N) = fixed_digits p N"
    "str_strip (CHR ''-'' # fixed_digits p N) = CHR ''-'' # fixed_digits p N"
    using sp by (auto intro!: str_strip_ascii_id simp: is_space_def byte_of_def)
  have sign: "read_sign (fixed_digits p N) = (False, fixed_digits p N)"
    "read_sign (CHR ''-'' # fixed_digits p N) = (True, fixed_digits p N)"
    using dr by (auto simp: read_sign_def is_digit_def byte_of_def)
  show "py_float (fixed_digits p N) = Some (round_ratio False N (10 ^ p))"
    and "py_float (CHR ''-'' # fixed_digits p N) = Some (round_ratio True N (10 ^ p))"
    using low nd by (simp_all add: py_float_def strip sign read_decimal_fixed_digits [OF assms])
qed

lemma fmt_fixed_round_ratio:
  assumes "0 \<le> N" and "N < 100 * 2 ^ 45"
  shows "fmt_fixed 2 (round_ratio s N 100) = (if s then ''-'' else []) @ fixed_digits 2 N"
proof (cases "N = 0")
  case True
  then show ?thesis
    using fmt_fixed_near [of 0 "-1074" 2 0 s] by (simp add: round_ratio_def del: fmt_fixed.simps)
next
  case False
  with assms(1) have N: "0 < N" by simp
  have "real_of_int N < real_of_int (100 * 2 ^ 45)" using assms(2) by (simp only: of_int_less_iff)
  then have "real_of_int N / real_of_int 100 < 2 powi 45" by (simp add: power_int_def)
  then have e: "ulp_exp N 100 \<le> -8" using ulp_exp_le [OF N, of 100 45] by simp
  then obtain m x where rr: "round_ratio s N 100 = FFin s m x"
    using round_ratio_finite [OF N, of 100 s] by auto
  note er = round_ratio_error(2,3) [OF N zero_less_numeral rr]
  have "(2::real) powi (ulp_exp N 100 - 1) \<le> 2 powi (-9)"
    using e by (intro power_int_increasing) auto
  moreover have "(2::real) powi (-9) = 1 / 512" by (simp add: power_int_def power_one_over)
  ultimately have "\<bar>real_of_int m * 2 powi x - real_of_int N / 100\<bar> \<le> 1 / 512"
    using er(2) by simp
  then have "\<bar>real_of_int m * 2 powi x * 10 ^ 2 - real_of_int N\<bar> < 1 / 2"
    unfolding abs_le_iff abs_less_iff by simp
  with er(1) show ?thesis unfolding rr by (rule fmt_fixed_near)
qed

lemma two_decimals_roundtrip:
  assumes "0 \<le> N" and "N < 100 * 2 ^ 45"
  shows "map_option (fmt_fixed 2) (py_float (fixed_digits 2 N)) = Some (fixed_digits 2 N)"
    and "map_option (fmt_fixed 2) (py_float (CHR ''-'' # fixed_digits 2 N))
           = Some (CHR ''-'' # fixed_digits 2 N)"
  using assms py_float_fixed_digits [OF assms(1), of 2] fmt_fixed_round_ratio [OF assms]
  by simp_all

section \<open>Sums of decimal amounts\<close>

text \<open>A non-negative float within \<open>d\<close> of \<open>N\<close> hundredths.\<close>

definition near_cents :: "pyfloat \<Rightarrow> int \<Rightarrow> real \<Rightarrow> bool" where
  "near_cents x N d \<longleftrightarrow>
     (\<exists>m e. x = FFin False m e \<and> 0 \<le> m \<and> \<bar>real_of_int m * 2 powi e - real_of_int N / 100\<bar> \<le> d)"

lemma near_cents_zero: "near_cents fzero 0 0"
  by (simp add: near_cents_def)

lemma round_ratio_near:
  assumes "0 < a" and "0 < b" and "real_of_int a / real_of_int b < 2 powi k" and "-1021 \<le> k" and "k \<le> 1000"
  shows "\<exists>m e. round_ratio s a b = FFin s m e \<and> 0 \<le> m \<and>
    \<bar>real_of_int m * 2 powi e - real_of_int a / real_of_int b\<bar> \<le> 2 powi (k - 54)"
proof -
  have u: "ulp_exp a b \<le> k - 53" using assms by (intro ulp_exp_le)
  with assms obtain m e where rr: "round_ratio s a b = FFin s m e"
    using round_ratio_finite [of a b s] by auto
  note er = round_ratio_error(2,3) [OF assms(1,2) rr]
  have "(2::real) powi (ulp_exp a b - 1) \<le> 2 powi (k - 54)"
    using u by (intro power_int_increasing) auto
  with er rr show ?thesis by fastforce
qed

lemma near_round_ratio:
  assumes "0 \<le> N" and "real_of_int N / 100 < 2 powi k" and "-1021 \<le> k" and "k \<le> 1000"
  shows "near_cents (round_ratio False N 100) N (2 powi (k - 54))"
proof (cases "N = 0")
  case True
  then show ?thesis by (simp add: near_cents_def round_ratio_def)
next
  case False
  with assms show ?thesis
    using round_ratio_near [of N 100 k False] by (auto simp: near_cents_def)
qed

lemma aligned_value:
  assumes "g \<le> e"
  shows "real_of_int (aligned False m e g) * 2 powi g = real_of_int m * 2 powi e"
proof -
  have "(2::real) powi e = 2 ^ nat (e - g) * 2 powi g"
    using assms by (simp add: power_int_add [symmetric] flip: power_int_of_nat)
  then show ?thesis by (simp add: aligned_def)
qed

lemma fadd_near:
  assumes "0 \<le> m" and "0 \<le> n"
    and "real_of_int m * 2 powi e + real_of_int n * 2 powi f < 2 powi k" and "-1021 \<le> k" and "k \<le> 1000"
  shows "\<exists>m' e'. fadd (FFin False m e) (FFin False n f) = FFin False m' e' \<and> 0 \<le> m' \<and>
    \<bar>real_of_int m' * 2 powi e' - (real_of_int m * 2 powi e + real_of_int n * 2 powi f)\<bar> \<le> 2 powi (k - 54)"
proof -
  define g where "g = min e f"
  define x where "x = aligned False m e g + aligned False n f g"
  have x0: "0 \<le> x" using assms(1,2) by (simp add: x_def aligned_def)
  have val: "real_of_int x * 2 powi g = real_of_int m * 2 powi e + real_of_int n * 2 powi f"
    using aligned_value [of g e m] aligned_value [of g f n] by (simp add: x_def g_def distrib_right)
  have add: "fadd (FFin False m e) (FFin False n f) =
      (if x = 0 then FFin False 0 (-1074) else of_dyadic False x g)"
    using x0 by (simp add: Let_def g_def [symmetric] x_def [symmetric])
  show ?thesis
  proof (cases "x = 0")
    case True
    then show ?thesis using val by (simp add: add del: fadd.simps)
  next
    case False
    obtain a b where sc: "scale2 x 1 (- g) = (a, b)" by fastforce
    note r = scale_ratio [OF sc zero_less_one zero_less_numeral, unfolded of_int_numeral]
    have ab: "real_of_int a / real_of_int b = real_of_int x * 2 powi g"
      using r(2) by (simp add: power_int_minus divide_inverse)
    have pos: "0 < a" "0 < b"
      using sc False x0 by (auto simp: scale_def split: if_splits)
    show ?thesis
      using round_ratio_near [OF pos, of k False] assms(3-5) ab val False
      by (simp add: add of_dyadic_def sc del: fadd.simps)
  qed
qed

lemma near_cents_fadd:
  assumes "near_cents x N d" and "near_cents y M d'"
    and "real_of_int (N + M) / 100 + d + d' < 2 powi k" and "-1021 \<le> k" and "k \<le> 1000"
  shows "near_cents (fadd x y) (N + M) (d + d' + 2 powi (k - 54))"
proof -
  obtain m e where x: "x = FFin False m e" "0 \<le> m"
    and xd: "\<bar>real_of_int m * 2 powi e - real_of_int N / 100\<bar> \<le> d"
    using assms(1) by (auto simp: near_cents_def)
  obtain n f where y: "y = FFin False n f" "0 \<le> n"
    and yd: "\<bar>real_of_int n * 2 powi f - real_of_int M / 100\<bar> \<le> d'"
    using assms(2) by (auto simp: near_cents_def)
  have "real_of_int m * 2 powi e + real_of_int n * 2 powi f < 2 powi k"
    using xd yd assms(3) by (simp add: add_divide_distrib)
  from fadd_near [OF x(2) y(2) this assms(4,5)] obtain m' e' where
    a: "fadd x y = FFin False m' e'" "0 \<le> m'" and
    er: "\<bar>real_of_int m' * 2 powi e' - (real_of_int m * 2 powi e + real_of_int n * 2 powi f)\<bar> \<le> 2 powi (k - 54)"
    unfolding x(1) y(1) by blast
  have "\<bar>real_of_int m' * 2 powi e' - real_of_int (N + M) / 100\<bar> \<le> d + d' + 2 powi (k - 54)"
    using er xd yd by (simp add: add_divide_distrib)
  with a show ?thesis by (auto simp: near_cents_def)
qed

lemma near_cents_print:
  assumes "near_cents x N d" and "d < 1 / 200"
  shows "fmt_fixed 2 x = fixed_digits 2 N"
proof -
  obtain m e where x: "x = FFin False m e" "0 \<le> m"
    and xd: "\<bar>real_of_int m * 2 powi e - real_of_int N / 100\<bar> \<le> d"
    using assms(1) by (auto simp: near_cents_def)
  have "\<bar>real_of_int m * 2 powi e * 10 ^ 2 - real_of_int N\<bar> < 1 / 2"
    using xd assms(2) unfolding abs_le_iff abs_less_iff by simp
  from fmt_fixed_near [OF x(2) this, of False] show ?thesis by (simp add: x(1) del: fmt_fixed.simps)
qed

text \<open>
  Up to ten amounts below \<open>2\<^sup>3\<^sup>8\<close>, each correctly rounded and added from left to right, print as their
  exact decimal sum.
\<close>

lemma near_cents_foldl:
  assumes "near_cents x S (real i * (2 powi (-12) + 2 powi (-16)))"
    and "\<forall>N \<in> set Ns. 0 \<le> N \<and> N < 100 * 2 ^ 38" and "0 \<le> S" and "S \<le> int i * (100 * 2 ^ 38)"
    and "i + length Ns \<le> 10"
  shows "near_cents (foldl fadd x (map (\<lambda>N. round_ratio False N 100) Ns)) (S + sum_list Ns)
    (real (i + length Ns) * (2 powi (-12) + 2 powi (-16)))"
  using assms
proof (induction Ns arbitrary: x S i)
  case (Cons N Ns)
  have N: "0 \<le> N" "N < 100 * 2 ^ 38" using Cons.prems(2) by auto
  then have "real_of_int N < real_of_int (100 * 2 ^ 38)" by (simp only: of_int_less_iff)
  then have "real_of_int N / 100 < 2 powi 38" by (simp add: power_int_def)
  from near_round_ratio [OF N(1) this] have n: "near_cents (round_ratio False N 100) N (2 powi (-16))"
    by simp
  have p: "(2::real) powi (-12) = 1 / 4096" "(2::real) powi (-16) = 1 / 65536"
    by (simp_all add: power_int_def power_one_over)
  have i: "i \<le> 9" using Cons.prems(5) by simp
  have "S + N < 10 * (100 * 2 ^ 38)" using Cons.prems(4) N i by simp
  then have "real_of_int (S + N) < real_of_int (10 * (100 * 2 ^ 38))" by (simp only: of_int_less_iff)
  then have sum: "real_of_int (S + N) / 100 < 2748779069440" by simp
  have "real i \<le> 9" using i by simp
  then have "real i * (1 / 4096 + 1 / 65536) \<le> 9 * (1 / 4096 + 1 / 65536)"
    by (intro mult_right_mono) auto
  then have "real i * (1 / 4096 + 1 / 65536) + 1 / 65536 \<le> 1" by simp
  with sum have "real_of_int (S + N) / 100 + real i * (1 / 4096 + 1 / 65536) + 1 / 65536 < 4398046511104"
    by linarith
  moreover have "(2::real) powi 42 = 4398046511104" by (simp add: power_int_def)
  ultimately have "real_of_int (S + N) / 100 + real i * (2 powi (-12) + 2 powi (-16)) + 2 powi (-16) < 2 powi 42"
    unfolding p by simp
  from near_cents_fadd [OF Cons.prems(1) n this]
  have "near_cents (fadd x (round_ratio False N 100)) (S + N)
      (real (Suc i) * (2 powi (-12) + 2 powi (-16)))"
    by (simp add: algebra_simps add_divide_distrib)
  from Cons.IH [OF this] Cons.prems N show ?case by (simp add: algebra_simps)
qed simp

lemma decimal_sum_prints:
  assumes "\<forall>N \<in> set Ns. 0 \<le> N \<and> N < 100 * 2 ^ 38" and "length Ns \<le> 10"
  shows "fmt_fixed 2 (foldl fadd fzero (map (\<lambda>N. round_ratio False N 100) Ns)) =
    fixed_digits 2 (sum_list Ns)"
proof -
  have p: "(2::real) powi (-12) = 1 / 4096" "(2::real) powi (-16) = 1 / 65536"
    by (simp_all add: power_int_def power_one_over)
  have "real (length Ns) \<le> 10" using assms(2) by simp
  then have "real (length Ns) * (2 powi (-12) + 2 powi (-16)) < 1 / 200" unfolding p by simp
  moreover have "near_cents (foldl fadd fzero (map (\<lambda>N. round_ratio False N 100) Ns)) (sum_list Ns)
      (real (length Ns) * (2 powi (-12) + 2 powi (-16)))"
    using near_cents_foldl [of fzero 0 0 Ns] assms near_cents_zero by simp
  ultimately show ?thesis by (rule near_cents_print [rotated])
qed

end
