(* ===== verification/Py_Json.thy ===== *)
theory Py_Json
  imports Py_Float
begin

text \<open>
  The Python values a JSON text decodes to (\<^verbatim>\<open>json.loads\<close>), with the dictionary and membership
  operations the program applies to them.  The decoder itself is an argument of the definitions
  that call it.
\<close>

datatype json =
    JNull
  | JBool bool
  | JInt int
  | JFloat pyfloat
  | JStr pystr
  | JArr "json list"
  | JObj "(pystr \<times> json) list"

text \<open>
  Python's \<^verbatim>\<open>key in v\<close>: key of a dictionary, element of a list, substring of a text; a
  \<^verbatim>\<open>TypeError\<close> on anything else.
\<close>

fun json_contains :: "pystr \<Rightarrow> json \<Rightarrow> bool result" where
  "json_contains k (JObj d) = Inr (k \<in> fst ` set d)"
| "json_contains k (JArr xs) = Inr (JStr k \<in> set xs)"
| "json_contains k (JStr s) = Inr (contains s k)"
| "json_contains k v = Inl (OtherExn ''TypeError'' ''argument is not iterable'')"

text \<open>Python's \<^verbatim>\<open>v.get(key)\<close>: dictionaries have it, the other values raise \<^verbatim>\<open>AttributeError\<close>.\<close>

fun json_get :: "pystr \<Rightarrow> json \<Rightarrow> json result" where
  "json_get k (JObj d) = Inr (case map_of d k of None \<Rightarrow> JNull | Some v \<Rightarrow> v)"
| "json_get k v = Inl (OtherExn ''AttributeError'' ''object has no attribute get'')"

text \<open>Python's truth value of a value.\<close>

fun json_truthy :: "json \<Rightarrow> bool" where
  "json_truthy JNull = False"
| "json_truthy (JBool b) = b"
| "json_truthy (JInt n) = (n \<noteq> 0)"
| "json_truthy (JFloat x) = (case x of FFin s m e \<Rightarrow> m \<noteq> 0 | _ \<Rightarrow> True)"
| "json_truthy (JStr s) = (s \<noteq> [])"
| "json_truthy (JArr xs) = (xs \<noteq> [])"
| "json_truthy (JObj d) = (d \<noteq> [])"

text \<open>An optional text as JSON.\<close>

definition opt_json :: "pystr option \<Rightarrow> json" where
  "opt_json v = (case v of None \<Rightarrow> JNull | Some s \<Rightarrow> JStr s)"

lemma json_truthy_opt [simp]: "json_truthy (opt_json v) = truthy v"
  by (cases v) (simp_all add: opt_json_def)

text \<open>What a client of the engine sees of an answer: \<^verbatim>\<open>requests.Response\<close> with its status, text and JSON.\<close>

record http_reply =
  status_code :: int
  reply_text :: pystr
  reply_json :: "json result"

end
