(* ===== verification/Jinja.thy ===== *)
theory Jinja
  imports Xml_Tree Py_Json
begin

text \<open>
  The part of the Jinja2 template language that the invoice template uses, with the meaning its
  documentation gives it: variables and attributes of dictionaries, undefined values, the filters
  \<^verbatim>\<open>default\<close> and \<^verbatim>\<open>format\<close>, the tests \<^verbatim>\<open>defined\<close> and \<^verbatim>\<open>mapping\<close>, \<^verbatim>\<open>if\<close> and \<^verbatim>\<open>for\<close>.  Every block of the
  template encloses whole elements, so a template is a tree and its rendering a forest.
\<close>

section \<open>Values\<close>

text \<open>\<^verbatim>\<open>repr\<close> of a value, with \<^verbatim>\<open>repr\<close> of a text as the argument \<open>rep\<close>.\<close>

fun py_repr :: "(pystr \<Rightarrow> pystr) \<Rightarrow> json \<Rightarrow> pystr" where
  "py_repr rep JNull = ''None''"
| "py_repr rep (JBool b) = (if b then ''True'' else ''False'')"
| "py_repr rep (JInt n) = int_str n"
| "py_repr rep (JFloat x) = float_repr x"
| "py_repr rep (JStr s) = rep s"
| "py_repr rep (JArr xs) = ''['' @ join '', '' (map (py_repr rep) xs) @ '']''"
| "py_repr rep (JObj d) = ''{'' @ join '', '' (map (\<lambda>(k, v). rep k @ '': '' @ py_repr rep v) d) @ ''}''"

text \<open>A value as it is written into the output: \<^verbatim>\<open>str\<close>, and nothing for an undefined one.\<close>

definition out_text :: "(pystr \<Rightarrow> pystr) \<Rightarrow> json option \<Rightarrow> pystr" where
  "out_text rep v = (case v of None \<Rightarrow> [] | Some (JStr s) \<Rightarrow> s | Some j \<Rightarrow> py_repr rep j)"

definition opt_truthy :: "json option \<Rightarrow> bool" where
  "opt_truthy v = (case v of None \<Rightarrow> False | Some j \<Rightarrow> json_truthy j)"

section \<open>Expressions\<close>

datatype expr =
    Var pystr
  | Attr expr pystr
  | Str pystr
  | EmptyList
  | Default expr expr
  | Or expr expr
  | EqText expr pystr
  | IsDefined expr
  | IsMapping expr
  | Fixed2 expr

type_synonym context_dict = "(pystr \<times> json) list"

text \<open>\<^verbatim>\<open>v.a\<close>: an entry of a dictionary, undefined on other values, an error on an undefined one.\<close>

definition get_attr :: "json option \<Rightarrow> pystr \<Rightarrow> json option result" where
  "get_attr v a =
     (case v of
        None \<Rightarrow> Inl (OtherExn ''UndefinedError'' (quoted a @ '' of an undefined value''))
      | Some (JObj d) \<Rightarrow> Inr (map_of d a)
      | Some j \<Rightarrow> Inr None)"

fun eval :: "context_dict \<Rightarrow> expr \<Rightarrow> json option result" where
  "eval c (Var x) = Inr (map_of c x)"
| "eval c (Attr e a) = bindR (eval c e) (\<lambda>v. get_attr v a)"
| "eval c (Str s) = Inr (Some (JStr s))"
| "eval c EmptyList = Inr (Some (JArr []))"
| "eval c (Default e d) =
     bindR (eval c e) (\<lambda>v. bindR (eval c d) (\<lambda>w. Inr (case v of None \<Rightarrow> w | Some j \<Rightarrow> v)))"
| "eval c (Or e f) = bindR (eval c e) (\<lambda>v. if opt_truthy v then Inr v else eval c f)"
| "eval c (EqText e s) = bindR (eval c e) (\<lambda>v. Inr (Some (JBool (v = Some (JStr s)))))"
| "eval c (IsDefined e) = bindR (eval c e) (\<lambda>v. Inr (Some (JBool (v \<noteq> None))))"
| "eval c (IsMapping e) =
     bindR (eval c e) (\<lambda>v. Inr (Some (JBool (case v of Some (JObj d) \<Rightarrow> True | _ \<Rightarrow> False))))"
| "eval c (Fixed2 e) =
     bindR (eval c e) (\<lambda>v.
       case v of
         Some (JFloat x) \<Rightarrow> Inr (Some (JStr (fmt_fixed 2 x)))
       | _ \<Rightarrow> Inl (OtherExn ''TypeError'' ''must be real number''))"

section \<open>Templates\<close>

text \<open>
  White space and literal text, output, elements, conditionals and loops.  The white space, spaces \<open>sp n\<close>
  and a line break with spaces \<open>nl n\<close>, is what is left of the lines of the file after \<^verbatim>\<open>trim_blocks\<close> and
  \<^verbatim>\<open>lstrip_blocks\<close>.
\<close>

datatype tmpl =
    TWs pystr
  | TLit pystr
  | TOut expr
  | TElem pystr "(pystr \<times> expr) list" "tmpl list"
  | TIf expr "tmpl list" "tmpl list"
  | TFor pystr expr "tmpl list"

text \<open>\<^verbatim>\<open>for x in v\<close>: nothing for an undefined value.\<close>

fun loop_items :: "json option \<Rightarrow> json list result" where
  "loop_items None = Inr []"
| "loop_items (Some (JArr xs)) = Inr xs"
| "loop_items (Some (JObj d)) = Inr (map (\<lambda>p. JStr (fst p)) d)"
| "loop_items (Some (JStr s)) = Inr (map JStr (codepoints s))"
| "loop_items (Some j) = Inl (OtherExn ''TypeError'' ''object is not iterable'')"

fun concatR :: "'a list result list \<Rightarrow> 'a list result" where
  "concatR [] = Inr []"
| "concatR (r # rs) = bindR r (\<lambda>x. bindR (concatR rs) (\<lambda>y. Inr (x @ y)))"

fun eval_attrs :: "(pystr \<Rightarrow> pystr) \<Rightarrow> context_dict \<Rightarrow> (pystr \<times> expr) list \<Rightarrow> (pystr \<times> pystr) list result" where
  "eval_attrs rep c [] = Inr []"
| "eval_attrs rep c ((a, e) # as) =
     bindR (eval c e) (\<lambda>v. bindR (eval_attrs rep c as) (\<lambda>r. Inr ((a, out_text rep v) # r)))"

function (sequential) expand :: "(pystr \<Rightarrow> pystr) \<Rightarrow> context_dict \<Rightarrow> tmpl \<Rightarrow> xml list result"
  and expands :: "(pystr \<Rightarrow> pystr) \<Rightarrow> context_dict \<Rightarrow> tmpl list \<Rightarrow> xml list result" where
  "expand rep c (TWs s) = Inr [Txt s]"
| "expand rep c (TLit s) = Inr [Txt s]"
| "expand rep c (TOut e) = bindR (eval c e) (\<lambda>v. Inr [Txt (out_text rep v)])"
| "expand rep c (TElem t as body) =
     bindR (eval_attrs rep c as) (\<lambda>vs. bindR (expands rep c body) (\<lambda>cs. Inr [Elem t vs cs]))"
| "expand rep c (TIf e a b) =
     bindR (eval c e) (\<lambda>v. if opt_truthy v then expands rep c a else expands rep c b)"
| "expand rep c (TFor x e body) =
     bindR (eval c e) (\<lambda>v. bindR (loop_items v) (\<lambda>js.
       concatR (map (\<lambda>j. expands rep ((x, j) # c) body) js)))"
| "expands rep c [] = Inr []"
| "expands rep c (t # ts) =
     bindR (expand rep c t) (\<lambda>a. bindR (expands rep c ts) (\<lambda>b. Inr (a @ b)))"
  by pat_completeness auto
termination
  by (relation "measure (\<lambda>x. case x of Inl (rep, c, t) \<Rightarrow> size t | Inr (rep, c, ts) \<Rightarrow> size_list size ts)") auto

section \<open>Templates that render, as forests\<close>

text \<open>\<open>trees\<close> is the rendering of a template for which no expression fails.\<close>

definition val :: "context_dict \<Rightarrow> expr \<Rightarrow> json option" where
  "val c e = (case eval c e of Inl x \<Rightarrow> None | Inr v \<Rightarrow> v)"

definition items_of :: "context_dict \<Rightarrow> expr \<Rightarrow> json list" where
  "items_of c e = (case loop_items (val c e) of Inl x \<Rightarrow> [] | Inr js \<Rightarrow> js)"

definition attrs_of :: "(pystr \<Rightarrow> pystr) \<Rightarrow> context_dict \<Rightarrow> (pystr \<times> expr) list \<Rightarrow> (pystr \<times> pystr) list" where
  "attrs_of rep c as = map (\<lambda>(a, e). (a, out_text rep (val c e))) as"

function (sequential) trees :: "(pystr \<Rightarrow> pystr) \<Rightarrow> context_dict \<Rightarrow> tmpl list \<Rightarrow> xml list" where
  "trees rep c [] = []"
| "trees rep c (TWs s # ts) = Txt s # trees rep c ts"
| "trees rep c (TLit s # ts) = Txt s # trees rep c ts"
| "trees rep c (TOut e # ts) = Txt (out_text rep (val c e)) # trees rep c ts"
| "trees rep c (TElem t as b # ts) = Elem t (attrs_of rep c as) (trees rep c b) # trees rep c ts"
| "trees rep c (TIf e a b # ts) = (if opt_truthy (val c e) then trees rep c a else trees rep c b) @ trees rep c ts"
| "trees rep c (TFor x e b # ts) = concat (map (\<lambda>j. trees rep ((x, j) # c) b) (items_of c e)) @ trees rep c ts"
  by pat_completeness auto
termination
  by (relation "measure (\<lambda>(rep, c, ts). size_list size ts)") auto

declare trees.simps [simp del]

lemma trees_Cons: "trees rep c (t # ts) = trees rep c [t] @ trees rep c ts"
  by (cases t) (simp_all add: trees.simps)

lemma eval_attrs_of: "eval_attrs rep c as = Inr vs \<Longrightarrow> vs = attrs_of rep c as"
  by (induction as arbitrary: vs) (auto simp: attrs_of_def val_def)

lemma concatR_Inr:
  assumes "concatR (map f xs) = Inr ys" and "\<And>x y. x \<in> set xs \<Longrightarrow> f x = Inr y \<Longrightarrow> y = g x"
  shows "ys = concat (map g xs)"
  using assms by (induction xs arbitrary: ys) auto

lemma expand_trees:
  "expand rep c t = Inr xs \<Longrightarrow> xs = trees rep c [t]"
  "expands rep c ts = Inr xs \<Longrightarrow> xs = trees rep c ts"
proof (induction rep c t and rep c ts arbitrary: xs and xs rule: expand_expands.induct)
  case (4 rep c t as body)
  from 4(2) show ?case by (auto simp: trees.simps dest: eval_attrs_of 4(1))
next
  case (5 rep c e a b)
  then show ?case by (auto simp: trees.simps val_def split: if_splits)
next
  case (6 rep c x e body)
  from 6(2) obtain v js where v: "eval c e = Inr v" "loop_items v = Inr js"
    and r: "concatR (map (\<lambda>j. expands rep ((x, j) # c) body) js) = Inr xs" by auto
  from concatR_Inr [OF r 6(1)] v show ?case by (simp add: trees.simps items_of_def val_def)
next
  case (8 rep c t ts)
  then show ?case by (fastforce simp: trees_Cons [of rep c t ts])
qed (auto simp: trees.simps val_def)

named_theorems sel_simps \<open>selection in the forest of a template\<close>

lemma select_trees [sel_simps]:
  "select ps (trees rep c []) = []"
  "select ps (trees rep c (TWs s # ts)) = select ps (trees rep c ts)"
  "select ps (trees rep c (TLit s # ts)) = select ps (trees rep c ts)"
  "select ps (trees rep c (TOut e # ts)) = select ps (trees rep c ts)"
  "select ps (trees rep c (TElem t as b # ts)) =
     (if [] \<in> set (concat (map (below t) ps)) then [Elem t (attrs_of rep c as) (trees rep c b)] else []) @
     select (filter (\<lambda>p. p \<noteq> []) (concat (map (below t) ps))) (trees rep c b) @ select ps (trees rep c ts)"
  "select ps (trees rep c (TIf e a b # ts)) =
     (if opt_truthy (val c e) then select ps (trees rep c a) else select ps (trees rep c b)) @ select ps (trees rep c ts)"
  "select ps (trees rep c (TFor x e b # ts)) =
     concat (map (\<lambda>j. select ps (trees rep ((x, j) # c) b)) (items_of c e)) @ select ps (trees rep c ts)"
  by (simp_all add: trees.simps Let_def select_append select_concat comp_def)

lemma trees_expand: "\<exists>xs. expand rep c t = Inr xs \<Longrightarrow> expand rep c t = Inr (trees rep c [t])"
  by (auto dest: expand_trees)

text \<open>The names of the elements a template can produce.\<close>

function tmpl_tags :: "tmpl list \<Rightarrow> pystr list" where
  "tmpl_tags [] = []"
| "tmpl_tags (TWs s # ts) = tmpl_tags ts"
| "tmpl_tags (TLit s # ts) = tmpl_tags ts"
| "tmpl_tags (TOut e # ts) = tmpl_tags ts"
| "tmpl_tags (TElem t as b # ts) = t # tmpl_tags b @ tmpl_tags ts"
| "tmpl_tags (TIf e a b # ts) = tmpl_tags a @ tmpl_tags b @ tmpl_tags ts"
| "tmpl_tags (TFor x e b # ts) = tmpl_tags b @ tmpl_tags ts"
  by pat_completeness auto
termination
  by (relation "measure (size_list size)") auto

lemma tmpl_tags_Cons: "tmpl_tags (t # ts) = tmpl_tags [t] @ tmpl_tags ts"
  by (cases t) simp_all

lemma trees_tags: "forest_tags (trees rep c ts) \<subseteq> set (tmpl_tags ts)"
proof (induction rep c ts rule: trees.induct)
  case (7 rep c x e b ts)
  have "forest_tags (concat (map (\<lambda>j. trees rep ((x, j) # c) b) js)) \<subseteq> set (tmpl_tags b)" if "set js \<subseteq> set (items_of c e)" for js
    using that by (induction js) (use 7(1) in auto)
  with 7(2) show ?case by (fastforce simp: trees.simps)
qed (auto simp: trees.simps)

text \<open>A query for names the template does not contain finds nothing.\<close>

definition tags_of :: "tmpl \<Rightarrow> pystr list" where
  "tags_of t = tmpl_tags [t]"

lemma select_skip [sel_simps]:
  assumes "n \<notin> set (tags_of t)"
  shows "select [(ax, n) # q] (trees rep c (t # ts)) = select [(ax, n) # q] (trees rep c ts)"
proof -
  have "select [(ax, n) # q] (trees rep c [t]) = []"
    by (rule select_absent [OF trees_tags]) (use assms in \<open>simp add: tags_of_def\<close>)
  then show ?thesis by (subst trees_Cons) (simp add: select_append)
qed

text \<open>The names of a rendered document are those of its template.\<close>

function tmpl_named :: "pystr list \<Rightarrow> tmpl list \<Rightarrow> bool" where
  "tmpl_named ps [] = True"
| "tmpl_named ps (TWs s # ts) = tmpl_named ps ts"
| "tmpl_named ps (TLit s # ts) = tmpl_named ps ts"
| "tmpl_named ps (TOut e # ts) = tmpl_named ps ts"
| "tmpl_named ps (TElem t as b # ts) =
     (good_name ps t \<and> good_attrs (map fst as) \<and> tmpl_named ps b \<and> tmpl_named ps ts)"
| "tmpl_named ps (TIf e a b # ts) = (tmpl_named ps a \<and> tmpl_named ps b \<and> tmpl_named ps ts)"
| "tmpl_named ps (TFor x e b # ts) = (tmpl_named ps b \<and> tmpl_named ps ts)"
  by pat_completeness auto
termination
  by (relation "measure (\<lambda>(ps, ts). size_list size ts)") auto

lemma trees_named: "tmpl_named ps ts \<Longrightarrow> list_all (well_named ps) (trees rep c ts)"
proof (induction rep c ts rule: trees.induct)
  case (5 rep c t as b ts)
  have "map fst (attrs_of rep c as) = map fst as" by (simp add: attrs_of_def split_def comp_def)
  with 5 show ?case by (simp add: trees.simps)
qed (auto simp: trees.simps list_all_iff)

end
