(* ===== verification/Schemas.thy ===== *)
theory Schemas
  imports Py_Float Py_Json
begin

text \<open>
  The request and response models of \<^verbatim>\<open>app/schemas/validation.py\<close>.  Every class is a record with the
  source's fields, an optional field being an option; field names carry a prefix where two classes
  share one.  Building a model from decoded JSON is the work of the pydantic package and is a
  parameter of the endpoints.
\<close>

record Address =
  line1 :: pystr
  line2 :: "pystr option"
  postcode :: pystr
  city :: pystr
  country_code :: pystr

record BillingPeriod =
  period_start :: pystr
  period_end :: pystr

record ShipToParty =
  ship_id :: "pystr option"
  ship_global_id :: "pystr option"
  ship_global_id_scheme :: "pystr option"
  ship_name :: pystr
  ship_address :: Address

record AllowanceCharge =
  ac_amount :: pyfloat
  ac_reason :: "pystr option"
  ac_reason_code :: "pystr option"
  ac_vat_category :: pystr
  ac_vat_rate :: pyfloat

record PaymentDiscount =
  discount_days :: int
  discount_percent :: pyfloat

record SellerInfo =
  seller_name :: pystr
  seller_address :: "Address option"
  seller_tax_number :: "pystr option"
  seller_vat_number :: "pystr option"
  seller_siret :: "pystr option"
  seller_global_id :: "pystr option"
  seller_global_id_scheme :: "pystr option"
  seller_contact_name :: "pystr option"
  seller_phone :: "pystr option"
  seller_email :: "pystr option"
  seller_iban :: "pystr option"
  seller_bic :: "pystr option"
  seller_bank_name :: "pystr option"
  seller_id :: "pystr option"

record BuyerInfo =
  buyer_name :: pystr
  buyer_address :: "Address option"
  buyer_vat_number :: "pystr option"
  buyer_global_id :: "pystr option"
  buyer_global_id_scheme :: "pystr option"
  buyer_contact_name :: "pystr option"
  buyer_phone :: "pystr option"
  buyer_email :: "pystr option"
  buyer_id :: "pystr option"

record TaxDetail =
  calculated_amount :: pystr
  basis_amount :: pystr
  tax_rate :: pystr
  category_code :: pystr

record InvoiceLine =
  line_id :: pystr
  line_name :: pystr
  line_quantity :: pyfloat
  line_unit_code :: pystr
  net_price :: pyfloat
  net_total :: pyfloat
  line_vat_rate :: pyfloat
  line_vat_category :: pystr
  line_note :: "pystr option"
  line_global_id :: "pystr option"
  line_global_id_scheme :: "pystr option"
  seller_assigned_id :: "pystr option"
  buyer_assigned_id :: "pystr option"
  line_description :: "pystr option"
  country_of_origin :: "pystr option"
  gross_price :: "pyfloat option"
  price_discount :: "pyfloat option"
  billing_period :: "BillingPeriod option"

record MonetaryAmounts =
  tax_basis_total :: pystr
  tax_total :: pystr
  grand_total :: pystr
  due_payable :: pystr
  lines_total :: "pystr option"
  charge_total :: "pystr option"
  allowance_total :: "pystr option"
  prepaid :: "pystr option"

datatype Profile = Minimum | BasicWL | Basic | EN16931 | Extended

fun profile_text :: "Profile \<Rightarrow> pystr" where
  "profile_text Minimum = ''minimum''"
| "profile_text BasicWL = ''basicwl''"
| "profile_text Basic = ''basic''"
| "profile_text EN16931 = ''en16931''"
| "profile_text Extended = ''extended''"

text \<open>A header note is a text or a dictionary.\<close>

datatype Note = NoteText pystr | NoteDict "(pystr \<times> json) list"

record InvoiceMetadata =
  md_invoice_number :: pystr
  issue_date :: pystr
  md_seller :: SellerInfo
  md_buyer :: BuyerInfo
  md_lines :: "InvoiceLine list"
  tax_details :: "TaxDetail list"
  amounts :: MonetaryAmounts
  currency_code :: pystr
  profile :: Profile
  due_date :: "pystr option"
  payment_terms :: "pystr option"
  document_type_code :: pystr
  header_notes :: "Note list option"
  buyer_reference :: "pystr option"
  contract_reference :: "pystr option"
  delivery_date :: "pystr option"
  ship_to :: "ShipToParty option"
  creditor_reference :: "pystr option"
  allowances :: "AllowanceCharge list option"
  charges :: "AllowanceCharge list option"
  payment_discount :: "PaymentDiscount option"
  payment_means_code :: "pystr option"

text \<open>The response of the validation endpoint.\<close>

record ValidationReport =
  valid :: bool
  v_format :: "pystr option"
  v_flavor :: "pystr option"
  v_errors :: "pystr list"
  validation_mode :: "pystr option"

text \<open>
  The body the endpoints document for their errors.  What they send is FastAPI's answer to an
  \<^verbatim>\<open>HTTPException\<close>, a dictionary with the single key \<^verbatim>\<open>detail\<close>.
\<close>

record ErrorResponse =
  err_error :: pystr
  err_message :: pystr
  err_details :: "json option"

lemma profile_text_inject: "profile_text p = profile_text q \<longleftrightarrow> p = q"
  by (cases p; cases q) simp_all

end
