(* ===== verification/Template.thy ===== *)
theory Template
  imports Jinja Schemas
begin

text \<open>
  The invoice template, \<^verbatim>\<open>app/templates/factur-x.xml.j2\<close>, and its rendering by
  \<^verbatim>\<open>app/services/generator.py\<close>: the context is \<^verbatim>\<open>model_dump(exclude_none=True)\<close> of the metadata.  Automatic
  escaping is off: \<^verbatim>\<open>select_autoescape(['xml'])\<close> decides by the end of the template's name, which is
  \<^verbatim>\<open>.j2\<close>.
\<close>

section \<open>The context\<close>

definition req :: "pystr \<Rightarrow> json \<Rightarrow> context_dict" where
  "req k v = [(k, v)]"

definition opt :: "pystr \<Rightarrow> json option \<Rightarrow> context_dict" where
  "opt k v = (case v of None \<Rightarrow> [] | Some j \<Rightarrow> [(k, j)])"

abbreviation str :: "pystr option \<Rightarrow> json option" where
  "str v \<equiv> map_option JStr v"

definition dump_address :: "Address \<Rightarrow> json" where
  "dump_address a = JObj (concat
     [req ''line1'' (JStr (line1 a)), opt ''line2'' (str (line2 a)), req ''postcode'' (JStr (postcode a)),
      req ''city'' (JStr (city a)), req ''country_code'' (JStr (country_code a))])"

definition dump_period :: "BillingPeriod \<Rightarrow> json" where
  "dump_period p = JObj (concat [req ''start'' (JStr (period_start p)), req ''end'' (JStr (period_end p))])"

definition dump_ship_to :: "ShipToParty \<Rightarrow> json" where
  "dump_ship_to s = JObj (concat
     [opt ''id'' (str (ship_id s)), opt ''global_id'' (str (ship_global_id s)),
      opt ''global_id_scheme'' (str (ship_global_id_scheme s)), req ''name'' (JStr (ship_name s)),
      req ''address'' (dump_address (ship_address s))])"

definition dump_allowance :: "AllowanceCharge \<Rightarrow> json" where
  "dump_allowance a = JObj (concat
     [req ''amount'' (JFloat (ac_amount a)), opt ''reason'' (str (ac_reason a)),
      opt ''reason_code'' (str (ac_reason_code a)), req ''vat_category'' (JStr (ac_vat_category a)),
      req ''vat_rate'' (JFloat (ac_vat_rate a))])"

definition dump_discount :: "PaymentDiscount \<Rightarrow> json" where
  "dump_discount d = JObj (concat
     [req ''days'' (JInt (discount_days d)), req ''percent'' (JFloat (discount_percent d))])"

definition dump_seller :: "SellerInfo \<Rightarrow> json" where
  "dump_seller s = JObj (concat
     [req ''name'' (JStr (seller_name s)), opt ''address'' (map_option dump_address (seller_address s)),
      opt ''tax_number'' (str (seller_tax_number s)), opt ''vat_number'' (str (seller_vat_number s)),
      opt ''siret'' (str (seller_siret s)), opt ''global_id'' (str (seller_global_id s)),
      opt ''global_id_scheme'' (str (seller_global_id_scheme s)), opt ''contact_name'' (str (seller_contact_name s)),
      opt ''phone'' (str (seller_phone s)), opt ''email'' (str (seller_email s)), opt ''iban'' (str (seller_iban s)),
      opt ''bic'' (str (seller_bic s)), opt ''bank_name'' (str (seller_bank_name s)), opt ''id'' (str (seller_id s))])"

definition dump_buyer :: "BuyerInfo \<Rightarrow> json" where
  "dump_buyer b = JObj (concat
     [req ''name'' (JStr (buyer_name b)), opt ''address'' (map_option dump_address (buyer_address b)),
      opt ''vat_number'' (str (buyer_vat_number b)), opt ''global_id'' (str (buyer_global_id b)),
      opt ''global_id_scheme'' (str (buyer_global_id_scheme b)), opt ''contact_name'' (str (buyer_contact_name b)),
      opt ''phone'' (str (buyer_phone b)), opt ''email'' (str (buyer_email b)), opt ''id'' (str (buyer_id b))])"

definition dump_tax :: "TaxDetail \<Rightarrow> json" where
  "dump_tax t = JObj (concat
     [req ''calculated_amount'' (JStr (calculated_amount t)), req ''basis_amount'' (JStr (basis_amount t)),
      req ''rate'' (JStr (tax_rate t)), req ''category_code'' (JStr (category_code t))])"

definition dump_line :: "InvoiceLine \<Rightarrow> json" where
  "dump_line l = JObj (concat
     [req ''line_id'' (JStr (line_id l)), req ''name'' (JStr (line_name l)), req ''quantity'' (JFloat (line_quantity l)),
      req ''unit_code'' (JStr (line_unit_code l)), req ''net_price'' (JFloat (net_price l)),
      req ''net_total'' (JFloat (net_total l)), req ''vat_rate'' (JFloat (line_vat_rate l)),
      req ''vat_category'' (JStr (line_vat_category l)), opt ''note'' (str (line_note l)),
      opt ''global_id'' (str (line_global_id l)), opt ''global_id_scheme'' (str (line_global_id_scheme l)),
      opt ''seller_assigned_id'' (str (seller_assigned_id l)), opt ''buyer_assigned_id'' (str (buyer_assigned_id l)),
      opt ''description'' (str (line_description l)), opt ''country_of_origin'' (str (country_of_origin l)),
      opt ''gross_price'' (map_option JFloat (gross_price l)), opt ''price_discount'' (map_option JFloat (price_discount l)),
      opt ''billing_period'' (map_option dump_period (billing_period l))])"

definition dump_amounts :: "MonetaryAmounts \<Rightarrow> json" where
  "dump_amounts a = JObj (concat
     [req ''tax_basis_total'' (JStr (tax_basis_total a)), req ''tax_total'' (JStr (tax_total a)),
      req ''grand_total'' (JStr (grand_total a)), req ''due_payable'' (JStr (due_payable a)),
      opt ''line_total'' (str (lines_total a)), opt ''charge_total'' (str (charge_total a)),
      opt ''allowance_total'' (str (allowance_total a)), opt ''prepaid'' (str (prepaid a))])"

fun dump_note :: "Note \<Rightarrow> json" where
  "dump_note (NoteText s) = JStr s"
| "dump_note (NoteDict d) = JObj d"

definition model_dump :: "InvoiceMetadata \<Rightarrow> context_dict" where
  "model_dump m = concat
     [req ''invoice_number'' (JStr (md_invoice_number m)), req ''issue_date'' (JStr (issue_date m)),
      req ''seller'' (dump_seller (md_seller m)), req ''buyer'' (dump_buyer (md_buyer m)),
      req ''lines'' (JArr (map dump_line (md_lines m))), req ''tax_details'' (JArr (map dump_tax (tax_details m))),
      req ''amounts'' (dump_amounts (amounts m)), req ''currency_code'' (JStr (currency_code m)),
      req ''profile'' (JStr (profile_text (profile m))), opt ''due_date'' (str (due_date m)),
      opt ''payment_terms'' (str (payment_terms m)), req ''document_type_code'' (JStr (document_type_code m)),
      opt ''notes'' (map_option (\<lambda>ns. JArr (map dump_note ns)) (header_notes m)),
      opt ''buyer_reference'' (str (buyer_reference m)), opt ''contract_reference'' (str (contract_reference m)),
      opt ''delivery_date'' (str (delivery_date m)), opt ''ship_to'' (map_option dump_ship_to (ship_to m)),
      opt ''creditor_reference'' (str (creditor_reference m)),
      opt ''allowances'' (map_option (\<lambda>xs. JArr (map dump_allowance xs)) (allowances m)),
      opt ''charges'' (map_option (\<lambda>xs. JArr (map dump_allowance xs)) (charges m)),
      opt ''payment_discount'' (map_option dump_discount (payment_discount m)),
      opt ''payment_means_code'' (str (payment_means_code m))]"

section \<open>The template\<close>

definition t_context :: tmpl where
  "t_context =
    TElem ''rsm:ExchangedDocumentContext'' [] [
      TWs (nl 3),
      TElem ''ram:GuidelineSpecifiedDocumentContextParameter'' [] [
        TWs (nl 6),
        TElem ''ram:ID'' [] [
          TIf (EqText (Var ''profile'') ''minimum'') [TLit ''urn:factur-x.eu:1p0:minimum''] [
            TIf (EqText (Var ''profile'') ''basicwl'') [TLit ''urn:factur-x.eu:1p0:basicwl''] [
              TIf (EqText (Var ''profile'') ''basic'') [TLit ''urn:cen.eu:en16931:2017#compliant#urn:factur-x.eu:1p0:basic''] [
                TIf (EqText (Var ''profile'') ''extended'') [
                  TLit ''urn:cen.eu:en16931:2017#conformant#urn:factur-x.eu:1p0:extended''] [TLit ''urn:cen.eu:en16931:2017'']]]]],
        TWs (nl 4)],
      TWs (nl 2)]"

definition t_notes :: tmpl where
  "t_notes =
    TFor ''note'' (Default (Var ''notes'') (EmptyList)) [
      TWs (sp 4),
      TElem ''ram:IncludedNote'' [] [
        TWs (nl 0),
        TIf (IsMapping (Var ''note'')) [
          TIf (Attr (Var ''note'') ''subject_code'') [
            TElem ''ram:SubjectCode'' [] [TOut (Attr (Var ''note'') ''subject_code'')]] [],
          TWs (sp 6),
          TElem ''ram:Content'' [] [TOut (Attr (Var ''note'') ''content'')],
          TWs (nl 0)] [TWs (sp 6), TElem ''ram:Content'' [] [TOut (Var ''note'')], TWs (nl 0)],
        TWs (sp 4)],
      TWs (nl 0)]"

definition t_document :: tmpl where
  "t_document =
    TElem ''rsm:ExchangedDocument'' [] [
      TWs (nl 4),
      TElem ''ram:ID'' [] [TOut (Var ''invoice_number'')],
      TWs (nl 4),
      TElem ''ram:TypeCode'' [] [TOut (Default (Var ''document_type_code'') (Str ''380''))],
      TWs (nl 4),
      TElem ''ram:IssueDateTime'' [] [
        TWs (nl 6),
        TElem ''udt:DateTimeString'' [(''format'', Str ''102'')] [TOut (Var ''issue_date'')],
        TWs (nl 4)],
      TWs (nl 0),
      t_notes,
      TWs (sp 2)]"

definition t_product :: tmpl where
  "t_product =
    TElem ''ram:SpecifiedTradeProduct'' [] [
      TWs (nl 0),
      TIf (Attr (Var ''line'') ''global_id'') [
        TElem ''ram:GlobalID'' [(''schemeID'', Default (Attr (Var ''line'') ''global_id_scheme'') (Str ''0160''))] [TOut (Attr (Var ''line'') ''global_id'')]] [],
      TIf (Attr (Var ''line'') ''seller_assigned_id'') [
        TElem ''ram:SellerAssignedID'' [] [TOut (Attr (Var ''line'') ''seller_assigned_id'')]] [],
      TIf (Attr (Var ''line'') ''buyer_assigned_id'') [
        TElem ''ram:BuyerAssignedID'' [] [TOut (Attr (Var ''line'') ''buyer_assigned_id'')]] [],
      TWs (sp 12),
      TElem ''ram:Name'' [] [TOut (Attr (Var ''line'') ''name'')],
      TWs (nl 0),
      TIf (Attr (Var ''line'') ''description'') [
        TElem ''ram:Description'' [] [TOut (Attr (Var ''line'') ''description'')]] [],
      TIf (Attr (Var ''line'') ''country_of_origin'') [
        TWs (sp 12),
        TElem ''ram:OriginTradeCountry'' [] [
          TWs (nl 14),
          TElem ''ram:ID'' [] [TOut (Attr (Var ''line'') ''country_of_origin'')],
          TWs (nl 12)],
        TWs (nl 0)] [],
      TWs (sp 8)]"

definition t_line_agreement :: tmpl where
  "t_line_agreement =
    TElem ''ram:SpecifiedLineTradeAgreement'' [] [
      TWs (nl 0),
      TIf (Attr (Var ''line'') ''gross_price'') [
        TWs (sp 12),
        TElem ''ram:GrossPriceProductTradePrice'' [] [
          TWs (nl 16),
          TElem ''ram:ChargeAmount'' [] [TOut (Fixed2 (Attr (Var ''line'') ''gross_price''))],
          TWs (nl 0),
          TIf (Attr (Var ''line'') ''price_discount'') [
            TWs (sp 16),
            TElem ''ram:AppliedTradeAllowanceCharge'' [] [
              TWs (nl 20),
              TElem ''ram:ChargeIndicator'' [] [TElem ''udt:Indicator'' [] [TLit ''false'']],
              TWs (nl 20),
              TElem ''ram:ActualAmount'' [] [TOut (Fixed2 (Attr (Var ''line'') ''price_discount''))],
              TWs (nl 16)],
            TWs (nl 0)] [],
          TWs (sp 12)],
        TWs (nl 0)] [],
      TWs (sp 12),
      TElem ''ram:NetPriceProductTradePrice'' [] [
        TWs (nl 16),
        TElem ''ram:ChargeAmount'' [] [TOut (Fixed2 (Attr (Var ''line'') ''net_price''))],
        TWs (nl 12)],
      TWs (nl 8)]"

definition t_line_settlement :: tmpl where
  "t_line_settlement =
    TElem ''ram:SpecifiedLineTradeSettlement'' [] [
      TWs (nl 12),
      TElem ''ram:ApplicableTradeTax'' [] [
        TWs (nl 16),
        TElem ''ram:TypeCode'' [] [TLit ''VAT''],
        TWs (nl 16),
        TElem ''ram:CategoryCode'' [] [TOut (Attr (Var ''line'') ''vat_category'')],
        TWs (nl 16),
        TElem ''ram:RateApplicablePercent'' [] [TOut (Fixed2 (Attr (Var ''line'') ''vat_rate''))],
        TWs (nl 12)],
      TWs (nl 0),
      TIf (Attr (Var ''line'') ''billing_period'') [
        TWs (sp 12),
        TElem ''ram:BillingSpecifiedPeriod'' [] [
          TWs (nl 16),
          TElem ''ram:StartDateTime'' [] [
            TElem ''udt:DateTimeString'' [(''format'', Str ''102'')] [TOut (Attr (Attr (Var ''line'') ''billing_period'') ''start'')]],
          TWs (nl 16),
          TElem ''ram:EndDateTime'' [] [
            TElem ''udt:DateTimeString'' [(''format'', Str ''102'')] [TOut (Attr (Attr (Var ''line'') ''billing_period'') ''end'')]],
          TWs (nl 12)],
        TWs (nl 0)] [],
      TWs (sp 12),
      TElem ''ram:SpecifiedTradeSettlementLineMonetarySummation'' [] [
        TWs (nl 16),
        TElem ''ram:LineTotalAmount'' [] [TOut (Fixed2 (Attr (Var ''line'') ''net_total''))],
        TWs (nl 12)],
      TWs (nl 8)]"

definition t_line :: tmpl where
  "t_line =
    TElem ''ram:IncludedSupplyChainTradeLineItem'' [] [
      TWs (nl 8),
      TElem ''ram:AssociatedDocumentLineDocument'' [] [
        TWs (nl 12),
        TElem ''ram:LineID'' [] [TOut (Attr (Var ''line'') ''line_id'')],
        TWs (nl 0),
        TIf (Attr (Var ''line'') ''note'') [
          TElem ''ram:IncludedNote'' [] [TElem ''ram:Content'' [] [TOut (Attr (Var ''line'') ''note'')]]] [],
        TWs (sp 8)],
      TWs (nl 8),
      t_product,
      TWs (nl 8),
      t_line_agreement,
      TWs (nl 8),
      TElem ''ram:SpecifiedLineTradeDelivery'' [] [
        TWs (nl 12),
        TElem ''ram:BilledQuantity'' [(''unitCode'', Attr (Var ''line'') ''unit_code'')] [TOut (Attr (Var ''line'') ''quantity'')],
        TWs (nl 8)],
      TWs (nl 8),
      t_line_settlement,
      TWs (nl 4)]"

definition t_lines :: tmpl where
  "t_lines =
    TFor ''line'' (Var ''lines'') [TWs (sp 4), t_line, TWs (nl 0)]"

definition t_seller :: tmpl where
  "t_seller =
    TElem ''ram:SellerTradeParty'' [] [
      TWs (nl 0),
      TIf (Attr (Var ''seller'') ''id'') [TElem ''ram:ID'' [] [TOut (Attr (Var ''seller'') ''id'')]] [],
      TIf (Attr (Var ''seller'') ''global_id'') [
        TElem ''ram:GlobalID'' [(''schemeID'', Default (Attr (Var ''seller'') ''global_id_scheme'') (Str ''0088''))] [TOut (Attr (Var ''seller'') ''global_id'')]] [],
      TWs (sp 8),
      TElem ''ram:Name'' [] [TOut (Attr (Var ''seller'') ''name'')],
      TWs (nl 0),
      TIf (Attr (Var ''seller'') ''siret'') [
        TWs (sp 8),
        TElem ''ram:SpecifiedLegalOrganization'' [] [
          TWs (nl 13),
          TElem ''ram:ID'' [(''schemeID'', Str ''0002'')] [TOut (Attr (Var ''seller'') ''siret'')],
          TWs (nl 8)],
        TWs (nl 0)] [],
      TIf (Or (Attr (Var ''seller'') ''email'') (Attr (Var ''seller'') ''phone'')) [
        TWs (sp 8),
        TElem ''ram:DefinedTradeContact'' [] [
          TWs (nl 0),
          TIf (Attr (Var ''seller'') ''contact_name'') [
            TElem ''ram:PersonName'' [] [TOut (Attr (Var ''seller'') ''contact_name'')]] [],
          TIf (Attr (Var ''seller'') ''phone'') [
            TElem ''ram:TelephoneUniversalCommunication'' [] [
              TElem ''ram:CompleteNumber'' [] [TOut (Attr (Var ''seller'') ''phone'')]]] [],
          TIf (Attr (Var ''seller'') ''email'') [
            TElem ''ram:EmailURIUniversalCommunication'' [] [TElem ''ram:URIID'' [] [TOut (Attr (Var ''seller'') ''email'')]]] [],
          TWs (sp 8)],
        TWs (nl 0)] [],
      TWs (sp 8),
      TElem ''ram:PostalTradeAddress'' [] [
        TWs (nl 0),
        TIf (Attr (Var ''seller'') ''address'') [
          TIf (Attr (Attr (Var ''seller'') ''address'') ''postcode'') [
            TElem ''ram:PostcodeCode'' [] [TOut (Attr (Attr (Var ''seller'') ''address'') ''postcode'')]] [],
          TWs (sp 12),
          TElem ''ram:LineOne'' [] [
            TOut (Or (Attr (Attr (Var ''seller'') ''address'') ''line1'') (Str ''Street''))],
          TWs (nl 0),
          TIf (Attr (Attr (Var ''seller'') ''address'') ''line2'') [
            TElem ''ram:LineTwo'' [] [TOut (Attr (Attr (Var ''seller'') ''address'') ''line2'')]] [],
          TWs (sp 12),
          TElem ''ram:CityName'' [] [
            TOut (Or (Attr (Attr (Var ''seller'') ''address'') ''city'') (Str ''City''))],
          TWs (nl 12),
          TElem ''ram:CountryID'' [] [
            TOut (Or (Or (Attr (Attr (Var ''seller'') ''address'') ''country_code'') (Attr (Var ''seller'') ''country_code'')) (Str ''FR''))],
          TWs (nl 0)] [
          TWs (sp 12),
          TElem ''ram:CountryID'' [] [TOut (Or (Attr (Var ''seller'') ''country_code'') (Str ''FR''))],
          TWs (nl 0)],
        TWs (sp 8)],
      TWs (nl 0),
      TIf (Attr (Var ''seller'') ''vat_number'') [
        TWs (sp 8),
        TElem ''ram:SpecifiedTaxRegistration'' [] [
          TWs (nl 10),
          TElem ''ram:ID'' [(''schemeID'', Str ''VA'')] [TOut (Attr (Var ''seller'') ''vat_number'')],
          TWs (nl 8)],
        TWs (nl 0)] [],
      TIf (Attr (Var ''seller'') ''tax_number'') [
        TWs (sp 8),
        TElem ''ram:SpecifiedTaxRegistration'' [] [
          TWs (nl 10),
          TElem ''ram:ID'' [(''schemeID'', Str ''FC'')] [TOut (Attr (Var ''seller'') ''tax_number'')],
          TWs (nl 8)],
        TWs (nl 0)] [],
      TWs (sp 6)]"

definition t_buyer :: tmpl where
  "t_buyer =
    TElem ''ram:BuyerTradeParty'' [] [
      TWs (nl 0),
      TIf (Attr (Var ''buyer'') ''id'') [TElem ''ram:ID'' [] [TOut (Attr (Var ''buyer'') ''id'')]] [],
      TIf (Attr (Var ''buyer'') ''global_id'') [
        TElem ''ram:GlobalID'' [(''schemeID'', Default (Attr (Var ''buyer'') ''global_id_scheme'') (Str ''0088''))] [TOut (Attr (Var ''buyer'') ''global_id'')]] [],
      TWs (sp 8),
      TElem ''ram:Name'' [] [TOut (Attr (Var ''buyer'') ''name'')],
      TWs (nl 0),
      TIf (Or (Attr (Var ''buyer'') ''email'') (Attr (Var ''buyer'') ''phone'')) [
        TWs (sp 8),
        TElem ''ram:DefinedTradeContact'' [] [
          TWs (nl 0),
          TIf (Attr (Var ''buyer'') ''contact_name'') [
            TElem ''ram:PersonName'' [] [TOut (Attr (Var ''buyer'') ''contact_name'')]] [],
          TIf (Attr (Var ''buyer'') ''phone'') [
            TElem ''ram:TelephoneUniversalCommunication'' [] [
              TElem ''ram:CompleteNumber'' [] [TOut (Attr (Var ''buyer'') ''phone'')]]] [],
          TIf (Attr (Var ''buyer'') ''email'') [
            TElem ''ram:EmailURIUniversalCommunication'' [] [TElem ''ram:URIID'' [] [TOut (Attr (Var ''buyer'') ''email'')]]] [],
          TWs (sp 8)],
        TWs (nl 0)] [],
      TIf (Attr (Var ''buyer'') ''address'') [
        TWs (sp 8),
        TElem ''ram:PostalTradeAddress'' [] [
          TWs (nl 0),
          TIf (Attr (Attr (Var ''buyer'') ''address'') ''postcode'') [
            TElem ''ram:PostcodeCode'' [] [TOut (Attr (Attr (Var ''buyer'') ''address'') ''postcode'')]] [],
          TWs (sp 12),
          TElem ''ram:LineOne'' [] [
            TOut (Or (Attr (Attr (Var ''buyer'') ''address'') ''line1'') (Str ''Street''))],
          TWs (nl 12),
          TElem ''ram:CityName'' [] [
            TOut (Or (Attr (Attr (Var ''buyer'') ''address'') ''city'') (Str ''City''))],
          TWs (nl 12),
          TElem ''ram:CountryID'' [] [
            TOut (Or (Attr (Attr (Var ''buyer'') ''address'') ''country_code'') (Str ''FR''))],
          TWs (nl 8)],
        TWs (nl 0)] [],
      TIf (Attr (Var ''buyer'') ''vat_number'') [
        TWs (sp 8),
        TElem ''ram:SpecifiedTaxRegistration'' [] [
          TWs (nl 10),
          TElem ''ram:ID'' [(''schemeID'', Str ''VA'')] [TOut (Attr (Var ''buyer'') ''vat_number'')],
          TWs (nl 8)],
        TWs (nl 0)] [],
      TWs (sp 6)]"

definition t_agreement :: tmpl where
  "t_agreement =
    TElem ''ram:ApplicableHeaderTradeAgreement'' [] [
      TWs (nl 0),
      TIf (Var ''buyer_reference'') [TElem ''ram:BuyerReference'' [] [TOut (Var ''buyer_reference'')]] [],
      TWs (sp 6),
      t_seller,
      TWs (nl 6),
      t_buyer,
      TWs (nl 0),
      TIf (Var ''contract_reference'') [
        TWs (sp 6),
        TElem ''ram:ContractReferencedDocument'' [] [TWs (nl 8), TElem ''ram:IssuerAssignedID'' [] [TOut (Var ''contract_reference'')], TWs (nl 6)],
        TWs (nl 0)] [],
      TWs (sp 4)]"

definition t_delivery :: tmpl where
  "t_delivery =
    TElem ''ram:ApplicableHeaderTradeDelivery'' [] [
      TWs (nl 0),
      TIf (Var ''ship_to'') [
        TWs (sp 6),
        TElem ''ram:ShipToTradeParty'' [] [
          TWs (nl 0),
          TIf (Attr (Var ''ship_to'') ''id'') [TElem ''ram:ID'' [] [TOut (Attr (Var ''ship_to'') ''id'')]] [],
          TIf (Attr (Var ''ship_to'') ''global_id'') [
            TElem ''ram:GlobalID'' [(''schemeID'', Default (Attr (Var ''ship_to'') ''global_id_scheme'') (Str ''0088''))] [TOut (Attr (Var ''ship_to'') ''global_id'')]] [],
          TWs (sp 8),
          TElem ''ram:Name'' [] [TOut (Attr (Var ''ship_to'') ''name'')],
          TWs (nl 8),
          TElem ''ram:PostalTradeAddress'' [] [
            TWs (nl 0),
            TIf (Attr (Attr (Var ''ship_to'') ''address'') ''postcode'') [
              TElem ''ram:PostcodeCode'' [] [TOut (Attr (Attr (Var ''ship_to'') ''address'') ''postcode'')]] [],
            TWs (sp 12),
            TElem ''ram:LineOne'' [] [TOut (Attr (Attr (Var ''ship_to'') ''address'') ''line1'')],
            TWs (nl 12),
            TElem ''ram:CityName'' [] [TOut (Attr (Attr (Var ''ship_to'') ''address'') ''city'')],
            TWs (nl 12),
            TElem ''ram:CountryID'' [] [TOut (Attr (Attr (Var ''ship_to'') ''address'') ''country_code'')],
            TWs (nl 8)],
          TWs (nl 6)],
        TWs (nl 0)] [],
      TIf (Var ''delivery_date'') [
        TWs (sp 6),
        TElem ''ram:ActualDeliverySupplyChainEvent'' [] [
          TWs (nl 8),
          TElem ''ram:OccurrenceDateTime'' [] [
            TWs (nl 10),
            TElem ''udt:DateTimeString'' [(''format'', Str ''102'')] [TOut (Var ''delivery_date'')],
            TWs (nl 8)],
          TWs (nl 6)],
        TWs (nl 0)] [],
      TWs (sp 4)]"

definition t_payment_means :: tmpl where
  "t_payment_means =
    TElem ''ram:SpecifiedTradeSettlementPaymentMeans'' [] [
      TWs (nl 8),
      TElem ''ram:TypeCode'' [] [TOut (Default (Var ''payment_means_code'') (Str ''58''))],
      TWs (nl 0),
      TIf (Attr (Var ''seller'') ''iban'') [
        TWs (sp 8),
        TElem ''ram:PayeePartyCreditorFinancialAccount'' [] [
          TWs (nl 10),
          TElem ''ram:IBANID'' [] [TOut (Attr (Var ''seller'') ''iban'')],
          TWs (nl 0),
          TIf (Attr (Var ''seller'') ''bank_name'') [
            TElem ''ram:AccountName'' [] [TOut (Attr (Var ''seller'') ''bank_name'')]] [],
          TWs (sp 8)],
        TWs (nl 0),
        TIf (Attr (Var ''seller'') ''bic'') [
          TWs (sp 8),
          TElem ''ram:PayeeSpecifiedCreditorFinancialInstitution'' [] [TWs (nl 10), TElem ''ram:BICID'' [] [TOut (Attr (Var ''seller'') ''bic'')], TWs (nl 8)],
          TWs (nl 0)] []] [],
      TWs (sp 6)]"

definition t_taxes :: tmpl where
  "t_taxes =
    TFor ''tax'' (Var ''tax_details'') [
      TWs (sp 6),
      TElem ''ram:ApplicableTradeTax'' [] [
        TWs (nl 12),
        TElem ''ram:CalculatedAmount'' [] [TOut (Attr (Var ''tax'') ''calculated_amount'')],
        TWs (nl 12),
        TElem ''ram:TypeCode'' [] [TLit ''VAT''],
        TWs (nl 0),
        TIf (Attr (Var ''tax'') ''exemption_reason'') [
          TElem ''ram:ExemptionReason'' [] [TOut (Attr (Var ''tax'') ''exemption_reason'')]] [],
        TWs (sp 12),
        TElem ''ram:BasisAmount'' [] [TOut (Attr (Var ''tax'') ''basis_amount'')],
        TWs (nl 12),
        TElem ''ram:CategoryCode'' [] [TOut (Attr (Var ''tax'') ''category_code'')],
        TWs (nl 12),
        TElem ''ram:RateApplicablePercent'' [] [TOut (Attr (Var ''tax'') ''rate'')],
        TWs (nl 6)],
      TWs (nl 0)]"

definition t_allowances :: tmpl where
  "t_allowances =
    TFor ''allowance'' (Default (Var ''allowances'') (EmptyList)) [
      TWs (sp 6),
      TElem ''ram:SpecifiedTradeAllowanceCharge'' [] [
        TWs (nl 8),
        TElem ''ram:ChargeIndicator'' [] [TElem ''udt:Indicator'' [] [TLit ''false'']],
        TWs (nl 8),
        TElem ''ram:ActualAmount'' [] [TOut (Fixed2 (Attr (Var ''allowance'') ''amount''))],
        TWs (nl 0),
        TIf (Attr (Var ''allowance'') ''reason'') [TElem ''ram:Reason'' [] [TOut (Attr (Var ''allowance'') ''reason'')]] [],
        TIf (Attr (Var ''allowance'') ''reason_code'') [
          TElem ''ram:ReasonCode'' [] [TOut (Attr (Var ''allowance'') ''reason_code'')]] [],
        TWs (sp 8),
        TElem ''ram:CategoryTradeTax'' [] [
          TWs (nl 12),
          TElem ''ram:TypeCode'' [] [TLit ''VAT''],
          TWs (nl 12),
          TElem ''ram:CategoryCode'' [] [TOut (Attr (Var ''allowance'') ''vat_category'')],
          TWs (nl 12),
          TElem ''ram:RateApplicablePercent'' [] [TOut (Fixed2 (Attr (Var ''allowance'') ''vat_rate''))],
          TWs (nl 8)],
        TWs (nl 6)],
      TWs (nl 0)]"

definition t_charges :: tmpl where
  "t_charges =
    TFor ''charge'' (Default (Var ''charges'') (EmptyList)) [
      TWs (sp 6),
      TElem ''ram:SpecifiedTradeAllowanceCharge'' [] [
        TWs (nl 8),
        TElem ''ram:ChargeIndicator'' [] [TElem ''udt:Indicator'' [] [TLit ''true'']],
        TWs (nl 8),
        TElem ''ram:ActualAmount'' [] [TOut (Fixed2 (Attr (Var ''charge'') ''amount''))],
        TWs (nl 0),
        TIf (Attr (Var ''charge'') ''reason'') [TElem ''ram:Reason'' [] [TOut (Attr (Var ''charge'') ''reason'')]] [],
        TIf (Attr (Var ''charge'') ''reason_code'') [
          TElem ''ram:ReasonCode'' [] [TOut (Attr (Var ''charge'') ''reason_code'')]] [],
        TWs (sp 8),
        TElem ''ram:CategoryTradeTax'' [] [
          TWs (nl 12),
          TElem ''ram:TypeCode'' [] [TLit ''VAT''],
          TWs (nl 12),
          TElem ''ram:CategoryCode'' [] [TOut (Attr (Var ''charge'') ''vat_category'')],
          TWs (nl 12),
          TElem ''ram:RateApplicablePercent'' [] [TOut (Fixed2 (Attr (Var ''charge'') ''vat_rate''))],
          TWs (nl 8)],
        TWs (nl 6)],
      TWs (nl 0)]"

definition t_payment_terms :: tmpl where
  "t_payment_terms =
    TElem ''ram:SpecifiedTradePaymentTerms'' [] [
      TWs (nl 0),
      TIf (Var ''payment_terms'') [TElem ''ram:Description'' [] [TOut (Var ''payment_terms'')]] [],
      TIf (Var ''due_date'') [
        TWs (sp 8),
        TElem ''ram:DueDateDateTime'' [] [
          TWs (nl 12),
          TElem ''udt:DateTimeString'' [(''format'', Str ''102'')] [TOut (Var ''due_date'')],
          TWs (nl 8)],
        TWs (nl 0)] [],
      TIf (Var ''mandate_id'') [TElem ''ram:DirectDebitMandateID'' [] [TOut (Var ''mandate_id'')]] [],
      TIf (Var ''payment_discount'') [
        TWs (sp 8),
        TElem ''ram:ApplicableTradePaymentDiscountTerms'' [] [
          TWs (nl 10),
          TElem ''ram:BasisPeriodMeasure'' [(''unitCode'', Str ''DAY'')] [TOut (Attr (Var ''payment_discount'') ''days'')],
          TWs (nl 10),
          TElem ''ram:CalculationPercent'' [] [TOut (Attr (Var ''payment_discount'') ''percent'')],
          TWs (nl 8)],
        TWs (nl 0)] [],
      TWs (sp 6)]"

definition t_summation :: tmpl where
  "t_summation =
    TElem ''ram:SpecifiedTradeSettlementHeaderMonetarySummation'' [] [
      TWs (nl 8),
      TElem ''ram:LineTotalAmount'' [] [
        TOut (Default (Attr (Var ''amounts'') ''line_total'') (Attr (Var ''amounts'') ''tax_basis_total''))],
      TWs (nl 0),
      TIf (IsDefined (Attr (Var ''amounts'') ''charge_total'')) [
        TElem ''ram:ChargeTotalAmount'' [] [TOut (Attr (Var ''amounts'') ''charge_total'')]] [],
      TIf (IsDefined (Attr (Var ''amounts'') ''allowance_total'')) [
        TElem ''ram:AllowanceTotalAmount'' [] [TOut (Attr (Var ''amounts'') ''allowance_total'')]] [],
      TWs (sp 8),
      TElem ''ram:TaxBasisTotalAmount'' [] [TOut (Attr (Var ''amounts'') ''tax_basis_total'')],
      TWs (nl 8),
      TElem ''ram:TaxTotalAmount'' [(''currencyID'', Default (Var ''currency_code'') (Str ''EUR''))] [TOut (Attr (Var ''amounts'') ''tax_total'')],
      TWs (nl 8),
      TElem ''ram:GrandTotalAmount'' [] [TOut (Attr (Var ''amounts'') ''grand_total'')],
      TWs (nl 0),
      TIf (Attr (Var ''amounts'') ''prepaid'') [
        TElem ''ram:TotalPrepaidAmount'' [] [TOut (Attr (Var ''amounts'') ''prepaid'')]] [],
      TWs ([CHR 0x09, CHR 0x09]),
      TElem ''ram:DuePayableAmount'' [] [TOut (Attr (Var ''amounts'') ''due_payable'')],
      TWs (nl 6)]"

definition t_settlement :: tmpl where
  "t_settlement =
    TElem ''ram:ApplicableHeaderTradeSettlement'' [] [
      TWs (nl 0),
      TIf (Var ''creditor_reference'') [
        TElem ''ram:CreditorReferenceID'' [] [TOut (Var ''creditor_reference'')]] [],
      TWs (sp 6),
      TElem ''ram:InvoiceCurrencyCode'' [] [TOut (Default (Var ''currency_code'') (Str ''EUR''))],
      TWs (nl 0),
      TIf (Or (Attr (Var ''seller'') ''iban'') (Var ''payment_means_code'')) [TWs (sp 6), t_payment_means, TWs (nl 0)] [],
      t_taxes,
      TIf (Var ''billing_period'') [
        TWs (sp 6),
        TElem ''ram:BillingSpecifiedPeriod'' [] [
          TWs (nl 8),
          TElem ''ram:StartDateTime'' [] [
            TElem ''udt:DateTimeString'' [(''format'', Str ''102'')] [TOut (Attr (Var ''billing_period'') ''start'')]],
          TWs (nl 8),
          TElem ''ram:EndDateTime'' [] [
            TElem ''udt:DateTimeString'' [(''format'', Str ''102'')] [TOut (Attr (Var ''billing_period'') ''end'')]],
          TWs (nl 6)],
        TWs (nl 0)] [],
      t_allowances,
      t_charges,
      TIf (Or (Or (Var ''due_date'') (Var ''payment_terms'')) (Var ''payment_discount'')) [TWs (sp 6), t_payment_terms, TWs (nl 0)] [],
      TWs (sp 6),
      t_summation,
      TWs (nl 4)]"

definition t_transaction :: tmpl where
  "t_transaction =
    TElem ''rsm:SupplyChainTradeTransaction'' [] [TWs (nl 0), t_lines, TWs (sp 4), t_agreement, TWs (nl 4), t_delivery, TWs (nl 4), t_settlement, TWs (nl 2)]"

definition t_invoice :: tmpl where
  "t_invoice =
    TElem ''rsm:CrossIndustryInvoice'' [(''xmlns:rsm'', Str ''urn:un:unece:uncefact:data:standard:CrossIndustryInvoice:100''),
        (''xmlns:qdt'', Str ''urn:un:unece:uncefact:data:standard:QualifiedDataType:100''),
        (''xmlns:ram'', Str ''urn:un:unece:uncefact:data:standard:ReusableAggregateBusinessInformationEntity:100''),
        (''xmlns:xs'', Str ''http://www.w3.org/2001/XMLSchema''),
        (''xmlns:udt'', Str ''urn:un:unece:uncefact:data:standard:UnqualifiedDataType:100'')] [TWs (nl 2), t_context, TWs (nl 2), t_document, TWs (nl 2), t_transaction, TWs (nl 0)]"

definition render_template :: "(pystr \<Rightarrow> pystr) \<Rightarrow> InvoiceMetadata \<Rightarrow> pystr result" where
  "render_template rep m =
     bindR (expand rep (model_dump m) t_invoice) (\<lambda>ns. Inr (xml_prolog @ concat (map xml_text ns)))"

section \<open>Lookups in the context\<close>

lemma map_of_req: "map_of (req k v @ r) k' = (if k = k' then Some v else map_of r k')"
  "map_of (req k v) k' = (if k = k' then Some v else None)"
  by (simp_all add: req_def)

lemma map_of_opt:
  "map_of (opt k v @ r) k' = (if k = k' then (case v of None \<Rightarrow> map_of r k' | Some j \<Rightarrow> Some j) else map_of r k')"
  "map_of (opt k v) k' = (if k = k' then v else None)"
  by (auto simp: opt_def split: option.split)

lemma case_option_id [simp]: "(case v of None \<Rightarrow> None | Some j \<Rightarrow> Some j) = v"
  by (cases v) simp_all

lemma get_attr_JObj [simp]: "get_attr (Some (JObj d)) a = Inr (map_of d a)"
  by (simp add: get_attr_def)

named_theorems ctx_simps \<open>the entries of the context\<close>

lemma model_dump_fields [ctx_simps]:
  "map_of (model_dump m) ''invoice_number'' = Some (JStr (md_invoice_number m))"
  "map_of (model_dump m) ''issue_date'' = Some (JStr (issue_date m))"
  "map_of (model_dump m) ''seller'' = Some (dump_seller (md_seller m))"
  "map_of (model_dump m) ''buyer'' = Some (dump_buyer (md_buyer m))"
  "map_of (model_dump m) ''lines'' = Some (JArr (map dump_line (md_lines m)))"
  "map_of (model_dump m) ''tax_details'' = Some (JArr (map dump_tax (tax_details m)))"
  "map_of (model_dump m) ''amounts'' = Some (dump_amounts (amounts m))"
  "map_of (model_dump m) ''currency_code'' = Some (JStr (currency_code m))"
  "map_of (model_dump m) ''profile'' = Some (JStr (profile_text (profile m)))"
  "map_of (model_dump m) ''due_date'' = str (due_date m)"
  "map_of (model_dump m) ''payment_terms'' = str (payment_terms m)"
  "map_of (model_dump m) ''document_type_code'' = Some (JStr (document_type_code m))"
  "map_of (model_dump m) ''notes'' = map_option (\<lambda>ns. JArr (map dump_note ns)) (header_notes m)"
  "map_of (model_dump m) ''buyer_reference'' = str (buyer_reference m)"
  "map_of (model_dump m) ''contract_reference'' = str (contract_reference m)"
  "map_of (model_dump m) ''delivery_date'' = str (delivery_date m)"
  "map_of (model_dump m) ''ship_to'' = map_option dump_ship_to (ship_to m)"
  "map_of (model_dump m) ''creditor_reference'' = str (creditor_reference m)"
  "map_of (model_dump m) ''allowances'' = map_option (\<lambda>xs. JArr (map dump_allowance xs)) (allowances m)"
  "map_of (model_dump m) ''charges'' = map_option (\<lambda>xs. JArr (map dump_allowance xs)) (charges m)"
  "map_of (model_dump m) ''payment_discount'' = map_option dump_discount (payment_discount m)"
  "map_of (model_dump m) ''payment_means_code'' = str (payment_means_code m)"
  "map_of (model_dump m) ''billing_period'' = None"
  "map_of (model_dump m) ''mandate_id'' = None"
  by (simp_all add: model_dump_def map_of_req map_of_opt del: map_of_append split: option.split)

lemma seller_fields [ctx_simps]:
  "get_attr (Some (dump_seller s)) ''name'' = Inr (Some (JStr (seller_name s)))"
  "get_attr (Some (dump_seller s)) ''address'' = Inr (map_option dump_address (seller_address s))"
  "get_attr (Some (dump_seller s)) ''tax_number'' = Inr (str (seller_tax_number s))"
  "get_attr (Some (dump_seller s)) ''vat_number'' = Inr (str (seller_vat_number s))"
  "get_attr (Some (dump_seller s)) ''siret'' = Inr (str (seller_siret s))"
  "get_attr (Some (dump_seller s)) ''global_id'' = Inr (str (seller_global_id s))"
  "get_attr (Some (dump_seller s)) ''global_id_scheme'' = Inr (str (seller_global_id_scheme s))"
  "get_attr (Some (dump_seller s)) ''contact_name'' = Inr (str (seller_contact_name s))"
  "get_attr (Some (dump_seller s)) ''phone'' = Inr (str (seller_phone s))"
  "get_attr (Some (dump_seller s)) ''email'' = Inr (str (seller_email s))"
  "get_attr (Some (dump_seller s)) ''iban'' = Inr (str (seller_iban s))"
  "get_attr (Some (dump_seller s)) ''bic'' = Inr (str (seller_bic s))"
  "get_attr (Some (dump_seller s)) ''bank_name'' = Inr (str (seller_bank_name s))"
  "get_attr (Some (dump_seller s)) ''id'' = Inr (str (seller_id s))"
  "get_attr (Some (dump_seller s)) ''country_code'' = Inr None"
  by (simp_all add: dump_seller_def map_of_req map_of_opt del: map_of_append split: option.split)

lemma buyer_fields [ctx_simps]:
  "get_attr (Some (dump_buyer s)) ''name'' = Inr (Some (JStr (buyer_name s)))"
  "get_attr (Some (dump_buyer s)) ''address'' = Inr (map_option dump_address (buyer_address s))"
  "get_attr (Some (dump_buyer s)) ''vat_number'' = Inr (str (buyer_vat_number s))"
  "get_attr (Some (dump_buyer s)) ''global_id'' = Inr (str (buyer_global_id s))"
  "get_attr (Some (dump_buyer s)) ''global_id_scheme'' = Inr (str (buyer_global_id_scheme s))"
  "get_attr (Some (dump_buyer s)) ''contact_name'' = Inr (str (buyer_contact_name s))"
  "get_attr (Some (dump_buyer s)) ''phone'' = Inr (str (buyer_phone s))"
  "get_attr (Some (dump_buyer s)) ''email'' = Inr (str (buyer_email s))"
  "get_attr (Some (dump_buyer s)) ''id'' = Inr (str (buyer_id s))"
  by (simp_all add: dump_buyer_def map_of_req map_of_opt del: map_of_append split: option.split)

lemma address_fields [ctx_simps]:
  "get_attr (Some (dump_address a)) ''line1'' = Inr (Some (JStr (line1 a)))"
  "get_attr (Some (dump_address a)) ''line2'' = Inr (str (line2 a))"
  "get_attr (Some (dump_address a)) ''postcode'' = Inr (Some (JStr (postcode a)))"
  "get_attr (Some (dump_address a)) ''city'' = Inr (Some (JStr (city a)))"
  "get_attr (Some (dump_address a)) ''country_code'' = Inr (Some (JStr (country_code a)))"
  by (simp_all add: dump_address_def map_of_req map_of_opt del: map_of_append split: option.split)

lemma line_fields [ctx_simps]:
  "get_attr (Some (dump_line l)) ''line_id'' = Inr (Some (JStr (line_id l)))"
  "get_attr (Some (dump_line l)) ''name'' = Inr (Some (JStr (line_name l)))"
  "get_attr (Some (dump_line l)) ''quantity'' = Inr (Some (JFloat (line_quantity l)))"
  "get_attr (Some (dump_line l)) ''unit_code'' = Inr (Some (JStr (line_unit_code l)))"
  "get_attr (Some (dump_line l)) ''net_price'' = Inr (Some (JFloat (net_price l)))"
  "get_attr (Some (dump_line l)) ''net_total'' = Inr (Some (JFloat (net_total l)))"
  "get_attr (Some (dump_line l)) ''vat_rate'' = Inr (Some (JFloat (line_vat_rate l)))"
  "get_attr (Some (dump_line l)) ''vat_category'' = Inr (Some (JStr (line_vat_category l)))"
  "get_attr (Some (dump_line l)) ''note'' = Inr (str (line_note l))"
  "get_attr (Some (dump_line l)) ''global_id'' = Inr (str (line_global_id l))"
  "get_attr (Some (dump_line l)) ''global_id_scheme'' = Inr (str (line_global_id_scheme l))"
  "get_attr (Some (dump_line l)) ''seller_assigned_id'' = Inr (str (seller_assigned_id l))"
  "get_attr (Some (dump_line l)) ''buyer_assigned_id'' = Inr (str (buyer_assigned_id l))"
  "get_attr (Some (dump_line l)) ''description'' = Inr (str (line_description l))"
  "get_attr (Some (dump_line l)) ''country_of_origin'' = Inr (str (country_of_origin l))"
  "get_attr (Some (dump_line l)) ''gross_price'' = Inr (map_option JFloat (gross_price l))"
  "get_attr (Some (dump_line l)) ''price_discount'' = Inr (map_option JFloat (price_discount l))"
  "get_attr (Some (dump_line l)) ''billing_period'' = Inr (map_option dump_period (billing_period l))"
  by (simp_all add: dump_line_def map_of_req map_of_opt del: map_of_append split: option.split)

lemma other_fields [ctx_simps]:
  "get_attr (Some (dump_period p)) ''start'' = Inr (Some (JStr (period_start p)))"
  "get_attr (Some (dump_period p)) ''end'' = Inr (Some (JStr (period_end p)))"
  "get_attr (Some (dump_ship_to s)) ''id'' = Inr (str (ship_id s))"
  "get_attr (Some (dump_ship_to s)) ''global_id'' = Inr (str (ship_global_id s))"
  "get_attr (Some (dump_ship_to s)) ''global_id_scheme'' = Inr (str (ship_global_id_scheme s))"
  "get_attr (Some (dump_ship_to s)) ''name'' = Inr (Some (JStr (ship_name s)))"
  "get_attr (Some (dump_ship_to s)) ''address'' = Inr (Some (dump_address (ship_address s)))"
  "get_attr (Some (dump_discount d)) ''days'' = Inr (Some (JInt (discount_days d)))"
  "get_attr (Some (dump_discount d)) ''percent'' = Inr (Some (JFloat (discount_percent d)))"
  "get_attr (Some (dump_tax t)) ''calculated_amount'' = Inr (Some (JStr (calculated_amount t)))"
  "get_attr (Some (dump_tax t)) ''basis_amount'' = Inr (Some (JStr (basis_amount t)))"
  "get_attr (Some (dump_tax t)) ''rate'' = Inr (Some (JStr (tax_rate t)))"
  "get_attr (Some (dump_tax t)) ''category_code'' = Inr (Some (JStr (category_code t)))"
  "get_attr (Some (dump_tax t)) ''exemption_reason'' = Inr None"
  "get_attr (Some (dump_allowance a)) ''amount'' = Inr (Some (JFloat (ac_amount a)))"
  "get_attr (Some (dump_allowance a)) ''reason'' = Inr (str (ac_reason a))"
  "get_attr (Some (dump_allowance a)) ''reason_code'' = Inr (str (ac_reason_code a))"
  "get_attr (Some (dump_allowance a)) ''vat_category'' = Inr (Some (JStr (ac_vat_category a)))"
  "get_attr (Some (dump_allowance a)) ''vat_rate'' = Inr (Some (JFloat (ac_vat_rate a)))"
  "get_attr (Some (dump_amounts a')) ''tax_basis_total'' = Inr (Some (JStr (tax_basis_total a')))"
  "get_attr (Some (dump_amounts a')) ''tax_total'' = Inr (Some (JStr (tax_total a')))"
  "get_attr (Some (dump_amounts a')) ''grand_total'' = Inr (Some (JStr (grand_total a')))"
  "get_attr (Some (dump_amounts a')) ''due_payable'' = Inr (Some (JStr (due_payable a')))"
  "get_attr (Some (dump_amounts a')) ''line_total'' = Inr (str (lines_total a'))"
  "get_attr (Some (dump_amounts a')) ''charge_total'' = Inr (str (charge_total a'))"
  "get_attr (Some (dump_amounts a')) ''allowance_total'' = Inr (str (allowance_total a'))"
  "get_attr (Some (dump_amounts a')) ''prepaid'' = Inr (str (prepaid a'))"
  by (simp_all add: dump_period_def dump_ship_to_def dump_discount_def dump_tax_def dump_allowance_def dump_amounts_def map_of_req map_of_opt del: map_of_append split: option.split)

lemma opt_truthy_simps [ctx_simps]:
  "opt_truthy None = False" "opt_truthy (Some j) = json_truthy j" "opt_truthy (str v) = truthy v"
  by (simp_all add: opt_truthy_def truthy_def split: option.split)

lemma json_truthy_dump [ctx_simps]:
  "json_truthy (dump_address a)" "json_truthy (dump_ship_to s)" "json_truthy (dump_discount d)" "json_truthy (dump_period p)"
  by (simp_all add: dump_address_def dump_ship_to_def dump_discount_def dump_period_def req_def)

lemma out_text_simps [ctx_simps]:
  "out_text rep None = []" "out_text rep (Some (JStr s)) = s" "out_text rep (str v) = get_or v []"
  "out_text rep (Some (JFloat x)) = float_repr x" "out_text rep (Some (JInt n)) = int_str n"
  by (simp_all add: out_text_def get_or_def split: option.split)

lemma if_Inr [ctx_simps]: "(if b then Inr x else Inr y) = Inr (if b then x else y)"
  by simp

lemma default_str [ctx_simps]: "(case str v of None \<Rightarrow> Some (JStr d) | Some j \<Rightarrow> str v) = Some (JStr (get_or v d))"
  by (cases v) simp_all

section \<open>The template renders\<close>

text \<open>The context inside the loop over the lines.\<close>

abbreviation line_ctx :: "InvoiceMetadata \<Rightarrow> InvoiceLine \<Rightarrow> context_dict" where
  "line_ctx m l \<equiv> (''line'', dump_line l) # model_dump m"

named_theorems part_simps \<open>the parts of the template render\<close>

lemma concatR_total: "\<forall>r \<in> set rs. \<exists>x. r = Inr x \<Longrightarrow> \<exists>x. concatR rs = Inr x"
  by (induction rs) fastforce+

lemma t_context_renders [part_simps]: "expand rep (model_dump m) t_context = Inr (trees rep (model_dump m) [t_context])"
  by (rule trees_expand) (simp add: t_context_def ctx_simps cong: if_cong)

lemma t_notes_renders [part_simps]: "expand rep (model_dump m) t_notes = Inr (trees rep (model_dump m) [t_notes])"
proof (rule trees_expand)
  have "\<exists>x. expands rep ((''note'', dump_note n) # model_dump m) body = Inr x"
    if "t_notes = TFor ''note'' e body" for n e body
    using that unfolding t_notes_def
    by (cases n) (auto simp: ctx_simps get_attr_def cong: if_cong)
  then show "\<exists>x. expand rep (model_dump m) t_notes = Inr x"
    by (cases "header_notes m") (auto simp: t_notes_def ctx_simps intro!: concatR_total)
qed

lemma t_document_renders [part_simps]: "expand rep (model_dump m) t_document = Inr (trees rep (model_dump m) [t_document])"
  by (rule trees_expand) (simp add: t_document_def ctx_simps part_simps cong: if_cong)

lemma t_product_renders [part_simps]: "expand rep (line_ctx m l) t_product = Inr (trees rep (line_ctx m l) [t_product])"
  by (rule trees_expand) (simp add: t_product_def ctx_simps cong: if_cong)

lemma t_line_agreement_renders [part_simps]:
  "expand rep (line_ctx m l) t_line_agreement = Inr (trees rep (line_ctx m l) [t_line_agreement])"
  by (rule trees_expand, cases "gross_price l"; cases "price_discount l")
    (simp_all add: t_line_agreement_def ctx_simps cong: if_cong)

lemma t_line_settlement_renders [part_simps]:
  "expand rep (line_ctx m l) t_line_settlement = Inr (trees rep (line_ctx m l) [t_line_settlement])"
  by (rule trees_expand, cases "billing_period l")
    (simp_all add: t_line_settlement_def ctx_simps cong: if_cong)

lemma t_line_renders [part_simps]: "expand rep (line_ctx m l) t_line = Inr (trees rep (line_ctx m l) [t_line])"
  by (rule trees_expand) (simp add: t_line_def ctx_simps part_simps cong: if_cong)

lemma t_lines_renders [part_simps]: "expand rep (model_dump m) t_lines = Inr (trees rep (model_dump m) [t_lines])"
  by (rule trees_expand) (auto simp: t_lines_def ctx_simps part_simps intro!: concatR_total)

lemma t_seller_renders [part_simps]: "expand rep (model_dump m) t_seller = Inr (trees rep (model_dump m) [t_seller])"
  by (rule trees_expand, cases "seller_address (md_seller m)") (simp_all add: t_seller_def ctx_simps cong: if_cong)

lemma t_buyer_renders [part_simps]: "expand rep (model_dump m) t_buyer = Inr (trees rep (model_dump m) [t_buyer])"
  by (rule trees_expand, cases "buyer_address (md_buyer m)") (simp_all add: t_buyer_def ctx_simps cong: if_cong)

lemma t_agreement_renders [part_simps]: "expand rep (model_dump m) t_agreement = Inr (trees rep (model_dump m) [t_agreement])"
  by (rule trees_expand) (simp add: t_agreement_def ctx_simps part_simps cong: if_cong)

lemma t_delivery_renders [part_simps]: "expand rep (model_dump m) t_delivery = Inr (trees rep (model_dump m) [t_delivery])"
  by (rule trees_expand, cases "ship_to m") (simp_all add: t_delivery_def ctx_simps cong: if_cong)

lemma t_payment_means_renders [part_simps]:
  "expand rep (model_dump m) t_payment_means = Inr (trees rep (model_dump m) [t_payment_means])"
  by (rule trees_expand) (simp add: t_payment_means_def ctx_simps cong: if_cong)

lemma t_taxes_renders [part_simps]: "expand rep (model_dump m) t_taxes = Inr (trees rep (model_dump m) [t_taxes])"
  by (rule trees_expand) (auto simp: t_taxes_def ctx_simps intro!: concatR_total)

lemma t_allowances_renders [part_simps]: "expand rep (model_dump m) t_allowances = Inr (trees rep (model_dump m) [t_allowances])"
  by (rule trees_expand, cases "allowances m") (auto simp: t_allowances_def ctx_simps intro!: concatR_total cong: if_cong)

lemma t_charges_renders [part_simps]: "expand rep (model_dump m) t_charges = Inr (trees rep (model_dump m) [t_charges])"
  by (rule trees_expand, cases "charges m") (auto simp: t_charges_def ctx_simps intro!: concatR_total cong: if_cong)

lemma t_payment_terms_renders [part_simps]:
  "expand rep (model_dump m) t_payment_terms = Inr (trees rep (model_dump m) [t_payment_terms])"
  by (rule trees_expand, cases "payment_discount m") (simp_all add: t_payment_terms_def ctx_simps cong: if_cong)

lemma t_summation_renders [part_simps]: "expand rep (model_dump m) t_summation = Inr (trees rep (model_dump m) [t_summation])"
  by (rule trees_expand) (simp add: t_summation_def ctx_simps cong: if_cong)

lemma t_settlement_renders [part_simps]: "expand rep (model_dump m) t_settlement = Inr (trees rep (model_dump m) [t_settlement])"
  by (rule trees_expand, cases "payment_discount m") (simp_all add: t_settlement_def ctx_simps part_simps cong: if_cong)

lemma t_transaction_renders [part_simps]:
  "expand rep (model_dump m) t_transaction = Inr (trees rep (model_dump m) [t_transaction])"
  by (rule trees_expand) (simp add: t_transaction_def ctx_simps part_simps cong: if_cong)

lemma t_invoice_renders: "expand rep (model_dump m) t_invoice = Inr (trees rep (model_dump m) [t_invoice])"
  by (rule trees_expand) (simp add: t_invoice_def ctx_simps part_simps cong: if_cong)

text \<open>The document of an invoice, and its text.\<close>

definition invoice_tree :: "(pystr \<Rightarrow> pystr) \<Rightarrow> InvoiceMetadata \<Rightarrow> xml" where
  "invoice_tree rep m = hd (trees rep (model_dump m) [t_invoice])"

lemma trees_invoice: "trees rep (model_dump m) [t_invoice] = [invoice_tree rep m]"
  by (simp add: invoice_tree_def t_invoice_def trees.simps)

lemma render_template_tree: "render_template rep m = Inr (xml_prolog @ xml_text (invoice_tree rep m))"
  by (simp add: render_template_def t_invoice_renders trees_invoice)

lemma template_named:
  "tmpl_named [''rsm'', ''qdt'', ''ram'', ''xs'', ''udt''] [TElem ''rsm:CrossIndustryInvoice'' []
     [TWs (nl 2), t_context, TWs (nl 2), t_document, TWs (nl 2), t_transaction, TWs (nl 0)]]"
  by code_simp

lemma invoice_tree_well_formed: "well_formed (invoice_tree rep m)"
proof -
  let ?b = "[TWs (nl 2), t_context, TWs (nl 2), t_document, TWs (nl 2), t_transaction, TWs (nl 0)]"
  obtain as where t: "invoice_tree rep m = Elem ''rsm:CrossIndustryInvoice'' as (trees rep (model_dump m) ?b)"
    and as: "map fst as = [''xmlns:rsm'', ''xmlns:qdt'', ''xmlns:ram'', ''xmlns:xs'', ''xmlns:udt'']" "list_all (\<lambda>a. snd a \<noteq> []) as"
    by (simp add: invoice_tree_def t_invoice_def trees.simps attrs_of_def val_def ctx_simps)
  have ps: "map (\<lambda>a. drop 6 (fst a)) as = [''rsm'', ''qdt'', ''ram'', ''xs'', ''udt'']"
    using arg_cong [OF as(1), of "map (drop 6)"] by (simp add: comp_def)
  have "list_all (\<lambda>k. startswith k ''xmlns:'') (map fst as)" unfolding as(1) by code_simp
  with as(2) have decl: "list_all (\<lambda>a. startswith (fst a) ''xmlns:'' \<and> snd a \<noteq> []) as"
    by (simp add: list_all_iff)
  have names: "well_named [''rsm'', ''qdt'', ''ram'', ''xs'', ''udt''] (Elem ''rsm:CrossIndustryInvoice'' [] (trees rep (model_dump m) ?b))"
    using trees_named [OF template_named, of rep "model_dump m"] by (simp add: trees.simps attrs_of_def)
  have ok: "distinct [''rsm'', ''qdt'', ''ram'', ''xs'', ''udt'']"
    "list_all (\<lambda>p. letters p \<and> \<not> startswith p ''xml'') [''rsm'', ''qdt'', ''ram'', ''xs'', ''udt'']"
    by code_simp+
  show ?thesis unfolding t well_formed.simps Let_def ps using decl names ok by (simp only: simp_thms)
qed

end
