(* ===== verification/Verdict.thy ===== *)
theory Verdict
  imports Main
begin

text \<open>
  The contract between a validator and its clients: a run on an input yields a verdict and a list of
  entries, some of them blocking; on the inputs where the external packages behave as documented
  (\<open>good\<close>) the verdict is positive exactly when no entry blocks.  The lite validator, the hybrid
  engine and the hybrid service are interpretations; the endpoints and the generator are clients.
\<close>

locale verdict =
  fixes run :: "'i \<Rightarrow> 'o"
    and good :: "'i \<Rightarrow> bool"
    and accepted :: "'o \<Rightarrow> bool"
    and entries :: "'o \<Rightarrow> 'e list"
    and blocking :: "'e \<Rightarrow> bool"
  assumes accepted_iff: "good i \<Longrightarrow> accepted (run i) \<longleftrightarrow> filter blocking (entries (run i)) = []"
begin

lemma refused_reason:
  assumes "good i" and "\<not> accepted (run i)"
  shows "\<exists>e \<in> set (entries (run i)). blocking e"
  using accepted_iff [OF assms(1)] assms(2) by (auto simp: filter_empty_conv)

lemma refused_nonempty: "good i \<Longrightarrow> \<not> accepted (run i) \<Longrightarrow> entries (run i) \<noteq> []"
  using refused_reason by fastforce

lemma clean_accepted: "good i \<Longrightarrow> entries (run i) = [] \<Longrightarrow> accepted (run i)"
  by (simp add: accepted_iff)

text \<open>A client that only looks for entries is as strict as the verdict, and no stricter where every
  entry blocks.\<close>

lemma entries_strict:
  assumes "good i" and "\<forall>e \<in> set (entries (run i)). blocking e"
  shows "accepted (run i) \<longleftrightarrow> entries (run i) = []"
  using assms accepted_iff by (auto simp: filter_empty_conv)

end

end
