(* ===== verification/Hybrid_Engine.thy ===== *)
theory Hybrid_Engine
  imports Xml_Lib Verdict
begin

text \<open>
  The hybrid validation engine, \<^verbatim>\<open>app/services/hybrid_validator.py\<close>: XSD validation through lxml and
  the official Schematron rules through SaxonC, both guarded by an exception handler that turns a
  failure of the engine into an entry of the report.
\<close>

datatype ValidationLayer = XSD | SCHEMATRON | SYSTEM

fun layer_value :: "ValidationLayer \<Rightarrow> pystr" where
  "layer_value XSD = ''xsd''"
| "layer_value SCHEMATRON = ''schematron''"
| "layer_value SYSTEM = ''system''"

record ValidationError =
  rule_id :: pystr
  message :: pystr
  location :: pystr
  severity :: pystr
  layer :: ValidationLayer

record ValidationResult =
  is_valid :: bool
  xsd_valid :: bool
  schematron_valid :: bool
  errors :: "ValidationError list"

definition is_error_severity :: "pystr \<Rightarrow> bool" where
  "is_error_severity s \<longleftrightarrow> str_lower s \<in> set [''error'', ''fatal'']"

definition error_count :: "ValidationResult \<Rightarrow> int" where
  "error_count r = int (length (filter (\<lambda>e. is_error_severity (severity e)) (errors r)))"

definition warning_count :: "ValidationResult \<Rightarrow> int" where
  "warning_count r = int (length (filter (\<lambda>e. str_lower (severity e) = ''warning'') (errors r)))"

text \<open>
  The external engines: the file system, the schema compiler (\<^verbatim>\<open>etree.parse\<close> and
  \<^verbatim>\<open>etree.XMLSchema\<close>), the schema's \<^verbatim>\<open>validate\<close> with its error log of message, line and column, and
  the SaxonC run of a stylesheet on a document, whose result is a text or \<^verbatim>\<open>None\<close>.  \<open>eng_lxml\<close>
  parses with the engine's parser options, \<open>svrl_parse\<close> with lxml's default parser.
\<close>

record xsd_log_entry =
  log_message :: pystr
  log_line :: int
  log_column :: int

record ('x, 's) engine_lib =
  eng_lxml :: "'x lxml"
  path_exists :: "pystr \<Rightarrow> bool"
  load_schema :: "pystr \<Rightarrow> 's result"
  schema_validate :: "'s \<Rightarrow> 'x \<Rightarrow> bool"
  error_log :: "'s \<Rightarrow> 'x \<Rightarrow> xsd_log_entry list"
  saxon_transform :: "pystr \<Rightarrow> pystr \<Rightarrow> pystr option result"
  svrl_parse :: "bytes \<Rightarrow> 'x result"

record HybridValidator =
  xsd_path :: "pystr option"
  xslt_path :: "pystr option"

text \<open>The state of the local variables \<^verbatim>\<open>errors\<close>, \<^verbatim>\<open>xsd_valid\<close> and \<^verbatim>\<open>schematron_valid\<close>.\<close>

record run_state =
  rs_errors :: "ValidationError list"
  rs_xsd :: bool
  rs_schematron :: bool

definition add_error :: "ValidationError \<Rightarrow> run_state \<Rightarrow> run_state" where
  "add_error e s = s\<lparr>rs_errors := rs_errors s @ [e]\<rparr>"

text \<open>\<^verbatim>\<open>path and os.path.exists(path)\<close>.\<close>

definition usable :: "('x, 's) engine_lib \<Rightarrow> pystr option \<Rightarrow> pystr option" where
  "usable E p = (case p of None \<Rightarrow> None | Some q \<Rightarrow> if q \<noteq> [] \<and> path_exists E q then Some q else None)"

section \<open>XSD stage\<close>

definition xsd_entry :: "xsd_log_entry \<Rightarrow> ValidationError" where
  "xsd_entry err = \<lparr>rule_id = ''XSD-INVALID'', message = log_message err,
     location = ''Line '' @ int_str (log_line err) @ '', Col '' @ int_str (log_column err),
     severity = ''error'', layer = XSD\<rparr>"

definition system_error :: "pystr \<Rightarrow> exn \<Rightarrow> ValidationError" where
  "system_error i e = \<lparr>rule_id = i, message = exn_str e, location = [], severity = ''error'', layer = SYSTEM\<rparr>"

definition xsd_stage :: "('x, 's) engine_lib \<Rightarrow> pystr option \<Rightarrow> bytes \<Rightarrow> run_state \<Rightarrow> run_state" where
  "xsd_stage E path xml_content s =
     (case usable E path of
        None \<Rightarrow> s
      | Some p \<Rightarrow>
          (case load_schema E p of
             Inl e \<Rightarrow> (add_error (system_error ''SYS-XSD'' e) s)\<lparr>rs_xsd := False\<rparr>
           | Inr schema \<Rightarrow>
               (case fromstring (eng_lxml E) xml_content of
                  Inl e \<Rightarrow> (add_error (system_error ''SYS-XSD'' e) s)\<lparr>rs_xsd := False\<rparr>
                | Inr doc \<Rightarrow>
                    if \<not> schema_validate E schema doc
                    then foldl (\<lambda>t err. add_error (xsd_entry err) t) (s\<lparr>rs_xsd := False\<rparr>)
                           (error_log E schema doc)
                    else s)))"

section \<open>Schematron stage\<close>

definition svrl_namespace :: nsmap where
  "svrl_namespace = [(''svrl'', ''http://purl.oclc.org/dsdl/svrl'')]"

text \<open>
  One failed assertion: the updated state together with the exception that ended the iteration, if
  any.  The validity flag is set before the text is read.
\<close>

definition failed_assert :: "'x lxml \<Rightarrow> 'x xnode \<Rightarrow> run_state \<Rightarrow> run_state \<times> exn option" where
  "failed_assert X fa s =
     (case node_get X ''role'' fa of
        Inl e \<Rightarrow> (s, Some e)
      | Inr r \<Rightarrow>
          (let role = str_lower (or_default r ''error'');
               s' = (if role \<in> set [''error'', ''fatal''] then s\<lparr>rs_schematron := False\<rparr> else s) in
           case bindR (node_xpath X svrl_namespace ''svrl:text'' fa) (\<lambda>text_nodes.
                  case text_nodes of
                    [] \<Rightarrow> Inr ''Rule violation''
                  | t # ts \<Rightarrow> bindR (node_text X t) (\<lambda>msg.
                      case msg of None \<Rightarrow> Inl (no_attr ''strip'') | Some m \<Rightarrow> Inr m)) of
             Inl e \<Rightarrow> (s', Some e)
           | Inr msg \<Rightarrow>
               (case (node_get X ''id'' fa, node_get X ''location'' fa) of
                  (Inr i, Inr l) \<Rightarrow>
                    (add_error \<lparr>rule_id = get_or i ''RULE-FAIL'', message = str_strip msg,
                       location = get_or l [], severity = role, layer = SCHEMATRON\<rparr> s', None)
                | (Inl e, _) \<Rightarrow> (s', Some e)
                | (_, Inl e) \<Rightarrow> (s', Some e))))"

fun failed_asserts :: "'x lxml \<Rightarrow> 'x xnode list \<Rightarrow> run_state \<Rightarrow> run_state \<times> exn option" where
  "failed_asserts X [] s = (s, None)"
| "failed_asserts X (fa # fas) s =
     (case failed_assert X fa s of
        (s', Some e) \<Rightarrow> (s', Some e)
      | (s', None) \<Rightarrow> failed_asserts X fas s')"

text \<open>The report of the rules: decoding, transformation, parsing of the report and the XPath query.\<close>

definition svrl_asserts :: "('x, 's) engine_lib \<Rightarrow> pystr \<Rightarrow> bytes \<Rightarrow> 'x xnode list result" where
  "svrl_asserts E p xml_content =
     (case decode_utf8 xml_content of
        None \<Rightarrow> Inl (ValueError ''invalid utf-8'')
      | Some xml_text \<Rightarrow>
          bindR (saxon_transform E p xml_text) (\<lambda>svrl_result.
          case svrl_result of
            None \<Rightarrow> Inl (no_attr ''encode'')
          | Some t \<Rightarrow>
              bindR (svrl_parse E t) (\<lambda>svrl_doc.
              xpath (eng_lxml E) svrl_namespace ''//svrl:failed-assert'' svrl_doc)))"

definition saxon_failure :: "exn \<Rightarrow> run_state \<Rightarrow> run_state" where
  "saxon_failure e s = (add_error (system_error ''SYS-SAXON'' e) s)\<lparr>rs_schematron := False\<rparr>"

definition schematron_stage :: "('x, 's) engine_lib \<Rightarrow> pystr option \<Rightarrow> bytes \<Rightarrow> run_state \<Rightarrow> run_state" where
  "schematron_stage E path xml_content s =
     (case usable E path of
        None \<Rightarrow> s
      | Some p \<Rightarrow>
          (case svrl_asserts E p xml_content of
             Inl e \<Rightarrow> saxon_failure e s
           | Inr fas \<Rightarrow>
               (case failed_asserts (eng_lxml E) fas s of
                  (s', None) \<Rightarrow> s'
                | (s', Some e) \<Rightarrow> saxon_failure e s')))"

section \<open>The engine\<close>

definition engine_validate :: "('x, 's) engine_lib \<Rightarrow> HybridValidator \<Rightarrow> bytes \<Rightarrow> ValidationResult" where
  "engine_validate E V xml_content =
     (let s\<^sub>0 = \<lparr>rs_errors = [], rs_xsd = True, rs_schematron = True\<rparr>;
          s\<^sub>1 = xsd_stage E (xsd_path V) xml_content s\<^sub>0;
          s\<^sub>2 = schematron_stage E (xslt_path V) xml_content s\<^sub>1 in
      \<lparr>is_valid = rs_xsd s\<^sub>2 \<and> rs_schematron s\<^sub>2, xsd_valid = rs_xsd s\<^sub>2,
       schematron_valid = rs_schematron s\<^sub>2, errors = rs_errors s\<^sub>2\<rparr>)"

section \<open>Report and flags agree\<close>

definition blocking :: "ValidationError \<Rightarrow> bool" where
  "blocking e \<longleftrightarrow> is_error_severity (severity e)"

text \<open>
  Which stage an entry comes from: its layer says so, except for the system entries of the two exception
  handlers, which share the layer \<^const>\<open>SYSTEM\<close> and differ in their identifier.
\<close>

definition of_xsd :: "ValidationError \<Rightarrow> bool" where
  "of_xsd e \<longleftrightarrow> layer e = XSD \<or> layer e = SYSTEM \<and> rule_id e = ''SYS-XSD''"

definition of_schematron :: "ValidationError \<Rightarrow> bool" where
  "of_schematron e \<longleftrightarrow> layer e = SCHEMATRON \<or> layer e = SYSTEM \<and> rule_id e = ''SYS-SAXON''"

lemma origin_unique: "of_xsd e \<Longrightarrow> \<not> of_schematron e"
  by (auto simp: of_xsd_def of_schematron_def)

lemma origin_simps [simp]:
  "of_xsd (xsd_entry x)" "of_xsd (system_error ''SYS-XSD'' y)" "of_schematron (system_error ''SYS-SAXON'' y)"
  "of_schematron \<lparr>rule_id = i, message = m, location = l, severity = r, layer = SCHEMATRON\<rparr>"
  by (simp_all add: of_xsd_def of_schematron_def xsd_entry_def system_error_def)

text \<open>
  A stage extends the report by \<open>new\<close>, entries of its own, and clears its flag exactly when \<open>new\<close> has a
  blocking entry.
\<close>

definition stage_ok ::
    "(ValidationError \<Rightarrow> bool) \<Rightarrow> (run_state \<Rightarrow> bool) \<Rightarrow> (run_state \<Rightarrow> bool) \<Rightarrow> run_state \<Rightarrow> run_state \<Rightarrow> bool" where
  "stage_ok own flag other s s' \<longleftrightarrow>
     (\<exists>new. rs_errors s' = rs_errors s @ new \<and> list_all own new \<and> other s' = other s \<and>
        (flag s' \<longleftrightarrow> flag s \<and> filter blocking new = []))"

lemma stage_ok_refl [simp, intro]: "stage_ok w f g s s"
  by (auto simp: stage_ok_def)

lemma stage_ok_trans [trans]: "stage_ok w f g s t \<Longrightarrow> stage_ok w f g t u \<Longrightarrow> stage_ok w f g s u"
  unfolding stage_ok_def by (metis append_assoc filter_append append_is_Nil_conv list_all_append)

lemma add_error_sel [simp]:
  "rs_errors (add_error e s) = rs_errors s @ [e]" "rs_xsd (add_error e s) = rs_xsd s"
  "rs_schematron (add_error e s) = rs_schematron s"
  by (simp_all add: add_error_def)

lemma is_error_severity_simps [simp]:
  "is_error_severity ''error''" "is_error_severity ''fatal''"
  "is_error_severity (str_lower r) \<longleftrightarrow> str_lower r = ''error'' \<or> str_lower r = ''fatal''"
  by (code_simp, code_simp) (simp add: is_error_severity_def)

lemma blocking_simps [simp]:
  "blocking (xsd_entry e)" "blocking (system_error i x)"
  "blocking \<lparr>rule_id = i, message = m, location = l, severity = r, layer = k\<rparr> \<longleftrightarrow> is_error_severity r"
  by (simp_all add: blocking_def xsd_entry_def system_error_def)

lemma xsd_log_errors:
  "rs_errors (foldl (\<lambda>t err. add_error (xsd_entry err) t) s log) = rs_errors s @ map xsd_entry log"
  "rs_xsd (foldl (\<lambda>t err. add_error (xsd_entry err) t) s log) = rs_xsd s"
  "rs_schematron (foldl (\<lambda>t err. add_error (xsd_entry err) t) s log) = rs_schematron s"
  by (induction log arbitrary: s) simp_all

text \<open>lxml logs at least one entry for a document that does not validate.\<close>

definition xsd_logs :: "('x, 's) engine_lib \<Rightarrow> bool" where
  "xsd_logs E \<longleftrightarrow> (\<forall>s d. \<not> schema_validate E s d \<longrightarrow> error_log E s d \<noteq> [])"

lemma all_map_xsd: "list_all of_xsd (map xsd_entry log)"
  by (simp add: list_all_iff)

lemma filter_map_xsd: "filter blocking (map xsd_entry log) = map xsd_entry log"
  by (induction log) auto

lemma xsd_stage_ok:
  assumes "xsd_logs E"
  shows "stage_ok of_xsd rs_xsd rs_schematron s (xsd_stage E p c s)"
proof (cases "usable E p")
  case (Some q)
  with assms show ?thesis
    by (auto simp: xsd_stage_def stage_ok_def xsd_log_errors filter_map_xsd all_map_xsd xsd_logs_def
        split: sum.split)
qed (simp add: xsd_stage_def)

lemma failed_assert_ok:
  assumes "failed_assert X fa s = (s', r)"
  shows "r = None \<Longrightarrow> stage_ok of_schematron rs_schematron rs_xsd s s'"
    and "rs_errors s' = rs_errors s @ [] \<or> r = None" and "rs_xsd s' = rs_xsd s"
  using assms
  by (auto simp: failed_assert_def stage_ok_def Let_def split: sum.splits if_splits)

lemma failed_asserts_ok:
  "failed_asserts X fas s = (s', r) \<Longrightarrow>
     (r = None \<longrightarrow> stage_ok of_schematron rs_schematron rs_xsd s s') \<and>
     rs_xsd s' = rs_xsd s \<and> (\<exists>new. rs_errors s' = rs_errors s @ new \<and> list_all of_schematron new)"
proof (induction X fas s rule: failed_asserts.induct)
  case (2 X fa fas s)
  obtain t q where t: "failed_assert X fa s = (t, q)" by fastforce
  note first = failed_assert_ok [OF t]
  show ?case
  proof (cases q)
    case None
    with 2 t have "(r = None \<longrightarrow> stage_ok of_schematron rs_schematron rs_xsd t s') \<and> rs_xsd s' = rs_xsd t \<and>
        (\<exists>new. rs_errors s' = rs_errors t @ new \<and> list_all of_schematron new)" by simp
    with first None show ?thesis by (auto intro: stage_ok_trans simp: stage_ok_def)
  next
    case (Some e)
    with 2 t first show ?thesis by auto
  qed
qed simp

lemma saxon_failure_ok:
  assumes "rs_errors t = rs_errors s @ new" and "list_all of_schematron new" and "rs_xsd t = rs_xsd s"
  shows "stage_ok of_schematron rs_schematron rs_xsd s (saxon_failure e t)"
  using assms by (auto simp: saxon_failure_def stage_ok_def)

lemma schematron_stage_ok: "stage_ok of_schematron rs_schematron rs_xsd s (schematron_stage E p c s)"
proof (cases "usable E p")
  case (Some q)
  show ?thesis
  proof (cases "svrl_asserts E q c")
    case (Inl e)
    with Some show ?thesis by (simp add: schematron_stage_def saxon_failure_ok)
  next
    case (Inr fas)
    obtain t r where t: "failed_asserts (eng_lxml E) fas s = (t, r)" by fastforce
    from failed_asserts_ok [OF t] Some Inr t show ?thesis
      by (cases r) (auto simp: schematron_stage_def intro: saxon_failure_ok)
  qed
qed (simp add: schematron_stage_def)

lemma engine_flags:
  assumes "xsd_logs E"
  shows "\<exists>xs ss. errors (engine_validate E V c) = xs @ ss \<and> list_all of_xsd xs \<and> list_all of_schematron ss \<and>
    (xsd_valid (engine_validate E V c) \<longleftrightarrow> filter blocking xs = []) \<and>
    (schematron_valid (engine_validate E V c) \<longleftrightarrow> filter blocking ss = [])"
proof -
  define s\<^sub>0 where "s\<^sub>0 = \<lparr>rs_errors = [], rs_xsd = True, rs_schematron = True\<rparr>"
  define s\<^sub>1 where "s\<^sub>1 = xsd_stage E (xsd_path V) c s\<^sub>0"
  have "stage_ok of_xsd rs_xsd rs_schematron s\<^sub>0 s\<^sub>1"
    and "stage_ok of_schematron rs_schematron rs_xsd s\<^sub>1 (schematron_stage E (xslt_path V) c s\<^sub>1)"
    by (simp_all add: s\<^sub>1_def xsd_stage_ok [OF assms] schematron_stage_ok)
  then show ?thesis
    by (auto simp: engine_validate_def Let_def s\<^sub>0_def [symmetric] s\<^sub>1_def [symmetric] stage_ok_def)
      (auto simp: s\<^sub>0_def)
qed

text \<open>A list of entries of the first stage followed by entries of the second is split by their origin.\<close>

lemma split_by_origin:
  assumes "list_all of_xsd xs" and "list_all of_schematron ss"
  shows "filter of_xsd (xs @ ss) = xs" and "filter of_schematron (xs @ ss) = ss"
proof -
  have "\<forall>e \<in> set xs. of_xsd e \<and> \<not> of_schematron e" "\<forall>e \<in> set ss. of_schematron e \<and> \<not> of_xsd e"
    using assms origin_unique by (auto simp: list_all_iff)
  then show "filter of_xsd (xs @ ss) = xs" and "filter of_schematron (xs @ ss) = ss"
    by (simp_all add: filter_True filter_False)
qed

lemma engine_origins:
  assumes "xsd_logs E"
  shows "errors (engine_validate E V c) =
      filter of_xsd (errors (engine_validate E V c)) @ filter of_schematron (errors (engine_validate E V c)) \<and>
    (xsd_valid (engine_validate E V c) \<longleftrightarrow> filter blocking (filter of_xsd (errors (engine_validate E V c))) = []) \<and>
    (schematron_valid (engine_validate E V c) \<longleftrightarrow>
       filter blocking (filter of_schematron (errors (engine_validate E V c))) = [])"
proof -
  obtain xs ss where e: "errors (engine_validate E V c) = xs @ ss" "list_all of_xsd xs" "list_all of_schematron ss"
    "xsd_valid (engine_validate E V c) \<longleftrightarrow> filter blocking xs = []"
    "schematron_valid (engine_validate E V c) \<longleftrightarrow> filter blocking ss = []"
    using engine_flags [OF assms] by blast
  show ?thesis unfolding e(1) split_by_origin [OF e(2,3)] using e(4,5) by blast
qed

interpretation engine: verdict
  "\<lambda>(E, V, c). engine_validate E V c" "\<lambda>(E, V, c). xsd_logs E" is_valid errors blocking
proof
  fix i :: "('a, 'b) engine_lib \<times> HybridValidator \<times> bytes"
  assume g: "case i of (E, V, c) \<Rightarrow> xsd_logs E"
  obtain E V c where i: "i = (E, V, c)" by (cases i)
  have "is_valid (engine_validate E V c) \<longleftrightarrow>
      xsd_valid (engine_validate E V c) \<and> schematron_valid (engine_validate E V c)"
    by (simp add: engine_validate_def Let_def)
  with engine_flags [of E V c] g
  show "is_valid (case i of (E, V, c) \<Rightarrow> engine_validate E V c) \<longleftrightarrow>
      filter blocking (errors (case i of (E, V, c) \<Rightarrow> engine_validate E V c)) = []"
    by (auto simp: i)
qed

section \<open>What a readable report yields\<close>

definition assert_role :: "'x lxml \<Rightarrow> 'x \<Rightarrow> pystr" where
  "assert_role X a = str_lower (or_default (el_attr X a ''role'') ''error'')"

definition assert_entry :: "'x lxml \<Rightarrow> ('x \<Rightarrow> pystr) \<Rightarrow> 'x \<Rightarrow> ValidationError" where
  "assert_entry X msg a = \<lparr>rule_id = get_or (el_attr X a ''id'') ''RULE-FAIL'', message = str_strip (msg a),
     location = get_or (el_attr X a ''location'') [], severity = assert_role X a, layer = SCHEMATRON\<rparr>"

text \<open>The first \<^verbatim>\<open>svrl:text\<close> of the assertion has text \<open>m\<close>, or there is none and \<open>m\<close> is the default.\<close>

definition reads :: "'x lxml \<Rightarrow> 'x \<Rightarrow> pystr \<Rightarrow> bool" where
  "reads X a m \<longleftrightarrow>
     (case xpath X svrl_namespace ''svrl:text'' a of
        Inr [] \<Rightarrow> m = ''Rule violation''
      | Inr (XEl t # ts) \<Rightarrow> el_text X t = Some m
      | _ \<Rightarrow> False)"

lemma failed_assert_reads:
  assumes "reads X a (msg a)"
  shows "failed_assert X (XEl a) s =
    (add_error (assert_entry X msg a)
       (if assert_role X a \<in> {''error'', ''fatal''} then s\<lparr>rs_schematron := False\<rparr> else s), None)"
  using assms
  by (auto simp: reads_def failed_assert_def assert_role_def assert_entry_def Let_def
      split: sum.splits list.splits xnode.splits)

lemma failed_asserts_reads:
  assumes "\<forall>a \<in> set fas. reads X a (msg a)"
  shows "failed_asserts X (map XEl fas) s =
    (s\<lparr>rs_errors := rs_errors s @ map (assert_entry X msg) fas,
       rs_schematron := rs_schematron s \<and> (\<forall>a \<in> set fas. assert_role X a \<notin> {''error'', ''fatal''})\<rparr>, None)"
  using assms
proof (induction fas arbitrary: s)
  case (Cons a fas)
  then have "reads X a (msg a)" by simp
  note first = failed_assert_reads [where msg = msg, OF this, of s]
  from Cons show ?case by (simp add: first add_error_def)
qed simp

lemma error_count_zero: "error_count r = 0 \<longleftrightarrow> filter blocking (errors r) = []"
  by (simp add: error_count_def blocking_def [abs_def])

section \<open>Properties\<close>

text \<open>
  A concrete engine for the witnesses: the document has elements 3 and 4 in its Schematron report,
  element 4 with role \<^verbatim>\<open>Warning\<close>, and it satisfies its schema unless it is the text \<^verbatim>\<open>bad\<close>.
\<close>

definition demo_engine :: "(int, unit) engine_lib" where
  "demo_engine = \<lparr>eng_lxml = \<lparr>fromstring = (\<lambda>b. Inr (if b = ''bad'' then 0 else 1)),
       xpath = (\<lambda>ns p x. Inr (if p = ''//svrl:failed-assert'' \<and> x = 2 then [XEl 3, XEl 4]
         else if p = ''svrl:text'' then [XEl (x + 10)] else [])),
       el_text = (\<lambda>x. Some '' rule text ''),
       el_attr = (\<lambda>x a. if x = 4 \<and> a = ''role'' then Some ''Warning''
         else if a = ''id'' then Some ''BR-01'' else None)\<rparr>,
     path_exists = (\<lambda>p. True), load_schema = (\<lambda>p. Inr ()), schema_validate = (\<lambda>s d. d \<noteq> 0),
     error_log = (\<lambda>s d. [\<lparr>log_message = ''element missing'', log_line = 3, log_column = 7\<rparr>]),
     saxon_transform = (\<lambda>p t. Inr (Some t)), svrl_parse = (\<lambda>b. Inr 2)\<rparr>"

lemma demo_engine_logs: "xsd_logs demo_engine"
  by (simp add: xsd_logs_def demo_engine_def)

text \<open>
  Claim C11.  The verdict of the hybrid engine is the conjunction of its two layers and is positive
  exactly when the report has no entry of severity error or fatal.  Flags and report agree layer by layer:
  every entry comes from exactly one of the two stages, which its layer tells, or its identifier in the case
  of a system entry; the entries of the XSD stage come first; and each flag is cleared exactly by a blocking
  entry of its own stage.  The only assumption is that lxml logs a reason for every document it refuses.
\<close>

theorem engine_verdict:
  assumes "xsd_logs E"
  shows "(is_valid (engine_validate E V c) \<longleftrightarrow>
      xsd_valid (engine_validate E V c) \<and> schematron_valid (engine_validate E V c)) \<and>
    (is_valid (engine_validate E V c) \<longleftrightarrow> error_count (engine_validate E V c) = 0) \<and>
    (\<exists>xs ss. errors (engine_validate E V c) = xs @ ss \<and>
      (\<forall>e \<in> set xs. layer e = XSD \<or> layer e = SYSTEM \<and> rule_id e = ''SYS-XSD'') \<and>
      (\<forall>e \<in> set ss. layer e = SCHEMATRON \<or> layer e = SYSTEM \<and> rule_id e = ''SYS-SAXON'')) \<and>
    (xsd_valid (engine_validate E V c) \<longleftrightarrow> (\<forall>e \<in> set (errors (engine_validate E V c)).
      layer e = XSD \<or> layer e = SYSTEM \<and> rule_id e = ''SYS-XSD'' \<longrightarrow> \<not> blocking e)) \<and>
    (schematron_valid (engine_validate E V c) \<longleftrightarrow> (\<forall>e \<in> set (errors (engine_validate E V c)).
      layer e = SCHEMATRON \<or> layer e = SYSTEM \<and> rule_id e = ''SYS-SAXON'' \<longrightarrow> \<not> blocking e))"
proof (intro conjI)
  show "is_valid (engine_validate E V c) \<longleftrightarrow>
      xsd_valid (engine_validate E V c) \<and> schematron_valid (engine_validate E V c)"
    by (simp add: engine_validate_def Let_def)
  show "is_valid (engine_validate E V c) \<longleftrightarrow> error_count (engine_validate E V c) = 0"
    using engine.accepted_iff [of "(E, V, c)"] assms by (simp add: error_count_zero)
  show "\<exists>xs ss. errors (engine_validate E V c) = xs @ ss \<and>
      (\<forall>e \<in> set xs. layer e = XSD \<or> layer e = SYSTEM \<and> rule_id e = ''SYS-XSD'') \<and>
      (\<forall>e \<in> set ss. layer e = SCHEMATRON \<or> layer e = SYSTEM \<and> rule_id e = ''SYS-SAXON'')"
    using engine_flags [OF assms, of V c] unfolding list_all_iff of_xsd_def of_schematron_def by blast
qed (use engine_origins [OF assms, of V c] in
    \<open>auto simp: filter_empty_conv of_xsd_def of_schematron_def\<close>)

theorem engine_verdict_witness:
  "error_count (engine_validate demo_engine \<lparr>xsd_path = Some ''x'', xslt_path = Some ''y''\<rparr> ''bad'') = 2 \<and>
   \<not> is_valid (engine_validate demo_engine \<lparr>xsd_path = Some ''x'', xslt_path = Some ''y''\<rparr> ''bad'')"
proof -
  have "error_count (engine_validate demo_engine \<lparr>xsd_path = Some ''x'', xslt_path = Some ''y''\<rparr> ''bad'') = 2"
    by code_simp
  with engine_verdict [OF demo_engine_logs, of "\<lparr>xsd_path = Some ''x'', xslt_path = Some ''y''\<rparr>" "''bad''"]
  show ?thesis by linarith
qed

text \<open>
  Claim C27.  When the Schematron report can be read, every failed assertion becomes one entry, in
  report order, with its rule identifier, stripped text and lower-case role, and the layer is refused
  exactly when some role is error or fatal.  An assertion without a \<^verbatim>\<open>role\<close> attribute counts as an
  error: where no assertion has one, as in reports that carry \<^verbatim>\<open>flag\<close> instead, the layer is accepted
  only if there is no failed assertion at all, warnings included.
\<close>

theorem engine_report:
  assumes "usable E path = Some p" and "svrl_asserts E p c = Inr (map XEl fas)"
    and "\<forall>a \<in> set fas. reads (eng_lxml E) a (msg a)"
  shows "schematron_stage E path c s =
      s\<lparr>rs_errors := rs_errors s @ map (assert_entry (eng_lxml E) msg) fas,
        rs_schematron := rs_schematron s \<and>
          (\<forall>a \<in> set fas. assert_role (eng_lxml E) a \<notin> {''error'', ''fatal''})\<rparr> \<and>
    ((\<forall>a \<in> set fas. el_attr (eng_lxml E) a ''role'' = None) \<longrightarrow>
      rs_schematron (schematron_stage E path c s) = (rs_schematron s \<and> fas = []))"
proof -
  have role: "assert_role X a = ''error''" if "el_attr X a ''role'' = None" for X and a :: 'a
    by (simp add: assert_role_def that) code_simp
  have eq: "schematron_stage E path c s =
      s\<lparr>rs_errors := rs_errors s @ map (assert_entry (eng_lxml E) msg) fas,
        rs_schematron := rs_schematron s \<and>
          (\<forall>a \<in> set fas. assert_role (eng_lxml E) a \<notin> {''error'', ''fatal''})\<rparr>"
    using assms by (simp add: schematron_stage_def failed_asserts_reads)
  show ?thesis
    unfolding eq by (cases fas) (auto simp: role)
qed

theorem engine_report_witness:
  "rs_schematron (schematron_stage demo_engine (Some ''y'') ''doc''
     \<lparr>rs_errors = [], rs_xsd = True, rs_schematron = True\<rparr>) = False"
proof -
  have a: "svrl_asserts demo_engine ''y'' ''doc'' = Inr (map XEl [3, 4])"
    by (simp add: svrl_asserts_def decode_utf8_def demo_engine_def) code_simp
  have u: "usable demo_engine (Some ''y'') = Some ''y''"
    by (simp add: usable_def demo_engine_def)
  have r: "\<forall>a \<in> set [3, 4]. reads (eng_lxml demo_engine) a '' rule text ''"
    by (simp add: reads_def demo_engine_def)
  have n: "assert_role (eng_lxml demo_engine) 3 = ''error''" by code_simp
  show ?thesis
    using engine_report [OF u a, where msg = "\<lambda>a. '' rule text ''", OF r] n by simp
qed

text \<open>
  Claim C26.  The engine fails closed.  If the schema cannot be loaded, the document cannot be parsed,
  or the Schematron run raises anywhere, in the transformation or while reading an assertion, the
  document is refused and the report ends with or contains the matching system entry.
\<close>

theorem engine_fail_closed:
  "(usable E (xsd_path V) = Some p \<longrightarrow> load_schema E p = Inl e \<longrightarrow>
      \<not> is_valid (engine_validate E V c) \<and>
      system_error ''SYS-XSD'' e \<in> set (errors (engine_validate E V c))) \<and>
   (usable E (xsd_path V) = Some p \<longrightarrow> load_schema E p = Inr sch \<longrightarrow>
      fromstring (eng_lxml E) c = Inl e \<longrightarrow>
      \<not> is_valid (engine_validate E V c) \<and>
      system_error ''SYS-XSD'' e \<in> set (errors (engine_validate E V c))) \<and>
   (usable E (xslt_path V) = Some q \<longrightarrow> svrl_asserts E q c = Inl e \<longrightarrow>
      \<not> is_valid (engine_validate E V c) \<and>
      last (errors (engine_validate E V c)) = system_error ''SYS-SAXON'' e) \<and>
   (usable E (xslt_path V) = Some q \<longrightarrow> svrl_asserts E q c = Inr fas \<longrightarrow>
      snd (failed_asserts (eng_lxml E) fas
        (xsd_stage E (xsd_path V) c \<lparr>rs_errors = [], rs_xsd = True, rs_schematron = True\<rparr>)) = Some e \<longrightarrow>
      \<not> is_valid (engine_validate E V c) \<and>
      last (errors (engine_validate E V c)) = system_error ''SYS-SAXON'' e)"
proof -
  have xsd: "\<not> is_valid (engine_validate E V c) \<and>
      system_error ''SYS-XSD'' e \<in> set (errors (engine_validate E V c))"
    if "xsd_stage E (xsd_path V) c \<lparr>rs_errors = [], rs_xsd = True, rs_schematron = True\<rparr> =
      \<lparr>rs_errors = [system_error ''SYS-XSD'' e], rs_xsd = False, rs_schematron = True\<rparr>"
    using schematron_stage_ok [of "\<lparr>rs_errors = [system_error ''SYS-XSD'' e], rs_xsd = False,
        rs_schematron = True\<rparr>" E "xslt_path V" c]
    by (auto simp: engine_validate_def Let_def that stage_ok_def)
  show ?thesis
    by (intro conjI impI xsd)
      (auto simp: xsd_stage_def add_error_def engine_validate_def Let_def schematron_stage_def
        saxon_failure_def split: prod.split)
qed

theorem engine_fail_closed_witness:
  "\<not> is_valid (engine_validate (demo_engine\<lparr>saxon_transform := \<lambda>p t. Inr None\<rparr>)
      \<lparr>xsd_path = None, xslt_path = Some ''y''\<rparr> ''doc'')"
proof -
  have u: "usable (demo_engine\<lparr>saxon_transform := \<lambda>p t. Inr None\<rparr>) (Some ''y'') = Some ''y''"
    by (simp add: usable_def demo_engine_def)
  have a: "svrl_asserts (demo_engine\<lparr>saxon_transform := \<lambda>p t. Inr None\<rparr>) ''y'' ''doc'' =
      Inl (no_attr ''encode'')"
    by (simp add: svrl_asserts_def decode_utf8_def) code_simp
  show ?thesis
    using engine_fail_closed [where E = "demo_engine\<lparr>saxon_transform := \<lambda>p t. Inr None\<rparr>" and
        V = "\<lparr>xsd_path = None, xslt_path = Some ''y''\<rparr>" and q = "''y''"] u a by simp
qed

end
