(* ===== verification/Hybrid_Service.thy ===== *)
theory Hybrid_Service
  imports Hybrid_Engine
begin

text \<open>
  The validation service, \<^verbatim>\<open>app/services/hybrid_validation_service.py\<close>: extraction of the XML, detection,
  the run of the engine in a process pool, and the report.  The module's state is its configuration,
  read from the environment at import, and the pool, created on first use.
\<close>

section \<open>Module state\<close>

record config =
  MAX_WORKERS :: int
  VALIDATION_TIMEOUT :: int
  MAX_TASKS_PER_CHILD :: int

definition read_int :: "pystr \<Rightarrow> int result" where
  "read_int s = (case py_int s of
       None \<Rightarrow> Inl (ValueError (''invalid literal for int() with base 10: '' @ quoted s))
     | Some n \<Rightarrow> Inr n)"

definition read_config :: "environ \<Rightarrow> config result" where
  "read_config env =
     bindR (read_int (getenv env ''FX_VALIDATION_WORKERS'' ''2'')) (\<lambda>w.
     bindR (read_int (getenv env ''FX_VALIDATION_TIMEOUT'' ''30'')) (\<lambda>t.
     bindR (read_int (getenv env ''FX_MAX_TASKS_PER_CHILD'' ''100'')) (\<lambda>m.
     Inr \<lparr>MAX_WORKERS = w, VALIDATION_TIMEOUT = t, MAX_TASKS_PER_CHILD = m\<rparr>)))"

record executor =
  max_workers :: int
  max_tasks_per_child :: int

record service =
  svc_config :: config
  svc_executor :: "executor option"

text \<open>The constructor of \<^verbatim>\<open>ProcessPoolExecutor\<close> refuses sizes that are not positive.\<close>

definition ProcessPoolExecutor :: "int \<Rightarrow> int \<Rightarrow> executor result" where
  "ProcessPoolExecutor w m =
     (if w \<le> 0 then Inl (ValueError ''max_workers must be greater than 0'')
      else if m \<le> 0 then Inl (ValueError ''max_tasks_per_child must be >= 1'')
      else Inr \<lparr>max_workers = w, max_tasks_per_child = m\<rparr>)"

definition get_executor :: "service \<Rightarrow> (executor \<times> service) result" where
  "get_executor svc =
     (case svc_executor svc of
        Some x \<Rightarrow> Inr (x, svc)
      | None \<Rightarrow>
          bindR (ProcessPoolExecutor (MAX_WORKERS (svc_config svc)) (MAX_TASKS_PER_CHILD (svc_config svc)))
            (\<lambda>x. Inr (x, svc\<lparr>svc_executor := Some x\<rparr>)))"

definition shutdown_executor :: "service \<Rightarrow> service" where
  "shutdown_executor svc = svc\<lparr>svc_executor := None\<rparr>"

section \<open>The worker\<close>

text \<open>An error dictionary of the report; the key \<^verbatim>\<open>location\<close> may be absent.\<close>

record report_error =
  e_rule_id :: pystr
  e_message :: pystr
  e_location :: "pystr option"
  e_severity :: pystr
  e_layer :: pystr

record worker_report =
  w_is_valid :: bool
  w_xsd_valid :: bool
  w_schematron_valid :: bool
  w_error_count :: int
  w_warning_count :: int
  w_errors :: "report_error list"

text \<open>
  The worker's dictionary: a report, or the keys of its exception handler.  \<^verbatim>\<open>HybridValidator.validate\<close> turns
  every exception of its engines into an entry, so \<open>engine_validate\<close> is total and the handler is never reached;
  an exception of the import above the \<^verbatim>\<open>try\<close> leaves the worker and is one of the pool's.
\<close>

datatype worker_result = WReport worker_report | WError pystr

definition to_report :: "ValidationError \<Rightarrow> report_error" where
  "to_report e = \<lparr>e_rule_id = rule_id e, e_message = message e, e_location = Some (location e),
     e_severity = severity e, e_layer = layer_value (layer e)\<rparr>"

definition run_hybrid_validation ::
    "('x, 's) engine_lib \<Rightarrow> bytes \<Rightarrow> pystr \<Rightarrow> pystr \<Rightarrow> worker_result" where
  "run_hybrid_validation E xml_content xsd xslt =
     (let validator = \<lparr>xsd_path = if path_exists E xsd then Some xsd else None,
                       xslt_path = if path_exists E xslt then Some xslt else None\<rparr>;
          r = engine_validate E validator xml_content in
      WReport \<lparr>w_is_valid = is_valid r, w_xsd_valid = xsd_valid r, w_schematron_valid = schematron_valid r,
        w_error_count = error_count r, w_warning_count = warning_count r,
        w_errors = map to_report (errors r)\<rparr>)"

section \<open>The service\<close>

text \<open>
  \<open>pool\<close> stands for the process pool: \<^const>\<open>None\<close> when the worker's value comes back in time, otherwise
  the exception that \<^verbatim>\<open>submit\<close> or \<^verbatim>\<open>future.result\<close> raises.  \<open>project_root\<close> is the installation directory.
\<close>

record ('x, 's) service_lib =
  svc_lxml :: "'x lxml"
  svc_facturx :: "'x facturx"
  svc_engine :: "('x, 's) engine_lib"
  pool :: "executor \<Rightarrow> bytes \<Rightarrow> int \<Rightarrow> exn option"
  project_root :: pystr

definition docs_root :: "('x, 's) service_lib \<Rightarrow> pystr" where
  "docs_root S = project_root S @ ''/docs/2025_12_04_FNFE_SCHEMATRONS_FR_CTC_V1.2.0''"

definition XSD_PATH :: "('x, 's) service_lib \<Rightarrow> pystr" where
  "XSD_PATH S = docs_root S @ ''/_CII_D22B_XSD/CrossIndustryInvoice_100pD22B.xsd''"

definition XSLT_PATH :: "('x, 's) service_lib \<Rightarrow> pystr" where
  "XSLT_PATH S = docs_root S @
     ''/_EN16931_Schematrons_V1.3.15_CII_ET_UBL/_XSLT/EN16931-CII-validation.xslt''"

record service_result =
  r_is_valid :: bool
  r_format :: "pystr option"
  r_profile :: "pystr option"
  r_xsd_valid :: "bool option"
  r_schematron_valid :: "bool option"
  r_errors :: "report_error list"
  r_mode :: pystr

definition initial_result :: service_result where
  "initial_result = \<lparr>r_is_valid = False, r_format = None, r_profile = None, r_xsd_valid = None,
     r_schematron_valid = None, r_errors = [], r_mode = ''hybrid''\<rparr>"

definition append_error :: "pystr \<Rightarrow> pystr \<Rightarrow> pystr \<Rightarrow> service_result \<Rightarrow> service_result" where
  "append_error rid msg lay r =
     r\<lparr>r_errors := r_errors r @ [\<lparr>e_rule_id = rid, e_message = msg, e_location = None,
        e_severity = ''error'', e_layer = lay\<rparr>]\<rparr>"

text \<open>Step 1: the XML content, or the final result.\<close>

definition extract_xml :: "('x, 's) service_lib \<Rightarrow> bytes \<Rightarrow> bool \<Rightarrow> service_result \<Rightarrow> service_result + bytes" where
  "extract_xml S file_content pdf r =
     (if pdf then
        (case get_xml_from_pdf (svc_facturx S) file_content of
           Inl e \<Rightarrow> Inl (append_error ''FX-EXTRACT-FAIL'' (''Failed to extract XML: '' @ exn_str e) ''system'' r)
         | Inr x \<Rightarrow>
             if truthy x then Inr (the x)
             else Inl (append_error ''FX-NO-XML'' ''No Factur-X/ZUGFeRD XML found in PDF'' ''system'' r))
      else Inr file_content)"

text \<open>Step 2: format and profile; the format stays recorded when only the profile is unknown.\<close>

definition detect_profile :: "('x, 's) service_lib \<Rightarrow> bytes \<Rightarrow> service_result \<Rightarrow> service_result + service_result" where
  "detect_profile S xml_content r =
     (let fails = (\<lambda>e r. Inl (append_error ''FX-PARSE-ERROR'' (''Invalid XML: '' @ exn_str e) ''xsd'' r)) in
      case fromstring (svc_lxml S) xml_content of
        Inl e \<Rightarrow> fails e r
      | Inr xml_etree \<Rightarrow>
          (case get_flavor (svc_facturx S) xml_etree of
             Inl e \<Rightarrow> fails e r
           | Inr f \<Rightarrow>
               (let r' = r\<lparr>r_format := Some f\<rparr> in
                case get_level (svc_facturx S) xml_etree of
                  Inl e \<Rightarrow> fails e r'
                | Inr l \<Rightarrow> Inr (r'\<lparr>r_profile := Some l\<rparr>))))"

text \<open>Step 4: the run in the pool.\<close>

definition run_in_pool :: "('x, 's) service_lib \<Rightarrow> executor \<Rightarrow> int \<Rightarrow> bytes \<Rightarrow> service_result \<Rightarrow> service_result" where
  "run_in_pool S x timeout xml_content r =
     (case pool S x xml_content timeout of
        Some (FuturesTimeoutError m) \<Rightarrow>
          append_error ''FX-TIMEOUT'' (''Validation timed out after '' @ int_str timeout @ ''s'') ''system'' r
      | Some e \<Rightarrow> append_error ''FX-POOL-ERROR'' (''Process pool error: '' @ exn_str e) ''system'' r
      | None \<Rightarrow>
          (case run_hybrid_validation (svc_engine S) xml_content (XSD_PATH S) (XSLT_PATH S) of
             WError m \<Rightarrow> append_error ''FX-HYBRID-ERROR'' m ''system'' r
           | WReport w \<Rightarrow>
               r\<lparr>r_is_valid := w_is_valid w, r_xsd_valid := Some (w_xsd_valid w),
                 r_schematron_valid := Some (w_schematron_valid w), r_errors := w_errors w\<rparr>))"

definition assets_available :: "('x, 's) service_lib \<Rightarrow> bool" where
  "assets_available S \<longleftrightarrow>
     path_exists (svc_engine S) (XSD_PATH S) \<or> path_exists (svc_engine S) (XSLT_PATH S)"

definition internal_error :: "exn \<Rightarrow> service_result \<Rightarrow> service_result" where
  "internal_error e r = append_error ''FX-INTERNAL'' (''Internal error: '' @ exn_str e) ''system'' r"

text \<open>\<^verbatim>\<open>HybridValidationService.validate\<close>.\<close>

definition service_validate ::
    "('x, 's) service_lib \<Rightarrow> bytes \<Rightarrow> pystr option \<Rightarrow> service \<Rightarrow> service_result \<times> service" where
  "service_validate S file_content filename svc =
     (case is_pdf filename file_content of
        Inl e \<Rightarrow> (internal_error e initial_result, svc)
      | Inr pdf \<Rightarrow>
          (case extract_xml S file_content pdf initial_result of
             Inl r \<Rightarrow> (r, svc)
           | Inr xml_content \<Rightarrow>
               (case detect_profile S xml_content initial_result of
                  Inl r \<Rightarrow> (r, svc)
                | Inr r \<Rightarrow>
                    if \<not> assets_available S
                    then (r\<lparr>r_mode := ''lite'', r_is_valid := True\<rparr>, svc)
                    else
                      (case get_executor svc of
                         Inl e \<Rightarrow> (internal_error e r, svc)
                       | Inr (x, svc') \<Rightarrow>
                           (run_in_pool S x (VALIDATION_TIMEOUT (svc_config svc)) xml_content r, svc')))))"

text \<open>\<^verbatim>\<open>validate_async\<close> runs the same call on a thread of the event loop's default pool.\<close>

definition validate_async ::
    "('x, 's) service_lib \<Rightarrow> bytes \<Rightarrow> pystr \<Rightarrow> service \<Rightarrow> service_result \<times> service" where
  "validate_async S file_content filename svc = service_validate S file_content (Some filename) svc"

section \<open>Verdict and report agree\<close>

definition e_blocking :: "report_error \<Rightarrow> bool" where
  "e_blocking e \<longleftrightarrow> is_error_severity (e_severity e)"

lemma e_blocking_to_report [simp]: "e_blocking (to_report e) = blocking e"
  by (simp add: e_blocking_def to_report_def blocking_def)

lemma filter_to_report: "filter e_blocking (map to_report es) = map to_report (filter blocking es)"
  by (simp add: filter_map comp_def)

text \<open>A result whose verdict agrees with its report.\<close>

definition agrees :: "service_result \<Rightarrow> bool" where
  "agrees r \<longleftrightarrow> (r_is_valid r \<longleftrightarrow> filter e_blocking (r_errors r) = [])"

lemma agrees_append_error [simp]: "\<not> r_is_valid r \<Longrightarrow> agrees (append_error i m l r)"
  by (simp add: agrees_def append_error_def e_blocking_def)

lemma initial_result_sel [simp]:
  "\<not> r_is_valid initial_result" "r_errors initial_result = []" "r_mode initial_result = ''hybrid''"
  by (simp_all add: initial_result_def)

lemma append_error_sel [simp]:
  "r_is_valid (append_error i m l r) = r_is_valid r" "r_mode (append_error i m l r) = r_mode r"
  by (simp_all add: append_error_def)

lemma extract_xml_Inl:
  "extract_xml S c pdf initial_result = Inl r \<Longrightarrow> agrees r \<and> \<not> r_is_valid r \<and> r_mode r = ''hybrid''"
  by (auto simp: extract_xml_def split: if_splits sum.splits)

lemma detect_profile_Inl:
  "detect_profile S c initial_result = Inl r \<Longrightarrow> agrees r \<and> \<not> r_is_valid r \<and> r_mode r = ''hybrid''"
  by (auto simp: detect_profile_def Let_def split: sum.splits)

lemma detect_profile_Inr:
  "detect_profile S c r\<^sub>0 = Inr r \<longleftrightarrow>
   (\<exists>t f l. fromstring (svc_lxml S) c = Inr t \<and> get_flavor (svc_facturx S) t = Inr f \<and>
      get_level (svc_facturx S) t = Inr l \<and> r = r\<^sub>0\<lparr>r_format := Some f, r_profile := Some l\<rparr>)"
  by (auto simp: detect_profile_def Let_def split: sum.splits)

lemma run_in_pool_cases:
  obtains (failed) i m where "run_in_pool S x t c r = append_error i m ''system'' r" "pool S x c t \<noteq> None"
    | (finished) w where "pool S x c t = None"
        "run_hybrid_validation (svc_engine S) c (XSD_PATH S) (XSLT_PATH S) = WReport w"
        "run_in_pool S x t c r = r\<lparr>r_is_valid := w_is_valid w, r_xsd_valid := Some (w_xsd_valid w),
                 r_schematron_valid := Some (w_schematron_valid w), r_errors := w_errors w\<rparr>"
proof (cases "pool S x c t")
  case None
  then show ?thesis by (intro finished) (auto simp: run_in_pool_def run_hybrid_validation_def Let_def)
next
  case (Some e)
  then show ?thesis by (cases e) (auto simp: run_in_pool_def intro: failed)
qed

lemma worker_agrees:
  assumes "xsd_logs E" and "run_hybrid_validation E c p q = WReport w"
  shows "w_is_valid w \<longleftrightarrow> filter e_blocking (w_errors w) = []"
  using assms(2) engine.accepted_iff [of "(E, _, c)"] assms(1)
  by (auto simp: run_hybrid_validation_def Let_def filter_to_report)

lemma run_in_pool_agrees:
  assumes "xsd_logs (svc_engine S)" and "\<not> r_is_valid r"
  shows "agrees (run_in_pool S x t c r)"
proof (cases rule: run_in_pool_cases [of S x t c r])
  case (finished w)
  with worker_agrees [OF assms(1) finished(2)] show ?thesis by (simp add: agrees_def)
qed (use assms(2) in simp)

text \<open>The ways a validation ends.\<close>

lemma service_validate_cases:
  obtains (no_name) e where "is_pdf n c = Inl e" "service_validate S c n svc = (internal_error e initial_result, svc)"
    | (no_xml) pdf r where "is_pdf n c = Inr pdf" "extract_xml S c pdf initial_result = Inl r"
        "service_validate S c n svc = (r, svc)"
    | (no_profile) pdf xml r where "is_pdf n c = Inr pdf" "extract_xml S c pdf initial_result = Inr xml"
        "detect_profile S xml initial_result = Inl r" "service_validate S c n svc = (r, svc)"
    | (lite) pdf xml r where "is_pdf n c = Inr pdf" "extract_xml S c pdf initial_result = Inr xml"
        "detect_profile S xml initial_result = Inr r" "\<not> assets_available S"
        "service_validate S c n svc = (r\<lparr>r_mode := ''lite'', r_is_valid := True\<rparr>, svc)"
    | (no_pool) pdf xml r e where "is_pdf n c = Inr pdf" "extract_xml S c pdf initial_result = Inr xml"
        "detect_profile S xml initial_result = Inr r" "assets_available S" "get_executor svc = Inl e"
        "service_validate S c n svc = (internal_error e r, svc)"
    | (ran) pdf xml r x svc' where "is_pdf n c = Inr pdf" "extract_xml S c pdf initial_result = Inr xml"
        "detect_profile S xml initial_result = Inr r" "assets_available S" "get_executor svc = Inr (x, svc')"
        "service_validate S c n svc = (run_in_pool S x (VALIDATION_TIMEOUT (svc_config svc)) xml r, svc')"
  by (atomize_elim) (auto simp: service_validate_def split: sum.split prod.split)

lemma service_agrees:
  assumes "xsd_logs (svc_engine S)"
  shows "agrees (fst (service_validate S c n svc))"
proof (cases rule: service_validate_cases [of n c S svc])
  case (ran pdf xml r x svc')
  then have "\<not> r_is_valid r" by (auto simp: detect_profile_Inr)
  with ran show ?thesis by (simp add: run_in_pool_agrees [OF assms])
qed (auto simp: internal_error_def agrees_def [of "_\<lparr>r_mode := _, r_is_valid := _\<rparr>"] detect_profile_Inr
    dest: extract_xml_Inl detect_profile_Inl)

interpretation svc: verdict
  "\<lambda>(S, c, n, svc). fst (service_validate S c n svc)" "\<lambda>(S, c, n, svc). xsd_logs (svc_engine S)"
  r_is_valid r_errors e_blocking
proof
  fix i :: "('a, 'b) service_lib \<times> bytes \<times> pystr option \<times> service"
  assume "case i of (S, c, n, svc) \<Rightarrow> xsd_logs (svc_engine S)"
  then show "r_is_valid (case i of (S, c, n, svc) \<Rightarrow> fst (service_validate S c n svc)) \<longleftrightarrow>
      filter e_blocking (r_errors (case i of (S, c, n, svc) \<Rightarrow> fst (service_validate S c n svc))) = []"
    using service_agrees by (cases i) (auto simp: agrees_def)
qed

section \<open>The pool\<close>

text \<open>The module's life: validations, in any order, and shutdowns.\<close>

inductive svc_step :: "('x, 's) service_lib \<Rightarrow> service \<Rightarrow> service \<Rightarrow> bool" for S where
  step_validate: "svc_step S svc (snd (service_validate S c n svc))"
| step_shutdown: "svc_step S svc (shutdown_executor svc)"

inductive svc_reachable :: "('x, 's) service_lib \<Rightarrow> config \<Rightarrow> service \<Rightarrow> bool" for S cfg where
  svc_init: "svc_reachable S cfg \<lparr>svc_config = cfg, svc_executor = None\<rparr>"
| svc_next: "svc_reachable S cfg svc \<Longrightarrow> svc_step S svc svc' \<Longrightarrow> svc_reachable S cfg svc'"

definition executor_ok :: "config \<Rightarrow> service \<Rightarrow> bool" where
  "executor_ok cfg svc \<longleftrightarrow> svc_config svc = cfg \<and>
     (case svc_executor svc of
        None \<Rightarrow> True
      | Some x \<Rightarrow> max_workers x = MAX_WORKERS cfg \<and> max_tasks_per_child x = MAX_TASKS_PER_CHILD cfg \<and>
          0 < MAX_WORKERS cfg \<and> 0 < MAX_TASKS_PER_CHILD cfg)"

lemma get_executor_ok:
  assumes "executor_ok cfg svc" and "get_executor svc = Inr (x, svc')"
  shows "executor_ok cfg svc' \<and> svc_executor svc' = Some x"
  using assms
  by (auto simp: executor_ok_def get_executor_def ProcessPoolExecutor_def split: option.splits if_splits)

lemma service_validate_executor_ok:
  "executor_ok cfg svc \<Longrightarrow> executor_ok cfg (snd (service_validate S c n svc))"
  by (cases rule: service_validate_cases [of n c S svc]) (auto dest: get_executor_ok)

lemma reachable_executor_ok: "svc_reachable S cfg svc \<Longrightarrow> executor_ok cfg svc"
proof (induction rule: svc_reachable.induct)
  case (svc_next svc svc')
  from svc_next.hyps(2) svc_next.IH show ?case
    by cases (auto simp: service_validate_executor_ok, auto simp: executor_ok_def shutdown_executor_def)
qed (simp add: executor_ok_def)

section \<open>Properties\<close>

text \<open>
  A concrete service for the witnesses: every upload holds one document of profile EN 16931, both
  validation files are installed and the pool answers in time; the engine is the one of the engine's
  witnesses with its Schematron report emptied.
\<close>

definition clean_engine :: "(int, unit) engine_lib" where
  "clean_engine = demo_engine\<lparr>svrl_parse := \<lambda>b. Inr 9\<rparr>"

definition demo_service :: "(int, unit) service_lib" where
  "demo_service = \<lparr>svc_lxml = eng_lxml demo_engine,
     svc_facturx = \<lparr>get_xml_from_pdf = (\<lambda>b. Inr (Some ''<xml/>'')), get_flavor = (\<lambda>x. Inr ''factur-x''),
       get_level = (\<lambda>x. Inr ''en16931''), xml_check_xsd = (\<lambda>c f l. Inr ()),
       generate_from_binary = (\<lambda>p x f l m. Inr (''%PDF'' @ x))\<rparr>,
     svc_engine = clean_engine, pool = (\<lambda>x c t. None), project_root = ''/app''\<rparr>"

definition demo_svc :: service where
  "demo_svc = \<lparr>svc_config = \<lparr>MAX_WORKERS = 2, VALIDATION_TIMEOUT = 30, MAX_TASKS_PER_CHILD = 100\<rparr>,
     svc_executor = None\<rparr>"

lemma demo_service_logs: "xsd_logs (svc_engine demo_service)"
  by (simp add: xsd_logs_def demo_service_def clean_engine_def demo_engine_def)

lemma valid_run_in_pool:
  assumes "\<not> r_is_valid r" and "r_is_valid (run_in_pool S x t xml r)"
  shows "pool S x xml t = None \<and>
    is_valid (engine_validate (svc_engine S)
      \<lparr>xsd_path = if path_exists (svc_engine S) (XSD_PATH S) then Some (XSD_PATH S) else None,
       xslt_path = if path_exists (svc_engine S) (XSLT_PATH S) then Some (XSLT_PATH S) else None\<rparr> xml) \<and>
    r_format (run_in_pool S x t xml r) = r_format r \<and> r_profile (run_in_pool S x t xml r) = r_profile r \<and>
    r_mode (run_in_pool S x t xml r) = r_mode r"
proof (cases rule: run_in_pool_cases [of S x t xml r])
  case (finished w)
  with assms show ?thesis by (auto simp: run_hybrid_validation_def Let_def)
qed (use assms in simp)

text \<open>What lies behind a positive verdict.\<close>

lemma service_valid_run:
  assumes "service_validate S c n svc = (r, svc')" and v: "r_is_valid r"
  shows "\<exists>pdf xml t f l.
       is_pdf n c = Inr pdf \<and> extract_xml S c pdf initial_result = Inr xml \<and>
       fromstring (svc_lxml S) xml = Inr t \<and> get_flavor (svc_facturx S) t = Inr f \<and>
       get_level (svc_facturx S) t = Inr l \<and> r_format r = Some f \<and> r_profile r = Some l \<and>
       (if assets_available S then
          r_mode r = ''hybrid'' \<and>
          (\<exists>x. get_executor svc = Inr (x, svc') \<and> pool S x xml (VALIDATION_TIMEOUT (svc_config svc)) = None) \<and>
          is_valid (engine_validate (svc_engine S)
            \<lparr>xsd_path = if path_exists (svc_engine S) (XSD_PATH S) then Some (XSD_PATH S) else None,
             xslt_path = if path_exists (svc_engine S) (XSLT_PATH S) then Some (XSLT_PATH S) else None\<rparr> xml)
        else r_mode r = ''lite'')"
proof (cases rule: service_validate_cases [of n c S svc])
  case (ran pdf xml r\<^sub>0 x svc'')
  then have r: "r = run_in_pool S x (VALIDATION_TIMEOUT (svc_config svc)) xml r\<^sub>0" "svc'' = svc'"
    and r\<^sub>0: "\<not> r_is_valid r\<^sub>0" "r_mode r\<^sub>0 = ''hybrid''"
    using assms(1) by (auto simp: detect_profile_Inr)
  from ran(3) obtain t f l where d: "fromstring (svc_lxml S) xml = Inr t" "get_flavor (svc_facturx S) t = Inr f"
    "get_level (svc_facturx S) t = Inr l" "r_format r\<^sub>0 = Some f" "r_profile r\<^sub>0 = Some l"
    by (auto simp: detect_profile_Inr)
  from valid_run_in_pool [OF r\<^sub>0(1) v [unfolded r]] ran d r\<^sub>0 show ?thesis by (auto simp: r)
qed (use assms in \<open>auto simp: internal_error_def detect_profile_Inr
    dest!: extract_xml_Inl detect_profile_Inl\<close>)

text \<open>
  Claim C9.  The service's verdict is positive exactly when its report has no entry of severity error
  or fatal.  A positive verdict means: the XML was found and parsed, the result names the detected
  format and profile, and, when a validation file is installed, the pool returned in time and the engine
  accepted that XML with exactly the installed files; with no validation file at all the verdict is
  positive in mode \<^verbatim>\<open>lite\<close> after parsing alone.
\<close>

theorem service_sound:
  assumes "xsd_logs (svc_engine S)" and "service_validate S c n svc = (r, svc')"
  shows "(r_is_valid r \<longleftrightarrow> filter e_blocking (r_errors r) = []) \<and>
    (r_is_valid r \<longrightarrow> (\<exists>pdf xml t f l.
       is_pdf n c = Inr pdf \<and> extract_xml S c pdf initial_result = Inr xml \<and>
       fromstring (svc_lxml S) xml = Inr t \<and> get_flavor (svc_facturx S) t = Inr f \<and>
       get_level (svc_facturx S) t = Inr l \<and> r_format r = Some f \<and> r_profile r = Some l \<and>
       (if assets_available S then
          r_mode r = ''hybrid'' \<and>
          (\<exists>x. get_executor svc = Inr (x, svc') \<and> pool S x xml (VALIDATION_TIMEOUT (svc_config svc)) = None) \<and>
          is_valid (engine_validate (svc_engine S)
            \<lparr>xsd_path = if path_exists (svc_engine S) (XSD_PATH S) then Some (XSD_PATH S) else None,
             xslt_path = if path_exists (svc_engine S) (XSLT_PATH S) then Some (XSLT_PATH S) else None\<rparr> xml)
        else r_mode r = ''lite'')))"
  using svc.accepted_iff [of "(S, c, n, svc)"] service_valid_run [OF assms(2)] assms by simp

theorem service_sound_witness:
  "r_is_valid (fst (service_validate demo_service ''%PDF-1.7'' (Some ''f.pdf'') demo_svc)) \<and>
   (\<exists>f. r_format (fst (service_validate demo_service ''%PDF-1.7'' (Some ''f.pdf'') demo_svc)) = Some f)"
proof -
  have v: "r_is_valid (fst (service_validate demo_service ''%PDF-1.7'' (Some ''f.pdf'') demo_svc))"
    by code_simp
  show ?thesis
    using service_sound [OF demo_service_logs prod.collapse [symmetric],
        of "''%PDF-1.7''" "Some ''f.pdf''" demo_svc] v by blast
qed

text \<open>
  Claim C35.  In every state the service can reach, through validations and shutdowns in any order,
  the configuration is the one read at import and the pool, when there is one, has exactly its worker
  and recycling numbers, both positive.  With a number that is not positive the pool is never created, and
  a document can only pass without it: when no validation file is installed, in mode \<^verbatim>\<open>lite\<close>.
\<close>

theorem service_pool:
  assumes "svc_reachable S cfg svc"
  shows "executor_ok cfg svc \<and>
    (MAX_WORKERS cfg \<le> 0 \<or> MAX_TASKS_PER_CHILD cfg \<le> 0 \<longrightarrow>
       svc_executor svc = None \<and>
       (r_is_valid (fst (service_validate S c n svc)) \<longrightarrow>
          \<not> assets_available S \<and> r_mode (fst (service_validate S c n svc)) = ''lite''))"
proof -
  have ok: "executor_ok cfg svc" by (rule reachable_executor_ok [OF assms])
  have none: "svc_executor svc = None" if "MAX_WORKERS cfg \<le> 0 \<or> MAX_TASKS_PER_CHILD cfg \<le> 0"
    using ok that by (auto simp: executor_ok_def split: option.splits)
  have "\<not> assets_available S \<and> r_mode (fst (service_validate S c n svc)) = ''lite''"
    if bad: "MAX_WORKERS cfg \<le> 0 \<or> MAX_TASKS_PER_CHILD cfg \<le> 0" and v: "r_is_valid (fst (service_validate S c n svc))"
  proof (cases "assets_available S")
    case True
    with service_valid_run [OF prod.collapse [symmetric] v] obtain x where
      "get_executor svc = Inr (x, snd (service_validate S c n svc))" by auto
    with get_executor_ok [OF ok this] bad show ?thesis by (auto simp: executor_ok_def)
  next
    case False
    with service_valid_run [OF prod.collapse [symmetric] v] show ?thesis by auto
  qed
  with ok none show ?thesis by blast
qed

theorem service_pool_witness:
  "executor_ok (svc_config demo_svc)
     (shutdown_executor (snd (service_validate demo_service ''%PDF'' (Some ''f.pdf'') demo_svc)))"
proof -
  have "svc_reachable demo_service (svc_config demo_svc) demo_svc"
    using svc_reachable.svc_init [of demo_service "svc_config demo_svc"] by (simp add: demo_svc_def)
  then have "svc_reachable demo_service (svc_config demo_svc)
      (shutdown_executor (snd (service_validate demo_service ''%PDF'' (Some ''f.pdf'') demo_svc)))"
    by (blast intro: svc_reachable.svc_next svc_step.intros)
  then show ?thesis using service_pool by blast
qed

text \<open>
  The three settings are read from the environment as decimal integers: what was written as
  a decimal numeral is read back, an absent variable gives its default, and any other text makes the
  import fail with \<^verbatim>\<open>ValueError\<close>.
\<close>

lemma service_config:
  assumes "0 \<le> w \<and> 0 \<le> t \<and> 0 \<le> m"
    and "\<forall>n \<in> {w, t, m}. length (dec_str n) \<le> 4300"
  shows "read_config (\<lambda>v. None) =
      Inr \<lparr>MAX_WORKERS = 2, VALIDATION_TIMEOUT = 30, MAX_TASKS_PER_CHILD = 100\<rparr> \<and>
    (env ''FX_VALIDATION_WORKERS'' = Some (dec_str w) \<and> env ''FX_VALIDATION_TIMEOUT'' = Some (dec_str t) \<and>
     env ''FX_MAX_TASKS_PER_CHILD'' = Some (dec_str m) \<longrightarrow>
       read_config env = Inr \<lparr>MAX_WORKERS = w, VALIDATION_TIMEOUT = t, MAX_TASKS_PER_CHILD = m\<rparr>) \<and>
    (env ''FX_VALIDATION_TIMEOUT'' = Some s \<and> py_int s = None \<longrightarrow>
       (\<exists>msg. read_config env = Inl (ValueError msg)))"
proof (intro conjI impI)
  have d: "py_int ''2'' = Some 2" "py_int ''30'' = Some 30" "py_int ''100'' = Some 100"
    by code_simp+
  show "read_config (\<lambda>v. None) =
      Inr \<lparr>MAX_WORKERS = 2, VALIDATION_TIMEOUT = 30, MAX_TASKS_PER_CHILD = 100\<rparr>"
    by (simp add: read_config_def read_int_def getenv_def d)
next
  have n: "read_int (dec_str n) = Inr n" if "n \<in> {w, t, m}" for n
    using assms that by (auto simp: read_int_def py_int_dec_str)
  assume "env ''FX_VALIDATION_WORKERS'' = Some (dec_str w) \<and> env ''FX_VALIDATION_TIMEOUT'' = Some (dec_str t) \<and>
     env ''FX_MAX_TASKS_PER_CHILD'' = Some (dec_str m)"
  then show "read_config env = Inr \<lparr>MAX_WORKERS = w, VALIDATION_TIMEOUT = t, MAX_TASKS_PER_CHILD = m\<rparr>"
    by (simp add: read_config_def getenv_def n)
next
  assume "env ''FX_VALIDATION_TIMEOUT'' = Some s \<and> py_int s = None"
  then show "\<exists>msg. read_config env = Inl (ValueError msg)"
    by (cases "py_int (getenv env ''FX_VALIDATION_WORKERS'' ''2'')")
      (simp_all add: read_config_def read_int_def getenv_def)
qed

lemma service_config_example:
  "read_config (\<lambda>v. Some (dec_str 16)) =
     Inr \<lparr>MAX_WORKERS = 16, VALIDATION_TIMEOUT = 16, MAX_TASKS_PER_CHILD = 16\<rparr>"
proof -
  have "length (dec_str 16) \<le> 4300" using length_dec_str_le [of 16 2] by simp
  then show ?thesis
    using conjunct1 [OF conjunct2 [OF service_config [of 16 16 16 "\<lambda>v. Some (dec_str 16)" "[]"]]]
    by (simp del: dec_str.simps)
qed

end
