(* ===== verification/Generator.thy ===== *)
theory Generator
  imports Template Hybrid_Service
begin

text \<open>
  The generator, \<^verbatim>\<open>app/services/generator.py\<close>: XML from the metadata, its embedding into the PDF, and
  the quality gate, a run of the hybrid service on the generated file.  The template is that of theory
  \<open>Template\<close>; \<open>template_error\<close> is why it cannot be loaded, if it cannot, and \<open>text_repr\<close> is \<^verbatim>\<open>repr\<close> on
  texts.  Loading the service module is \<open>import_hybrid\<close>.
\<close>

text \<open>
  \<^verbatim>\<open>from app.services.hybrid_validation_service import HybridValidationService\<close>: the module is kept once
  it is loaded; its first import may fail for want of a package (\<open>missing\<close>) or on a bad setting.
\<close>

definition import_hybrid :: "exn option \<Rightarrow> environ \<Rightarrow> service option \<Rightarrow> service result" where
  "import_hybrid missing env loaded =
     (case loaded of
        Some svc \<Rightarrow> Inr svc
      | None \<Rightarrow>
          (case missing of
             Some e \<Rightarrow> Inl e
           | None \<Rightarrow> bindR (read_config env) (\<lambda>cfg. Inr \<lparr>svc_config = cfg, svc_executor = None\<rparr>)))"

record ('x, 's) generator_lib =
  template_error :: "exn option"
  text_repr :: "pystr \<Rightarrow> pystr"
  gen_service :: "('x, 's) service_lib"
  gen_missing :: "exn option"
  gen_env :: environ

definition generate_xml :: "('x, 's) generator_lib \<Rightarrow> InvoiceMetadata \<Rightarrow> pystr result" where
  "generate_xml G metadata =
     catchR
       (case template_error G of
          Some e \<Rightarrow> Inl e
        | None \<Rightarrow> render_template (text_repr G) metadata)
       (\<lambda>e. Inl (ValueError (''XML generation failed: '' @ exn_str e)))"

definition pdf_metadata :: "InvoiceMetadata \<Rightarrow> (pystr \<times> pystr) list" where
  "pdf_metadata metadata =
     [(''author'', ''Factur-X API''), (''keywords'', ''Factur-X, ZUGFeRD, e-invoice''),
      (''title'', ''Invoice '' @ md_invoice_number metadata), (''subject'', ''Factur-X Invoice'')]"

text \<open>The quality gate on the generated bytes.\<close>

definition quality_gate ::
    "('x, 's) generator_lib \<Rightarrow> bytes \<Rightarrow> service option \<Rightarrow> bytes result \<times> service option" where
  "quality_gate G result_bytes loaded =
     (case import_hybrid (gen_missing G) (gen_env G) loaded of
        Inl e \<Rightarrow> (Inl e, loaded)
      | Inr svc \<Rightarrow>
          (case service_validate (gen_service G) result_bytes (Some ''generated_check.pdf'') svc of
             (validation_res, svc') \<Rightarrow>
               (if \<not> r_is_valid validation_res then
                  Inl (ValueError (''Generated Factur-X PDF failed compliance check: '' @
                    (case r_errors validation_res of
                       [] \<Rightarrow> ''Unknown validation error''
                     | e # es \<Rightarrow> e_message e)))
                else Inr result_bytes,
                Some svc')))"

definition generate_facturx_pdf ::
    "('x, 's) generator_lib \<Rightarrow> bytes \<Rightarrow> InvoiceMetadata \<Rightarrow> service option \<Rightarrow> bytes result \<times> service option" where
  "generate_facturx_pdf G pdf_content metadata loaded =
     (let wrap = (\<lambda>e. ValueError (''Factur-X PDF generation failed: '' @ exn_str e)) in
      case generate_xml G metadata of
        Inl e \<Rightarrow> (Inl (wrap e), loaded)
      | Inr xml_content \<Rightarrow>
          (case generate_from_binary (svc_facturx (gen_service G)) pdf_content xml_content
                  ''factur-x'' (profile_text (profile metadata)) (pdf_metadata metadata) of
             Inl e \<Rightarrow> (Inl (wrap e), loaded)
           | Inr result_bytes \<Rightarrow>
               (case quality_gate G result_bytes loaded of
                  (Inl e, loaded') \<Rightarrow> (Inl (wrap e), loaded')
                | (Inr b, loaded') \<Rightarrow> (Inr b, loaded'))))"

section \<open>The gate\<close>

lemma quality_gate_Inr:
  assumes "quality_gate G b loaded = (Inr b', loaded')"
  obtains svc svc' where "import_hybrid (gen_missing G) (gen_env G) loaded = Inr svc"
    "b' = b" "loaded' = Some svc'"
    "service_validate (gen_service G) b (Some ''generated_check.pdf'') svc =
       (fst (service_validate (gen_service G) b (Some ''generated_check.pdf'') svc), svc')"
    "r_is_valid (fst (service_validate (gen_service G) b (Some ''generated_check.pdf'') svc))"
  using assms
  by (auto simp: quality_gate_def split: sum.splits prod.splits if_splits)

lemma generate_Inr:
  assumes "generate_facturx_pdf G pdf md loaded = (Inr b, loaded')"
  obtains xml where "generate_xml G md = Inr xml"
    "generate_from_binary (svc_facturx (gen_service G)) pdf xml ''factur-x''
       (profile_text (profile md)) (pdf_metadata md) = Inr b"
    "quality_gate G b loaded = (Inr b, loaded')"
  using assms
  by (auto simp: generate_facturx_pdf_def Let_def quality_gate_def
      split: sum.splits prod.splits if_splits)

lemma generate_Inl: "generate_facturx_pdf G pdf md loaded = (Inl e, loaded') \<Longrightarrow> \<exists>m. e = ValueError m"
  by (auto simp: generate_facturx_pdf_def Let_def split: sum.splits prod.splits)

section \<open>Properties\<close>

text \<open>
  The package reads back what it embedded: the attachment of a file it generated is the XML it was
  given.
\<close>

definition embeds :: "'x facturx \<Rightarrow> bool" where
  "embeds F \<longleftrightarrow> (\<forall>pdf xml f l m b. generate_from_binary F pdf xml f l m = Inr b \<longrightarrow>
     get_xml_from_pdf F b = Inr (Some xml))"

lemma generated_name_is_pdf: "is_pdf (Some ''generated_check.pdf'') b = Inr True"
proof -
  have "endswith (str_lower ''generated_check.pdf'') ''.pdf''" by code_simp
  then show ?thesis by (simp add: is_pdf_Some)
qed

lemma gate_refusal:
  assumes "xsd_logs (svc_engine (gen_service G))"
    and "import_hybrid (gen_missing G) (gen_env G) loaded = Inr svc"
    and "\<not> r_is_valid (fst (service_validate (gen_service G) b (Some ''generated_check.pdf'') svc))"
  shows "\<exists>e es. r_errors (fst (service_validate (gen_service G) b (Some ''generated_check.pdf'') svc)) = e # es \<and>
    fst (quality_gate G b loaded) =
      Inl (ValueError (''Generated Factur-X PDF failed compliance check: '' @ e_message e))"
proof -
  have "r_errors (fst (service_validate (gen_service G) b (Some ''generated_check.pdf'') svc)) \<noteq> []"
    using svc.refused_nonempty [of "(gen_service G, b, Some ''generated_check.pdf'', svc)"] assms by simp
  then show ?thesis
    using assms(2,3) by (cases "r_errors (fst (service_validate (gen_service G) b (Some ''generated_check.pdf'') svc))")
      (auto simp: quality_gate_def split: prod.splits)
qed

text \<open>
  Behind every returned PDF: its XML and the service's verdict on it, which comes from the engine when a validation
  file is installed and from parsing and detection alone when there is none.
\<close>

lemma generated_accepted:
  assumes "xsd_logs (svc_engine (gen_service G))" and "embeds (svc_facturx (gen_service G))"
    and "generate_facturx_pdf G pdf md loaded = (Inr b, loaded')"
  shows "\<exists>xml svc. generate_xml G md = Inr xml \<and>
    get_xml_from_pdf (svc_facturx (gen_service G)) b = Inr (Some xml) \<and>
    import_hybrid (gen_missing G) (gen_env G) loaded = Inr svc \<and>
    filter e_blocking (r_errors (fst (service_validate (gen_service G) b (Some ''generated_check.pdf'') svc))) = [] \<and>
    (\<exists>t f l. fromstring (svc_lxml (gen_service G)) xml = Inr t \<and> get_flavor (svc_facturx (gen_service G)) t = Inr f \<and>
       get_level (svc_facturx (gen_service G)) t = Inr l) \<and>
    (assets_available (gen_service G) \<longrightarrow> is_valid (engine_validate (svc_engine (gen_service G))
      \<lparr>xsd_path = if path_exists (svc_engine (gen_service G)) (XSD_PATH (gen_service G))
                  then Some (XSD_PATH (gen_service G)) else None,
       xslt_path = if path_exists (svc_engine (gen_service G)) (XSLT_PATH (gen_service G))
                  then Some (XSLT_PATH (gen_service G)) else None\<rparr> xml))"
proof -
  let ?S = "gen_service G" and ?n = "Some ''generated_check.pdf''"
  obtain xml where xml: "generate_xml G md = Inr xml"
    and gen: "generate_from_binary (svc_facturx ?S) pdf xml ''factur-x'' (profile_text (profile md))
       (pdf_metadata md) = Inr b"
    and gate: "quality_gate G b loaded = (Inr b, loaded')"
    by (rule generate_Inr [OF assms(3)])
  obtain svc svc' where svc: "import_hybrid (gen_missing G) (gen_env G) loaded = Inr svc"
    and run: "service_validate ?S b ?n svc = (fst (service_validate ?S b ?n svc), svc')"
    and v: "r_is_valid (fst (service_validate ?S b ?n svc))"
    by (rule quality_gate_Inr [OF gate])
  have emb: "get_xml_from_pdf (svc_facturx ?S) b = Inr (Some xml)"
    using assms(2) gen unfolding embeds_def by blast
  have blk: "filter e_blocking (r_errors (fst (service_validate ?S b ?n svc))) = []"
    using svc.accepted_iff [of "(?S, b, ?n, svc)"] assms(1) v by simp
  from service_valid_run [OF run v] emb have
    "(\<exists>t f l. fromstring (svc_lxml ?S) xml = Inr t \<and> get_flavor (svc_facturx ?S) t = Inr f \<and>
       get_level (svc_facturx ?S) t = Inr l) \<and>
     (assets_available ?S \<longrightarrow> is_valid (engine_validate (svc_engine ?S)
      \<lparr>xsd_path = if path_exists (svc_engine ?S) (XSD_PATH ?S) then Some (XSD_PATH ?S) else None,
       xslt_path = if path_exists (svc_engine ?S) (XSLT_PATH ?S) then Some (XSLT_PATH ?S) else None\<rparr> xml))"
    by (auto simp: generated_name_is_pdf extract_xml_def split: if_splits)
  with emb xml svc blk show ?thesis by blast
qed

definition demo_metadata :: InvoiceMetadata where
  "demo_metadata = \<lparr>md_invoice_number = ''F-1'', issue_date = ''20250101'',
     md_seller = \<lparr>seller_name = ''S'', seller_address = None, seller_tax_number = None,
       seller_vat_number = None, seller_siret = None, seller_global_id = None,
       seller_global_id_scheme = None, seller_contact_name = None, seller_phone = None,
       seller_email = None, seller_iban = None, seller_bic = None, seller_bank_name = None, seller_id = None\<rparr>,
     md_buyer = \<lparr>buyer_name = ''B'', buyer_address = None, buyer_vat_number = None,
       buyer_global_id = None, buyer_global_id_scheme = None, buyer_contact_name = None,
       buyer_phone = None, buyer_email = None, buyer_id = None\<rparr>,
     md_lines = [], tax_details = [],
     amounts = \<lparr>tax_basis_total = ''1.00'', tax_total = ''0.20'', grand_total = ''1.20'',
       due_payable = ''1.20'', lines_total = None, charge_total = None, allowance_total = None, prepaid = None\<rparr>,
     currency_code = ''EUR'', profile = EN16931, due_date = None, payment_terms = None,
     document_type_code = ''380'', header_notes = None, buyer_reference = None, contract_reference = None,
     delivery_date = None, ship_to = None, creditor_reference = None, allowances = None, charges = None,
     payment_discount = None, payment_means_code = None\<rparr>"

definition demo_generator :: "(int, unit) generator_lib" where
  "demo_generator = \<lparr>template_error = None, text_repr = quoted,
     gen_service = demo_service
       \<lparr>svc_facturx := (svc_facturx demo_service)\<lparr>get_xml_from_pdf := (\<lambda>b. Inr (Some (drop 4 b)))\<rparr>,
        svc_engine := clean_engine\<lparr>path_exists := (\<lambda>p. endswith p ''.xsd'')\<rparr>\<rparr>,
     gen_missing = None, gen_env = (\<lambda>v. None)\<rparr>"

lemma demo_generator_ok:
  "xsd_logs (svc_engine (gen_service demo_generator))" "embeds (svc_facturx (gen_service demo_generator))"
  "assets_available (gen_service demo_generator)"
proof -
  have "endswith (''/app'' @ ''/docs/2025_12_04_FNFE_SCHEMATRONS_FR_CTC_V1.2.0'' @
      ''/_CII_D22B_XSD/CrossIndustryInvoice_100pD22B.xsd'') ''.xsd''" by code_simp
  then show "assets_available (gen_service demo_generator)"
    by (simp add: demo_generator_def demo_service_def assets_available_def XSD_PATH_def docs_root_def)
qed (simp_all add: demo_generator_def embeds_def demo_service_def clean_engine_def demo_engine_def xsd_logs_def)

lemma generate_xml_tree:
  "template_error G = None \<Longrightarrow> generate_xml G m = Inr (xml_prolog @ xml_text (invoice_tree (text_repr G) m))"
  by (simp add: generate_xml_def render_template_tree catchR_def)

text \<open>The demonstration accepts every document: its engine has only a schema, which all but one text meet.\<close>

lemma demo_generates:
  assumes "import_hybrid None e loaded = Inr svc" and "get_executor svc = Inr (x, svc')"
  shows "generate_facturx_pdf (demo_generator\<lparr>gen_env := e\<rparr>) pdf m loaded =
    (Inr (''%PDF'' @ xml_prolog @ xml_text (invoice_tree quoted m)), Some svc')"
proof -
  let ?G = "demo_generator\<lparr>gen_env := e\<rparr>" and ?x = "xml_prolog @ xml_text (invoice_tree quoted m)"
  have x: "?x \<noteq> []" "?x \<noteq> ''bad''" by (simp_all add: xml_prolog_def)
  have ends: "endswith (''/app'' @ ''/docs/2025_12_04_FNFE_SCHEMATRONS_FR_CTC_V1.2.0'' @
      ''/_CII_D22B_XSD/CrossIndustryInvoice_100pD22B.xsd'') ''.xsd''"
    "\<not> endswith (''/app'' @ ''/docs/2025_12_04_FNFE_SCHEMATRONS_FR_CTC_V1.2.0'' @
      ''/_EN16931_Schematrons_V1.3.15_CII_ET_UBL/_XSLT/EN16931-CII-validation.xslt'') ''.xsd''" by code_simp+
  have "r_is_valid (fst (service_validate (gen_service ?G) (''%PDF'' @ ?x) (Some ''generated_check.pdf'') svc)) \<and>
      snd (service_validate (gen_service ?G) (''%PDF'' @ ?x) (Some ''generated_check.pdf'') svc) = svc'"
    using x ends assms(2) demo_generator_ok(3)
    by (simp add: service_validate_def generated_name_is_pdf extract_xml_def detect_profile_def run_in_pool_def
        run_hybrid_validation_def engine_validate_def xsd_stage_def schematron_stage_def usable_def
        demo_generator_def demo_service_def clean_engine_def demo_engine_def XSD_PATH_def XSLT_PATH_def docs_root_def
        truthy_def Let_def)
  then have "quality_gate ?G (''%PDF'' @ ?x) loaded = (Inr (''%PDF'' @ ?x), Some svc')"
    using assms(1) by (simp add: quality_gate_def demo_generator_def split_beta)
  then show ?thesis
    using generate_xml_tree [of ?G m]
    by (simp add: generate_facturx_pdf_def demo_generator_def demo_service_def)
qed

text \<open>
  Claim C37.  Every failure of the generator is a \<^verbatim>\<open>ValueError\<close>.  A file the gate refuses is reported
  with the message of the first entry of the service's report, which is never empty: the text
  \<^verbatim>\<open>Unknown validation error\<close> is never used.
\<close>

theorem generator_errors:
  assumes "xsd_logs (svc_engine (gen_service G))"
  shows "(fst (generate_facturx_pdf G pdf md loaded) = Inl x \<longrightarrow> (\<exists>m. x = ValueError m)) \<and>
    (generate_xml G md = Inr xml \<and>
     generate_from_binary (svc_facturx (gen_service G)) pdf xml ''factur-x'' (profile_text (profile md))
       (pdf_metadata md) = Inr b \<and>
     import_hybrid (gen_missing G) (gen_env G) loaded = Inr svc \<and>
     \<not> r_is_valid (fst (service_validate (gen_service G) b (Some ''generated_check.pdf'') svc)) \<longrightarrow>
       (\<exists>e es. r_errors (fst (service_validate (gen_service G) b (Some ''generated_check.pdf'') svc)) = e # es \<and>
          fst (generate_facturx_pdf G pdf md loaded) =
            Inl (ValueError (''Factur-X PDF generation failed: '' @
              ''Generated Factur-X PDF failed compliance check: '' @ e_message e))))"
proof (intro conjI impI)
  assume "fst (generate_facturx_pdf G pdf md loaded) = Inl x"
  then show "\<exists>m. x = ValueError m"
    using generate_Inl by (metis prod.collapse)
next
  assume a: "generate_xml G md = Inr xml \<and>
     generate_from_binary (svc_facturx (gen_service G)) pdf xml ''factur-x'' (profile_text (profile md))
       (pdf_metadata md) = Inr b \<and>
     import_hybrid (gen_missing G) (gen_env G) loaded = Inr svc \<and>
     \<not> r_is_valid (fst (service_validate (gen_service G) b (Some ''generated_check.pdf'') svc))"
  with gate_refusal [OF assms] obtain e es where
    e: "r_errors (fst (service_validate (gen_service G) b (Some ''generated_check.pdf'') svc)) = e # es"
    "fst (quality_gate G b loaded) =
       Inl (ValueError (''Generated Factur-X PDF failed compliance check: '' @ e_message e))"
    by blast
  have "fst (generate_facturx_pdf G pdf md loaded) =
      Inl (ValueError (''Factur-X PDF generation failed: '' @
        ''Generated Factur-X PDF failed compliance check: '' @ e_message e))"
    using a e(2) by (cases "quality_gate G b loaded") (simp add: generate_facturx_pdf_def)
  with e(1) show "\<exists>e es. r_errors (fst (service_validate (gen_service G) b (Some ''generated_check.pdf'') svc)) = e # es \<and>
          fst (generate_facturx_pdf G pdf md loaded) =
            Inl (ValueError (''Factur-X PDF generation failed: '' @
              ''Generated Factur-X PDF failed compliance check: '' @ e_message e))"
    by blast
qed

theorem generator_errors_witness:
  "\<exists>m. fst (generate_facturx_pdf (demo_generator\<lparr>template_error := Some (OtherExn ''TemplateNotFound'' ''factur-x.xml.j2'')\<rparr>)
      ''%PDF-1.7'' demo_metadata None) = Inl (ValueError m)"
proof -
  let ?G = "demo_generator\<lparr>template_error := Some (OtherExn ''TemplateNotFound'' ''factur-x.xml.j2'')\<rparr>"
  have x: "xsd_logs (svc_engine (gen_service ?G))" using demo_generator_ok(1) by simp
  have "isl (fst (generate_facturx_pdf ?G ''%PDF-1.7'' demo_metadata None))"
    by (simp add: generate_facturx_pdf_def generate_xml_def)
  then obtain y where "fst (generate_facturx_pdf ?G ''%PDF-1.7'' demo_metadata None) = Inl y"
    by (auto simp: isl_def)
  with generator_errors [OF x] show ?thesis by blast
qed

end
