(* ===== verification/Lite_Validator.thy ===== *)
theory Lite_Validator
  imports Xml_Lib Verdict
begin

text \<open>
  The lite validator, \<^verbatim>\<open>app/services/validator.py\<close>: XSD check, translation of technical messages and
  the XPath 1.0 business rules.  The compiled rules are a class attribute, here the component
  \<open>core_validator\<close> of the state \<open>lite_state\<close>; the XSLT engine is part of \<open>lite_lib\<close>.
\<close>

text \<open>The two accented letters of the messages, in UTF-8.\<close>

abbreviation e_acute :: pystr where "e_acute \<equiv> [CHR 0xC3, CHR 0xA9]"
abbreviation e_grave :: pystr where "e_grave \<equiv> [CHR 0xC3, CHR 0xA8]"

definition ERROR_MAP :: "(pystr \<times> pystr) list" where
  "ERROR_MAP =
    [(''udt:DateTimeString'',
        ''Le format de la date est invalide (Format attendu: YYYYMMDD).''),
     (''SpecifiedExchangedDocumentContext'',
        ''La structure du document est mal form'' @ e_acute @ ''e (Contexte manquant).''),
     (''ram:ID'' @ [CHR 0x27] @ '' is unexpected'',
        ''Le num'' @ e_acute @ ''ro de facture (ID) est mal positionn'' @ e_acute @ '' ou dupliqu'' @ e_acute @ ''.''),
     (''Expected is ( {urn:un:unece:uncefact:data:standard:ReusableAggregateBusinessInformationEntity:100}Name )'',
        ''Le nom de l'' @ [CHR 0x27] @ ''entreprise (Seller Name) est obligatoire.''),
     (''PostcodeCode'', ''Le code postal est manquant dans l'' @ [CHR 0x27] @ ''adresse.''),
     (''LineOne'', ''La premi'' @ e_grave @ ''re ligne de l'' @ [CHR 0x27] @ ''adresse est obligatoire.''),
     (''CountryID'', ''Le code pays (ex: FR) est manquant.''),
     (''currencyID'', ''Le code devise (ex: EUR) est invalide ou absent.''),
     (''TypeCode'', ''Le type de document (TypeCode 380) est manquant.''),
     (''SupplyChainTradeTransaction'',
        ''La section Transaction (calculs) est manquante ou mal plac'' @ e_acute @ ''e.''),
     (''IncludedSupplyChainTradeLineItem'',
        ''Les lignes de facture (articles) sont obligatoires pour ce profil.''),
     (''SpecifiedTradeSettlementHeaderMonetarySummation'',
        ''La section Totaux est mal form'' @ e_acute @ ''e ou incompl'' @ e_grave @ ''te.'')]"

text \<open>The inner loop of \<^verbatim>\<open>_humanize_errors\<close>: the first pattern found decides.\<close>

fun humanize_one :: "(pystr \<times> pystr) list \<Rightarrow> pystr \<Rightarrow> pystr" where
  "humanize_one [] err = err"
| "humanize_one ((tech_pattern, human_msg) # ps) err =
     (if contains err tech_pattern then human_msg else humanize_one ps err)"

definition humanize_errors :: "pystr list \<Rightarrow> pystr list" where
  "humanize_errors technical_errors =
     (if technical_errors = [] then []
      else fromkeys (map (humanize_one ERROR_MAP) (filter (\<lambda>err. err \<noteq> []) technical_errors)))"

section \<open>Business rules\<close>

text \<open>
  The XSLT engine: whether the stylesheet file exists, compiling it, and running it on a document,
  which yields a report or nothing.
\<close>

record ('x, 'v) lite_lib =
  lite_lxml :: "'x lxml"
  lite_facturx :: "'x facturx"
  core_path_exists :: bool
  load_core :: "'v result"
  run_core :: "'v \<Rightarrow> 'x \<Rightarrow> 'x option result"

record 'v lite_state =
  core_validator :: "'v option"

definition svrl_ns :: nsmap where
  "svrl_ns = [(''svrl'', ''http://purl.oclc.org/dsdl/svrl'')]"

definition initialize_schematrons :: "('x, 'v) lite_lib \<Rightarrow> 'v lite_state \<Rightarrow> 'v lite_state" where
  "initialize_schematrons L st =
     (case core_validator st of
        Some v \<Rightarrow> st
      | None \<Rightarrow>
          if core_path_exists L then
            (case load_core L of
               Inr v \<Rightarrow> st\<lparr>core_validator := Some v\<rparr>
             | Inl e \<Rightarrow> st)
          else st)"

text \<open>One iteration of the loop over the failed assertions: what it appends, or the exception.\<close>

definition check_assert :: "'x lxml \<Rightarrow> 'x xnode \<Rightarrow> pystr list result" where
  "check_assert X assertion =
     bindR (node_get X ''severity'' assertion) (\<lambda>sev.
     let severity = str_lower (get_or sev ''fatal'');
         is_blocking = severity \<notin> set [''warning'', ''info''] in
     bindR (node_xpath X svrl_ns ''svrl:text'' assertion) (\<lambda>text_elem.
     bindR (case text_elem of [] \<Rightarrow> Inr None | t # ts \<Rightarrow> node_text X t) (\<lambda>t.
     let msg_text = or_default t ''Unknown rule violation'';
         final_msg = str_strip msg_text in
     if \<not> is_blocking then Inr []
     else bindR (node_get X ''id'' assertion) (\<lambda>i.
       Inr ([final_msg] @ (if msg_text = [] then [get_or i ''Unknown ID''] else []))))))"

text \<open>The loop: an exception ends it and keeps what was collected.\<close>

fun check_asserts :: "'x lxml \<Rightarrow> 'x xnode list \<Rightarrow> pystr list" where
  "check_asserts X [] = []"
| "check_asserts X (a # as) =
     (case check_assert X a of Inl e \<Rightarrow> [] | Inr ms \<Rightarrow> ms @ check_asserts X as)"

definition check_schematron :: "('x, 'v) lite_lib \<Rightarrow> 'x \<Rightarrow> 'v \<Rightarrow> pystr list" where
  "check_schematron L xml_etree validator =
     (case run_core L validator xml_etree of
        Inl e \<Rightarrow> []
      | Inr None \<Rightarrow> []
      | Inr (Some result_tree) \<Rightarrow>
          (case xpath (lite_lxml L) svrl_ns ''//svrl:failed-assert'' result_tree of
             Inl e \<Rightarrow> []
           | Inr failed_asserts \<Rightarrow> check_asserts (lite_lxml L) failed_asserts))"

section \<open>Validation of a file\<close>

text \<open>The result tuple of \<^verbatim>\<open>validate_file\<close>.\<close>

record lite_verdict =
  lv_valid :: bool
  lv_format :: "pystr option"
  lv_flavor :: "pystr option"
  lv_errors :: "pystr list"

definition refused :: "pystr option \<Rightarrow> pystr option \<Rightarrow> pystr list \<Rightarrow> lite_verdict" where
  "refused f l errs = \<lparr>lv_valid = False, lv_format = f, lv_flavor = l, lv_errors = errs\<rparr>"

definition guideline_path :: pystr where
  "guideline_path = ''//*[local-name()='' @ quoted ''GuidelineSpecifiedDocumentContextParameter''
     @ '']/*[local-name()='' @ quoted ''ID'' @ '']''"

text \<open>Detection of format and profile, with the fallback for unknown guideline URNs.\<close>

definition urn_fallback :: "'x lxml \<Rightarrow> 'x \<Rightarrow> exn \<Rightarrow> (pystr \<times> pystr) result" where
  "urn_fallback X xml_etree e =
     bindR (xpath X [] guideline_path xml_etree) (\<lambda>urn_el.
     bindR (case urn_el of [] \<Rightarrow> Inr None | u # us \<Rightarrow> node_text X u) (\<lambda>t.
     let urn = or_default t [] in
     if contains (str_lower urn) ''en16931'' \<or> contains (str_lower urn) ''xrechnung''
     then Inr (''factur-x'', ''en16931'')
     else Inl e))"

definition detect :: "('x, 'v) lite_lib \<Rightarrow> bytes \<Rightarrow> ('x \<times> pystr \<times> pystr) result" where
  "detect L xml_content =
     bindR (fromstring (lite_lxml L) xml_content) (\<lambda>xml_etree.
     bindR
       (catchR
          (bindR (get_flavor (lite_facturx L) xml_etree) (\<lambda>f.
           bindR (get_level (lite_facturx L) xml_etree) (\<lambda>l. Inr (f, l))))
          (urn_fallback (lite_lxml L) xml_etree))
       (\<lambda>(f, l). Inr (xml_etree, f, l)))"

text \<open>The first part of the body: the XML content, or the early verdict.\<close>

definition xml_of_file :: "('x, 'v) lite_lib \<Rightarrow> bytes \<Rightarrow> bool \<Rightarrow> lite_verdict + bytes" where
  "xml_of_file L file_content pdf =
     (if pdf then
        (case get_xml_from_pdf (lite_facturx L) file_content of
           Inl e \<Rightarrow> Inl (refused None None [''Failed to extract XML from PDF: '' @ exn_str e])
         | Inr None \<Rightarrow> Inl (refused None None [''No Factur-X/ZUGFeRD XML found in PDF''])
         | Inr (Some xml_content) \<Rightarrow>
             if xml_content = [] then Inl (refused None None [''No Factur-X/ZUGFeRD XML found in PDF''])
             else Inr xml_content)
      else Inr file_content)"

definition business_errors :: "('x, 'v) lite_lib \<Rightarrow> 'v lite_state \<Rightarrow> 'x \<Rightarrow> pystr \<Rightarrow> pystr list" where
  "business_errors L st xml_etree detected_flavor =
     (if detected_flavor \<in> set [''en16931'', ''extended''] then
        (case core_validator st of
           None \<Rightarrow> []
         | Some v \<Rightarrow> check_schematron L xml_etree v)
      else [])"

definition validate_content :: "('x, 'v) lite_lib \<Rightarrow> 'v lite_state \<Rightarrow> bytes \<Rightarrow> lite_verdict" where
  "validate_content L st xml_content =
     (case detect L xml_content of
        Inl e \<Rightarrow> refused None None [''Invalid XML syntax: '' @ exn_str e]
      | Inr (xml_etree, f, l) \<Rightarrow>
          (case xml_check_xsd (lite_facturx L) xml_content f l of
             Inl e \<Rightarrow> refused (Some f) (Some l) (humanize_errors [exn_str e])
           | Inr u \<Rightarrow>
               (let schematron_errors = business_errors L st xml_etree l in
                if schematron_errors \<noteq> [] then refused (Some f) (Some l) schematron_errors
                else \<lparr>lv_valid = True, lv_format = Some f, lv_flavor = Some l, lv_errors = []\<rparr>)))"

definition validate_file ::
    "('x, 'v) lite_lib \<Rightarrow> bytes \<Rightarrow> pystr option \<Rightarrow> 'v lite_state \<Rightarrow> lite_verdict \<times> 'v lite_state" where
  "validate_file L file_content filename st\<^sub>0 =
     (let st = initialize_schematrons L st\<^sub>0 in
      (case is_pdf filename file_content of
         Inl e \<Rightarrow> refused None None [''Unexpected validation error: '' @ exn_str e]
       | Inr pdf \<Rightarrow>
           (case xml_of_file L file_content pdf of
              Inl v \<Rightarrow> v
            | Inr xml_content \<Rightarrow> validate_content L st xml_content), st))"

section \<open>Messages\<close>

lemma humanize_one_cases:
  "(\<exists>i < length m. contains err (fst (m ! i)) \<and> (\<forall>j < i. \<not> contains err (fst (m ! j))) \<and>
      humanize_one m err = snd (m ! i)) \<or>
   (\<forall>p \<in> set m. \<not> contains err (fst p)) \<and> humanize_one m err = err"
proof (induction m)
  case (Cons p ps)
  obtain t h where p: "p = (t, h)" by (cases p)
  show ?case
  proof (cases "contains err t")
    case True
    then show ?thesis by (intro disjI1 exI [of _ 0]) (simp add: p)
  next
    case False
    from Cons.IH show ?thesis
    proof (elim disjE exE conjE)
      fix i assume "i < length ps" "contains err (fst (ps ! i))"
        "\<forall>j<i. \<not> contains err (fst (ps ! j))" "humanize_one ps err = snd (ps ! i)"
      with False show ?thesis
        by (intro disjI1 exI [of _ "Suc i"]) (auto simp: p less_Suc_eq_0_disj)
    qed (use False in \<open>auto simp: p\<close>)
  qed
qed simp

lemma humanize_one_iff:
  "t = humanize_one m e \<longleftrightarrow>
     (\<exists>i < length m. contains e (fst (m ! i)) \<and>
        (\<forall>j < i. \<not> contains e (fst (m ! j))) \<and> t = snd (m ! i)) \<or>
     (\<forall>p \<in> set m. \<not> contains e (fst p)) \<and> t = e"
proof (cases "\<forall>p \<in> set m. \<not> contains e (fst p)")
  case True
  then have "\<not> contains e (fst (m ! i))" if "i < length m" for i using that by simp
  moreover from this True humanize_one_cases [of m e] have "humanize_one m e = e" by blast
  ultimately show ?thesis using True by auto
next
  case False
  with humanize_one_cases [of m e] obtain i where i: "i < length m" "contains e (fst (m ! i))"
    "\<forall>j < i. \<not> contains e (fst (m ! j))" "humanize_one m e = snd (m ! i)" by blast
  then have "i' = i" if "contains e (fst (m ! i'))" "\<forall>j < i'. \<not> contains e (fst (m ! j))" for i'
    using that by (cases i' i rule: linorder_cases) auto
  with i False show ?thesis by metis
qed

lemma ERROR_MAP_messages: "p \<in> set ERROR_MAP \<Longrightarrow> snd p \<noteq> []"
  by (auto simp: ERROR_MAP_def)

lemma humanize_one_nonempty: "err \<noteq> [] \<Longrightarrow> humanize_one ERROR_MAP err \<noteq> []"
  using humanize_one_cases [of ERROR_MAP err] ERROR_MAP_messages nth_mem by metis

lemma humanize_errors_eq_Nil: "humanize_errors es = [] \<longleftrightarrow> (\<forall>e \<in> set es. e = [])"
  by (auto simp: humanize_errors_def filter_empty_conv)

section \<open>Verdicts\<close>

text \<open>The XSD check of the package never raises an exception with an empty text.\<close>

definition xsd_explains :: "'x facturx \<Rightarrow> bool" where
  "xsd_explains F \<longleftrightarrow> (\<forall>c f l e. xml_check_xsd F c f l = Inl e \<longrightarrow> exn_str e \<noteq> [])"

lemma validate_content_verdict:
  assumes "xsd_explains (lite_facturx L)"
  shows "lv_valid (validate_content L st c) \<longleftrightarrow> lv_errors (validate_content L st c) = []"
  using assms
  by (auto simp: validate_content_def refused_def humanize_errors_eq_Nil xsd_explains_def Let_def
      split: sum.split prod.split)

lemma xml_of_file_refused:
  "xml_of_file L c pdf = Inl v \<Longrightarrow> \<not> lv_valid v \<and> lv_errors v \<noteq> []"
  by (auto simp: xml_of_file_def refused_def split: if_splits sum.splits option.splits)

interpretation lite: verdict
  "\<lambda>(L, c, n, st). fst (validate_file L c n st)"
  "\<lambda>(L, c, n, st). xsd_explains (lite_facturx L)"
  lv_valid lv_errors "\<lambda>m. True"
proof
  fix i :: "('a, 'b) lite_lib \<times> bytes \<times> pystr option \<times> 'b lite_state"
  assume g: "case i of (L, c, n, st) \<Rightarrow> xsd_explains (lite_facturx L)"
  obtain L c n st where i: "i = (L, c, n, st)" by (cases i)
  show "lv_valid (case i of (L, c, n, st) \<Rightarrow> fst (validate_file L c n st)) =
      (filter (\<lambda>m. True) (lv_errors (case i of (L, c, n, st) \<Rightarrow> fst (validate_file L c n st))) = [])"
  proof (cases "is_pdf n c")
    case (Inr pdf)
    with g show ?thesis
      by (cases "xml_of_file L c pdf")
        (auto simp: i validate_file_def Let_def validate_content_verdict dest: xml_of_file_refused)
  qed (simp add: i validate_file_def Let_def refused_def)
qed

lemma validate_content_valid:
  "lv_valid (validate_content L st c) \<longleftrightarrow>
   (\<exists>t f l. detect L c = Inr (t, f, l) \<and> xml_check_xsd (lite_facturx L) c f l = Inr () \<and>
      business_errors L st t l = [] \<and>
      validate_content L st c =
        \<lparr>lv_valid = True, lv_format = Some f, lv_flavor = Some l, lv_errors = []\<rparr>)"
  by (auto simp: validate_content_def refused_def Let_def split: sum.split prod.split)

section \<open>The rule loop\<close>

text \<open>What an assertion contributes when its text can be read.\<close>

definition assert_severity :: "'x lxml \<Rightarrow> 'x \<Rightarrow> pystr" where
  "assert_severity X a = str_lower (get_or (el_attr X a ''severity'') ''fatal'')"

definition assert_message :: "'x lxml \<Rightarrow> 'x xnode list \<Rightarrow> pystr" where
  "assert_message X ts =
     str_strip (or_default (case ts of XEl t # _ \<Rightarrow> el_text X t | _ \<Rightarrow> None) ''Unknown rule violation'')"

lemma check_assert_readable:
  assumes "xpath X svrl_ns ''svrl:text'' a = Inr (map XEl ts)"
  shows "check_assert X (XEl a) =
    Inr (if assert_severity X a \<in> {''warning'', ''info''} then [] else [assert_message X (map XEl ts)])"
  using assms
  by (cases ts) (auto simp: check_assert_def assert_severity_def assert_message_def Let_def
      or_default_def split: option.splits)

section \<open>Properties\<close>

text \<open>
  Translating technical messages keeps one message per distinct translation, in order of
  first appearance, drops only empty messages, and never yields an empty text; each output is the
  entry of the first pattern that occurs in its input, or the input itself when no pattern does.
\<close>

lemma lite_humanize:
  "distinct (humanize_errors es) \<and> [] \<notin> set (humanize_errors es) \<and>
   (humanize_errors es = [] \<longleftrightarrow> (\<forall>e \<in> set es. e = [])) \<and>
   set (humanize_errors es) = {m. \<exists>e \<in> set es. e \<noteq> [] \<and>
     ((\<exists>i < length ERROR_MAP. contains e (fst (ERROR_MAP ! i)) \<and>
         (\<forall>j < i. \<not> contains e (fst (ERROR_MAP ! j))) \<and> m = snd (ERROR_MAP ! i)) \<or>
      (\<forall>p \<in> set ERROR_MAP. \<not> contains e (fst p)) \<and> m = e)}"
proof -
  have d: "distinct (humanize_errors es)" by (simp add: humanize_errors_def)
  have s: "set (humanize_errors es) = humanize_one ERROR_MAP ` {e \<in> set es. e \<noteq> []}"
    by (cases "es = []") (simp_all add: humanize_errors_def)
  have n: "[] \<notin> set (humanize_errors es)"
  proof
    assume "[] \<in> set (humanize_errors es)"
    then obtain e where "[] = humanize_one ERROR_MAP e" "e \<in> {e \<in> set es. e \<noteq> []}"
      unfolding s by (rule imageE)
    then show False using humanize_one_nonempty [of e] by simp
  qed
  show ?thesis
    using d n humanize_errors_eq_Nil [of es] unfolding s humanize_one_iff [symmetric]
    by (simp add: image_def Bex_def)
qed

lemma lite_humanize_example:
  "distinct (humanize_errors [''no CountryID'', [], ''bad CountryID'', ''other'']) \<and>
   humanize_errors [''no CountryID'', [], ''bad CountryID'', ''other''] \<noteq> []"
  using lite_humanize [of "[''no CountryID'', [], ''bad CountryID'', ''other'']"] by simp

text \<open>
  A concrete instance for the witnesses: elements are numbers, element 1 is a document of the EN
  16931 profile, element 2 the report of the rules, and elements 3 and 4 its two failed assertions,
  the second a warning.
\<close>

definition demo_lxml :: "int lxml" where
  "demo_lxml = \<lparr>fromstring = (\<lambda>b. if b = ''<bad/>'' then Inl (OtherExn ''XMLSyntaxError'' ''bad'') else Inr 1),
     xpath = (\<lambda>ns p x. Inr (if p = ''//svrl:failed-assert'' \<and> x = 2 then [XEl 3, XEl 4]
       else if p = ''svrl:text'' then [XEl (x + 10)] else [])),
     el_text = (\<lambda>x. if x = 13 then Some '' Total mismatch '' else if x = 14 then Some ''Check me'' else None),
     el_attr = (\<lambda>x a. if x = 4 \<and> a = ''severity'' then Some ''Warning'' else None)\<rparr>"

definition demo_facturx :: "int facturx" where
  "demo_facturx = \<lparr>get_xml_from_pdf = (\<lambda>b. Inr (Some ''<xml/>'')), get_flavor = (\<lambda>x. Inr ''factur-x''),
     get_level = (\<lambda>x. Inr ''en16931''), xml_check_xsd = (\<lambda>c f l. Inr ()),
     generate_from_binary = (\<lambda>p x f l m. Inr (''%PDF'' @ x))\<rparr>"

definition demo_lite :: "(int, unit) lite_lib" where
  "demo_lite = \<lparr>lite_lxml = demo_lxml, lite_facturx = demo_facturx, core_path_exists = True,
     load_core = Inr (), run_core = (\<lambda>v x. Inr (Some 2))\<rparr>"

text \<open>
  When the texts of the failed assertions can be read, the rule check reports exactly the
  stripped messages of the assertions whose severity is neither warning nor info (in any letter case;
  a missing severity counts as fatal), in report order.
\<close>

lemma lite_rules:
  assumes "\<forall>a \<in> set as. xpath X svrl_ns ''svrl:text'' a = Inr (map XEl (ts a))"
  shows "check_asserts X (map XEl as) =
    map (\<lambda>a. assert_message X (map XEl (ts a)))
      (filter (\<lambda>a. assert_severity X a \<notin> {''warning'', ''info''}) as)"
  using assms by (induction as) (simp_all add: check_assert_readable)

text \<open>The business rules on a document: nothing is reported when they cannot be run.\<close>

lemma business_errors_open:
  "core_validator st = None \<or> (\<exists>s. core_validator st = Some s \<and> ((\<exists>e. run_core L s t = Inl e) \<or> run_core L s t = Inr None)) \<Longrightarrow>
    business_errors L st t l = []"
  by (auto simp: business_errors_def check_schematron_def)

lemma business_errors_read:
  assumes "l \<in> {''en16931'', ''extended''}" and "core_validator st = Some s" and "run_core L s t = Inr (Some rep)"
    and "xpath (lite_lxml L) svrl_ns ''//svrl:failed-assert'' rep = Inr (map XEl fas)"
    and "\<forall>a \<in> set fas. xpath (lite_lxml L) svrl_ns ''svrl:text'' a = Inr (map XEl (ts a))"
  shows "business_errors L st t l =
    map (\<lambda>a. assert_message (lite_lxml L) (map XEl (ts a)))
      (filter (\<lambda>a. assert_severity (lite_lxml L) a \<notin> {''warning'', ''info''}) fas)"
  using assms(1-4) lite_rules [OF assms(5)] by (simp add: business_errors_def check_schematron_def)

text \<open>
  Claim C28.  As long as the XSD check explains its refusals, the lite validator answers valid exactly
  when its error list is empty.  A valid answer means that the XML was found and parsed, the format and
  profile in the answer are the detected ones, the XSD check passed, and, for the EN 16931 and EXTENDED
  profiles, that every failed assertion in a report of the rules that can be read is a warning or an
  information.  The rules fail open: without the compiled stylesheet, or when the transformation raises or yields
  no report, a document that passed the XSD check is valid.
\<close>

theorem lite_sound:
  assumes "xsd_explains (lite_facturx L)" and "validate_file L c n st = (v, st')"
  shows "(lv_valid v \<longleftrightarrow> lv_errors v = []) \<and>
    st' = initialize_schematrons L st \<and>
    (lv_valid v \<longrightarrow> (\<exists>pdf xml t f l.
       is_pdf n c = Inr pdf \<and> xml_of_file L c pdf = Inr xml \<and> detect L xml = Inr (t, f, l) \<and>
       xml_check_xsd (lite_facturx L) xml f l = Inr () \<and> lv_format v = Some f \<and> lv_flavor v = Some l \<and>
       (\<forall>s rep fas ts. l \<in> {''en16931'', ''extended''} \<and> core_validator st' = Some s \<and> run_core L s t = Inr (Some rep) \<and>
          xpath (lite_lxml L) svrl_ns ''//svrl:failed-assert'' rep = Inr (map XEl fas) \<and>
          (\<forall>a \<in> set fas. xpath (lite_lxml L) svrl_ns ''svrl:text'' a = Inr (map XEl (ts a))) \<longrightarrow>
          (\<forall>a \<in> set fas. assert_severity (lite_lxml L) a \<in> {''warning'', ''info''})))) \<and>
    (is_pdf n c = Inr pdf \<and> xml_of_file L c pdf = Inr xml \<and> detect L xml = Inr (t, f, l) \<and>
     xml_check_xsd (lite_facturx L) xml f l = Inr () \<and>
     (core_validator st' = None \<or>
      (\<exists>s. core_validator st' = Some s \<and> ((\<exists>e. run_core L s t = Inl e) \<or> run_core L s t = Inr None))) \<longrightarrow> lv_valid v)"
proof (intro conjI impI)
  have v: "v = fst (validate_file L c n st)" and st': "st' = initialize_schematrons L st"
    using assms(2) by (auto simp: validate_file_def Let_def)
  show "lv_valid v \<longleftrightarrow> lv_errors v = []"
    using lite.entries_strict [of "(L, c, n, st)"] assms(1) by (simp add: v)
  show "st' = initialize_schematrons L st" by (rule st')
  show "lv_valid v" if "is_pdf n c = Inr pdf \<and> xml_of_file L c pdf = Inr xml \<and> detect L xml = Inr (t, f, l) \<and>
     xml_check_xsd (lite_facturx L) xml f l = Inr () \<and>
     (core_validator st' = None \<or>
      (\<exists>s. core_validator st' = Some s \<and> ((\<exists>e. run_core L s t = Inl e) \<or> run_core L s t = Inr None)))"
    using that business_errors_open [of st' L t l]
    by (simp add: v validate_file_def Let_def st' validate_content_def)
  assume valid: "lv_valid v"
  obtain pdf xml where p: "is_pdf n c = Inr pdf" "xml_of_file L c pdf = Inr xml" and vc: "v = validate_content L st' xml"
    using valid by (cases "is_pdf n c")
      (auto simp: v st' validate_file_def Let_def refused_def split: sum.splits dest: xml_of_file_refused)
  obtain t f l where d: "detect L xml = Inr (t, f, l)" "xml_check_xsd (lite_facturx L) xml f l = Inr ()"
    "business_errors L st' t l = []" "lv_format v = Some f" "lv_flavor v = Some l"
    using valid [unfolded vc validate_content_valid] vc by (metis lite_verdict.select_convs(2,3))
  have "\<forall>a \<in> set fas. assert_severity (lite_lxml L) a \<in> {''warning'', ''info''}"
    if "l \<in> {''en16931'', ''extended''} \<and> core_validator st' = Some s \<and> run_core L s t = Inr (Some rep) \<and>
      xpath (lite_lxml L) svrl_ns ''//svrl:failed-assert'' rep = Inr (map XEl fas) \<and>
      (\<forall>a \<in> set fas. xpath (lite_lxml L) svrl_ns ''svrl:text'' a = Inr (map XEl (ts a)))" for s rep fas ts
    using business_errors_read [of l st' s L t rep fas ts] that d(3) by (simp add: filter_empty_conv)
  with p d show "\<exists>pdf xml t f l.
       is_pdf n c = Inr pdf \<and> xml_of_file L c pdf = Inr xml \<and> detect L xml = Inr (t, f, l) \<and>
       xml_check_xsd (lite_facturx L) xml f l = Inr () \<and> lv_format v = Some f \<and> lv_flavor v = Some l \<and>
       (\<forall>s rep fas ts. l \<in> {''en16931'', ''extended''} \<and> core_validator st' = Some s \<and> run_core L s t = Inr (Some rep) \<and>
          xpath (lite_lxml L) svrl_ns ''//svrl:failed-assert'' rep = Inr (map XEl fas) \<and>
          (\<forall>a \<in> set fas. xpath (lite_lxml L) svrl_ns ''svrl:text'' a = Inr (map XEl (ts a))) \<longrightarrow>
          (\<forall>a \<in> set fas. assert_severity (lite_lxml L) a \<in> {''warning'', ''info''}))"
    by blast
qed

theorem lite_sound_witness:
  "lv_errors (fst (validate_file demo_lite ''%PDF-1.7'' (Some ''a.pdf'') \<lparr>core_validator = None\<rparr>))
     = [''Total mismatch''] \<and>
   \<not> lv_valid (fst (validate_file demo_lite ''%PDF-1.7'' (Some ''a.pdf'') \<lparr>core_validator = None\<rparr>))"
proof -
  have x: "xsd_explains (lite_facturx demo_lite)"
    by (simp add: xsd_explains_def demo_lite_def demo_facturx_def)
  have e: "lv_errors (fst (validate_file demo_lite ''%PDF-1.7'' (Some ''a.pdf'') \<lparr>core_validator = None\<rparr>))
     = [''Total mismatch'']"
    by code_simp
  with lite_sound [OF x prod.collapse [symmetric]] show ?thesis by simp
qed

lemma lite_rules_example:
  "check_asserts demo_lxml (map XEl [3, 4]) =
    map (\<lambda>a. assert_message demo_lxml (map XEl [a + 10]))
      (filter (\<lambda>a. assert_severity demo_lxml a \<notin> {''warning'', ''info''}) [3, 4])"
  using lite_rules [of "[3, 4]" demo_lxml "\<lambda>a. [a + 10]"] by (simp add: demo_lxml_def)

end
