(* ===== verification/Float_Repr.thy ===== *)
theory Float_Repr
  imports Py_Float
begin

text \<open>
  Printing and reading a float give it back: the shortest decimal that \<open>float_repr\<close> finds always
  exists with at most 17 digits, and \<open>py_float\<close> reads the printed text as the same float.
\<close>

section \<open>Rounding depends on the value only\<close>

lemma rne_value:
  assumes "0 \<le> n" and "0 < d"
  shows "rne n d =
    (let v = real_of_int n / real_of_int d; q = \<lfloor>v\<rfloor>
     in if 2 * (v - real_of_int q) < 1 then q else if 1 < 2 * (v - real_of_int q) then q + 1
        else if even q then q else q + 1)"
proof -
  let ?q = "n div d" let ?r = "n mod d"
  have fl: "\<lfloor>real_of_int n / real_of_int d\<rfloor> = ?q" by (simp add: floor_divide_of_int_eq)
  have "real_of_int n = real_of_int d * real_of_int ?q + real_of_int ?r"
    by (metis of_int_add of_int_mult mult_div_mod_eq)
  then have q: "real_of_int n / real_of_int d - real_of_int ?q = real_of_int ?r / real_of_int d"
    using assms(2) by (simp add: field_simps)
  have "2 * (real_of_int ?r / real_of_int d) < 1 \<longleftrightarrow> 2 * ?r < d"
    "1 < 2 * (real_of_int ?r / real_of_int d) \<longleftrightarrow> d < 2 * ?r"
    using assms(2) by (auto simp: field_simps)
  then show ?thesis unfolding rne_def Let_def fl q by simp
qed

lemma powi_less_iff: "(2::real) powi i < 2 powi j \<longleftrightarrow> i < j"
  using power_int_strict_increasing [of i j "2::real"] power_int_increasing [of j i "2::real"]
  by (cases "i < j") (auto simp: not_less)

lemma powi_add_52: "(2::real) powi (k + 52) = 4503599627370496 * 2 powi k"
  by (simp add: power_int_add)

lemma powi_unique:
  fixes v :: real
  assumes "2 powi i \<le> v" and "v < 2 powi (i + 1)" and "2 powi j \<le> v" and "v < 2 powi (j + 1)"
  shows "i = j"
proof -
  have "(2::real) powi i < 2 powi (j + 1)" "(2::real) powi j < 2 powi (i + 1)" using assms by linarith+
  then show ?thesis unfolding powi_less_iff by linarith
qed

lemma log2_ratio_unique:
  assumes "0 < a" and "0 < b" and "2 powi k \<le> real_of_int a / real_of_int b"
    and "real_of_int a / real_of_int b < 2 powi (k + 1)"
  shows "log2_ratio a b = k"
  using powi_unique [OF log2_ratio_bounds [OF assms(1,2)] assms(3,4)] .

lemma round_ratio_cong:
  assumes "0 < a" and "0 < b" and "0 < a'" and "0 < b'"
    and "real_of_int a / real_of_int b = real_of_int a' / real_of_int b'"
  shows "round_ratio s a b = round_ratio s a' b'"
proof -
  have "log2_ratio a b = log2_ratio a' b'"
    using log2_ratio_bounds [OF assms(3,4)] unfolding assms(5) [symmetric]
    by (rule log2_ratio_unique [OF assms(1,2)])
  then have u: "ulp_exp a b = ulp_exp a' b'" by (simp add: ulp_exp_def)
  obtain n d where sc: "scale2 a b (ulp_exp a b) = (n, d)" by fastforce
  obtain n' d' where sc': "scale2 a' b' (ulp_exp a' b') = (n', d')" by fastforce
  note r = scale_ratio [OF sc assms(2) zero_less_numeral]
  note r' = scale_ratio [OF sc' assms(4) zero_less_numeral]
  have "0 \<le> n" "0 \<le> n'" using r(3) r'(3) assms by auto
  moreover have "real_of_int n / real_of_int d = real_of_int n' / real_of_int d'"
    unfolding r(2) r'(2) u assms(5) ..
  ultimately have "rne n d = rne n' d'" using r(1) r'(1) by (simp add: rne_value)
  moreover have "a \<noteq> 0" "a' \<noteq> 0" using assms by auto
  ultimately show ?thesis
    unfolding round_ratio_unfold [OF \<open>a \<noteq> 0\<close> sc] round_ratio_unfold [OF \<open>a' \<noteq> 0\<close> sc'] u by simp
qed

section \<open>A ratio close to a float rounds to it\<close>

lemma round_ratio_at:
  assumes "0 < a" and "0 < b" and "ulp_exp a b = e" and "e \<le> 971" and "0 \<le> m" and "m < 2 ^ 53"
    and "\<bar>real_of_int a / real_of_int b - real_of_int m * 2 powi e\<bar> < 2 powi e / 2"
  shows "round_ratio s a b = FFin s m e"
proof -
  obtain n d where sc: "scale2 a b (ulp_exp a b) = (n, d)" by fastforce
  note r = scale_ratio [OF sc assms(2) zero_less_numeral, unfolded of_int_numeral assms(3)]
  have n: "0 \<le> n" using r(3) assms(1) by simp
  have "\<bar>(real_of_int a / real_of_int b - real_of_int m * 2 powi e) / 2 powi e\<bar> < 1 / 2"
    using assms(7) by (simp add: abs_divide pos_divide_less_eq)
  then have "\<bar>real_of_int n / real_of_int d - real_of_int m\<bar> < 1 / 2"
    unfolding r(2) by (simp add: diff_divide_distrib)
  then have "rne n d = m" using n r(1) by (intro rne_near_int) auto
  moreover have "a \<noteq> 0" using assms(1) by simp
  ultimately show ?thesis
    using assms(4,6) unfolding round_ratio_unfold [OF \<open>a \<noteq> 0\<close> sc] assms(3) by simp
qed

lemma round_ratio_carry:
  assumes "0 < a" and "0 < b" and "ulp_exp a b = e" and "e + 1 \<le> 971"
    and "\<bar>real_of_int a / real_of_int b - 2 ^ 53 * 2 powi e\<bar> < 2 powi e / 2"
  shows "round_ratio s a b = FFin s (2 ^ 52) (e + 1)"
proof -
  obtain n d where sc: "scale2 a b (ulp_exp a b) = (n, d)" by fastforce
  note r = scale_ratio [OF sc assms(2) zero_less_numeral, unfolded of_int_numeral assms(3)]
  have n: "0 \<le> n" using r(3) assms(1) by simp
  have "\<bar>(real_of_int a / real_of_int b - 2 ^ 53 * 2 powi e) / 2 powi e\<bar> < 1 / 2"
    using assms(5) by (simp add: abs_divide pos_divide_less_eq)
  then have "\<bar>real_of_int n / real_of_int d - real_of_int (2 ^ 53)\<bar> < 1 / 2"
    unfolding r(2) by (simp add: diff_divide_distrib)
  then have "rne n d = 2 ^ 53" using n r(1) by (intro rne_near_int) auto
  moreover have "a \<noteq> 0" using assms(1) by simp
  ultimately show ?thesis
    using assms(4) unfolding round_ratio_unfold [OF \<open>a \<noteq> 0\<close> sc] assms(3) by simp
qed

lemma round_ratio_nearest:
  assumes "wf_float (FFin s m e)" and "0 < m" and "0 < a" and "0 < b"
    and "\<bar>real_of_int a / real_of_int b - real_of_int m * 2 powi e\<bar> < 2 powi e / 2"
    and "m = 2 ^ 52 \<Longrightarrow> \<bar>real_of_int a / real_of_int b - real_of_int m * 2 powi e\<bar> < 2 powi e / 4"
  shows "round_ratio s a b = FFin s m e"
proof -
  let ?v = "real_of_int a / real_of_int b"
  have wf: "m < 2 ^ 53" "-1074 \<le> e" "e \<le> 971" "2 ^ 52 \<le> m \<or> e = -1074"
    using assms(1) by (auto simp: wf_float_def)
  have p: "0 < (2::real) powi e" by simp
  have "real_of_int m + 1 \<le> real_of_int (2 ^ 53)" using wf(1) by linarith
  then have "(real_of_int m + 1) * 2 powi e \<le> real_of_int (2 ^ 53) * 2 powi e"
    by (intro mult_right_mono) auto
  moreover have "(2::real) powi (e + 53) = real_of_int (2 ^ 53) * 2 powi e" by (simp add: power_int_add)
  ultimately have hi: "?v < 2 powi (e + 53)"
    using assms(5) p unfolding distrib_right abs_less_iff by linarith
  show ?thesis
  proof (cases "2 powi (e + 52) \<le> ?v \<or> e = -1074")
    case True
    have "ulp_exp a b = e"
    proof (cases "e = -1074")
      case e: True
      then have "ulp_exp a b \<le> -1021 - 53" using hi by (intro ulp_exp_le [OF assms(3,4)]) auto
      then show ?thesis by (simp add: ulp_exp_def e)
    next
      case False
      have "e + 52 + 1 = e + 53" by simp
      with False True hi have "log2_ratio a b = e + 52"
        by (intro log2_ratio_unique [OF assms(3,4)]) (simp_all only: simp_thms)
      with wf(2) show ?thesis by (simp add: ulp_exp_def)
    qed
    then show ?thesis using assms wf by (intro round_ratio_at) auto
  next
    case False
    then have lo: "?v < 2 powi (e + 52)" and e: "-1074 < e" "2 ^ 52 \<le> m" using wf(2,4) by auto
    have m: "m = 2 ^ 52"
    proof (rule ccontr)
      assume "m \<noteq> 2 ^ 52"
      with e(2) have "real_of_int (2 ^ 52) + 1 \<le> real_of_int m" by linarith
      then have "(real_of_int (2 ^ 52) + 1) * 2 powi e \<le> real_of_int m * 2 powi e"
        by (intro mult_right_mono) auto
      moreover have "(2::real) powi (e + 52) = real_of_int (2 ^ 52) * 2 powi e" by (simp add: power_int_add)
      ultimately show False using assms(5) lo p unfolding distrib_right abs_less_iff by linarith
    qed
    have pe: "(2::real) powi e = 2 * 2 powi (e - 1)" using powi_add_1 [of "e - 1"] by simp
    note near = assms(6) [OF m, unfolded m of_int_power of_int_numeral pe]
    have "0 < (2::real) powi (e - 1)" by simp
    moreover have "\<bar>?v - 9007199254740992 * 2 powi (e - 1)\<bar> < 2 powi (e - 1) / 2" using near by simp
    ultimately have "2 powi (e - 1 + 52) \<le> ?v" using powi_add_52 [of "e - 1"] unfolding abs_less_iff by linarith
    moreover have "e - 1 + 52 + 1 = e + 52" by simp
    ultimately have "log2_ratio a b = e - 1 + 52" using lo by (intro log2_ratio_unique [OF assms(3,4)]) (simp_all only:)
    with e(1) have "ulp_exp a b = e - 1" by (simp add: ulp_exp_def)
    from round_ratio_carry [OF assms(3,4) this] show ?thesis
      using wf(3) near unfolding m by simp
  qed
qed

section \<open>The shortest decimal exists\<close>

lemma dec_str_lower:
  assumes "0 < n"
  shows "10 ^ (length (dec_str n) - 1) \<le> n" and "n < 10 ^ length (dec_str n)"
proof -
  have "10 ^ (length (dec_str n) - 1) \<le> n \<and> n < 10 ^ length (dec_str n)"
    using assms
  proof (induction n rule: dec_str.induct)
    case (1 n)
    show ?case
    proof (cases "n < 10")
      case True
      with 1 show ?thesis by (simp add: dec_str.simps [of n])
    next
      case False
      let ?h = "n div 10" let ?l = "length (dec_str ?h)"
      have IH: "10 ^ (?l - 1) \<le> ?h" "?h < 10 ^ ?l" using 1 False by auto
      have l: "0 < ?l" by simp
      have "10 ^ ?l = 10 * (10::int) ^ (?l - 1)" using l by (metis Suc_diff_1 power_Suc)
      also have "\<dots> \<le> n" using IH(1) by linarith
      finally have "10 ^ ?l \<le> n" .
      moreover have "n < 10 * 10 ^ ?l" using IH(2) by linarith
      ultimately show ?thesis using False by (simp add: dec_str.simps [of n])
    qed
  qed
  then show "10 ^ (length (dec_str n) - 1) \<le> n" and "n < 10 ^ length (dec_str n)" by auto
qed

lemma dec_exp_lower:
  assumes "0 < a" and "0 < b"
  shows "10 powi dec_exp a b \<le> real_of_int a / real_of_int b"
proof (cases "b \<le> a")
  case True
  let ?q = "a div b"
  have q: "0 < ?q" using assms True by (simp add: pos_imp_zdiv_pos_iff)
  have l: "0 < length (dec_str ?q)" by simp
  then have "(10::real) powi dec_exp a b = real_of_int (10 ^ (length (dec_str ?q) - 1))"
    using True by (simp add: dec_exp_def power_int_def nat_diff_distrib Suc_leI)
  also have "\<dots> \<le> real_of_int ?q" using dec_str_lower(1) [OF q] by (simp only: of_int_le_iff)
  also have "\<dots> \<le> real_of_int a / real_of_int b" 
    using of_int_floor_le [of "real_of_int a / real_of_int b"] by (simp only: floor_divide_of_int_eq)
  finally show ?thesis .
next
  case False
  let ?c = "(b + a - 1) div a" let ?k = "?c - 1"
  have "b + a - 1 = a * ?c + (b + a - 1) mod a" by simp
  moreover have "(b + a - 1) mod a < a" using assms(1) by simp
  ultimately have c: "b \<le> a * ?c" by linarith
  have "2 \<le> ?c"
  proof (rule ccontr)
    assume "\<not> 2 \<le> ?c"
    then have "a * ?c \<le> a * 1" using assms(1) by (intro mult_left_mono) auto
    with c False show False by simp
  qed
  then have k: "0 < ?k" by simp
  have "?c \<le> 10 ^ length (dec_str ?k)" using dec_str_lower(2) [OF k] by simp
  then have "a * ?c \<le> a * 10 ^ length (dec_str ?k)" using assms(1) by (intro mult_left_mono) auto
  with c have "b \<le> a * 10 ^ length (dec_str ?k)" by linarith
  then have "real_of_int b \<le> real_of_int (a * 10 ^ length (dec_str ?k))" by (simp only: of_int_le_iff)
  then have "1 / 10 ^ length (dec_str ?k) \<le> real_of_int a / real_of_int b"
    using assms by (simp add: field_simps)
  moreover have "(10::real) powi dec_exp a b = 1 / 10 ^ length (dec_str ?k)"
    using False by (simp add: dec_exp_def power_int_minus divide_inverse)
  ultimately show ?thesis by simp
qed

definition rounds_to :: "bool \<Rightarrow> int \<Rightarrow> int \<Rightarrow> pyfloat \<Rightarrow> bool" where
  "rounds_to s D sc x \<longleftrightarrow> (case scale10 D 1 sc of (u, v) \<Rightarrow> round_ratio s u v = x)"

lemma try_digits_Some:
  assumes "try_digits s a b x n = Some (D, sc)" and "0 < a" and "0 < b"
  shows "0 \<le> D" and "rounds_to s D sc x"
proof -
  obtain p q where pq: "scale10 a b (- (n - 1 - dec_exp a b)) = (p, q)" by fastforce
  note r = scale_ratio [OF pq assms(3) zero_less_numeral]
  have p: "0 \<le> p" using r(3) assms(2) by simp
  have d: "0 \<le> p div q" using p r(1) by (simp add: pos_imp_zdiv_nonneg_iff)
  then have "0 \<le> rne p q" using rne_bounds(2) [OF p r(1)] by linarith
  with d show "0 \<le> D" and "rounds_to s D sc x"
    using assms(1) unfolding try_digits_def Let_def pq by (auto simp: rounds_to_def split: if_splits)
qed

lemma abs_div_diff:
  fixes t :: real
  assumes "0 < t"
  shows "\<bar>d / t - x\<bar> = \<bar>d - x * t\<bar> / t"
proof -
  have "d / t - x = (d - x * t) / t" using assms by (simp add: diff_divide_distrib)
  with assms show ?thesis by (simp only: abs_divide abs_of_pos)
qed

lemma try_17:
  assumes "wf_float (FFin s m e)" and "0 < m" and "scale2 m 1 (- e) = (a, b)"
  shows "try_digits s a b (FFin s m e) 17 \<noteq> None"
proof -
  note ab = scale_ratio [OF assms(3) zero_less_one zero_less_numeral]
  let ?x = "real_of_int m * 2 powi e" let ?sc = "16 - dec_exp a b"
  have v: "real_of_int a / real_of_int b = ?x"
    unfolding ab(2) by (simp add: power_int_minus divide_inverse)
  have x: "0 < ?x" using assms(2) by simp
  have b: "0 < b" by (rule ab(1))
  with v x have a: "0 < a" by (metis of_int_0_less_iff zero_less_divide_iff less_asym of_int_0_less_iff)
  obtain p q where pq: "scale10 a b (- ?sc) = (p, q)" by fastforce
  note r = scale_ratio [OF pq b zero_less_numeral, unfolded v of_int_numeral]
  have p: "0 \<le> p" using r(3) a by simp
  let ?D = "rne p q" let ?T = "(10::real) powi ?sc"
  have T: "0 < ?T" by simp
  have pv: "real_of_int p / real_of_int q = ?x * ?T"
    by (subst r(2)) (simp only: power_int_minus divide_inverse inverse_inverse_eq)
  have "10 powi dec_exp a b * ?T \<le> ?x * ?T"
    using dec_exp_lower [OF a b] unfolding v by (intro mult_right_mono) auto
  moreover have "(10::real) powi dec_exp a b * ?T = 10 powi 16"
    by (simp flip: power_int_add)
  ultimately have big: "10 ^ 16 \<le> ?x * ?T" by (simp add: power_int_def)
  have near: "\<bar>real_of_int ?D - ?x * ?T\<bar> \<le> 1 / 2" using rne_bounds(1) [OF p r(1)] unfolding pv .
  have "(1::real) \<le> 10 ^ 16" by simp
  then have "0 < real_of_int ?D" using near big unfolding abs_le_iff by linarith
  then have D: "0 < ?D" by simp
  obtain u w where uw: "scale10 ?D 1 ?sc = (u, w)" by fastforce
  note z = scale_ratio [OF uw zero_less_one zero_less_numeral, unfolded of_int_numeral]
  have dv: "real_of_int u / real_of_int w = real_of_int ?D / ?T" unfolding z(2) by simp
  have w: "0 < w" by (rule z(1))
  have "0 < real_of_int ?D / ?T" using D T by simp
  with dv w have u: "0 < u" by (metis of_int_0_less_iff zero_less_divide_iff less_asym)
  have "\<bar>real_of_int ?D / ?T - ?x\<bar> = \<bar>real_of_int ?D - ?x * ?T\<bar> / ?T"
    using T by (rule abs_div_diff)
  also have "\<dots> \<le> (1 / 2) / ?T" using near T by (intro divide_right_mono) auto
  also have "\<dots> \<le> (1 / 2) * (?x / 10 ^ 16)" using big T by (simp add: field_simps)
  finally have err: "\<bar>real_of_int u / real_of_int w - ?x\<bar> \<le> real_of_int m * 2 powi e / (2 * 10 ^ 16)"
    unfolding dv by simp
  have "real_of_int m < 10 ^ 16" using assms(1) by (simp add: wf_float_def)
  then have "real_of_int m * 2 powi e < 10 ^ 16 * 2 powi e" by (intro mult_strict_right_mono) auto
  then have h1: "real_of_int m * 2 powi e / (2 * 10 ^ 16) < 2 powi e / 2" by (simp add: field_simps)
  have h2: "real_of_int m * 2 powi e / (2 * 10 ^ 16) < 2 powi e / 4" if "m = 2 ^ 52"
    by (simp add: that)
  have "round_ratio s u w = FFin s m e"
    by (rule round_ratio_nearest [OF assms(1,2) u w]) (use err h1 h2 in linarith)+
  moreover have "17 - 1 - dec_exp a b = ?sc" by simp
  ultimately show ?thesis unfolding try_digits_def Let_def by (simp only: pq uw prod.case) simp
qed

lemma shortest_rounds:
  assumes "0 < a" and "0 < b" and "\<exists>n \<in> set ns. try_digits s a b x n \<noteq> None" and "shortest s a b x ns = (D, sc)"
  shows "0 \<le> D \<and> rounds_to s D sc x"
  using assms(3,4)
proof (induction ns)
  case (Cons n ns)
  show ?case
  proof (cases "try_digits s a b x n")
    case None
    with Cons show ?thesis by auto
  next
    case (Some y)
    with Cons.prems have "try_digits s a b x n = Some (D, sc)" by simp
    from try_digits_Some [OF this assms(1,2)] show ?thesis by blast
  qed
qed simp

section \<open>Reading the printed text\<close>

text \<open>A decimal text: digits, an optional fraction, an optional exponent.\<close>

definition exp_text :: "int option \<Rightarrow> pystr" where
  "exp_text x = (case x of None \<Rightarrow> []
     | Some k \<Rightarrow> ''e'' @ (if k < 0 then ''-'' else ''+'') @ pad_zeros 2 (dec_str \<bar>k\<bar>))"

definition frac_text :: "pystr option \<Rightarrow> pystr" where
  "frac_text f = (case f of None \<Rightarrow> [] | Some ds \<Rightarrow> ''.'' @ ds)"

lemma non_digits: "\<not> is_digit (CHR ''.'')" "\<not> is_digit (CHR ''e'')" "\<not> is_digit (CHR ''-'')" "\<not> is_digit (CHR ''+'')"
  by (simp_all add: is_digit_def byte_of_def)

lemma digits_val_zeros: "digits_val (replicate k (CHR ''0'')) = 0"
proof (induction k)
  case (Suc k)
  have "replicate (Suc k) (CHR ''0'') = replicate k (CHR ''0'') @ [CHR ''0'']"
    by (simp add: replicate_append_same)
  with Suc show ?case by (simp add: byte_of_def del: replicate_Suc)
qed simp

lemma pad_zeros_val:
  assumes "0 \<le> n"
  shows "\<forall>c \<in> set (pad_zeros p (dec_str n)). is_digit c" and "digits_val (pad_zeros p (dec_str n)) = n"
    and "pad_zeros p (dec_str n) \<noteq> []"
proof -
  have zero: "is_digit (CHR ''0'')" by (simp add: is_digit_def byte_of_def)
  with assms show "\<forall>c \<in> set (pad_zeros p (dec_str n)). is_digit c"
    by (auto simp: pad_zeros_def dest: dec_str_digits)
  show "pad_zeros p (dec_str n) \<noteq> []" by (simp add: pad_zeros_def)
  show "digits_val (pad_zeros p (dec_str n)) = n"
    using assms by (simp add: pad_zeros_def digits_val_append digits_val_zeros)
qed

lemma read_exponent_text: "read_exponent (exp_text x) = Some (case x of None \<Rightarrow> 0 | Some k \<Rightarrow> k)"
proof (cases x)
  case (Some k)
  note p = pad_zeros_val [of "\<bar>k\<bar>" 2]
  have "digitpart (pad_zeros 2 (dec_str \<bar>k\<bar>)) = (pad_zeros 2 (dec_str \<bar>k\<bar>), [])"
    using p(1) by (intro digitpart_digits) simp
  with p show ?thesis
    by (cases "k < 0") (simp_all add: Some exp_text_def read_exponent_def read_sign_def)
qed (simp add: exp_text_def read_exponent_def)

lemma exp_text_head: "exp_text x = [] \<or> hd (exp_text x) = CHR ''e''"
  by (cases x) (simp_all add: exp_text_def)

lemma read_decimal_text:
  assumes "\<forall>c \<in> set i. is_digit c" and "i \<noteq> []" and "\<forall>ds. f = Some ds \<longrightarrow> (\<forall>c \<in> set ds. is_digit c)"
    and "scale10 (digits_val (i @ (case f of None \<Rightarrow> [] | Some ds \<Rightarrow> ds))) 1
           (int (length (case f of None \<Rightarrow> [] | Some ds \<Rightarrow> ds)) - (case x of None \<Rightarrow> 0 | Some k \<Rightarrow> k)) = (a, b)"
  shows "read_decimal s (i @ frac_text f @ exp_text x) = Some (round_ratio s a b)"
proof (cases f)
  case None
  have "digitpart (i @ exp_text x) = (i, exp_text x)"
    using assms(1) exp_text_head [of x] by (intro digitpart_digits_then) (auto simp: non_digits)
  moreover have "(case exp_text x of c # r' \<Rightarrow> if c = CHR ''.'' then digitpart r' else ([], exp_text x)
      | [] \<Rightarrow> ([], exp_text x)) = ([], exp_text x)"
    by (cases x) (simp_all add: exp_text_def)
  ultimately show ?thesis
    using assms(2,4) by (simp add: None frac_text_def read_decimal_def read_exponent_text)
next
  case (Some ds)
  have "digitpart (i @ CHR ''.'' # ds @ exp_text x) = (i, CHR ''.'' # ds @ exp_text x)"
    using assms(1) by (intro digitpart_digits_then) (auto simp: non_digits)
  moreover have "digitpart (ds @ exp_text x) = (ds, exp_text x)"
    using assms(3) Some exp_text_head [of x] by (intro digitpart_digits_then) (auto simp: non_digits)
  ultimately show ?thesis
    using assms(2,4) by (simp add: Some frac_text_def read_decimal_def read_exponent_text)
qed

lemma py_float_text:
  assumes "\<forall>c \<in> set t. is_digit c \<or> c \<in> {CHR ''.'', CHR ''e'', CHR ''-'', CHR ''+''}"
    and "t \<noteq> []" and "is_digit (hd t)"
  shows "py_float ((if s then ''-'' else []) @ t) = read_decimal s t"
proof -
  have ok: "byte_of c < 128 \<and> \<not> is_space [c]" if "c \<in> set t \<or> c = CHR ''-''" for c
  proof (cases "is_digit c")
    case True
    then show ?thesis by (simp add: byte_of_digit_bound digit_not_space)
  next
    case False
    have "c \<in> {CHR ''.'', CHR ''e'', CHR ''-'', CHR ''+''}"
      using that
    proof
      assume "c \<in> set t"
      from bspec [OF assms(1) this] False show ?thesis by simp
    qed simp
    then show ?thesis by (elim insertE emptyE) (simp_all add: byte_of_def is_space_def)
  qed
  have strip: "str_strip ((if s then ''-'' else []) @ t) = (if s then ''-'' else []) @ t"
    using ok by (intro str_strip_ascii_id) (auto split: if_splits)
  obtain d r where t: "t = d # r" "is_digit d" using assms(2,3) by (cases t) auto
  then have "read_sign ((if s then ''-'' else []) @ t) = (s, t)"
    by (auto simp: read_sign_def is_digit_def byte_of_def)
  moreover have "str_lower t \<noteq> c # w" if "\<not> is_digit c" for c w
    using t that by (auto simp: str_lower_def)
  moreover have "\<not> is_digit (CHR ''i'')" "\<not> is_digit (CHR ''n'')" by (simp_all add: is_digit_def byte_of_def)
  ultimately show ?thesis by (simp add: py_float_def strip)
qed

section \<open>The digits\<close>

lemma strip_zeros_dec:
  assumes "0 < D"
  obtains ds z where "dec_str D = ds @ replicate z (CHR ''0'')" "strip_zeros (dec_str D) = ds" "ds \<noteq> []"
    "\<forall>c \<in> set ds. is_digit c" "D = digits_val ds * 10 ^ z"
proof -
  let ?r = "rev (dec_str D)"
  let ?z = "length (takeWhile (\<lambda>c. c = CHR ''0'') ?r)"
  have "takeWhile (\<lambda>c. c = CHR ''0'') ?r = replicate ?z (CHR ''0'')"
    by (intro replicate_eqI [symmetric, THEN sym]) (auto dest: set_takeWhileD)
  then have split: "dec_str D = strip_zeros (dec_str D) @ replicate ?z (CHR ''0'')"
    by (metis rev_append rev_replicate rev_rev_ident strip_zeros_def takeWhile_dropWhile_id)
  have "D = digits_val (dec_str D)" using assms by simp
  also have "\<dots> = digits_val (strip_zeros (dec_str D)) * 10 ^ ?z"
    by (subst split) (simp add: digits_val_append digits_val_zeros)
  finally have D: "D = digits_val (strip_zeros (dec_str D)) * 10 ^ ?z" .
  moreover have "strip_zeros (dec_str D) \<noteq> []" using D assms by auto
  moreover have "\<forall>c \<in> set (strip_zeros (dec_str D)). is_digit c"
    using assms split dec_str_digits [of D] by (metis Un_iff less_imp_le set_append)
  ultimately show thesis using split that by blast
qed

lemma text_chars:
  assumes "\<forall>c \<in> set i. is_digit c" and "\<forall>ds. f = Some ds \<longrightarrow> (\<forall>c \<in> set ds. is_digit c)"
  shows "\<forall>c \<in> set (i @ frac_text f @ exp_text x). is_digit c \<or> c \<in> {CHR ''.'', CHR ''e'', CHR ''-'', CHR ''+''}"
proof -
  have "\<forall>c \<in> set (exp_text x). is_digit c \<or> c \<in> {CHR ''.'', CHR ''e'', CHR ''-'', CHR ''+''}"
  proof (cases x)
    case (Some k)
    have "\<forall>c \<in> set (pad_zeros 2 (dec_str \<bar>k\<bar>)). is_digit c" by (rule pad_zeros_val) simp
    then show ?thesis by (cases "k < 0") (simp_all add: Some exp_text_def)
  qed (simp add: exp_text_def)
  moreover have "\<forall>c \<in> set (frac_text f). is_digit c \<or> c \<in> {CHR ''.'', CHR ''e'', CHR ''-'', CHR ''+''}"
    using assms(2) by (cases f) (simp_all add: frac_text_def)
  ultimately show ?thesis using assms(1) by (simp add: ball_Un)
qed

definition text_value :: "pystr \<Rightarrow> pystr option \<Rightarrow> int option \<Rightarrow> real" where
  "text_value i f x =
     (let ds = (case f of None \<Rightarrow> [] | Some ds \<Rightarrow> ds); k = (case x of None \<Rightarrow> 0 | Some k \<Rightarrow> k)
      in real_of_int (digits_val (i @ ds)) * 10 powi (k - int (length ds)))"

lemma py_float_decimal:
  assumes "\<forall>c \<in> set i. is_digit c" and "i \<noteq> []" and "\<forall>ds. f = Some ds \<longrightarrow> (\<forall>c \<in> set ds. is_digit c)"
    and "0 < text_value i f x"
  obtains a b where "0 < a" "0 < b" "real_of_int a / real_of_int b = text_value i f x"
    "py_float ((if s then ''-'' else []) @ i @ frac_text f @ exp_text x) = Some (round_ratio s a b)"
proof -
  let ?ds = "case f of None \<Rightarrow> [] | Some ds \<Rightarrow> ds" let ?k = "case x of None \<Rightarrow> 0 | Some k \<Rightarrow> k"
  obtain a b where ab: "scale10 (digits_val (i @ ?ds)) 1 (int (length ?ds) - ?k) = (a, b)" by fastforce
  note r = scale_ratio [OF ab zero_less_one zero_less_numeral, unfolded of_int_numeral]
  have "?k - int (length ?ds) = - (int (length ?ds) - ?k)" by simp
  then have v: "real_of_int a / real_of_int b = text_value i f x"
    unfolding r(2) text_value_def Let_def by (simp only: power_int_minus divide_inverse of_int_1 inverse_1 mult_1_right)
  have b: "0 < b" by (rule r(1))
  with v assms(4) have a: "0 < a" by (metis of_int_0_less_iff zero_less_divide_iff less_asym)
  have "is_digit (hd (i @ frac_text f @ exp_text x))" using assms(1,2) by (cases i) auto
  then have "py_float ((if s then ''-'' else []) @ i @ frac_text f @ exp_text x) = Some (round_ratio s a b)"
    using read_decimal_text [OF assms(1-3) ab, of s] assms(2)
    by (subst py_float_text [OF text_chars [OF assms(1,3)]]) simp_all
  with a b v show thesis by (rule that)
qed

text \<open>The three layouts of a printed float.\<close>

lemma repr_digits_text:
  assumes "\<forall>c \<in> set ds. is_digit c" and "ds \<noteq> []"
  obtains i f x where "repr_digits ds pt = i @ frac_text f @ exp_text x" "\<forall>c \<in> set i. is_digit c" "i \<noteq> []"
    "\<forall>w. f = Some w \<longrightarrow> (\<forall>c \<in> set w. is_digit c)"
    "text_value i f x = real_of_int (digits_val ds) * 10 powi (pt - int (length ds))"
proof -
  have zero: "is_digit (CHR ''0'')" by (simp add: is_digit_def byte_of_def)
  have z: "digits_val ''0'' = 0" by (simp add: digits_val_def byte_of_def)
  have l: "length ds = 1 \<or> 1 < length ds" using assms(2) by (cases ds) auto
  consider "-4 < pt" "pt \<le> 0" | "0 < pt" "pt \<le> 16" "length ds \<le> nat pt"
    | "0 < pt" "pt \<le> 16" "\<not> length ds \<le> nat pt" | "\<not> (-4 < pt \<and> pt \<le> 16)" "length ds = 1"
    | "\<not> (-4 < pt \<and> pt \<le> 16)" "1 < length ds"
    using l not_less [of 0 pt] by blast
  then show thesis
  proof cases
    case 1
    show thesis
    proof (rule that [of "''0''" "Some (replicate (nat (- pt)) (CHR ''0'') @ ds)" None])
      show "text_value ''0'' (Some (replicate (nat (- pt)) (CHR ''0'') @ ds)) None =
          real_of_int (digits_val ds) * 10 powi (pt - int (length ds))"
        using 1 digits_val_append [of "''0'' @ replicate (nat (- pt)) (CHR ''0'')" ds]
          digits_val_append [of "''0''" "replicate (nat (- pt)) (CHR ''0'')"]
        by (simp add: text_value_def z digits_val_zeros)
    qed (use 1 assms zero in \<open>auto simp: repr_digits_def frac_text_def exp_text_def\<close>)
  next
    case 2
    let ?i = "ds @ replicate (nat pt - length ds) (CHR ''0'')"
    show thesis
    proof (rule that [of ?i "Some ''0''" None])
      have "digits_val (?i @ ''0'') = digits_val ds * 10 ^ (nat pt - length ds) * 10"
        by (simp add: digits_val_append [of ?i "''0''"] digits_val_append z digits_val_zeros)
      moreover have "(10::real) powi (pt - int (length ds)) = 10 ^ (nat pt - length ds)"
        using 2 by (simp add: power_int_def nat_diff_distrib)
      ultimately show "text_value ?i (Some ''0'') None = real_of_int (digits_val ds) * 10 powi (pt - int (length ds))"
        by (simp add: text_value_def power_int_minus)
    qed (use 2 assms zero in \<open>auto simp: repr_digits_def frac_text_def exp_text_def\<close>)
  next
    case 3
    show thesis
    proof (rule that [of "take (nat pt) ds" "Some (drop (nat pt) ds)" None])
      show "text_value (take (nat pt) ds) (Some (drop (nat pt) ds)) None =
          real_of_int (digits_val ds) * 10 powi (pt - int (length ds))"
        using 3 by (simp add: text_value_def of_nat_diff)
    qed (use 3 assms in \<open>auto simp: repr_digits_def frac_text_def exp_text_def dest: in_set_takeD in_set_dropD\<close>)
  next
    case 4
    then obtain c where c: "ds = [c]" by (auto simp: length_Suc_conv)
    show thesis
    proof (rule that [of ds None "Some (pt - 1)"])
      show "text_value ds None (Some (pt - 1)) = real_of_int (digits_val ds) * 10 powi (pt - int (length ds))"
        by (simp add: text_value_def c)
    qed (use 4 assms in \<open>auto simp: c repr_digits_def frac_text_def exp_text_def\<close>)
  next
    case 5
    show thesis
    proof (rule that [of "take 1 ds" "Some (drop 1 ds)" "Some (pt - 1)"])
      have "pt - 1 - int (length (drop 1 ds)) = pt - int (length ds)" using 5 by (simp add: of_nat_diff)
      then show "text_value (take 1 ds) (Some (drop 1 ds)) (Some (pt - 1)) =
          real_of_int (digits_val ds) * 10 powi (pt - int (length ds))"
        by (simp only: text_value_def Let_def option.case append_take_drop_id)
    qed (use 5 assms in \<open>auto simp: repr_digits_def frac_text_def exp_text_def dest: in_set_takeD in_set_dropD\<close>)
  qed
qed

section \<open>Round trip\<close>

lemma py_float_repr:
  assumes "wf_float x"
  shows "py_float (float_repr x) = Some x"
proof (cases x)
  case FNan
  have "py_float ''nan'' = Some FNan" by code_simp
  then show ?thesis by (simp add: FNan)
next
  case (FInf s)
  have "py_float ''-inf'' = Some (FInf True)" "py_float ''inf'' = Some (FInf False)" by code_simp+
  then show ?thesis by (cases s) (simp_all add: FInf)
next
  case (FFin s m e)
  show ?thesis
  proof (cases "m = 0")
    case True
    have "py_float ''-0.0'' = Some (FFin True 0 (-1074))" "py_float ''0.0'' = Some (FFin False 0 (-1074))"
      by code_simp+
    moreover have "e = -1074" using assms True by (simp add: FFin wf_float_def)
    ultimately show ?thesis using True by (cases s) (simp_all add: FFin)
  next
    case False
    with assms have m: "0 < m" by (simp add: FFin wf_float_def)
    obtain a b where ab: "scale2 m 1 (- e) = (a, b)" by fastforce
    let ?ns = "[1, 2, 3, 4, 5, 6, 7, 8, 9, 10, 11, 12, 13, 14, 15, 16, 17] :: int list"
    obtain D sc where sh: "shortest s a b x ?ns = (D, sc)" by fastforce
    note r = scale_ratio [OF ab zero_less_one zero_less_numeral, unfolded of_int_numeral]
    have b: "0 < b" by (rule r(1))
    have "0 < real_of_int a / real_of_int b" unfolding r(2) using m by simp
    with b have a: "0 < a" by (metis of_int_0_less_iff zero_less_divide_iff less_asym)
    have "\<exists>n \<in> set ?ns. try_digits s a b x n \<noteq> None"
      using try_17 [OF assms [unfolded FFin] m ab] unfolding FFin by (intro bexI [of _ 17]) simp_all
    from shortest_rounds [OF a b this sh] have D: "0 \<le> D" and rt: "rounds_to s D sc x" by auto
    obtain u v where uv: "scale10 D 1 sc = (u, v)" by fastforce
    note q = scale_ratio [OF uv zero_less_one zero_less_numeral, unfolded of_int_numeral]
    have x: "round_ratio s u v = x" using rt by (simp add: rounds_to_def uv)
    have D0: "D \<noteq> 0"
    proof
      assume "D = 0"
      with uv have "u = 0" by (auto simp: scale_def split: if_splits)
      with x False show False by (simp add: FFin round_ratio_def)
    qed
    with D have Dp: "0 < D" by simp
    obtain ds z where ds: "dec_str D = ds @ replicate z (CHR ''0'')" "strip_zeros (dec_str D) = ds" "ds \<noteq> []"
      "\<forall>c \<in> set ds. is_digit c" "D = digits_val ds * 10 ^ z"
      using Dp by (rule strip_zeros_dec)
    let ?pt = "int (length (dec_str D)) - sc"
    obtain i f y where t: "repr_digits ds ?pt = i @ frac_text f @ exp_text y" "\<forall>c \<in> set i. is_digit c" "i \<noteq> []"
      "\<forall>w. f = Some w \<longrightarrow> (\<forall>c \<in> set w. is_digit c)"
      "text_value i f y = real_of_int (digits_val ds) * 10 powi (?pt - int (length ds))"
      using ds(4,3) by (rule repr_digits_text)
    have "?pt - int (length ds) = int z - sc" by (simp add: ds(1))
    moreover have "real_of_int D = real_of_int (digits_val ds) * 10 ^ z"
      using arg_cong [OF ds(5), of real_of_int] by simp
    moreover have "(10::real) powi (int z - sc) = 10 ^ z / 10 powi sc" by (simp add: power_int_diff)
    ultimately have tv: "text_value i f y = real_of_int D / 10 powi sc" by (simp only: t(5) times_divide_eq_right)
    have uvD: "real_of_int u / real_of_int v = real_of_int D / 10 powi sc" unfolding q(2) by simp
    have pos: "0 < real_of_int D / 10 powi sc" using Dp by simp
    have v: "0 < v" by (rule q(1))
    with uvD pos have u: "0 < u" by (metis of_int_0_less_iff zero_less_divide_iff less_asym)
    from pos have "0 < text_value i f y" by (simp only: tv)
    from py_float_decimal [OF t(2-4) this, of s] obtain a' b' where
      ab': "0 < a'" "0 < b'" "real_of_int a' / real_of_int b' = text_value i f y"
      "py_float ((if s then ''-'' else []) @ repr_digits ds ?pt) = Some (round_ratio s a' b')"
      unfolding t(1) by blast
    have "round_ratio s a' b' = round_ratio s u v"
      using ab'(3) unfolding tv by (intro round_ratio_cong ab' u v) (simp add: uvD)
    with ab'(4) x have "py_float ((if s then ''-'' else []) @ repr_digits ds ?pt) = Some x" by simp
    moreover have "float_repr x = (if s then ''-'' else []) @ repr_digits ds ?pt"
      using False sh unfolding FFin by (simp add: ab ds(2))
    ultimately show ?thesis by simp
  qed
qed

section \<open>Well-formed results\<close>

lemma digits_val_nonneg: "\<forall>c \<in> set ds. is_digit c \<Longrightarrow> 0 \<le> digits_val ds"
  by (induction ds rule: rev_induct) (auto simp: is_digit_def)

lemma digitpart_is_digit: "digitpart s = (ds, r) \<Longrightarrow> \<forall>c \<in> set ds. is_digit c"
  by (induction s arbitrary: ds r rule: digitpart.induct) (fastforce split: if_splits prod.splits)+

lemma read_decimal_wf: "read_decimal s t = Some x \<Longrightarrow> wf_float x"
proof -
  assume *: "read_decimal s t = Some x"
  obtain i r where i: "digitpart t = (i, r)" by fastforce
  obtain f r' where f: "(case r of c # r' \<Rightarrow> if c = CHR ''.'' then digitpart r' else ([], r) | [] \<Rightarrow> ([], r)) = (f, r')"
    by fastforce
  from f have "\<forall>c \<in> set f. is_digit c"
    by (auto split: list.splits if_splits dest: digitpart_is_digit)
  with digitpart_is_digit [OF i] have n: "0 \<le> digits_val (i @ f)" by (intro digits_val_nonneg) auto
  from * obtain k a b where "scale10 (digits_val (i @ f)) 1 k = (a, b)" "x = round_ratio s a b"
    by (auto simp: read_decimal_def i f split: if_splits option.splits prod.splits)
  with n show "wf_float x"
    using scale_ratio(1,3) [of 10 "digits_val (i @ f)" 1 k a b] by (auto intro: round_ratio_wf)
qed

lemma py_float_wf: "py_float s = Some x \<Longrightarrow> wf_float x"
  by (auto simp: py_float_def wf_float_def split: prod.splits if_splits dest: read_decimal_wf [unfolded wf_float_def])

lemma float_of_int_wf: "wf_float (float_of_int n)"
  by (simp add: float_of_int_def round_ratio_wf)

lemma fzero_wf: "wf_float fzero"
  by (simp add: wf_float_def)

text \<open>An amount with two decimals can be read again.\<close>

lemma fmt_fixed_digits:
  assumes "0 \<le> m"
  shows "\<exists>N. 0 \<le> N \<and> fmt_fixed 2 (FFin s m e) = (if s then ''-'' else []) @ fixed_digits 2 N \<and>
    \<bar>real_of_int m * 2 powi e * 100 - real_of_int N\<bar> \<le> 1 / 2"
proof -
  obtain n d where sc: "scale2 (m * 100) 1 (- e) = (n, d)" by fastforce
  note r = scale_ratio [OF sc zero_less_one zero_less_numeral, unfolded of_int_numeral]
  have v: "real_of_int n / real_of_int d = real_of_int m * 2 powi e * 100"
    using r(2) by (simp add: power_int_minus divide_inverse)
  have n: "0 \<le> n" using r(3) assms by simp
  have b: "\<bar>real_of_int (rne n d) - real_of_int n / real_of_int d\<bar> \<le> 1 / 2"
    using rne_bounds(1) [OF n r(1)] by simp
  have "0 \<le> real_of_int n / real_of_int d" using n r(1) by simp
  with b have "- 1 < real_of_int (rne n d)" by linarith
  then have "0 \<le> rne n d" by linarith
  with b v show ?thesis
    by (intro exI [of _ "rne n d"]) (simp add: sc abs_minus_commute)
qed

lemma py_float_fmt_fixed:
  assumes "wf_float x"
  shows "py_float (fmt_fixed 2 x) \<noteq> None"
proof (cases x)
  case FNan
  have "py_float ''nan'' = Some FNan" by code_simp
  then show ?thesis by (simp add: FNan)
next
  case (FInf s)
  have "py_float ''-inf'' = Some (FInf True)" "py_float ''inf'' = Some (FInf False)" by code_simp+
  then show ?thesis by (cases s) (simp_all add: FInf)
next
  case (FFin s m e)
  with assms have "0 \<le> m" by (simp add: wf_float_def)
  from fmt_fixed_digits [OF this, of s e] obtain N where
    "0 \<le> N" "fmt_fixed 2 x = (if s then ''-'' else []) @ fixed_digits 2 N"
    unfolding FFin by blast
  then show ?thesis using py_float_fixed_digits [of N 2] by (cases s) simp_all
qed

section \<open>A printed amount prints the same again\<close>

lemma fmt_fixed_round_ratio_46:
  assumes "0 \<le> N" and "N < 100 * 2 ^ 46"
  shows "fmt_fixed 2 (round_ratio s N 100) = (if s then ''-'' else []) @ fixed_digits 2 N"
proof (cases "N = 0")
  case True
  then show ?thesis
    using fmt_fixed_near [of 0 "-1074" 2 0 s] by (simp add: round_ratio_def del: fmt_fixed.simps)
next
  case False
  with assms(1) have N: "0 < N" by simp
  have "real_of_int N < real_of_int (100 * 2 ^ 46)" using assms(2) by (simp only: of_int_less_iff)
  then have "real_of_int N / real_of_int 100 < 2 powi 46" by (simp add: power_int_def)
  from round_ratio_near [OF N zero_less_numeral this, of s] obtain m x where
    rr: "round_ratio s N 100 = FFin s m x" "0 \<le> m"
    "\<bar>real_of_int m * 2 powi x - real_of_int N / real_of_int 100\<bar> \<le> 2 powi (46 - 54)" by auto
  have "(2::real) powi (46 - 54) = 1 / 256" by (simp add: power_int_def power_one_over)
  with rr(3) have "\<bar>real_of_int m * 2 powi x * 10 ^ 2 - real_of_int N\<bar> < 1 / 2"
    unfolding abs_le_iff abs_less_iff by simp
  with rr(2) show ?thesis unfolding rr(1) by (rule fmt_fixed_near)
qed

lemma money_again:
  assumes "wf_float x"
  obtains y where "py_float (fmt_fixed 2 x) = Some y" "fmt_fixed 2 y = fmt_fixed 2 x"
proof (cases x)
  case FNan
  have "py_float ''nan'' = Some FNan" by code_simp
  then show ?thesis by (intro that [of FNan]) (simp_all add: FNan)
next
  case (FInf s)
  have "py_float ''-inf'' = Some (FInf True)" "py_float ''inf'' = Some (FInf False)" by code_simp+
  then show ?thesis by (intro that [of "FInf s"]) (cases s; simp add: FInf)+
next
  case (FFin s m e)
  let ?v = "real_of_int m * 2 powi e"
  have wf: "0 \<le> m" "m < 2 ^ 53" "2 ^ 52 \<le> m \<or> e = -1074" using assms by (auto simp: FFin wf_float_def)
  from fmt_fixed_digits [OF wf(1), of s e] obtain N where N: "0 \<le> N"
    "fmt_fixed 2 x = (if s then ''-'' else []) @ fixed_digits 2 N" "\<bar>?v * 100 - real_of_int N\<bar> \<le> 1 / 2"
    unfolding FFin by blast
  have read: "py_float (fmt_fixed 2 x) = Some (round_ratio s N 100)"
    using py_float_fixed_digits [OF N(1), of 2] unfolding N(2) by (cases s) simp_all
  show ?thesis
  proof (cases "e \<le> -7")
    case True
    have "real_of_int m + 1 \<le> real_of_int (2 ^ 53)" using wf(2) by linarith
    moreover have "(2::real) powi e \<le> 2 powi (-7)" using True by (intro power_int_increasing) auto
    then have pe: "(2::real) powi e \<le> 1 / 128" by (simp add: power_int_def power_one_over)
    ultimately have "?v \<le> (real_of_int (2 ^ 53) - 1) * (1 / 128)" using wf(1) by (intro mult_mono) auto
    then have "real_of_int N < 7036874417766400" using N(3) unfolding abs_le_iff by simp
    then have "N < 100 * 2 ^ 46" by simp
    from fmt_fixed_round_ratio_46 [OF N(1) this, of s] show ?thesis by (intro that [OF read]) (simp only: N(2))
  next
    case False
    then have m: "2 ^ 52 \<le> m" using wf(3) by simp
    have "(2::real) powi (-6) \<le> 2 powi e" using False by (intro power_int_increasing) auto
    then have pe: "1 / 64 \<le> (2::real) powi e" by (simp add: power_int_def power_one_over)
    have mp: "0 < m" using m by simp
    have "4503599627370496 * (1 / 64) \<le> ?v" using m pe by (intro mult_mono) auto
    with N(3) have "0 < real_of_int N" unfolding abs_le_iff by linarith
    then have Np: "0 < N" by simp
    have near: "\<bar>real_of_int N / real_of_int 100 - ?v\<bar> \<le> 1 / 200" using N(3) unfolding abs_le_iff by simp
    have "round_ratio s N 100 = FFin s m e"
    proof (rule round_ratio_nearest [OF assms [unfolded FFin] mp Np zero_less_numeral])
      show "\<bar>real_of_int N / real_of_int 100 - ?v\<bar> < 2 powi e / 2" using near pe by linarith
      assume m52: "m = 2 ^ 52"
      have "?v = real_of_int (2 ^ nat (52 + e))"
        using False power_int_add [of "2::real" 52 e] by (simp add: m52 power_int_def)
      then have "\<bar>real_of_int (2 ^ nat (52 + e) * 100 - N)\<bar> \<le> 1 / 2" using N(3) by simp
      then have "N = 2 ^ nat (52 + e) * 100" by linarith
      then have "real_of_int N / real_of_int 100 = ?v" unfolding \<open>?v = _\<close> by simp
      then show "\<bar>real_of_int N / real_of_int 100 - ?v\<bar> < 2 powi e / 4" by simp
    qed
    with read show ?thesis using FFin by (intro that [of x]) simp_all
  qed
qed

end
