(* ===== verification/Extractor.thy ===== *)
theory Extractor
  imports Float_Repr Xml_Lib
begin

text \<open>
  The extraction service, \<^verbatim>\<open>app/services/extractor.py\<close>, with the response models of
  \<^verbatim>\<open>app/schemas/extraction.py\<close>: from a PDF to its embedded XML and from there to the invoice data.
  Amounts are read and printed through the floating-point model of theory \<open>Py_Float\<close>, as the source
  does.
\<close>

section \<open>Queries\<close>

definition ns_cii :: nsmap where
  "ns_cii =
     [(''rsm'', ''urn:un:unece:uncefact:data:standard:CrossIndustryInvoice:100''),
      (''ram'', ''urn:un:unece:uncefact:data:standard:ReusableAggregateBusinessInformationEntity:100''),
      (''udt'', ''urn:un:unece:uncefact:data:standard:UnqualifiedDataType:100'')]"

definition ns_zugferd1 :: nsmap where
  "ns_zugferd1 =
     [(''rsm'', ''urn:ferd:CrossIndustryDocument:invoice:1p0''),
      (''ram'', ''urn:un:unece:uncefact:data:standard:ReusableAggregateBusinessInformationEntity:12''),
      (''udt'', ''urn:un:unece:uncefact:data:standard:UnqualifiedDataType:15'')]"

definition namespaces_of :: "pystr \<Rightarrow> nsmap" where
  "namespaces_of flavor = (if flavor \<in> set [''factur-x'', ''facturx''] then ns_cii else ns_zugferd1)"

text \<open>\<^verbatim>\<open>val.text if hasattr(val, 'text') else str(val)\<close>.\<close>

fun node_value :: "'x lxml \<Rightarrow> 'x xnode \<Rightarrow> pystr option" where
  "node_value X (XEl x) = el_text X x"
| "node_value X (XStr s) = Some s"

text \<open>\<^verbatim>\<open>xpath_first\<close>: the value of the first node of the first path that has nodes.\<close>

fun xpath_first :: "'x lxml \<Rightarrow> nsmap \<Rightarrow> 'x xnode \<Rightarrow> pystr list \<Rightarrow> pystr option result" where
  "xpath_first X ns el [] = Inr None"
| "xpath_first X ns el (p # ps) =
     bindR (node_xpath X ns p el) (\<lambda>res.
       case res of
         [] \<Rightarrow> xpath_first X ns el ps
       | val # vals \<Rightarrow> Inr (node_value X val))"

definition xpath_or :: "'x lxml \<Rightarrow> nsmap \<Rightarrow> 'x xnode \<Rightarrow> pystr list \<Rightarrow> pystr \<Rightarrow> pystr result" where
  "xpath_or X ns el ps d = bindR (xpath_first X ns el ps) (\<lambda>v. Inr (or_default v d))"

text \<open>\<^verbatim>\<open>try: float(raw) if raw else d / except: d\<close>.\<close>

definition float_or :: "pystr option \<Rightarrow> pyfloat \<Rightarrow> pyfloat" where
  "float_or raw d =
     (if truthy raw then (case py_float (the raw) of None \<Rightarrow> d | Some x \<Rightarrow> x) else d)"

abbreviation money :: "pyfloat \<Rightarrow> pystr" where "money \<equiv> fmt_fixed 2"

section \<open>Line items\<close>

record line_item =
  description :: pystr
  quantity :: pystr
  unit_code :: pystr
  unit_price :: pystr
  vat_rate :: pystr
  line_total :: pystr

definition line_total_paths :: "pystr list" where
  "line_total_paths =
     [''.//ram:SpecifiedLineTradeSettlement/ram:SpecifiedTradeSettlementLineMonetarySummation/ram:LineTotalAmount'',
      ''.//ram:SpecifiedTradeSettlementMonetarySummation/ram:LineTotalAmount'']"

text \<open>One iteration of the loop: the item and the amount added to \<^verbatim>\<open>total_net\<close>.\<close>

definition parse_line :: "'x lxml \<Rightarrow> nsmap \<Rightarrow> 'x xnode \<Rightarrow> (line_item \<times> pyfloat) result" where
  "parse_line X ns item =
     bindR (xpath_or X ns item [''.//ram:SpecifiedTradeProduct/ram:Name''] ''Item'') (\<lambda>raw_name.
     bindR (xpath_first X ns item [''.//ram:BilledQuantity'']) (\<lambda>raw_qty.
     let qty = float_or raw_qty (float_of_int 1) in
     bindR (xpath_first X ns item
        [''.//ram:SpecifiedLineTradeAgreement/ram:NetPriceProductTradePrice/ram:ChargeAmount'',
         ''.//ram:NetPriceProductTradePrice/ram:ChargeAmount'',
         ''.//ram:GrossPriceProductTradePrice/ram:ChargeAmount'']) (\<lambda>raw_price.
     let price = float_or raw_price fzero in
     bindR (xpath_first X ns item line_total_paths) (\<lambda>raw_line_total.
     let total = float_or raw_line_total (fmul qty price) in
     bindR (xpath_first X ns item
        [''.//ram:SpecifiedLineTradeSettlement/ram:ApplicableTradeTax/ram:RateApplicablePercent'',
         ''.//ram:ApplicableTradeTax/ram:RateApplicablePercent'']) (\<lambda>raw_vat.
     let vat = float_or raw_vat fzero in
     bindR (xpath_or X ns item [''.//ram:BilledQuantity/@unitCode''] ''C62'') (\<lambda>code.
     Inr (\<lparr>description = raw_name, quantity = float_repr qty, unit_code = code,
           unit_price = money price, vat_rate = money vat, line_total = money total\<rparr>, total)))))))"

fun parse_lines :: "'x lxml \<Rightarrow> nsmap \<Rightarrow> 'x xnode list \<Rightarrow> pyfloat \<Rightarrow> (line_item list \<times> pyfloat) result" where
  "parse_lines X ns [] total_net = Inr ([], total_net)"
| "parse_lines X ns (item # items) total_net =
     bindR (parse_line X ns item) (\<lambda>(li, amount).
     bindR (parse_lines X ns items (fadd total_net amount)) (\<lambda>(lis, total).
     Inr (li # lis, total)))"

section \<open>Totals and parties\<close>

record invoice_totals =
  net_amount :: pystr
  tax_amount :: pystr
  gross_amount :: pystr
  payable_amount :: pystr

text \<open>The four amounts from the raw texts, each with the source's fallback.\<close>

definition totals_of ::
    "pystr option \<Rightarrow> pystr option \<Rightarrow> pystr option \<Rightarrow> pystr option \<Rightarrow> pyfloat \<Rightarrow> invoice_totals" where
  "totals_of raw_net raw_tax raw_gross raw_payable total_net =
     (let total_net_real = float_or raw_net total_net;
          tax_total = float_or raw_tax fzero;
          gross_total = float_or raw_gross (fadd total_net_real tax_total);
          payable = float_or raw_payable gross_total in
      \<lparr>net_amount = money total_net_real, tax_amount = money tax_total,
       gross_amount = money gross_total, payable_amount = money payable\<rparr>)"

definition net_total_paths :: "pystr list" where
  "net_total_paths =
     [''//ram:ApplicableHeaderTradeSettlement/ram:SpecifiedTradeSettlementHeaderMonetarySummation/ram:TaxBasisTotalAmount'',
      ''//ram:SpecifiedTradeSettlementMonetarySummation/ram:TaxBasisTotalAmount'',
      ''//ram:SpecifiedTradeSettlementMonetarySummation/ram:LineTotalAmount'']"

definition parse_totals :: "'x lxml \<Rightarrow> nsmap \<Rightarrow> 'x xnode \<Rightarrow> pyfloat \<Rightarrow> invoice_totals result" where
  "parse_totals X ns doc total_net =
     bindR (xpath_first X ns doc net_total_paths) (\<lambda>raw_net.
     bindR (xpath_first X ns doc
        [''//ram:ApplicableHeaderTradeSettlement/ram:SpecifiedTradeSettlementHeaderMonetarySummation/ram:TaxTotalAmount'',
         ''//ram:SpecifiedTradeSettlementMonetarySummation/ram:TaxTotalAmount'']) (\<lambda>raw_tax.
     bindR (xpath_first X ns doc
        [''//ram:ApplicableHeaderTradeSettlement/ram:SpecifiedTradeSettlementHeaderMonetarySummation/ram:GrandTotalAmount'',
         ''//ram:SpecifiedTradeSettlementMonetarySummation/ram:GrandTotalAmount'']) (\<lambda>raw_gross.
     bindR (xpath_first X ns doc
        [''//ram:ApplicableHeaderTradeSettlement/ram:SpecifiedTradeSettlementHeaderMonetarySummation/ram:DuePayableAmount'',
         ''//ram:SpecifiedTradeSettlementMonetarySummation/ram:DuePayableAmount'']) (\<lambda>raw_payable.
     Inr (totals_of raw_net raw_tax raw_gross raw_payable total_net)))))"

record party =
  party_name :: pystr
  party_vat :: pystr
  addr_line :: pystr
  addr_city :: pystr
  addr_postcode :: pystr
  addr_country :: pystr

text \<open>The seller for \<open>p = SellerTradeParty\<close>, the buyer for \<open>p = BuyerTradeParty\<close>.\<close>

definition parse_party :: "'x lxml \<Rightarrow> nsmap \<Rightarrow> 'x xnode \<Rightarrow> pystr \<Rightarrow> party result" where
  "parse_party X ns doc p =
     (let base = ''//ram:'' @ p; addr = base @ ''/ram:PostalTradeAddress/ram:'' in
      bindR (xpath_or X ns doc [base @ ''/ram:Name''] []) (\<lambda>name.
      bindR (xpath_or X ns doc [base @ ''//ram:SpecifiedTaxRegistration/ram:ID''] []) (\<lambda>vat.
      bindR (xpath_or X ns doc [addr @ ''LineOne''] []) (\<lambda>line.
      bindR (xpath_or X ns doc [addr @ ''CityName''] []) (\<lambda>city.
      bindR (xpath_or X ns doc [addr @ ''PostcodeCode''] []) (\<lambda>postcode.
      bindR (xpath_or X ns doc [addr @ ''CountryID''] []) (\<lambda>country.
      Inr \<lparr>party_name = name, party_vat = vat, addr_line = line, addr_city = city,
           addr_postcode = postcode, addr_country = country\<rparr>)))))))"

section \<open>The invoice\<close>

record code_message =
  code :: pystr
  msg :: pystr

record tax_entry =
  te_vat_rate :: pystr
  te_tax_amount :: pystr
  te_taxable_amount :: pystr

record invoice_data =
  invoice_number :: "pystr option"
  invoice_date :: "pystr option"
  currency :: pystr
  seller :: party
  buyer :: party
  totals :: invoice_totals
  tax_breakdown :: "tax_entry list"
  line_items :: "line_item list"
  meta_filename :: pystr
  meta_edition :: pystr
  meta_warnings :: "code_message list"

definition line_warnings :: "pystr \<Rightarrow> 'x xnode list \<Rightarrow> code_message list" where
  "line_warnings flavor items =
     (if items \<noteq> [] then []
      else if contains (str_lower flavor) ''minimum'' then
        [\<lparr>code = ''NO_LINE_ITEMS_IN_XML'',
          msg = ''Profile '' @ quoted ''minimum'' @ '' typically contains no line items.''\<rparr>]
      else [\<lparr>code = ''NO_LINE_ITEMS_IN_XML'', msg = ''No line items found in XML.''\<rparr>])"

definition parse_demo_invoice :: "'x lxml \<Rightarrow> 'x \<Rightarrow> pystr \<Rightarrow> pystr \<Rightarrow> invoice_data result" where
  "parse_demo_invoice X xml_root flavor filename =
     (let ns = namespaces_of flavor; doc = XEl xml_root in
      bindR (xpath_first X ns doc
         [''//rsm:ExchangedDocument/ram:ID'', ''//rsm:HeaderExchangedDocument/ram:ID'']) (\<lambda>invoice_id.
      bindR (xpath_first X ns doc
         [''//rsm:ExchangedDocument/ram:IssueDateTime/udt:DateTimeString'',
          ''//rsm:HeaderExchangedDocument/ram:IssueDateTime/udt:DateTimeString'',
          ''//ram:IssueDateTime/udt:DateTimeString'']) (\<lambda>date_str.
      bindR (xpath_or X ns doc [''//ram:InvoiceCurrencyCode''] ''EUR'') (\<lambda>cur.
      bindR (xpath X ns ''//ram:IncludedSupplyChainTradeLineItem'' xml_root) (\<lambda>items.
      bindR (parse_lines X ns (take 10 items) fzero) (\<lambda>(items', total_net).
      bindR (parse_totals X ns doc total_net) (\<lambda>tot.
      bindR (parse_party X ns doc ''SellerTradeParty'') (\<lambda>sel.
      bindR (parse_party X ns doc ''BuyerTradeParty'') (\<lambda>buy.
      Inr \<lparr>invoice_number = invoice_id, invoice_date = date_str, currency = cur,
           seller = sel, buyer = buy, totals = tot,
           tax_breakdown = [\<lparr>te_vat_rate = ''REAL'', te_tax_amount = tax_amount tot,
              te_taxable_amount = net_amount tot\<rparr>],
           line_items = items', meta_filename = filename, meta_edition = ''community'',
           meta_warnings = line_warnings flavor items\<rparr>)))))))))"

section \<open>The service\<close>

record extraction =
  x_format :: "pystr option"
  x_profile :: "pystr option"
  xml_extracted :: bool
  invoice_json :: "invoice_data option"
  x_errors :: "code_message list"

definition no_extraction :: extraction where
  "no_extraction = \<lparr>x_format = None, x_profile = None, xml_extracted = False, invoice_json = None, x_errors = []\<rparr>"

definition add_x_error :: "pystr \<Rightarrow> pystr \<Rightarrow> extraction \<Rightarrow> extraction" where
  "add_x_error c m r = r\<lparr>x_errors := x_errors r @ [\<lparr>code = c, msg = m\<rparr>]\<rparr>"

text \<open>Steps 3 and 4: the inner \<^verbatim>\<open>try\<close>, which keeps what was detected before an exception.\<close>

definition parse_xml :: "'x lxml \<Rightarrow> 'x facturx \<Rightarrow> pystr \<Rightarrow> bytes \<Rightarrow> extraction \<Rightarrow> extraction" where
  "parse_xml X F filename xml_bytes r =
     (let fails = (\<lambda>e r. add_x_error ''PARSE_ERROR'' (exn_str e) r) in
      case fromstring X xml_bytes of
        Inl e \<Rightarrow> fails e r
      | Inr xml_root \<Rightarrow>
          (case get_flavor F xml_root of
             Inl e \<Rightarrow> fails e r
           | Inr f \<Rightarrow>
               (let r1 = r\<lparr>x_format := Some f\<rparr> in
                case get_level F xml_root of
                  Inl e \<Rightarrow> fails e r1
                | Inr l \<Rightarrow>
                    (let r2 = r1\<lparr>x_profile := Some l\<rparr> in
                     case parse_demo_invoice X xml_root f filename of
                       Inl e \<Rightarrow> fails e r2
                     | Inr d \<Rightarrow> r2\<lparr>invoice_json := Some d\<rparr>))))"

definition extract_invoice_data :: "'x lxml \<Rightarrow> 'x facturx \<Rightarrow> bytes \<Rightarrow> pystr option \<Rightarrow> extraction" where
  "extract_invoice_data X F file_content filename =
     (case is_pdf filename file_content of
        Inl e \<Rightarrow> add_x_error ''INTERNAL_ERROR'' (exn_str e) no_extraction
      | Inr pdf \<Rightarrow>
          if \<not> pdf then add_x_error ''NOT_A_PDF'' ''File is not a PDF'' no_extraction
          else
            (case get_xml_from_pdf F file_content of
               Inl e \<Rightarrow>
                 add_x_error ''EXTRACTION_FAIL'' (exn_str e) (no_extraction\<lparr>x_format := Some ''not_facturx''\<rparr>)
             | Inr x \<Rightarrow>
                 if \<not> truthy x then
                   add_x_error ''NO_XML'' ''No Factur-X XML found'' (no_extraction\<lparr>x_format := Some ''not_facturx''\<rparr>)
                 else parse_xml X F (the filename) (the x) (no_extraction\<lparr>xml_extracted := True\<rparr>)))"

section \<open>The response models\<close>

text \<open>
  The models of \<^verbatim>\<open>app/schemas/extraction.py\<close>: nested models keep their declared fields and ignore the
  others, so the addresses, unit codes and line VAT rates end here; \<^verbatim>\<open>InvoiceJson\<close> itself allows extra
  fields.
\<close>

record Seller =
  s_name :: "pystr option"
  s_country :: "pystr option"
  s_vat_number :: "pystr option"

record Buyer =
  b_name :: "pystr option"

record LineItem =
  l_description :: "pystr option"
  l_quantity :: "pystr option"
  l_unit_price :: "pystr option"
  l_line_total :: "pystr option"

record InvoiceJson =
  j_invoice_number :: "pystr option"
  j_invoice_date :: "pystr option"
  j_document_type_code :: "pystr option"
  j_currency :: "pystr option"
  j_seller :: "Seller option"
  j_buyer :: "Buyer option"
  j_totals :: "invoice_totals option"
  j_line_items :: "LineItem list"
  j_tax_breakdown :: "tax_entry list"

record ExtractionResult =
  o_format :: "pystr option"
  o_profile :: "pystr option"
  o_xml_extracted :: bool
  o_invoice_json :: "InvoiceJson option"
  o_errors :: "code_message list"

definition to_InvoiceJson :: "invoice_data \<Rightarrow> InvoiceJson" where
  "to_InvoiceJson d =
     \<lparr>j_invoice_number = invoice_number d, j_invoice_date = invoice_date d, j_document_type_code = None,
      j_currency = Some (currency d),
      j_seller = Some \<lparr>s_name = Some (party_name (seller d)), s_country = None,
                       s_vat_number = Some (party_vat (seller d))\<rparr>,
      j_buyer = Some \<lparr>b_name = Some (party_name (buyer d))\<rparr>,
      j_totals = Some (totals d),
      j_line_items = map (\<lambda>l. \<lparr>l_description = Some (description l), l_quantity = Some (quantity l),
         l_unit_price = Some (unit_price l), l_line_total = Some (line_total l)\<rparr>) (line_items d),
      j_tax_breakdown = tax_breakdown d\<rparr>"

definition to_ExtractionResult :: "extraction \<Rightarrow> ExtractionResult" where
  "to_ExtractionResult r =
     \<lparr>o_format = x_format r, o_profile = x_profile r, o_xml_extracted = xml_extracted r,
      o_invoice_json = map_option to_InvoiceJson (invoice_json r), o_errors = x_errors r\<rparr>"

section \<open>Reading amounts\<close>

lemma fixed_digits_nonempty: "0 \<le> N \<Longrightarrow> fixed_digits 2 N \<noteq> []"
  using fixed_digits_chars(2) [of N 2] by auto

lemma float_or_fixed [simp]:
  "0 \<le> N \<Longrightarrow> float_or (Some (fixed_digits 2 N)) d = round_ratio False N 100"
  by (simp add: float_or_def fixed_digits_nonempty py_float_fixed_digits)

lemma float_or_None [simp]: "float_or None d = d"
  by (simp add: float_or_def)

lemma money_fixed: "0 \<le> N \<Longrightarrow> N < 100 * 2 ^ 45 \<Longrightarrow> money (round_ratio False N 100) = fixed_digits 2 N"
  using fmt_fixed_round_ratio [of N False] by simp

lemma money_sum:
  assumes "0 \<le> n" and "n < 100 * 2 ^ 38" and "0 \<le> t" and "t < 100 * 2 ^ 38"
  shows "money (fadd (round_ratio False n 100) (round_ratio False t 100)) = fixed_digits 2 (n + t)"
proof -
  have b: "real_of_int n / 100 < 2 powi 38" "real_of_int t / 100 < 2 powi 38"
    using assms(2,4) by (simp_all add: power_int_def)
  have p: "(2::real) powi (38 - 54) = 1 / 65536" "(2::real) powi (40 - 54) = 1 / 16384"
    by (simp_all add: power_int_def power_one_over)
  note near = near_round_ratio [OF assms(1) b(1)] near_round_ratio [OF assms(3) b(2)]
  have "real_of_int (n + t) / 100 + 2 powi (38 - 54) + 2 powi (38 - 54) < 2 powi 40"
    using b unfolding p by (simp add: power_int_def add_divide_distrib)
  from near_cents_fadd [OF near(1) near(2) this]
  have "near_cents (fadd (round_ratio False n 100) (round_ratio False t 100)) (n + t)
      (2 powi (38 - 54) + 2 powi (38 - 54) + 2 powi (40 - 54))" by simp
  then show ?thesis by (rule near_cents_print) (simp add: p)
qed

section \<open>Lines\<close>

lemma list_all2_right: "list_all2 (\<lambda>x y. P x y \<and> Q y) xs ys \<Longrightarrow> \<forall>y \<in> set ys. Q y"
  by (induction xs ys rule: list_all2_induct) auto

lemma parse_lines_Inr:
  "parse_lines X ns items t = Inr (lis, tot) \<longleftrightarrow>
   (\<exists>prs. list_all2 (\<lambda>it pr. parse_line X ns it = Inr pr) items prs \<and>
      lis = map fst prs \<and> tot = foldl fadd t (map snd prs))"
proof (induction items arbitrary: t lis)
  case (Cons item items)
  then show ?case
    by (force simp: list_all2_Cons1 split: prod.splits)
qed auto

lemma parse_line_total:
  assumes "parse_line X ns item = Inr (li, amount)"
    and "xpath_first X ns item line_total_paths = Inr (Some (fixed_digits 2 N))"
    and "0 \<le> N" and "N < 100 * 2 ^ 38"
  shows "amount = round_ratio False N 100 \<and> line_total li = fixed_digits 2 N"
  using assms by (auto simp: parse_line_def Let_def money_fixed)

lemma parse_lines_totals:
  assumes "list_all2 (\<lambda>it pr. parse_line X ns it = Inr pr) items prs"
    and "list_all2 (\<lambda>it N. xpath_first X ns it line_total_paths = Inr (Some (fixed_digits 2 N)) \<and>
           0 \<le> N \<and> N < 100 * 2 ^ 38) items Ns"
  shows "map snd prs = map (\<lambda>N. round_ratio False N 100) Ns \<and>
    map (\<lambda>p. line_total (fst p)) prs = map (fixed_digits 2) Ns"
  using assms
proof (induction items prs arbitrary: Ns rule: list_all2_induct)
  case (Cons item items pr prs)
  obtain li amount where pr: "pr = (li, amount)" by (cases pr)
  from Cons show ?case
    by (auto simp: list_all2_Cons1 pr dest!: parse_line_total)
qed simp

lemma parse_demo_invoice_Inr:
  assumes "parse_demo_invoice X r flavor fn = Inr d"
  obtains items prs raw_net raw_tax raw_gross raw_payable where
    "xpath X (namespaces_of flavor) ''//ram:IncludedSupplyChainTradeLineItem'' r = Inr items"
    "list_all2 (\<lambda>it pr. parse_line X (namespaces_of flavor) it = Inr pr) (take 10 items) prs"
    "line_items d = map fst prs" "meta_warnings d = line_warnings flavor items"
    "xpath_first X (namespaces_of flavor) (XEl r) net_total_paths = Inr raw_net"
    "totals d = totals_of raw_net raw_tax raw_gross raw_payable (foldl fadd fzero (map snd prs))"
proof -
  obtain items items' tn where
    i: "xpath X (namespaces_of flavor) ''//ram:IncludedSupplyChainTradeLineItem'' r = Inr items" and
    l: "parse_lines X (namespaces_of flavor) (take 10 items) fzero = Inr (items', tn)" and
    t: "parse_totals X (namespaces_of flavor) (XEl r) tn = Inr (totals d)" and
    d: "line_items d = items'" "meta_warnings d = line_warnings flavor items"
    using assms by (auto simp: parse_demo_invoice_def Let_def simp del: xpath_first.simps)
  from l obtain prs where
    p: "list_all2 (\<lambda>it pr. parse_line X (namespaces_of flavor) it = Inr pr) (take 10 items) prs"
      "items' = map fst prs" "tn = foldl fadd fzero (map snd prs)"
    by (auto simp: parse_lines_Inr)
  from t obtain raw_net raw_tax raw_gross raw_payable where
    "xpath_first X (namespaces_of flavor) (XEl r) net_total_paths = Inr raw_net"
    "totals d = totals_of raw_net raw_tax raw_gross raw_payable tn"
    unfolding parse_totals_def bindR_eq_Inr sum.inject by metis
  with i p d show thesis by (metis that)
qed

text \<open>Where no query raises and the line query selects elements, the mapping is total.\<close>

definition queries_ok :: "'x lxml \<Rightarrow> bool" where
  "queries_ok X \<longleftrightarrow> (\<forall>ns p x. \<exists>r. xpath X ns p x = Inr r)"

lemma xpath_first_total: "queries_ok X \<Longrightarrow> \<exists>v. xpath_first X ns (XEl x) ps = Inr v"
proof (induction ps)
  case (Cons p ps)
  then obtain r where "xpath X ns p x = Inr r" unfolding queries_ok_def by blast
  with Cons show ?case by (cases r) auto
qed simp

lemma xpath_or_total: "queries_ok X \<Longrightarrow> \<exists>v. xpath_or X ns (XEl x) ps d = Inr v"
  using xpath_first_total [of X ns x ps] by (auto simp: xpath_or_def)

lemma bindR_total: "\<exists>v. m = Inr v \<Longrightarrow> (\<And>v. \<exists>w. f v = Inr w) \<Longrightarrow> \<exists>w. bindR m f = Inr w"
  by auto

lemma bindR_total_pair:
  "\<exists>v. m = Inr v \<Longrightarrow> (\<And>a b. \<exists>w. f a b = Inr w) \<Longrightarrow> \<exists>w. bindR m (\<lambda>(a, b). f a b) = Inr w"
  by auto

lemmas totality = bindR_total xpath_first_total xpath_or_total

lemma parse_line_total_ok: "queries_ok X \<Longrightarrow> \<exists>v. parse_line X ns (XEl x) = Inr v"
  unfolding parse_line_def Let_def by (intro totality) simp_all

lemma parse_lines_total_ok: "queries_ok X \<Longrightarrow> \<exists>v. parse_lines X ns (map XEl xs) t = Inr v"
proof (induction xs arbitrary: t)
  case (Cons x xs)
  then show ?case
    using parse_line_total_ok [OF Cons.prems, of ns x] by (auto split: prod.splits) (metis prod.exhaust)
qed simp

lemma parse_totals_total_ok: "queries_ok X \<Longrightarrow> \<exists>v. parse_totals X ns (XEl x) t = Inr v"
  unfolding parse_totals_def by (intro totality) simp_all

lemma parse_party_total_ok: "queries_ok X \<Longrightarrow> \<exists>v. parse_party X ns (XEl x) p = Inr v"
  unfolding parse_party_def Let_def by (intro totality) simp_all

lemma parse_demo_invoice_total:
  assumes "queries_ok X"
    and "xpath X (namespaces_of flavor) ''//ram:IncludedSupplyChainTradeLineItem'' r = Inr (map XEl xs)"
  shows "\<exists>d. parse_demo_invoice X r flavor fn = Inr d"
  unfolding parse_demo_invoice_def Let_def assms(2) take_map bindR_simps
  by (rule bindR_total_pair totality parse_totals_total_ok parse_party_total_ok parse_lines_total_ok
      assms(1) exI refl)+

section \<open>Outcomes\<close>

text \<open>An extraction that succeeded, and one that failed with one error.\<close>

definition extracted :: "extraction \<Rightarrow> bool" where
  "extracted r \<longleftrightarrow> invoice_json r \<noteq> None \<and> x_errors r = [] \<and> xml_extracted r \<and>
     x_format r \<noteq> None \<and> x_profile r \<noteq> None"

definition failed_with :: "pystr \<Rightarrow> extraction \<Rightarrow> bool" where
  "failed_with c r \<longleftrightarrow> invoice_json r = None \<and> (\<exists>m. x_errors r = [\<lparr>code = c, msg = m\<rparr>]) \<and>
     (xml_extracted r \<longleftrightarrow> c = ''PARSE_ERROR'')"

lemma parse_xml_outcome:
  "extracted (parse_xml X F fn b (no_extraction\<lparr>xml_extracted := True\<rparr>)) \<or>
   failed_with ''PARSE_ERROR'' (parse_xml X F fn b (no_extraction\<lparr>xml_extracted := True\<rparr>))"
proof (cases "fromstring X b")
  case (Inr r)
  note f = this
  show ?thesis
  proof (cases "get_flavor F r")
    case (Inr fl)
    note g = this
    show ?thesis
    proof (cases "get_level F r")
      case (Inr l)
      with f g show ?thesis
        by (cases "parse_demo_invoice X r fl fn")
          (simp_all add: parse_xml_def extracted_def failed_with_def add_x_error_def no_extraction_def)
    qed (simp add: f g parse_xml_def failed_with_def add_x_error_def no_extraction_def)
  qed (simp add: f parse_xml_def failed_with_def add_x_error_def no_extraction_def)
qed (simp add: parse_xml_def failed_with_def add_x_error_def no_extraction_def)

lemma extracted_parse:
  assumes "invoice_json (extract_invoice_data X F c n) = Some d"
  obtains doc fl fn where "parse_demo_invoice X doc fl fn = Inr d"
  using assms
  by (auto simp: extract_invoice_data_def parse_xml_def add_x_error_def no_extraction_def Let_def split: sum.splits if_splits)

lemma extracted_lines_le:
  assumes "invoice_json (extract_invoice_data X F c n) = Some d"
  shows "length (line_items d) \<le> 10"
proof -
  obtain doc fl fn where "parse_demo_invoice X doc fl fn = Inr d" using assms by (rule extracted_parse)
  then obtain items prs where
    "list_all2 (\<lambda>it pr. parse_line X (namespaces_of fl) it = Inr pr) (take 10 items) prs" "line_items d = map fst prs"
    by (metis parse_demo_invoice_Inr)
  then show ?thesis by (auto dest: list_all2_lengthD)
qed

section \<open>The printed numbers can be read\<close>

lemma float_or_wf: "wf_float d \<Longrightarrow> wf_float (float_or raw d)"
  by (auto simp: float_or_def split: option.split dest: py_float_wf)

lemma parse_line_numbers:
  assumes "parse_line X ns item = Inr (li, amount)"
  obtains raw_qty raw_price where "xpath_first X ns item [''.//ram:BilledQuantity''] = Inr raw_qty"
    "quantity li = float_repr (float_or raw_qty (float_of_int 1))" "unit_price li = money (float_or raw_price fzero)"
  using assms by (auto simp: parse_line_def Let_def simp del: xpath_first.simps)

lemma parse_line_readable:
  assumes "parse_line X ns item = Inr (li, amount)"
  shows "py_float (quantity li) \<noteq> None" and "py_float (unit_price li) \<noteq> None"
  using parse_line_numbers [OF assms]
  by (metis float_of_int_wf float_or_wf option.distinct(1) py_float_repr)
     (metis fzero_wf float_or_wf parse_line_numbers [OF assms] py_float_fmt_fixed)

text \<open>The numbers of the invoice that a client has to read: those of the lines, or the net total.\<close>

definition readable :: "invoice_data \<Rightarrow> bool" where
  "readable d \<longleftrightarrow>
     (\<forall>l \<in> set (line_items d). py_float (quantity l) \<noteq> None \<and> py_float (unit_price l) \<noteq> None) \<and>
     (line_items d = [] \<longrightarrow> py_float (net_amount (totals d)) \<noteq> None)"

lemma parse_demo_readable:
  assumes "parse_demo_invoice X r flavor fn = Inr d"
  shows "readable d"
proof -
  obtain items prs raw_net raw_tax raw_gross raw_payable where
    l: "list_all2 (\<lambda>it pr. parse_line X (namespaces_of flavor) it = Inr pr) (take 10 items) prs"
      "line_items d = map fst prs"
    and t: "totals d = totals_of raw_net raw_tax raw_gross raw_payable (foldl fadd fzero (map snd prs))"
    by (rule parse_demo_invoice_Inr [OF assms])
  have "py_float (quantity (fst pr)) \<noteq> None \<and> py_float (unit_price (fst pr)) \<noteq> None" if pr: "pr \<in> set prs" for pr
  proof -
    obtain i where "i < length prs" "prs ! i = pr" using pr by (auto simp: in_set_conv_nth)
    with list_all2_nthD2 [OF l(1), of i] have "\<exists>it. parse_line X (namespaces_of flavor) it = Inr pr" by auto
    then obtain it where "parse_line X (namespaces_of flavor) it = Inr pr" ..
    then show ?thesis by (cases pr) (auto dest: parse_line_readable)
  qed
  moreover have "py_float (net_amount (totals d)) \<noteq> None" if "prs = []"
    using that by (auto simp: t totals_of_def Let_def simp del: fmt_fixed.simps
        intro!: py_float_fmt_fixed [unfolded not_None_eq] float_or_wf fzero_wf)
  ultimately show ?thesis by (auto simp: readable_def l(2))
qed

section \<open>Properties\<close>

text \<open>
  A concrete instance for the witnesses: a document (element 0) with twelve lines (elements 1 to 12),
  each with the total \<^verbatim>\<open>10.10\<close>, and no header totals.
\<close>

definition demo_doc :: "int lxml" where
  "demo_doc = \<lparr>fromstring = (\<lambda>b. Inr 0),
     xpath = (\<lambda>ns p x. Inr
       (if p = ''//ram:IncludedSupplyChainTradeLineItem'' then map XEl [1, 2, 3, 4, 5, 6, 7, 8, 9, 10, 11, 12]
        else if 0 < x \<and> p = hd line_total_paths then [XEl 100] else [])),
     el_text = (\<lambda>x. if x = 100 then Some (fixed_digits 2 1010) else None), el_attr = (\<lambda>x a. None)\<rparr>"

definition demo_fx :: "int facturx" where
  "demo_fx = \<lparr>get_xml_from_pdf = (\<lambda>b. Inr (Some ''<xml/>'')), get_flavor = (\<lambda>x. Inr ''factur-x''),
     get_level = (\<lambda>x. Inr ''en16931''), xml_check_xsd = (\<lambda>c f l. Inr ()),
     generate_from_binary = (\<lambda>p x f l m. Inr (''%PDF'' @ x))\<rparr>"

text \<open>
  Extraction never fails with an exception: it either returns the invoice with detected
  format and profile and no error, or no invoice and exactly one error, whose code says why: no usable
  file name, not a PDF, an attachment that cannot be read or is missing, or an XML that cannot be
  parsed or mapped.  \<^verbatim>\<open>xml_extracted\<close> is true exactly in the last case and on success.
\<close>

lemma extraction_outcome:
  "extracted (extract_invoice_data X F content n) \<or>
   (\<exists>c \<in> {''INTERNAL_ERROR'', ''NOT_A_PDF'', ''EXTRACTION_FAIL'', ''NO_XML'', ''PARSE_ERROR''}.
      failed_with c (extract_invoice_data X F content n) \<and>
      (c = ''INTERNAL_ERROR'' \<longleftrightarrow> n = None) \<and>
      (c = ''NOT_A_PDF'' \<longleftrightarrow> is_pdf n content = Inr False))"
proof (cases n)
  case None
  then show ?thesis
    by (auto simp: extract_invoice_data_def is_pdf_def name_is_pdf_def failed_with_def add_x_error_def
        no_extraction_def)
next
  case (Some s)
  have pdf: "is_pdf n content = Inr True \<or> is_pdf n content = Inr False"
    by (auto simp: Some is_pdf_Some)
  show ?thesis
  proof (cases "is_pdf n content = Inr True")
    case True
    show ?thesis
    proof (cases "\<exists>x. get_xml_from_pdf F content = Inr x \<and> truthy x")
      case False
      with True Some show ?thesis
        by (cases "get_xml_from_pdf F content")
          (auto simp: extract_invoice_data_def failed_with_def add_x_error_def no_extraction_def)
    next
      case found: True
      then obtain x where x: "get_xml_from_pdf F content = Inr x" "truthy x" by blast
      from True x Some parse_xml_outcome [of X F s "the x"] show ?thesis
        by (auto simp: extract_invoice_data_def)
    qed
  qed (use pdf Some in \<open>auto simp: extract_invoice_data_def failed_with_def add_x_error_def no_extraction_def\<close>)
qed

text \<open>
  The invoice lists the first ten lines of the document and no more, in document order, each
  the reading of its own element; the warning about missing lines is present exactly when the document
  has none.
\<close>

lemma extraction_lines:
  assumes "parse_demo_invoice X r flavor fn = Inr d"
    and "xpath X (namespaces_of flavor) ''//ram:IncludedSupplyChainTradeLineItem'' r = Inr items"
  shows "length (line_items d) = min 10 (length items) \<and>
    (\<forall>i < min 10 (length items). \<exists>a. parse_line X (namespaces_of flavor) (items ! i) = Inr (line_items d ! i, a)) \<and>
    (meta_warnings d = [] \<longleftrightarrow> items \<noteq> [])"
proof -
  obtain prs where l: "list_all2 (\<lambda>it pr. parse_line X (namespaces_of flavor) it = Inr pr) (take 10 items) prs"
    and d: "line_items d = map fst prs" "meta_warnings d = line_warnings flavor items"
    by (rule parse_demo_invoice_Inr [OF assms(1)]) (use assms(2) in auto)
  have "parse_line X (namespaces_of flavor) (items ! i) = Inr (line_items d ! i, snd (prs ! i))"
    if "i < min 10 (length items)" for i
  proof -
    have "i < length prs" using list_all2_lengthD [OF l] that by (simp add: min_def split: if_splits)
    with list_all2_nthD [OF l, of i] that show ?thesis by (simp add: d(1))
  qed
  moreover have "length (line_items d) = min 10 (length items)"
    using list_all2_lengthD [OF l] by (simp add: d(1) min.commute)
  ultimately show ?thesis by (auto simp: d(2) line_warnings_def)
qed

lemma demo_doc_items:
  "xpath demo_doc (namespaces_of ''factur-x'') ''//ram:IncludedSupplyChainTradeLineItem'' 0 =
     Inr (map XEl [1, 2, 3, 4, 5, 6, 7, 8, 9, 10, 11, 12])"
  by (simp add: demo_doc_def)

lemma demo_doc_parses:
  obtains d where "parse_demo_invoice demo_doc 0 ''factur-x'' ''f.pdf'' = Inr d"
proof -
  have "queries_ok demo_doc" by (simp add: queries_ok_def demo_doc_def)
  from parse_demo_invoice_total [OF this demo_doc_items] show thesis by (blast intro: that)
qed

lemma extraction_lines_example:
  "\<exists>d. parse_demo_invoice demo_doc 0 ''factur-x'' ''f.pdf'' = Inr d \<and> length (line_items d) = 10"
proof -
  obtain d where d: "parse_demo_invoice demo_doc 0 ''factur-x'' ''f.pdf'' = Inr d"
    by (rule demo_doc_parses)
  with extraction_lines [OF d demo_doc_items] show ?thesis by auto
qed

text \<open>
  Claim C13.  Amounts pass through the floating-point conversion unharmed: a total written with two
  decimals and below \<open>2\<^sup>4\<^sup>5\<close> is reported digit for digit, and when the gross and payable totals are
  absent they are reported as the exact decimal sum of net and tax, both below \<open>2\<^sup>3\<^sup>8\<close>.
\<close>

theorem extraction_amounts:
  assumes "\<forall>N \<in> {n, t, g, p}. 0 \<le> N \<and> N < 100 * 2 ^ 45"
  shows "totals_of (Some (fixed_digits 2 n)) (Some (fixed_digits 2 t)) (Some (fixed_digits 2 g))
        (Some (fixed_digits 2 p)) tn =
      \<lparr>net_amount = fixed_digits 2 n, tax_amount = fixed_digits 2 t, gross_amount = fixed_digits 2 g,
       payable_amount = fixed_digits 2 p\<rparr> \<and>
    (n < 100 * 2 ^ 38 \<and> t < 100 * 2 ^ 38 \<longrightarrow>
      totals_of (Some (fixed_digits 2 n)) (Some (fixed_digits 2 t)) None None tn =
      \<lparr>net_amount = fixed_digits 2 n, tax_amount = fixed_digits 2 t, gross_amount = fixed_digits 2 (n + t),
       payable_amount = fixed_digits 2 (n + t)\<rparr>)"
  using assms by (simp add: totals_of_def Let_def money_fixed money_sum)

theorem extraction_amounts_witness:
  "totals_of (Some (fixed_digits 2 10010)) (Some (fixed_digits 2 2002)) None None fzero =
      \<lparr>net_amount = fixed_digits 2 10010, tax_amount = fixed_digits 2 2002,
       gross_amount = fixed_digits 2 12012, payable_amount = fixed_digits 2 12012\<rparr>"
  using extraction_amounts [of 10010 2002 0 0 fzero] by simp

text \<open>
  Claim C22.  When the document has no net total, the reported net amount is the exact decimal sum of
  the totals of the lines that are listed, the first ten: lines after the tenth are not counted.
\<close>

theorem extraction_net_fallback:
  assumes "parse_demo_invoice X r flavor fn = Inr d"
    and "xpath X (namespaces_of flavor) ''//ram:IncludedSupplyChainTradeLineItem'' r = Inr items"
    and "xpath_first X (namespaces_of flavor) (XEl r) net_total_paths = Inr None"
    and "list_all2 (\<lambda>it N. xpath_first X (namespaces_of flavor) it line_total_paths =
           Inr (Some (fixed_digits 2 N)) \<and> 0 \<le> N \<and> N < 100 * 2 ^ 38) (take 10 items) Ns"
  shows "net_amount (totals d) = fixed_digits 2 (sum_list Ns) \<and>
    map line_total (line_items d) = map (fixed_digits 2) Ns"
proof -
  obtain prs raw_tax raw_gross raw_payable where
    l: "list_all2 (\<lambda>it pr. parse_line X (namespaces_of flavor) it = Inr pr) (take 10 items) prs"
    and d: "line_items d = map fst prs"
      "totals d = totals_of None raw_tax raw_gross raw_payable (foldl fadd fzero (map snd prs))"
    by (rule parse_demo_invoice_Inr [OF assms(1)]) (use assms(2,3) in auto)
  have bounds: "\<forall>N \<in> set Ns. 0 \<le> N \<and> N < 100 * 2 ^ 38" and len: "length Ns \<le> 10"
    using list_all2_right [OF assms(4)] list_all2_lengthD [OF assms(4)] by auto
  note t = parse_lines_totals [OF l assms(4)]
  from t decimal_sum_prints [OF bounds len] show ?thesis
    by (simp add: d totals_of_def Let_def comp_def)
qed

theorem extraction_net_fallback_witness:
  "\<exists>d. parse_demo_invoice demo_doc 0 ''factur-x'' ''f.pdf'' = Inr d \<and>
     net_amount (totals d) = fixed_digits 2 10100"
proof -
  obtain d where d: "parse_demo_invoice demo_doc 0 ''factur-x'' ''f.pdf'' = Inr d"
    by (rule demo_doc_parses)
  have n: "xpath_first demo_doc (namespaces_of ''factur-x'') (XEl 0) net_total_paths = Inr None"
    by (simp add: net_total_paths_def demo_doc_def)
  have "list_all2 (\<lambda>it N. xpath_first demo_doc (namespaces_of ''factur-x'') it line_total_paths =
           Inr (Some (fixed_digits 2 N)) \<and> 0 \<le> N \<and> N < 100 * 2 ^ 38)
      (take 10 (map XEl [1, 2, 3, 4, 5, 6, 7, 8, 9, 10, 11, 12])) (replicate 10 1010)"
    by (simp add: demo_doc_def line_total_paths_def eval_nat_numeral)
  from extraction_net_fallback [OF d demo_doc_items n this] d show ?thesis
    by (simp add: eval_nat_numeral)
qed

text \<open>
  Claim C15.  Quantities survive the extraction bit for bit: whatever number the document has for the quantity
  of a line, the text in the report reads back as exactly the float of the document's text, however many
  digits it has; a line without a readable quantity is reported with one.
\<close>

theorem extraction_quantities:
  assumes "parse_line X ns item = Inr (li, amount)" and "xpath_first X ns item [''.//ram:BilledQuantity''] = Inr raw"
  shows "py_float (quantity li) =
    Some (case raw of
        None \<Rightarrow> float_of_int 1
      | Some q \<Rightarrow> (case py_float q of None \<Rightarrow> float_of_int 1 | Some x \<Rightarrow> x))"
proof -
  have "quantity li = float_repr (float_or raw (float_of_int 1))"
    by (rule parse_line_numbers [OF assms(1)]) (use assms(2) in \<open>simp del: xpath_first.simps\<close>)
  moreover have "py_float [] = None" by code_simp
  ultimately show ?thesis
    using py_float_repr [OF float_or_wf [OF float_of_int_wf [of 1], of raw]]
    by (auto simp: float_or_def split: option.split)
qed

text \<open>A line with the quantity \<^verbatim>\<open>0.1\<close>.\<close>

definition tenth_doc :: "int lxml" where
  "tenth_doc = \<lparr>fromstring = (\<lambda>b. Inr 0),
     xpath = (\<lambda>ns p x. Inr (if p = ''.//ram:BilledQuantity'' then [XEl 1] else [])),
     el_text = (\<lambda>x. Some ''0.1''), el_attr = (\<lambda>x a. None)\<rparr>"

theorem extraction_quantities_witness:
  "\<exists>li amount. parse_line tenth_doc [] (XEl 0) = Inr (li, amount) \<and>
     py_float (quantity li) = Some (FFin False 7205759403792794 (-56))"
proof -
  have "queries_ok tenth_doc" by (simp add: queries_ok_def tenth_doc_def)
  from parse_line_total_ok [OF this, of "[]" 0] obtain li amount where
    l: "parse_line tenth_doc [] (XEl 0) = Inr (li, amount)" by (metis surj_pair)
  have "xpath_first tenth_doc [] (XEl 0) [''.//ram:BilledQuantity''] = Inr (Some ''0.1'')"
    by (simp add: tenth_doc_def)
  from extraction_quantities [OF l this] have "py_float (quantity li) =
      Some (case py_float ''0.1'' of None \<Rightarrow> float_of_int 1 | Some x \<Rightarrow> x)" by simp
  moreover have "py_float ''0.1'' = Some (FFin False 7205759403792794 (-56))" by code_simp
  ultimately show ?thesis using l by auto
qed

end
