(* ===== verification/License.thy ===== *)
theory License
  imports Py_Json
begin

text \<open>
  License verification, \<^verbatim>\<open>app/license.py\<close>: recovery of the obfuscated public key, verification of a
  signed license with its expiry date, and the process-wide verdict cache.  The cryptographic
  library (PyNaCl) and the hash, Base64 and JSON decoders are fields of \<open>license_lib\<close>, an argument of
  the definitions.  The cache is the interface \<open>ttl_cache\<close>: a single entry, answered only for its own
  key and only before its expiry.
\<close>

unbundle bit_operations_syntax

section \<open>Bytes in hexadecimal\<close>

definition hex_val :: "char \<Rightarrow> int option" where
  "hex_val c =
     (if is_digit c then Some (byte_of c - 48)
      else if 97 \<le> byte_of c \<and> byte_of c \<le> 102 then Some (byte_of c - 87)
      else if 65 \<le> byte_of c \<and> byte_of c \<le> 70 then Some (byte_of c - 55)
      else None)"

definition hex_char :: "int \<Rightarrow> char" where
  "hex_char n = (if n < 10 then char_of (48 + n) else char_of (87 + n))"

text \<open>\<^verbatim>\<open>bytes.fromhex\<close> (on text without white space) and \<^verbatim>\<open>bytes.hex\<close>.\<close>

fun fromhex :: "pystr \<Rightarrow> bytes option" where
  "fromhex [] = Some []"
| "fromhex [c] = None"
| "fromhex (c # d # s) =
     (case (hex_val c, hex_val d, fromhex s) of
        (Some h, Some l, Some bs) \<Rightarrow> Some (char_of (16 * h + l) # bs)
      | _ \<Rightarrow> None)"

fun tohex :: "bytes \<Rightarrow> pystr" where
  "tohex [] = []"
| "tohex (b # bs) = hex_char (byte_of b div 16) # hex_char (byte_of b mod 16) # tohex bs"

definition xor_byte :: "char \<Rightarrow> char \<Rightarrow> char" where
  "xor_byte a b = char_of (byte_of a XOR byte_of b)"

definition obfuscated_key_hex :: pystr where
  "obfuscated_key_hex = ''7fd1630e5f5a90228cfd243234ec497c1e174dca9aacb5d5f596666197b54985''"

definition LICENSE_SALT :: bytes where
  "LICENSE_SALT = ''Factur-X-Engine-Pro-v1''"

section \<open>Dates\<close>

record date =
  year :: int
  month :: int
  day :: int

definition leap :: "int \<Rightarrow> bool" where
  "leap y \<longleftrightarrow> y mod 4 = 0 \<and> (y mod 100 \<noteq> 0 \<or> y mod 400 = 0)"

definition days_in_month :: "int \<Rightarrow> int \<Rightarrow> int" where
  "days_in_month y m =
     (if m = 2 then (if leap y then 29 else 28) else if m \<in> {4, 6, 9, 11} then 30 else 31)"

definition valid_date :: "date \<Rightarrow> bool" where
  "valid_date d \<longleftrightarrow> 1 \<le> year d \<and> year d \<le> 9999 \<and> 1 \<le> month d \<and> month d \<le> 12 \<and>
     1 \<le> day d \<and> day d \<le> days_in_month (year d) (month d)"

text \<open>A month or day field: one or two digits; a day may also be padded with a space.\<close>

definition read_field :: "pystr \<Rightarrow> int option" where
  "read_field w =
     (if (\<forall>c \<in> set w. is_digit c) \<and> (length w = 1 \<or> length w = 2) then Some (digits_val w) else None)"

definition read_day :: "pystr \<Rightarrow> int option" where
  "read_day w = (case w of
       [a, b] \<Rightarrow> if a = CHR '' '' then read_field [b] else read_field w
     | _ \<Rightarrow> read_field w)"

text \<open>\<^verbatim>\<open>datetime.strptime(s, "%Y-%m-%d")\<close>; \<^const>\<open>None\<close> is \<^verbatim>\<open>ValueError\<close>.\<close>

definition strptime_ymd :: "pystr \<Rightarrow> date option" where
  "strptime_ymd s =
     (case split_on (CHR ''-'') s of
        [y, m, d] \<Rightarrow>
          if length y = 4 \<and> (\<forall>c \<in> set y. is_digit c) then
            (case (read_field m, read_day d) of
               (Some mm, Some dd) \<Rightarrow>
                 (let r = \<lparr>year = digits_val y, month = mm, day = dd\<rparr>
                  in if valid_date r then Some r else None)
             | _ \<Rightarrow> None)
          else None
      | _ \<Rightarrow> None)"

text \<open>
  The local clock: a date and the microseconds since its midnight.  \<open>after_midnight now d\<close> is
  \<^verbatim>\<open>datetime.now() > expiry_date\<close>, where \<^verbatim>\<open>strptime\<close> puts \<^verbatim>\<open>expiry_date\<close> at midnight.
\<close>

record datetime = date + micros :: int

definition date_less :: "'a date_scheme \<Rightarrow> 'b date_scheme \<Rightarrow> bool" where
  "date_less a b \<longleftrightarrow> year a < year b \<or> year a = year b \<and> (month a < month b \<or>
     month a = month b \<and> day a < day b)"

definition after_midnight :: "datetime \<Rightarrow> date \<Rightarrow> bool" where
  "after_midnight now d \<longleftrightarrow>
     date_less d now \<or>
     (year now = year d \<and> month now = month d \<and> day now = day d \<and> 0 < micros now)"

section \<open>Verification\<close>

text \<open>
  The code that is not part of the repository: \<^verbatim>\<open>hashlib.sha256\<close> (digest), PyNaCl's
  \<^verbatim>\<open>VerifyKey(hex, HexEncoder).verify(signed)\<close>, which returns the message or raises,
  \<^verbatim>\<open>base64.b64decode(.., validate=True)\<close> and \<^verbatim>\<open>json.loads\<close>.
\<close>

record license_lib =
  sha256 :: "bytes \<Rightarrow> bytes"
  nacl_verify :: "pystr \<Rightarrow> bytes \<Rightarrow> bytes result"
  b64decode :: "pystr \<Rightarrow> bytes result"
  json_loads :: "pystr \<Rightarrow> json result"

definition deobfuscate_key :: "license_lib \<Rightarrow> pystr result" where
  "deobfuscate_key L =
     (case fromhex obfuscated_key_hex of
        None \<Rightarrow> Inl (ValueError ''non-hexadecimal number found in fromhex() arg'')
      | Some obf_bytes \<Rightarrow>
          Inr (tohex (map (\<lambda>(a, b). xor_byte a b) (zip obf_bytes (sha256 L LICENSE_SALT)))))"

definition required_fields :: "pystr list" where
  "required_fields = [''sub'', ''exp'', ''tier'']"

text \<open>\<^verbatim>\<open>all(field in payload for field in required_fields)\<close>.\<close>

fun has_all :: "pystr list \<Rightarrow> json \<Rightarrow> bool result" where
  "has_all [] payload = Inr True"
| "has_all (f # fs) payload =
     bindR (json_contains f payload) (\<lambda>b. if b then has_all fs payload else Inr False)"

definition check_expiry :: "datetime \<Rightarrow> json \<Rightarrow> bool result" where
  "check_expiry now expiry =
     (case expiry of
        JStr s \<Rightarrow>
          (case strptime_ymd s of
             None \<Rightarrow> Inr False
           | Some expiry_date \<Rightarrow> Inr (\<not> after_midnight now expiry_date))
      | _ \<Rightarrow> Inl (OtherExn ''TypeError'' ''strptime() argument 1 must be str''))"

definition check_payload :: "datetime \<Rightarrow> json \<Rightarrow> bool result" where
  "check_payload now payload =
     bindR (has_all required_fields payload) (\<lambda>ok.
       if \<not> ok then Inr False
       else bindR (json_get ''exp'' payload) (check_expiry now))"

definition verify_body :: "license_lib \<Rightarrow> datetime \<Rightarrow> pystr \<Rightarrow> bool result" where
  "verify_body L now license_key_b64 =
     bindR (deobfuscate_key L) (\<lambda>verify_key_hex.
       case b64decode L license_key_b64 of
         Inl e \<Rightarrow> Inr False
       | Inr signed_data \<Rightarrow>
           bindR (nacl_verify L verify_key_hex signed_data) (\<lambda>payload_bytes.
             case decode_utf8 payload_bytes of
               None \<Rightarrow> Inl (ValueError ''invalid utf-8'')
             | Some t \<Rightarrow>
                 bindR (json_loads L t) (check_payload now)))"

text \<open>\<^verbatim>\<open>_verify_license_crypto\<close>: both \<^verbatim>\<open>except\<close> clauses return \<^verbatim>\<open>False\<close>.\<close>

definition verify_license_crypto :: "license_lib \<Rightarrow> datetime \<Rightarrow> pystr \<Rightarrow> bool" where
  "verify_license_crypto L now license_key_b64 =
     (case verify_body L now license_key_b64 of Inl e \<Rightarrow> False | Inr b \<Rightarrow> b)"

section \<open>The verdict cache\<close>

record license_cache =
  cache_valid :: "bool option"
  cache_expires :: pyfloat
  cache_key_hash :: "pystr option"

definition empty_cache :: license_cache where
  "empty_cache = \<lparr>cache_valid = None, cache_expires = fzero, cache_key_hash = None\<rparr>"

text \<open>The first lock section of \<^verbatim>\<open>is_licensed\<close>: \<^const>\<open>None\<close> when the fast path is not taken.\<close>

definition cache_lookup :: "license_cache \<Rightarrow> pystr \<Rightarrow> pyfloat \<Rightarrow> bool option option" where
  "cache_lookup c key_hash now =
     (if flt now (cache_expires c) \<and> cache_key_hash c = Some key_hash
      then Some (cache_valid c) else None)"

text \<open>The second lock section.\<close>

definition cache_store :: "pystr \<Rightarrow> bool option \<Rightarrow> pyfloat \<Rightarrow> license_cache \<Rightarrow> license_cache" where
  "cache_store key_hash valid expires c =
     c\<lparr>cache_valid := valid, cache_expires := expires, cache_key_hash := Some key_hash\<rparr>"

definition license_key_of :: "environ \<Rightarrow> pystr" where
  "license_key_of env = str_strip (getenv env ''LICENSE_KEY'' [])"

definition key_hash_of :: "license_lib \<Rightarrow> pystr \<Rightarrow> pystr" where
  "key_hash_of L key = tohex (sha256 L key)"

text \<open>
  What \<^verbatim>\<open>is_licensed\<close> computes when the fast path is not taken: the verdict and the moment until
  which it is cached.  \<open>now\<close> is \<^verbatim>\<open>time.time()\<close>, \<open>wall\<close> is \<^verbatim>\<open>datetime.now()\<close>.
\<close>

definition slow_path ::
    "license_lib \<Rightarrow> environ \<Rightarrow> pyfloat \<Rightarrow> datetime \<Rightarrow> bool option \<times> pyfloat" where
  "slow_path L env now wall =
     (let key = license_key_of env in
      if key = [] then (Some False, fadd now (float_of_int 300))
      else (Some (verify_license_crypto L wall key), fadd now (float_of_int 60)))"

text \<open>\<^verbatim>\<open>is_licensed\<close>: the returned verdict (Python's \<^verbatim>\<open>None\<close> included) and the cache afterwards.\<close>

definition is_licensed ::
    "license_lib \<Rightarrow> environ \<Rightarrow> pyfloat \<Rightarrow> datetime \<Rightarrow> license_cache \<Rightarrow> bool option \<times> license_cache" where
  "is_licensed L env now wall c =
     (let key_hash = key_hash_of L (license_key_of env) in
      case cache_lookup c key_hash now of
        Some v \<Rightarrow> (v, c)
      | None \<Rightarrow>
          (case slow_path L env now wall of
             (v, expires) \<Rightarrow> (v, cache_store key_hash v expires c)))"

section \<open>Hexadecimal and exclusive or\<close>

lemma hex_val_hex_char: "0 \<le> n \<Longrightarrow> n < 16 \<Longrightarrow> hex_val (hex_char n) = Some n"
  by (auto simp: hex_val_def hex_char_def is_digit_def byte_of_def)

lemma char_of_byte_of [simp]: "char_of (byte_of c) = c"
  by (simp add: byte_of_def)

lemma fromhex_tohex [simp]: "fromhex (tohex bs) = Some bs"
proof (induction bs)
  case (Cons b bs)
  have "0 \<le> byte_of b div 16" "byte_of b div 16 < 16" "0 \<le> byte_of b mod 16" "byte_of b mod 16 < 16"
    using byte_of_bounds [of b] by (auto simp: pos_imp_zdiv_nonneg_iff)
  with Cons show ?case by (simp add: hex_val_hex_char)
qed simp

lemma byte_of_char_of: "0 \<le> n \<Longrightarrow> n < 256 \<Longrightarrow> byte_of (char_of n) = n"
  by (simp add: byte_of_def)

lemma xor_bytes_bound: "0 \<le> byte_of a XOR byte_of b" "byte_of a XOR byte_of b < 256"
proof -
  show "0 \<le> byte_of a XOR byte_of b" using byte_of_bounds by simp
  have "byte_of a XOR byte_of b < 2 ^ 8"
    using byte_of_bounds [of a] byte_of_bounds [of b] by (intro XOR_upper) auto
  then show "byte_of a XOR byte_of b < 256" by simp
qed

lemma xor_byte_cancel [simp]: "xor_byte (xor_byte a b) b = a"
  by (simp add: xor_byte_def byte_of_char_of [OF xor_bytes_bound] xor.assoc)

lemma xor_bytes_cancel:
  "length xs \<le> length ks \<Longrightarrow>
   map (\<lambda>(a, b). xor_byte a b) (zip (map (\<lambda>(a, b). xor_byte a b) (zip xs ks)) ks) = xs"
  by (induction xs ks rule: list_induct2') auto

section \<open>Single-entry caches\<close>

text \<open>
  The contract of a cache with one entry and an expiry: an answer is only given for the key of the
  last store, and only while that store is fresh.
\<close>

locale ttl_cache =
  fixes empty :: 'c
    and lookup :: "'c \<Rightarrow> 'k \<Rightarrow> 't \<Rightarrow> 'v option"
    and store :: "'k \<Rightarrow> 'v \<Rightarrow> 'e \<Rightarrow> 'c \<Rightarrow> 'c"
    and fresh :: "'e \<Rightarrow> 't \<Rightarrow> bool"
  assumes lookup_empty: "lookup empty k t = None"
    and lookup_store:
      "lookup (store k v e c) k' t = (if fresh e t \<and> k' = k then Some v else None)"
begin

text \<open>The caches that arise when only entries satisfying \<open>good\<close> are ever stored.\<close>

inductive reachable :: "('k \<Rightarrow> 'v \<Rightarrow> 'e \<Rightarrow> bool) \<Rightarrow> 'c \<Rightarrow> bool" for good where
  reach_empty: "reachable good empty"
| reach_store: "reachable good c \<Longrightarrow> good k v e \<Longrightarrow> reachable good (store k v e c)"

lemma lookup_sound:
  assumes "reachable good c" and "lookup c k t = Some v"
  shows "\<exists>e. good k v e \<and> fresh e t"
  using assms
proof (induction rule: reachable.induct)
  case reach_empty
  then show ?case by (simp add: lookup_empty)
next
  case (reach_store c k' v' e)
  then show ?case by (auto simp: lookup_store split: if_splits)
qed

lemma lookup_hit: "fresh e t \<Longrightarrow> lookup (store k v e c) k t = Some v"
  by (simp add: lookup_store)

end

interpretation lic: ttl_cache empty_cache cache_lookup cache_store "\<lambda>expires now. flt now expires"
  by unfold_locales (auto simp: cache_lookup_def cache_store_def empty_cache_def)

text \<open>An entry the program may store: the outcome of a slow path for a key with that hash.\<close>

definition computed :: "license_lib \<Rightarrow> pystr \<Rightarrow> bool option \<Rightarrow> pyfloat \<Rightarrow> bool" where
  "computed L h v e \<longleftrightarrow>
     (\<exists>env now wall. h = key_hash_of L (license_key_of env) \<and> slow_path L env now wall = (v, e))"

abbreviation licensing_state :: "license_lib \<Rightarrow> license_cache \<Rightarrow> bool" where
  "licensing_state L \<equiv> lic.reachable (computed L)"

lemma slow_path_bool: "slow_path L env now wall = (v, e) \<Longrightarrow> \<exists>b. v = Some b"
  by (auto simp: slow_path_def Let_def split: if_splits)

lemma is_licensed_cases:
  assumes "is_licensed L env now wall c = (v, c')"
  obtains (hit) "cache_lookup c (key_hash_of L (license_key_of env)) now = Some v" "c' = c"
    | (miss) e where "slow_path L env now wall = (v, e)"
        "c' = cache_store (key_hash_of L (license_key_of env)) v e c"
  using assms by (auto simp: is_licensed_def Let_def split: option.splits prod.splits)

lemma is_licensed_reachable:
  assumes "licensing_state L c" and "is_licensed L env now wall c = (v, c')"
  shows "licensing_state L c'"
  using assms(2)
proof (cases rule: is_licensed_cases)
  case hit
  with assms(1) show ?thesis by simp
next
  case (miss e)
  then have "computed L (key_hash_of L (license_key_of env)) v e"
    unfolding computed_def by blast
  with assms(1) miss(2) show ?thesis by (simp add: lic.reach_store)
qed

lemma is_licensed_sound:
  assumes "licensing_state L c" and "is_licensed L env now wall c = (v, c')"
  shows "\<exists>env\<^sub>0 now\<^sub>0 wall\<^sub>0 e. slow_path L env\<^sub>0 now\<^sub>0 wall\<^sub>0 = (v, e) \<and>
    key_hash_of L (license_key_of env\<^sub>0) = key_hash_of L (license_key_of env) \<and>
    (flt now e \<or> (env\<^sub>0, now\<^sub>0, wall\<^sub>0) = (env, now, wall))"
  using assms(2)
proof (cases rule: is_licensed_cases)
  case hit
  then obtain e where "computed L (key_hash_of L (license_key_of env)) v e" "flt now e"
    using lic.lookup_sound [OF assms(1)] by blast
  then show ?thesis unfolding computed_def by metis
next
  case (miss e)
  then show ?thesis by blast
qed

section \<open>What a positive verdict means\<close>

lemma has_all_JObj: "has_all fs (JObj d) = Inr (set fs \<subseteq> fst ` set d)"
  by (induction fs) auto

definition license_accepts :: "license_lib \<Rightarrow> datetime \<Rightarrow> pystr \<Rightarrow> bool" where
  "license_accepts L now key \<longleftrightarrow>
     (\<exists>vk signed msg d s e.
        deobfuscate_key L = Inr vk \<and> b64decode L key = Inr signed \<and>
        nacl_verify L vk signed = Inr msg \<and> utf8_valid msg \<and> json_loads L msg = Inr (JObj d) \<and>
        set required_fields \<subseteq> fst ` set d \<and> map_of d ''exp'' = Some (JStr s) \<and>
        strptime_ymd s = Some e \<and> \<not> after_midnight now e)"

lemma check_expiry_True:
  "check_expiry now x = Inr True \<longleftrightarrow>
     (\<exists>s e. x = JStr s \<and> strptime_ymd s = Some e \<and> \<not> after_midnight now e)"
  by (cases x) (auto simp: check_expiry_def split: option.splits)

lemma check_payload_True:
  "check_payload now p = Inr True \<longleftrightarrow>
   (\<exists>d s e. p = JObj d \<and> set required_fields \<subseteq> fst ` set d \<and>
        map_of d ''exp'' = Some (JStr s) \<and> strptime_ymd s = Some e \<and> \<not> after_midnight now e)"
proof (cases "\<exists>d. p = JObj d")
  case True
  then obtain d where p: "p = JObj d" by blast
  show ?thesis
    unfolding p check_payload_def has_all_JObj
    by (cases "map_of d ''exp''") (auto simp: check_expiry_True split: if_splits)
next
  case False
  then have "json_get ''exp'' p \<noteq> Inr v" for v by (cases p) auto
  with False show ?thesis by (auto simp: check_payload_def split: if_splits)
qed

lemma decoded_Inr:
  "(case decode_utf8 m of None \<Rightarrow> Inl e | Some t \<Rightarrow> f t) = Inr b \<longleftrightarrow> utf8_valid m \<and> f m = Inr b"
  by (simp add: decode_utf8_def)

lemma verify_iff_accepts: "verify_license_crypto L now key \<longleftrightarrow> license_accepts L now key"
proof -
  have "verify_license_crypto L now key \<longleftrightarrow> verify_body L now key = Inr True"
    by (auto simp: verify_license_crypto_def split: sum.splits)
  also have "\<dots> \<longleftrightarrow> license_accepts L now key"
    unfolding verify_body_def license_accepts_def
    by (cases "b64decode L key") (auto simp: check_payload_True decoded_Inr)
  finally show ?thesis .
qed

section \<open>Properties\<close>

text \<open>
  Instances of the external functions for the witnesses: a signature scheme without protection, and
  a JSON decoder that always finds one signed payload.
\<close>

definition demo_payload :: json where
  "demo_payload = JObj [(''sub'', JStr ''acme''), (''exp'', JStr ''2030-06-15''), (''tier'', JStr ''pro'')]"

definition demo_lib :: license_lib where
  "demo_lib = \<lparr>sha256 = (\<lambda>b. replicate 32 (CHR ''k'')), nacl_verify = (\<lambda>vk b. Inr b),
     b64decode = (\<lambda>s. Inr s), json_loads = (\<lambda>t. Inr demo_payload)\<rparr>"

definition demo_env :: environ where
  "demo_env n = (if n = ''LICENSE_KEY'' then Some ''signed'' else None)"

definition demo_wall :: datetime where
  "demo_wall = \<lparr>year = 2030, month = 6, day = 14, micros = 5\<rparr>"

text \<open>
  The verdict of a fresh verification is reused unchanged, and the cache left alone, by
  every later call with the same key until the entry expires: 60 seconds after the verification, 300
  seconds when there is no key.  At that moment, and for every key with another hash, the fast path
  is not taken.
\<close>

lemma license_cache_reuse:
  assumes "cache_lookup c (key_hash_of L (license_key_of env)) now = None"
    and "is_licensed L env now wall c = (v, c')"
  shows "is_licensed L env' now' wall' c' =
    (if flt now' (fadd now (float_of_int (if license_key_of env = [] then 300 else 60))) \<and>
        key_hash_of L (license_key_of env') = key_hash_of L (license_key_of env)
     then (v, c')
     else (fst (slow_path L env' now' wall'),
           cache_store (key_hash_of L (license_key_of env')) (fst (slow_path L env' now' wall'))
             (snd (slow_path L env' now' wall')) c'))"
proof -
  have c': "c' = cache_store (key_hash_of L (license_key_of env)) v
      (fadd now (float_of_int (if license_key_of env = [] then 300 else 60))) c"
    using assms by (auto simp: is_licensed_def slow_path_def Let_def split: if_splits)
  show ?thesis
    unfolding is_licensed_def Let_def c' lic.lookup_store
    by (simp split: prod.split)
qed

lemma license_cache_reuse_example:
  "is_licensed demo_lib demo_env (float_of_int 59) demo_wall
     (snd (is_licensed demo_lib demo_env fzero demo_wall empty_cache)) =
   is_licensed demo_lib demo_env fzero demo_wall empty_cache"
proof -
  have m: "cache_lookup empty_cache (key_hash_of demo_lib (license_key_of demo_env)) fzero = None"
    by (rule lic.lookup_empty)
  have f: "flt (float_of_int 59)
      (fadd fzero (float_of_int (if license_key_of demo_env = [] then 300 else 60)))"
    by code_simp
  show ?thesis
    using license_cache_reuse [OF m prod.collapse [symmetric], where wall = demo_wall and env' = demo_env and now' = "float_of_int 59" and wall' = demo_wall] f by simp
qed

section \<open>A history of calls\<close>

text \<open>
  Successive calls of \<^verbatim>\<open>is_licensed\<close>, each with the environment it finds, its \<^verbatim>\<open>time.time()\<close> and its
  \<^verbatim>\<open>datetime.now()\<close>: their verdicts and the cache they leave.
\<close>

type_synonym license_call = "environ \<times> pyfloat \<times> datetime"

fun license_history :: "license_lib \<Rightarrow> license_call list \<Rightarrow> license_cache \<Rightarrow> bool option list \<times> license_cache" where
  "license_history L [] c = ([], c)"
| "license_history L ((env, now, wall) # calls) c =
     (case is_licensed L env now wall c of
        (v, c') \<Rightarrow> (case license_history L calls c' of (vs, c'') \<Rightarrow> (v # vs, c'')))"

text \<open>The verdict of a call that looks at the key, and for how many seconds it is kept.\<close>

definition checked :: "license_lib \<Rightarrow> license_call \<Rightarrow> bool" where
  "checked L call = (case call of (env, now, wall) \<Rightarrow>
     license_key_of env \<noteq> [] \<and> license_accepts L wall (license_key_of env))"

definition lifetime :: "license_call \<Rightarrow> int" where
  "lifetime call = (case call of (env, now, wall) \<Rightarrow> if license_key_of env = [] then 300 else 60)"

lemma slow_path_checked:
  "slow_path L env now wall = (Some (checked L (env, now, wall)), fadd now (float_of_int (lifetime (env, now, wall))))"
  by (simp add: slow_path_def checked_def lifetime_def verify_iff_accepts Let_def)

text \<open>An entry made by one of the calls.\<close>

definition made_by :: "license_lib \<Rightarrow> license_call set \<Rightarrow> pystr \<Rightarrow> bool option \<Rightarrow> pyfloat \<Rightarrow> bool" where
  "made_by L T h v e \<longleftrightarrow>
     (\<exists>(env, t, w) \<in> T. h = key_hash_of L (license_key_of env) \<and> v = Some (checked L (env, t, w)) \<and>
        e = fadd t (float_of_int (lifetime (env, t, w))))"

lemma made_by_mono: "lic.reachable (made_by L T) c \<Longrightarrow> lic.reachable (made_by L (T \<union> U)) c"
proof (induction rule: lic.reachable.induct)
  case (reach_store c k v e)
  then have "made_by L (T \<union> U) k v e" by (auto simp: made_by_def)
  with reach_store.IH show ?case by (rule lic.reach_store)
qed (rule lic.reach_empty)

text \<open>Where the verdict of a call comes from: the call itself, or an earlier one with the same key hash that is still fresh.\<close>

definition goes_back :: "license_lib \<Rightarrow> license_call \<Rightarrow> license_call \<Rightarrow> bool" where
  "goes_back L call origin \<longleftrightarrow> call = origin \<or>
     key_hash_of L (license_key_of (fst origin)) = key_hash_of L (license_key_of (fst call)) \<and>
     flt (fst (snd call)) (fadd (fst (snd origin)) (float_of_int (lifetime origin)))"

lemma call_made:
  assumes "lic.reachable (made_by L T) c" and "is_licensed L env now wall c = (v, c')"
  shows "lic.reachable (made_by L (T \<union> {(env, now, wall)})) c'"
    and "\<exists>origin \<in> T \<union> {(env, now, wall)}. v = Some (checked L origin) \<and> goes_back L (env, now, wall) origin"
proof -
  show "lic.reachable (made_by L (T \<union> {(env, now, wall)})) c'"
    using assms(2)
  proof (cases rule: is_licensed_cases)
    case hit
    then show ?thesis using made_by_mono [OF assms(1)] by (simp only:)
  next
    case (miss e)
    have "made_by L (T \<union> {(env, now, wall)}) (key_hash_of L (license_key_of env)) v e"
      using miss(1) by (auto simp: made_by_def slow_path_checked)
    from lic.reach_store [OF made_by_mono [OF assms(1)] this] miss(2) show ?thesis by (simp only:)
  qed
  show "\<exists>origin \<in> T \<union> {(env, now, wall)}. v = Some (checked L origin) \<and> goes_back L (env, now, wall) origin"
    using assms(2)
  proof (cases rule: is_licensed_cases)
    case hit
    from lic.lookup_sound [OF assms(1) hit(1)] show ?thesis by (fastforce simp: made_by_def goes_back_def)
  next
    case (miss e)
    then show ?thesis by (auto simp: slow_path_checked goes_back_def)
  qed
qed

lemma history_verdict:
  assumes "lic.reachable (made_by L T) c" and "i < length calls"
  shows "\<exists>origin \<in> T \<union> set (take (Suc i) calls).
    fst (license_history L calls c) ! i = Some (checked L origin) \<and> goes_back L (calls ! i) origin"
  using assms
proof (induction calls arbitrary: c T i)
  case (Cons call calls)
  obtain env now wall where call: "call = (env, now, wall)" by (cases call) auto
  obtain v c' where l: "is_licensed L env now wall c = (v, c')" by fastforce
  note made = call_made [OF Cons.prems(1) l]
  show ?case
  proof (cases i)
    case 0
    with made(2) show ?thesis by (simp add: call l split: prod.split)
  next
    case (Suc j)
    with Cons.prems(2) have "j < length calls" by simp
    from Cons.IH [OF made(1) this] obtain origin where
      "origin \<in> T \<union> {(env, now, wall)} \<union> set (take (Suc j) calls)"
      "fst (license_history L calls c') ! j = Some (checked L origin)" "goes_back L (calls ! j) origin" by blast
    then show ?thesis by (intro bexI [of _ origin]) (auto simp: Suc call l split: prod.split)
  qed
qed simp

text \<open>
  Claim C17.  The verdict of \<^verbatim>\<open>is_licensed\<close>.  In every history of calls from process start, under any changes of the
  environment and readings of the two clocks, every call returns a Boolean, never the initial \<^verbatim>\<open>None\<close>, and that
  Boolean was computed by a call of this history, the call itself or an earlier one: it is true exactly when that
  call found a non-empty key that carried a valid signature over a complete payload unexpired at its
  \<^verbatim>\<open>datetime.now()\<close>.  An earlier call only decides when its key has the same hash and the present moment is less
  than 60 seconds after it, or 300 when it found no key.
\<close>

theorem license_verdict:
  assumes "i < length calls" and "calls ! i = (env, now, wall)"
  shows "\<exists>j env\<^sub>0 now\<^sub>0 wall\<^sub>0. j \<le> i \<and> calls ! j = (env\<^sub>0, now\<^sub>0, wall\<^sub>0) \<and>
    fst (license_history L calls empty_cache) ! i =
      Some (license_key_of env\<^sub>0 \<noteq> [] \<and> license_accepts L wall\<^sub>0 (license_key_of env\<^sub>0)) \<and>
    ((env\<^sub>0, now\<^sub>0, wall\<^sub>0) = (env, now, wall) \<or>
     key_hash_of L (license_key_of env\<^sub>0) = key_hash_of L (license_key_of env) \<and>
     flt now (fadd now\<^sub>0 (float_of_int (if license_key_of env\<^sub>0 = [] then 300 else 60))))"
proof -
  from history_verdict [where T = "{}" and L = L, OF lic.reach_empty assms(1)] obtain origin where
    origin: "origin \<in> set (take (Suc i) calls)"
    "fst (license_history L calls empty_cache) ! i = Some (checked L origin)" "goes_back L (calls ! i) origin" by auto
  from origin(1) obtain j where "j < length (take (Suc i) calls)" "take (Suc i) calls ! j = origin"
    unfolding in_set_conv_nth by blast
  then have "j \<le> i" "calls ! j = origin" by simp_all
  with origin(2,3) assms(2) show ?thesis
    by (intro exI [of _ j], cases origin) (auto simp: checked_def goes_back_def lifetime_def)
qed

text \<open>The license of the demonstration has expired at the second call, a minute after the first.\<close>

theorem license_verdict_witness:
  "fst (license_history demo_lib [(demo_env, float_of_int 1, demo_wall), (demo_env, float_of_int 61, demo_wall\<lparr>day := 16\<rparr>)]
     empty_cache) ! 1 = Some False"
proof -
  let ?calls = "[(demo_env, float_of_int 1, demo_wall), (demo_env, float_of_int 61, demo_wall\<lparr>day := 16\<rparr>)]"
  have "\<not> verify_license_crypto demo_lib (demo_wall\<lparr>day := 16\<rparr>) (license_key_of demo_env)" by code_simp
  then have no: "\<not> license_accepts demo_lib (demo_wall\<lparr>day := 16\<rparr>) (license_key_of demo_env)" by (simp add: verify_iff_accepts)
  have k: "license_key_of demo_env \<noteq> []" by code_simp
  have "\<not> flt (float_of_int 61) (fadd (float_of_int 1) (float_of_int 60))" by code_simp
  with license_verdict [of 1 ?calls demo_env "float_of_int 61" "demo_wall\<lparr>day := 16\<rparr>" demo_lib] no k
  show ?thesis by (auto simp: le_Suc_eq simp del: license_history.simps)
qed

section \<open>A run in one environment\<close>

text \<open>The verdicts of successive calls of \<^verbatim>\<open>is_licensed\<close> in one environment, at given times.\<close>

fun licensed_run ::
    "license_lib \<Rightarrow> environ \<Rightarrow> (pyfloat \<times> datetime) list \<Rightarrow> license_cache \<Rightarrow> bool option list \<times> license_cache" where
  "licensed_run L env [] c = ([], c)"
| "licensed_run L env ((now, wall) # calls) c =
     (case is_licensed L env now wall c of
        (v, c') \<Rightarrow> (case licensed_run L env calls c' of (vs, c'') \<Rightarrow> (v # vs, c'')))"

lemma licensed_run_history: "licensed_run L env calls c = license_history L (map (\<lambda>tw. (env, tw)) calls) c"
proof (induction calls arbitrary: c)
  case (Cons call calls)
  then show ?case by (cases call) (simp split: prod.split)
qed simp

lemma run_verdict:
  assumes "license_key_of env \<noteq> []" and "i < length calls"
  shows "\<exists>t w. (t, w) \<in> set (take (Suc i) calls) \<and>
    fst (licensed_run L env calls empty_cache) ! i = Some (license_accepts L w (license_key_of env)) \<and>
    (flt (fst (calls ! i)) (fadd t (float_of_int 60)) \<or> (t, w) = calls ! i)"
proof -
  let ?calls = "map (\<lambda>tw. (env, tw)) calls"
  have i: "i < length ?calls" using assms(2) by simp
  from history_verdict [where T = "{}" and L = L, OF lic.reach_empty i] obtain origin where
    "origin \<in> set (take (Suc i) ?calls)" "fst (license_history L ?calls empty_cache) ! i = Some (checked L origin)"
    "goes_back L (?calls ! i) origin" by auto
  then obtain t w where o: "origin = (env, t, w)" "(t, w) \<in> set (take (Suc i) calls)"
    "fst (license_history L ?calls empty_cache) ! i = Some (checked L (env, t, w))"
    "goes_back L (?calls ! i) (env, t, w)" by (auto simp: take_map)
  show ?thesis
    unfolding licensed_run_history using o(2-) assms
    by (intro exI [of _ t] exI [of _ w]) (auto simp: goes_back_def checked_def lifetime_def)
qed

text \<open>
  Claim C18.  A change of the key's standing takes effect: when from some moment on every verification of the
  configured key would answer \<open>b\<close> (it has expired, or was renewed), then every call that is a minute or more
  after the calls before that moment returns \<open>b\<close>, however many calls came before and in between.
\<close>

theorem license_change_noticed:
  assumes "license_key_of env \<noteq> []" and "\<forall>(t, w) \<in> set after. license_accepts L w (license_key_of env) = b"
    and "i < length after" and "\<forall>(t, w) \<in> set before. \<not> flt (fst (after ! i)) (fadd t (float_of_int 60))"
  shows "fst (licensed_run L env (before @ after) empty_cache) ! (length before + i) = Some b"
proof -
  have i: "length before + i < length (before @ after)" using assms(3) by simp
  from run_verdict [where L = L, OF assms(1) i] obtain t w where
    tw: "(t, w) \<in> set (take (Suc (length before + i)) (before @ after))"
    "fst (licensed_run L env (before @ after) empty_cache) ! (length before + i) =
       Some (license_accepts L w (license_key_of env))"
    "flt (fst (after ! i)) (fadd t (float_of_int 60)) \<or> (t, w) = after ! i"
    by (auto simp: nth_append)
  have "(t, w) \<in> set after"
  proof (cases "(t, w) = after ! i")
    case True
    then show ?thesis using assms(3) by (simp add: nth_mem)
  next
    case False
    with tw(3) assms(4) have "(t, w) \<notin> set before" by auto
    with tw(1) show ?thesis by (auto dest: in_set_takeD)
  qed
  with assms(2) tw(2) show ?thesis by auto
qed

text \<open>The license of the demonstration expires on the second of three days.\<close>

theorem license_change_noticed_witness:
  "fst (licensed_run demo_lib demo_env
     [(float_of_int 1, demo_wall), (float_of_int 50, demo_wall\<lparr>day := 16\<rparr>), (float_of_int 61, demo_wall\<lparr>day := 16\<rparr>)]
     empty_cache) ! 2 = Some False"
proof -
  have k: "license_key_of demo_env \<noteq> []" by code_simp
  have "\<not> verify_license_crypto demo_lib (demo_wall\<lparr>day := 16\<rparr>) (license_key_of demo_env)" by code_simp
  then have r: "\<forall>(t, w) \<in> set [(float_of_int 50, demo_wall\<lparr>day := 16\<rparr>), (float_of_int 61, demo_wall\<lparr>day := 16\<rparr>)].
      license_accepts demo_lib w (license_key_of demo_env) = False"
    by (simp add: verify_iff_accepts)
  have "\<not> flt (float_of_int 61) (fadd (float_of_int 1) (float_of_int 60))" by code_simp
  then have t: "\<forall>(t, w) \<in> set [(float_of_int 1, demo_wall)]. \<not> flt (fst ([(float_of_int 50, demo_wall\<lparr>day := 16\<rparr>),
      (float_of_int 61, demo_wall\<lparr>day := 16\<rparr>)] ! 1)) (fadd t (float_of_int 60))" by simp
  from license_change_noticed [OF k r _ t] show ?thesis by (simp add: numeral_2_eq_2 del: licensed_run.simps)
qed

section \<open>Expiry\<close>

lemma not_after_midnight:
  assumes "0 \<le> micros now"
  shows "\<not> after_midnight now e \<longleftrightarrow> date_less now e \<or>
    (year now = year e \<and> month now = month e \<and> day now = day e \<and> micros now = 0)"
proof (cases "year now" "year e" rule: linorder_cases)
  case equal
  note y = this
  show ?thesis
  proof (cases "month now" "month e" rule: linorder_cases)
    case equal
    with y show ?thesis
      using assms by (cases "day now" "day e" rule: linorder_cases)
        (simp_all add: after_midnight_def date_less_def not_less order_antisym_conv)
  qed (use y in \<open>simp_all add: after_midnight_def date_less_def\<close>)
qed (simp_all add: after_midnight_def date_less_def)

text \<open>
  Claim C36.  A signed and complete license whose \<^verbatim>\<open>exp\<close> reads as a date is accepted exactly while the
  local clock has not passed the midnight that begins that date: on the expiry day itself it is
  already refused.
\<close>

theorem license_expiry:
  assumes "deobfuscate_key L = Inr vk" and "b64decode L key = Inr signed"
    and "nacl_verify L vk signed = Inr msg" and "utf8_valid msg" and "json_loads L msg = Inr (JObj d)"
    and "set required_fields \<subseteq> fst ` set d" and "map_of d ''exp'' = Some (JStr s)"
    and "strptime_ymd s = Some e" and "0 \<le> micros now"
  shows "verify_license_crypto L now key \<longleftrightarrow>
    date_less now e \<or> (year now = year e \<and> month now = month e \<and> day now = day e \<and> micros now = 0)"
proof -
  have "verify_license_crypto L now key \<longleftrightarrow> \<not> after_midnight now e"
    using assms(6) by (simp add: verify_license_crypto_def verify_body_def decode_utf8_def
        check_payload_def has_all_JObj check_expiry_def assms(1-5,7,8))
  then show ?thesis using not_after_midnight [OF assms(9)] by simp
qed

theorem license_expiry_witness:
  "\<not> verify_license_crypto demo_lib \<lparr>year = 2030, month = 6, day = 15, micros = 1\<rparr> ''signed''"
proof -
  have "fromhex obfuscated_key_hex \<noteq> None" by code_simp
  then obtain vk where vk: "deobfuscate_key demo_lib = Inr vk"
    by (auto simp: deobfuscate_key_def)
  have e: "strptime_ymd ''2030-06-15'' = Some \<lparr>year = 2030, month = 6, day = 15\<rparr>"
    by code_simp
  have u: "utf8_valid ''signed''" by code_simp
  have j: "json_loads demo_lib ''signed'' = Inr (JObj [(''sub'', JStr ''acme''),
      (''exp'', JStr ''2030-06-15''), (''tier'', JStr ''pro'')])"
    by (simp add: demo_lib_def demo_payload_def)
  show ?thesis
    using license_expiry [OF vk, of "''signed''" "''signed''" "''signed''", OF _ _ u j _ _ e,
        of "\<lparr>year = 2030, month = 6, day = 15, micros = 1\<rparr>"]
    by (simp add: demo_lib_def required_fields_def date_less_def)
qed

text \<open>
  The stored constant is the public key under the mask derived from the salt: with a
  32-byte digest the recovered key is the hexadecimal text of 32 bytes, and masking it again gives
  the constant back.
\<close>

lemma license_key_mask:
  assumes "length (sha256 L LICENSE_SALT) = 32"
  shows "\<exists>r. deobfuscate_key L = Inr (tohex r) \<and> length r = 32 \<and>
    fromhex obfuscated_key_hex =
      Some (map (\<lambda>(a, b). xor_byte a b) (zip r (sha256 L LICENSE_SALT)))"
proof -
  have "fromhex obfuscated_key_hex \<noteq> None \<and>
      length (the (fromhex obfuscated_key_hex)) = 32" by code_simp
  then obtain obf where o: "fromhex obfuscated_key_hex = Some obf" "length obf = 32" by auto
  show ?thesis
    using assms o xor_bytes_cancel [of obf "sha256 L LICENSE_SALT"]
    by (auto simp: deobfuscate_key_def)
qed

lemma license_key_mask_example:
  "\<exists>r. deobfuscate_key demo_lib = Inr (tohex r) \<and> length r = 32"
  using license_key_mask [of demo_lib] by (auto simp: demo_lib_def)

end
