(* ===== verification/Metrics.thy ===== *)
theory Metrics
  imports Py_Float "HOL-Library.Multiset"
begin

text \<open>
  The metrics collector of \<^verbatim>\<open>app/metrics.py\<close>: its state, every method, the two exports, and the laws
  its clients rely on.  The request handlers only ever write to the collector, each write under its
  lock, so a handler's effect on it is the list of atomic operations it performs
  (\<open>metric_op\<close>), and concurrent requests are interleavings of such lists.
\<close>

section \<open>State\<close>

record metrics =
  counters :: "(pystr, int) dict"
  gauges :: "(pystr, int) dict"
  histograms :: "(pystr, pyfloat list) dict"
  labeled_counters :: "(pystr, (pystr, int) dict) dict"
  start_time :: pyfloat

text \<open>\<^verbatim>\<open>_initialize\<close>, at the clock reading \<open>now\<close>.\<close>

definition initialize :: "pyfloat \<Rightarrow> metrics" where
  "initialize now =
     \<lparr>counters =
        [(''requests_total'', 0), (''requests_convert'', 0), (''requests_validate'', 0),
         (''requests_extract'', 0), (''requests_xml'', 0), (''errors_total'', 0)],
      gauges = [(''active_requests'', 0)],
      histograms = [(''request_duration_seconds'', [])],
      labeled_counters =
        [(''validation_outcome'', []), (''validation_profile'', []),
         (''validation_error_type'', []), (''teaser_hidden_errors'', [])],
      start_time = now\<rparr>"

text \<open>\<^verbatim>\<open>__new__\<close>: the class attribute \<^verbatim>\<open>_instance\<close> goes in and comes out.\<close>

definition new_collector :: "pyfloat \<Rightarrow> metrics option \<Rightarrow> metrics \<times> metrics option" where
  "new_collector now inst =
     (case inst of
        None \<Rightarrow> (let m = initialize now in (m, Some m))
      | Some m \<Rightarrow> (m, inst))"

section \<open>Methods\<close>

definition inc :: "pystr \<Rightarrow> int \<Rightarrow> metrics \<Rightarrow> metrics" where
  "inc counter value m =
     (case map_of (counters m) counter of
        None \<Rightarrow> m
      | Some v \<Rightarrow> m\<lparr>counters := AList.update counter (v + value) (counters m)\<rparr>)"

definition set_gauge :: "pystr \<Rightarrow> int \<Rightarrow> metrics \<Rightarrow> metrics" where
  "set_gauge gauge value m =
     (case map_of (gauges m) gauge of
        None \<Rightarrow> m
      | Some v \<Rightarrow> m\<lparr>gauges := AList.update gauge value (gauges m)\<rparr>)"

definition inc_gauge :: "pystr \<Rightarrow> int \<Rightarrow> metrics \<Rightarrow> metrics" where
  "inc_gauge gauge value m =
     (case map_of (gauges m) gauge of
        None \<Rightarrow> m
      | Some v \<Rightarrow> m\<lparr>gauges := AList.update gauge (v + value) (gauges m)\<rparr>)"

definition dec_gauge :: "pystr \<Rightarrow> int \<Rightarrow> metrics \<Rightarrow> metrics" where
  "dec_gauge gauge value m =
     (case map_of (gauges m) gauge of
        None \<Rightarrow> m
      | Some v \<Rightarrow> m\<lparr>gauges := AList.update gauge (v - value) (gauges m)\<rparr>)"

text \<open>Python's \<^verbatim>\<open>xs[-n:]\<close> for \<open>n > 0\<close>.\<close>

definition last_n :: "nat \<Rightarrow> 'a list \<Rightarrow> 'a list" where
  "last_n n xs = drop (length xs - n) xs"

definition observe :: "pystr \<Rightarrow> pyfloat \<Rightarrow> metrics \<Rightarrow> metrics" where
  "observe histogram value m =
     (case map_of (histograms m) histogram of
        None \<Rightarrow> m
      | Some obs \<Rightarrow>
          (let obs' = obs @ [value];
               obs'' = (if 1000 < length obs' then last_n 1000 obs' else obs')
           in m\<lparr>histograms := AList.update histogram obs'' (histograms m)\<rparr>))"

definition inc_labeled :: "pystr \<Rightarrow> pystr \<Rightarrow> int \<Rightarrow> metrics \<Rightarrow> metrics" where
  "inc_labeled metric label value m =
     (case map_of (labeled_counters m) metric of
        None \<Rightarrow> m
      | Some ls \<Rightarrow>
          (let v = (case map_of ls label of None \<Rightarrow> 0 | Some v \<Rightarrow> v)
           in m\<lparr>labeled_counters :=
                  AList.update metric (AList.update label (v + value) ls) (labeled_counters m)\<rparr>))"

section \<open>Operations as data\<close>

datatype metric_op =
    Inc pystr int
  | SetGauge pystr int
  | IncGauge pystr int
  | DecGauge pystr int
  | Observe pystr pyfloat
  | IncLabeled pystr pystr int

fun apply_op :: "metric_op \<Rightarrow> metrics \<Rightarrow> metrics" where
  "apply_op (Inc c v) m = inc c v m"
| "apply_op (SetGauge g v) m = set_gauge g v m"
| "apply_op (IncGauge g v) m = inc_gauge g v m"
| "apply_op (DecGauge g v) m = dec_gauge g v m"
| "apply_op (Observe h x) m = observe h x m"
| "apply_op (IncLabeled k l v) m = inc_labeled k l v m"

definition run_ops :: "metric_op list \<Rightarrow> metrics \<Rightarrow> metrics" where
  "run_ops ops m = fold apply_op ops m"

definition hidden_bucket :: "int \<Rightarrow> pystr" where
  "hidden_bucket n = (if n = 1 then ''1'' else if n \<le> 5 then ''2-5'' else ''6+'')"

text \<open>
  \<^verbatim>\<open>record_validation\<close>: the labelled increments it performs, in order.  It takes the lock once per
  increment, so the whole call is not atomic.
\<close>

definition record_validation ::
    "pystr \<Rightarrow> bool \<Rightarrow> pystr option \<Rightarrow> pystr list \<Rightarrow> int \<Rightarrow> metric_op list" where
  "record_validation mode is_valid profile error_rules hidden_count =
     (let result = (if is_valid then ''valid'' else ''invalid'') in
        [IncLabeled ''validation_outcome'' (mode @ '':'' @ result) 1]
        @ (case profile of
             None \<Rightarrow> []
           | Some p \<Rightarrow> if p = [] then [] else [IncLabeled ''validation_profile'' p 1])
        @ map (\<lambda>rule_id. IncLabeled ''validation_error_type'' rule_id 1) (take 5 error_rules)
        @ (if mode = ''teaser'' \<and> 0 < hidden_count
           then [IncLabeled ''teaser_hidden_errors'' (hidden_bucket hidden_count) 1] else []))"

section \<open>Exports\<close>

text \<open>
  \<^verbatim>\<open>get_basic_prometheus_format\<close> takes the lock three times; \<open>mc\<close>, \<open>mg\<close> and \<open>mh\<close> are the collector's
  states at those three moments, and \<open>now\<close> is the clock reading.
\<close>

definition avg_lines :: "pyfloat list \<Rightarrow> pystr list" where
  "avg_lines durations =
     (if durations = [] then []
      else case fdiv (fsum durations) (float_of_int (int (length durations))) of
        None \<Rightarrow> []
      | Some avg \<Rightarrow>
          [''# HELP facturx_request_duration_seconds_avg Average request duration'',
           ''# TYPE facturx_request_duration_seconds_avg gauge'',
           ''facturx_request_duration_seconds_avg '' @ fmt_fixed 4 avg,
           '''',
           ''# HELP facturx_request_duration_seconds_count Total observations'',
           ''# TYPE facturx_request_duration_seconds_count counter'',
           ''facturx_request_duration_seconds_count '' @ int_str (int (length durations))])"

definition value_line :: "pystr \<times> int \<Rightarrow> pystr" where
  "value_line nv = ''facturx_'' @ fst nv @ '' '' @ int_str (snd nv)"

definition basic_lines :: "pyfloat \<Rightarrow> metrics \<Rightarrow> metrics \<Rightarrow> metrics \<Rightarrow> pystr list" where
  "basic_lines now mc mg mh =
     [''# HELP facturx_uptime_seconds Seconds since service start'',
      ''# TYPE facturx_uptime_seconds gauge'',
      ''facturx_uptime_seconds '' @ fmt_fixed 2 (fsub now (start_time mc)),
      '''',
      ''# HELP facturx_requests_total Total number of requests'',
      ''# TYPE facturx_requests_total counter'']
     @ map value_line (counters mc)
     @ ['''',
        ''# HELP facturx_active_requests Number of requests currently being processed'',
        ''# TYPE facturx_active_requests gauge'']
     @ map value_line (gauges mg)
     @ ['''']
     @ avg_lines (case map_of (histograms mh) ''request_duration_seconds'' of
                    None \<Rightarrow> [] | Some obs \<Rightarrow> obs)"

definition newline :: pystr where
  "newline = [CHR 0x0A]"

definition get_basic_prometheus_format ::
    "pyfloat \<Rightarrow> metrics \<Rightarrow> metrics \<Rightarrow> metrics \<Rightarrow> pystr" where
  "get_basic_prometheus_format now mc mg mh = join newline (basic_lines now mc mg mh)"

definition labeled_lines :: "pystr \<times> (pystr, int) dict \<Rightarrow> pystr list" where
  "labeled_lines kl =
     (case kl of (metric_name, labels) \<Rightarrow>
        if labels = [] then []
        else ['''',
              ''# HELP facturx_'' @ metric_name @ '' Business metric with labels (Pro)'',
              ''# TYPE facturx_'' @ metric_name @ '' counter'']
             @ map (\<lambda>(label, value).
                 ''facturx_'' @ metric_name @ ''{label=\"'' @ label @ ''\"} '' @ int_str value) labels)"

text \<open>\<^verbatim>\<open>get_prometheus_format\<close>; \<open>ml\<close> is the state at its own lock section.\<close>

definition get_prometheus_format ::
    "pyfloat \<Rightarrow> metrics \<Rightarrow> metrics \<Rightarrow> metrics \<Rightarrow> metrics \<Rightarrow> pystr" where
  "get_prometheus_format now mc mg mh ml =
     join newline
       (get_basic_prometheus_format now mc mg mh
        # concat (map labeled_lines (labeled_counters ml)))"

section \<open>Well-formedness\<close>

definition counter_names :: "pystr list" where
  "counter_names = map fst (counters (initialize FNan))"

definition gauge_names :: "pystr list" where
  "gauge_names = map fst (gauges (initialize FNan))"

definition histogram_names :: "pystr list" where
  "histogram_names = map fst (histograms (initialize FNan))"

definition labeled_names :: "pystr list" where
  "labeled_names = map fst (labeled_counters (initialize FNan))"

definition wf_metrics :: "metrics \<Rightarrow> bool" where
  "wf_metrics m \<longleftrightarrow>
     map fst (counters m) = counter_names \<and> map fst (gauges m) = gauge_names \<and>
     map fst (histograms m) = histogram_names \<and> map fst (labeled_counters m) = labeled_names \<and>
     (\<forall>(h, obs) \<in> set (histograms m). length obs \<le> 1000) \<and>
     (\<forall>(k, ls) \<in> set (labeled_counters m). wf_dict ls)"

lemmas metric_defs = inc_def set_gauge_def inc_gauge_def dec_gauge_def observe_def inc_labeled_def

lemma wf_initialize [simp]: "wf_metrics (initialize now)"
  by (simp add: wf_metrics_def initialize_def counter_names_def gauge_names_def
      histogram_names_def labeled_names_def wf_dict_def)

lemma distinct_names [simp]:
  "distinct counter_names" "distinct gauge_names" "distinct histogram_names" "distinct labeled_names"
  by (simp_all add: initialize_def counter_names_def gauge_names_def
      histogram_names_def labeled_names_def)

lemma length_last_n [simp]: "length (last_n n xs) = min n (length xs)"
  by (simp add: last_n_def)

lemma set_update_subset: "set (AList.update k v d) \<subseteq> insert (k, v) (set d)"
  by (induction d) auto

lemma wf_apply_op: "wf_metrics m \<Longrightarrow> wf_metrics (apply_op op m)"
proof (cases op)
  case (Observe h x)
  assume wf: "wf_metrics m"
  show ?thesis
  proof (cases "map_of (histograms m) h")
    case (Some obs)
    let ?o = "if 1000 < length (obs @ [x]) then last_n 1000 (obs @ [x]) else obs @ [x]"
    have "length ?o \<le> 1000" by simp
    then have "\<forall>(k, o') \<in> set (AList.update h ?o (histograms m)). length o' \<le> 1000"
      using wf set_update_subset [of h ?o "histograms m"] by (fastforce simp: wf_metrics_def)
    with wf Some Observe show ?thesis
      by (simp add: wf_metrics_def observe_def Let_def dom_update_present del: length_append)
  qed (use wf Observe in \<open>simp add: observe_def\<close>)
next
  case (IncLabeled k l v)
  assume wf: "wf_metrics m"
  show ?thesis
  proof (cases "map_of (labeled_counters m) k")
    case (Some ls)
    let ?w = "case map_of ls l of None \<Rightarrow> 0 | Some v \<Rightarrow> v"
    let ?ls = "AList.update l (?w + v) ls"
    have "wf_dict ls" using wf map_of_SomeD [OF Some] by (auto simp: wf_metrics_def)
    then have "wf_dict ?ls" by (rule wf_dict_update)
    then have "\<forall>(k', ls') \<in> set (AList.update k ?ls (labeled_counters m)). wf_dict ls'"
      using wf set_update_subset [of k ?ls "labeled_counters m"] by (fastforce simp: wf_metrics_def)
    with wf Some IncLabeled show ?thesis
      by (simp add: wf_metrics_def inc_labeled_def Let_def dom_update_present)
  qed (use wf IncLabeled in \<open>simp add: inc_labeled_def\<close>)
qed (auto simp: wf_metrics_def metric_defs dom_update_present split: option.splits)

section \<open>Additive stores\<close>

text \<open>
  What the request handlers rely on: a store of integers under keys, changed by operations of which some, those
  that satisfy \<open>adds\<close>, add a fixed amount to a key.  As long as only these are used the multiset of operations
  matters, so the order in which concurrent requests interleave their operations does not.
\<close>

locale additive_store =
  fixes invar :: "'s \<Rightarrow> bool"
    and step :: "'op \<Rightarrow> 's \<Rightarrow> 's"
    and read :: "'s \<Rightarrow> 'k \<Rightarrow> int"
    and delta :: "'op \<Rightarrow> 'k \<Rightarrow> int"
    and adds :: "'op \<Rightarrow> bool"
  assumes invar_step: "invar s \<Longrightarrow> invar (step op s)"
    and read_step: "invar s \<Longrightarrow> adds op \<Longrightarrow> read (step op s) k = read s k + delta op k"
begin

lemma invar_run: "invar s \<Longrightarrow> invar (fold step ops s)"
  by (induction ops arbitrary: s) (auto simp: invar_step)

lemma read_run: "invar s \<Longrightarrow> list_all adds ops \<Longrightarrow> read (fold step ops s) k = read s k + (\<Sum>op \<leftarrow> ops. delta op k)"
  by (induction ops arbitrary: s) (auto simp: invar_step read_step)

lemma adds_order: "mset ops = mset ops' \<Longrightarrow> list_all adds ops \<longleftrightarrow> list_all adds ops'"
  by (metis list_all_iff set_mset_mset)

lemma read_run_order:
  assumes "invar s" and "mset ops = mset ops'" and "list_all adds ops"
  shows "read (fold step ops s) k = read (fold step ops' s) k"
proof -
  have "(\<Sum>op \<leftarrow> ops. delta op k) = (\<Sum>op \<leftarrow> ops'. delta op k)"
    using assms(2) by (metis mset_map sum_mset_sum_list)
  with assms adds_order [OF assms(2)] show ?thesis by (simp add: read_run)
qed

lemma read_interleaving:
  assumes "invar s" and "mset ops = mset (concat progs)" and "list_all adds (concat progs)"
  shows "read (fold step ops s) k = read s k + (\<Sum>p \<leftarrow> progs. \<Sum>op \<leftarrow> p. delta op k)"
proof -
  have "read (fold step ops s) k = read (fold step (concat progs) s) k"
    using assms(1,2) assms(3) [folded adds_order [OF assms(2)]] by (rule read_run_order)
  also have "\<dots> = read s k + (\<Sum>op \<leftarrow> concat progs. delta op k)"
    using assms(1,3) by (rule read_run)
  also have "(\<Sum>op \<leftarrow> concat progs. delta op k) = (\<Sum>p \<leftarrow> progs. \<Sum>op \<leftarrow> p. delta op k)"
    by (induction progs) simp_all
  finally show ?thesis .
qed

lemma read_balanced:
  assumes "invar s" and "mset ops = mset (concat progs)" and "list_all adds (concat progs)"
    and "\<And>p. p \<in> set progs \<Longrightarrow> (\<Sum>op \<leftarrow> p. delta op k) = 0"
  shows "read (fold step ops s) k = read s k"
proof -
  have "(\<Sum>p \<leftarrow> progs. \<Sum>op \<leftarrow> p. delta op k) = 0"
    using assms(4) by (induction progs) simp_all
  with read_interleaving [OF assms(1-3)] show ?thesis by simp
qed

end

definition counter_value :: "metrics \<Rightarrow> pystr \<Rightarrow> int" where
  "counter_value m k = (case map_of (counters m) k of None \<Rightarrow> 0 | Some v \<Rightarrow> v)"

definition gauge_value :: "metrics \<Rightarrow> pystr \<Rightarrow> int" where
  "gauge_value m k = (case map_of (gauges m) k of None \<Rightarrow> 0 | Some v \<Rightarrow> v)"

definition label_value :: "metrics \<Rightarrow> pystr \<times> pystr \<Rightarrow> int" where
  "label_value m k =
     (case map_of (labeled_counters m) (fst k) of
        None \<Rightarrow> 0
      | Some ls \<Rightarrow> (case map_of ls (snd k) of None \<Rightarrow> 0 | Some v \<Rightarrow> v))"

fun counter_delta :: "metric_op \<Rightarrow> pystr \<Rightarrow> int" where
  "counter_delta (Inc c v) k = (if c = k \<and> k \<in> set counter_names then v else 0)"
| "counter_delta _ k = 0"

fun gauge_delta :: "metric_op \<Rightarrow> pystr \<Rightarrow> int" where
  "gauge_delta (IncGauge g v) k = (if g = k \<and> k \<in> set gauge_names then v else 0)"
| "gauge_delta (DecGauge g v) k = (if g = k \<and> k \<in> set gauge_names then - v else 0)"
| "gauge_delta _ k = 0"

fun label_delta :: "metric_op \<Rightarrow> pystr \<times> pystr \<Rightarrow> int" where
  "label_delta (IncLabeled m l v) k = (if (m, l) = k \<and> m \<in> set labeled_names then v else 0)"
| "label_delta _ k = 0"

lemma keys_of_wf:
  assumes "wf_metrics m"
  shows "k \<in> set counter_names \<longleftrightarrow> map_of (counters m) k \<noteq> None"
    and "k \<in> set gauge_names \<longleftrightarrow> map_of (gauges m) k \<noteq> None"
    and "k \<in> set histogram_names \<longleftrightarrow> map_of (histograms m) k \<noteq> None"
    and "k \<in> set labeled_names \<longleftrightarrow> map_of (labeled_counters m) k \<noteq> None"
  using assms unfolding wf_metrics_def map_of_eq_None_iff by (metis set_map)+

lemma counter_value_step:
  assumes "wf_metrics m"
  shows "counter_value (apply_op op m) k = counter_value m k + counter_delta op k"
  by (cases op) (auto simp: counter_value_def metric_defs Let_def keys_of_wf(1) [OF assms]
      split: option.splits)

text \<open>Setting a gauge is the one operation that does not add to a value.\<close>

fun no_set :: "metric_op \<Rightarrow> bool" where
  "no_set (SetGauge g v) = False"
| "no_set op = True"

lemma gauge_value_step:
  assumes "wf_metrics m" and "no_set op"
  shows "gauge_value (apply_op op m) k = gauge_value m k + gauge_delta op k"
  using assms(2) by (cases op) (auto simp: gauge_value_def metric_defs Let_def keys_of_wf(2) [OF assms(1)]
      split: option.splits)

lemma label_value_step:
  assumes "wf_metrics m"
  shows "label_value (apply_op op m) k = label_value m k + label_delta op k"
  by (cases op; cases k) (auto simp: label_value_def metric_defs Let_def keys_of_wf(4) [OF assms]
      split: option.splits)

interpretation cnt: additive_store wf_metrics apply_op counter_value counter_delta "\<lambda>op. True"
  by unfold_locales (auto simp: wf_apply_op counter_value_step)

interpretation gau: additive_store wf_metrics apply_op gauge_value gauge_delta no_set
  by unfold_locales (auto simp: wf_apply_op gauge_value_step)

interpretation lab: additive_store wf_metrics apply_op label_value label_delta "\<lambda>op. True"
  by unfold_locales (auto simp: wf_apply_op label_value_step)

lemma wf_run_ops [simp]: "wf_metrics m \<Longrightarrow> wf_metrics (run_ops ops m)"
  unfolding run_ops_def by (rule cnt.invar_run)

section \<open>The observation window\<close>

fun observations :: "pystr \<Rightarrow> metric_op list \<Rightarrow> pyfloat list" where
  "observations h [] = []"
| "observations h (Observe g x # ops) =
     (if g = h then x # observations h ops else observations h ops)"
| "observations h (_ # ops) = observations h ops"

definition window :: "metrics \<Rightarrow> pystr \<Rightarrow> pyfloat list" where
  "window m h = (case map_of (histograms m) h of None \<Rightarrow> [] | Some obs \<Rightarrow> obs)"

lemma last_n_append: "last_n n (last_n n xs @ ys) = last_n n (xs @ ys)"
proof (cases "length xs \<le> n")
  case False
  then show ?thesis
    by (cases "length ys \<le> n") (simp_all add: last_n_def drop_append add.commute)
qed (simp add: last_n_def)

lemma last_n_short: "length xs \<le> n \<Longrightarrow> last_n n xs = xs"
  by (simp add: last_n_def)

lemma window_step:
  assumes "wf_metrics m" and "h \<in> set histogram_names"
  shows "window (apply_op op m) h =
           last_n 1000 (window m h @ observations h [op])"
proof -
  have len: "length (window m h) \<le> 1000"
    using assms map_of_SomeD by (fastforce simp: window_def wf_metrics_def split: option.splits)
  show ?thesis
  proof (cases op)
    case (Observe g x)
    show ?thesis
    proof (cases "g = h")
      case True
      with assms obtain obs where "map_of (histograms m) h = Some obs"
        using keys_of_wf(3) [OF assms(1), of h] by auto
      with True Observe show ?thesis
        by (simp add: window_def observe_def Let_def last_n_short)
    next
      case False
      with len Observe show ?thesis
        by (auto simp: window_def observe_def Let_def last_n_short split: option.splits)
    qed
  qed (use len in \<open>auto simp: window_def metric_defs last_n_short Let_def split: option.splits\<close>)
qed

lemma observations_Cons: "observations h (op # ops) = observations h [op] @ observations h ops"
  by (cases op) auto

lemma window_run:
  assumes "wf_metrics m" and "h \<in> set histogram_names"
  shows "window (run_ops ops m) h = last_n 1000 (window m h @ observations h ops)"
  using assms(1)
proof (induction ops arbitrary: m)
  case Nil
  then have "length (window m h) \<le> 1000"
    using map_of_SomeD by (fastforce simp: window_def wf_metrics_def split: option.splits)
  then show ?case by (simp add: run_ops_def last_n_short)
next
  case (Cons op ops)
  have "window (run_ops (op # ops) m) h
      = last_n 1000 (last_n 1000 (window m h @ observations h [op]) @ observations h ops)"
    using Cons wf_apply_op [OF Cons.prems, of op] window_step [OF Cons.prems assms(2), of op]
    by (simp add: run_ops_def)
  also have "\<dots> = last_n 1000 (window m h @ observations h (op # ops))"
    unfolding last_n_append by (subst (2) observations_Cons) simp
  finally show ?case .
qed

section \<open>Exports\<close>

lemma basic_lines_labels_free:
  "basic_lines now (mc\<lparr>labeled_counters := l\<^sub>1\<rparr>) (mg\<lparr>labeled_counters := l\<^sub>2\<rparr>)
     (mh\<lparr>labeled_counters := l\<^sub>3\<rparr>) = basic_lines now mc mg mh"
  by (simp add: basic_lines_def)

lemma join_extends_head: "\<exists>r. join d (w # ws) = w @ r"
  by (cases ws) simp_all

lemma pro_extends_basic:
  "startswith (get_prometheus_format now mc mg mh ml) (get_basic_prometheus_format now mc mg mh)"
  unfolding startswith_iff get_prometheus_format_def
  by (rule join_extends_head)

section \<open>Properties\<close>

text \<open>
  Claim C34.  Every state the collector can reach from its initialisation by any sequence of its
  operations, \<^verbatim>\<open>set_gauge\<close> included, which no handler uses, is well formed: the fixed sets of counters, gauges, histograms and labelled metrics
  never grow or shrink (an unknown name is ignored), no observation window exceeds 1000 entries and
  the label dictionaries stay dictionaries.
\<close>

theorem metrics_invariant: "wf_metrics (run_ops ops (initialize now))"
  by simp

text \<open>
  Concurrency of the collector: operations are atomic, so requests that run at the same
  time interleave their operations; two runs with the same operations in different orders end with
  the same counters, gauges and labelled counters, when no operation sets a gauge.
\<close>

lemma metrics_order_independent:
  assumes "wf_metrics m" and "mset ops = mset ops'" and "list_all no_set ops"
  shows "counter_value (run_ops ops m) = counter_value (run_ops ops' m) \<and>
         gauge_value (run_ops ops m) = gauge_value (run_ops ops' m) \<and>
         label_value (run_ops ops m) = label_value (run_ops ops' m)"
  unfolding run_ops_def
  using cnt.read_run_order [OF assms(1,2)] gau.read_run_order [OF assms] lab.read_run_order [OF assms(1,2)]
  by (auto simp: list_all_iff)

lemma metrics_order_independent_example:
  "counter_value
     (run_ops [Inc ''errors_total'' 1, DecGauge ''active_requests'' 1] (initialize fzero))
     ''errors_total'' =
   counter_value
     (run_ops [DecGauge ''active_requests'' 1, Inc ''errors_total'' 1] (initialize fzero))
     ''errors_total''"
  using metrics_order_independent
    [of "initialize fzero" "[Inc ''errors_total'' 1, DecGauge ''active_requests'' 1]"
      "[DecGauge ''active_requests'' 1, Inc ''errors_total'' 1]"]
  by simp

text \<open>
  The duration histogram is a sliding window: from start-up, after any operations it
  holds exactly the last 1000 observed durations, in the order in which they were observed.
\<close>

lemma metrics_window:
  "window (run_ops ops (initialize now)) ''request_duration_seconds'' =
     last_n 1000 (observations ''request_duration_seconds'' ops)"
proof -
  have "''request_duration_seconds'' \<in> set histogram_names"
    by (simp add: histogram_names_def initialize_def)
  moreover have "window (initialize now) ''request_duration_seconds'' = []"
    by (simp add: window_def initialize_def)
  ultimately show ?thesis
    using window_run [OF wf_initialize, of "''request_duration_seconds''" ops now] by simp
qed

text \<open>
  Tier separation of the exports: the Community export does not depend on the labelled
  business metrics at all, and the Pro export is the Community export followed by further lines.
\<close>

lemma metrics_tiers:
  "get_basic_prometheus_format now (mc\<lparr>labeled_counters := l\<^sub>1\<rparr>) (mg\<lparr>labeled_counters := l\<^sub>2\<rparr>)
     (mh\<lparr>labeled_counters := l\<^sub>3\<rparr>) = get_basic_prometheus_format now mc mg mh \<and>
   startswith (get_prometheus_format now mc mg mh ml) (get_basic_prometheus_format now mc mg mh)"
  unfolding get_basic_prometheus_format_def basic_lines_labels_free
  using pro_extends_basic [unfolded get_basic_prometheus_format_def] by blast

end
