(* ===== verification/Api.thy ===== *)
theory Api
  imports Generator Lite_Validator Extractor License Metrics "HOL-Library.Sublist"
begin

text \<open>
  The four endpoints of \<^verbatim>\<open>app/api.py\<close>.  A handler takes the process state (loaded hybrid module, compiled
  lite rules, license cache) and the clock readings of the call, and returns the metric operations it
  performs in order, its response or exception, and the state afterwards.
\<close>

section \<open>State and surroundings\<close>

record 'v app_state =
  hybrid_module :: "service option"
  lite_rules :: "'v lite_state"
  lic_cache :: license_cache

record clock =
  t_start :: pyfloat
  t_end :: pyfloat
  t_license :: pyfloat
  wall_clock :: datetime

text \<open>
  The packages behind the endpoints: JSON decoding, the pydantic constructor of the metadata model, the exception
  of the constructor of the extraction's response model, if it raises one, and the encoding of a response header,
  which raises for some texts.
\<close>

record ('x, 's, 'v) api_lib =
  json_decode :: "pystr \<Rightarrow> json result"
  new_metadata :: "(pystr \<times> json) list \<Rightarrow> InvoiceMetadata result"
  result_refused :: "extraction \<Rightarrow> exn option"
  encode_header :: "pystr \<Rightarrow> exn option"
  gen_lib :: "('x, 's) generator_lib"
  lite_lib_of :: "('x, 'v) lite_lib"
  lic_lib :: license_lib

record upload =
  filename :: "pystr option"
  file_read :: "bytes result"

record response =
  body :: bytes
  media_type :: pystr
  content_disposition :: pystr

section \<open>What the handlers share\<close>

text \<open>The \<^verbatim>\<open>except\<close> clauses: an \<^verbatim>\<open>HTTPException\<close> passes, everything else becomes a 500.\<close>

definition http_error :: "int \<Rightarrow> pystr \<Rightarrow> pystr \<Rightarrow> exn" where
  "http_error status err text = HTTPExn status (Detail err text)"

definition to_http :: "exn \<Rightarrow> exn" where
  "to_http e = (if is_HTTPExn e then e else http_error 500 ''INTERNAL_ERROR'' ''An unexpected error occurred'')"

text \<open>
  The frame around a body: the counters on entry, the gauge where the handler uses it, the error counter
  in the \<^verbatim>\<open>except\<close> clauses, and the \<^verbatim>\<open>finally\<close> clause.  \<open>ops\<close> are the operations of the body itself.
\<close>

definition framed ::
    "pystr \<Rightarrow> bool \<Rightarrow> clock \<Rightarrow> metric_op list \<Rightarrow> 'a result \<Rightarrow> metric_op list \<times> 'a result" where
  "framed endpoint gauge clk ops res =
     ([Inc ''requests_total'' 1, Inc endpoint 1]
      @ (if gauge then [IncGauge ''active_requests'' 1] else [])
      @ ops
      @ (case res of Inl e \<Rightarrow> [Inc ''errors_total'' 1] | Inr r \<Rightarrow> [])
      @ (if gauge then [DecGauge ''active_requests'' 1] else [])
      @ [Observe ''request_duration_seconds'' (fsub (t_end clk) (t_start clk))],
      case res of Inl e \<Rightarrow> Inl (to_http e) | Inr r \<Rightarrow> Inr r)"

text \<open>\<^verbatim>\<open>InvoiceMetadata(**json.loads(metadata))\<close> with its two \<^verbatim>\<open>except\<close> clauses.\<close>

definition build_metadata :: "('x, 's, 'v) api_lib \<Rightarrow> json \<Rightarrow> InvoiceMetadata result" where
  "build_metadata A j =
     (case j of
        JObj d \<Rightarrow> new_metadata A d
      | _ \<Rightarrow> Inl (OtherExn ''TypeError'' ''argument after ** must be a mapping''))"

definition parse_metadata :: "('x, 's, 'v) api_lib \<Rightarrow> pystr \<Rightarrow> InvoiceMetadata result" where
  "parse_metadata A metadata =
     catchR (bindR (json_decode A metadata) (build_metadata A)) (\<lambda>e.
       case e of
         JSONDecodeError m \<Rightarrow> Inl (http_error 400 ''INVALID_JSON'' (''Invalid JSON in metadata: '' @ m))
       | _ \<Rightarrow> Inl (http_error 400 ''INVALID_METADATA'' (''Invalid metadata structure: '' @ exn_str e)))"

definition streaming :: "('x, 's, 'v) api_lib \<Rightarrow> bytes \<Rightarrow> pystr \<Rightarrow> pystr \<Rightarrow> response result" where
  "streaming A content media disposition =
     (case encode_header A disposition of
        Some e \<Rightarrow> Inl e
      | None \<Rightarrow> Inr \<lparr>body = content, media_type = media, content_disposition = disposition\<rparr>)"

section \<open>POST /v1/convert\<close>

definition convert_body ::
    "('x, 's, 'v) api_lib \<Rightarrow> upload \<Rightarrow> pystr \<Rightarrow> service option \<Rightarrow> response result \<times> service option" where
  "convert_body A pdf metadata loaded =
     (case name_is_pdf (filename pdf) of
        Inl e \<Rightarrow> (Inl e, loaded)
      | Inr ok \<Rightarrow>
          if \<not> ok then (Inl (http_error 400 ''INVALID_FILE_TYPE'' ''Only PDF files are accepted''), loaded)
          else
            (case file_read pdf of
               Inl e \<Rightarrow> (Inl e, loaded)
             | Inr pdf_content \<Rightarrow>
                 if pdf_content = [] then (Inl (http_error 400 ''EMPTY_FILE'' ''PDF file is empty''), loaded)
                 else
                   (case parse_metadata A metadata of
                      Inl e \<Rightarrow> (Inl e, loaded)
                    | Inr md \<Rightarrow>
                        (case generate_facturx_pdf (gen_lib A) pdf_content md loaded of
                           (Inl e, loaded') \<Rightarrow>
                             (Inl (if is_ValueError e then http_error 400 ''GENERATION_FAILED'' (exn_str e) else e), loaded')
                         | (Inr facturx_pdf, loaded') \<Rightarrow>
                             (streaming A facturx_pdf ''application/pdf''
                               (''attachment; filename=facturx_'' @ md_invoice_number md @ ''.pdf''), loaded')))))"

definition convert_to_facturx ::
    "('x, 's, 'v) api_lib \<Rightarrow> clock \<Rightarrow> upload \<Rightarrow> pystr \<Rightarrow> 'v app_state \<Rightarrow>
     metric_op list \<times> response result \<times> 'v app_state" where
  "convert_to_facturx A clk pdf metadata st =
     (case convert_body A pdf metadata (hybrid_module st) of
        (res, loaded) \<Rightarrow>
          (case framed ''requests_convert'' True clk [] res of
             (ops, out) \<Rightarrow> (ops, out, st\<lparr>hybrid_module := loaded\<rparr>)))"

section \<open>POST /v1/xml\<close>

definition xml_body :: "('x, 's, 'v) api_lib \<Rightarrow> pystr \<Rightarrow> response result" where
  "xml_body A metadata =
     bindR (parse_metadata A metadata) (\<lambda>md.
     bindR (catchR (generate_xml (gen_lib A) md)
              (\<lambda>e. Inl (http_error 500 ''GENERATION_FAILED'' (exn_str e)))) (\<lambda>xml_content.
     streaming A xml_content ''application/xml''
       (''attachment; filename=facturx_'' @ md_invoice_number md @ ''.xml'')))"

definition generate_facturx_xml ::
    "('x, 's, 'v) api_lib \<Rightarrow> clock \<Rightarrow> pystr \<Rightarrow> metric_op list \<times> response result" where
  "generate_facturx_xml A clk metadata = framed ''requests_xml'' False clk [] (xml_body A metadata)"

section \<open>POST /v1/validate\<close>

text \<open>The license check: whether the caller gets the full report, and the cache afterwards.\<close>

definition check_license ::
    "('x, 's, 'v) api_lib \<Rightarrow> clock \<Rightarrow> license_cache \<Rightarrow> bool \<times> license_cache" where
  "check_license A clk c =
     (if license_key_of (gen_env (gen_lib A)) = [] then (False, c)
      else
        (case is_licensed (lic_lib A) (gen_env (gen_lib A)) (t_license clk) (wall_clock clk) c of
           (v, c') \<Rightarrow> (v = Some True, c')))"

definition rule_ids :: "report_error list \<Rightarrow> pystr list" where
  "rule_ids errs = filter (\<lambda>i. i \<noteq> []) (map e_rule_id errs)"

definition pro_report :: "service_result \<Rightarrow> metric_op list \<times> ValidationReport" where
  "pro_report r =
     (record_validation ''pro'' (r_is_valid r) (r_profile r) (rule_ids (r_errors r)) 0,
      \<lparr>valid = r_is_valid r, v_format = r_format r, v_flavor = r_profile r,
       v_errors = map e_message (r_errors r), validation_mode = Some ''pro''\<rparr>)"

text \<open>The teaser's second line: a warning sign, the number of hidden errors and the offer.\<close>

definition teaser_offer :: "int \<Rightarrow> pystr" where
  "teaser_offer hidden_count =
     [CHR 0xE2, CHR 0x9A, CHR 0xA0, CHR 0xEF, CHR 0xB8, CHR 0x8F] @ '' '' @ int_str hidden_count @
     '' autres erreurs de conformit'' @ e_acute @ '' critique d'' @ e_acute @ ''tect'' @ e_acute @ ''es. '' @
     ''Activez la version Pro pour le rapport complet et garantir l'' @ [CHR 0x27] @
     ''acceptation par Chorus Pro/PPF.''"

definition teaser_report :: "service_result \<Rightarrow> metric_op list \<times> ValidationReport" where
  "teaser_report r =
     (case r_errors r of
        [] \<Rightarrow>
          (record_validation ''teaser'' True (r_profile r) [] 0,
           \<lparr>valid = True, v_format = r_format r, v_flavor = r_profile r, v_errors = [],
            validation_mode = Some ''teaser''\<rparr>)
      | first_error # others \<Rightarrow>
          (let hidden_count = int (length (r_errors r)) - 1;
               teaser_errors = [''['' @ e_rule_id first_error @ ''] '' @ e_message first_error]
                 @ (if 0 < hidden_count then [teaser_offer hidden_count] else []) in
           (record_validation ''teaser'' False (r_profile r) (rule_ids (r_errors r)) hidden_count,
            \<lparr>valid = False, v_format = r_format r, v_flavor = r_profile r, v_errors = teaser_errors,
             validation_mode = Some ''teaser''\<rparr>)))"

definition lite_report :: "lite_verdict \<Rightarrow> ValidationReport" where
  "lite_report v = \<lparr>valid = lv_valid v, v_format = lv_format v, v_flavor = lv_flavor v,
     v_errors = lv_errors v, validation_mode = Some ''lite''\<rparr>"

fun is_ImportError :: "exn \<Rightarrow> bool" where
  "is_ImportError (ImportError m) = True"
| "is_ImportError e = False"

definition validate_body ::
    "('x, 's, 'v) api_lib \<Rightarrow> clock \<Rightarrow> upload \<Rightarrow> 'v app_state \<Rightarrow>
     metric_op list \<times> ValidationReport result \<times> 'v app_state" where
  "validate_body A clk file st =
     (case file_read file of
        Inl e \<Rightarrow> ([], Inl e, st)
      | Inr file_content \<Rightarrow>
          if file_content = [] then ([], Inl (http_error 400 ''EMPTY_FILE'' ''File is empty''), st)
          else
            (case check_license A clk (lic_cache st) of (is_pro, cache) \<Rightarrow>
              (case import_hybrid (gen_missing (gen_lib A)) (gen_env (gen_lib A)) (hybrid_module st) of
                 Inl e \<Rightarrow>
                   if is_ImportError e then
                     (case validate_file (lite_lib_of A) file_content (filename file) (lite_rules st) of
                        (v, rules) \<Rightarrow>
                          ([], Inr (lite_report v), st\<lparr>lic_cache := cache, lite_rules := rules\<rparr>))
                   else ([], Inl e, st\<lparr>lic_cache := cache\<rparr>)
               | Inr svc \<Rightarrow>
                   (case service_validate (gen_service (gen_lib A)) file_content (filename file) svc of
                      (r, svc') \<Rightarrow>
                        (case (if is_pro then pro_report r else teaser_report r) of
                           (ops, rep) \<Rightarrow>
                             (ops, Inr rep, st\<lparr>lic_cache := cache, hybrid_module := Some svc'\<rparr>))))))"

definition validate_facturx ::
    "('x, 's, 'v) api_lib \<Rightarrow> clock \<Rightarrow> upload \<Rightarrow> 'v app_state \<Rightarrow>
     metric_op list \<times> ValidationReport result \<times> 'v app_state" where
  "validate_facturx A clk file st =
     (case validate_body A clk file st of
        (ops, res, st') \<Rightarrow>
          (case framed ''requests_validate'' True clk ops res of
             (ops', out) \<Rightarrow> (ops', out, st')))"

section \<open>POST /v1/extract\<close>

text \<open>\<^verbatim>\<open>ExtractionResult(**result)\<close> with its \<^verbatim>\<open>except\<close> clause, whose detail is a plain text.\<close>

definition build_result :: "('x, 's, 'v) api_lib \<Rightarrow> extraction \<Rightarrow> ExtractionResult result" where
  "build_result A result =
     (case result_refused A result of
        Some e \<Rightarrow> Inl (HTTPExn 500 (DetailText (''Schema validation failed: '' @ exn_str e)))
      | None \<Rightarrow> Inr (to_ExtractionResult result))"

definition extract_body :: "('x, 's, 'v) api_lib \<Rightarrow> upload \<Rightarrow> ExtractionResult result" where
  "extract_body A file =
     bindR (file_read file) (\<lambda>file_content.
       if file_content = [] then Inl (http_error 400 ''EMPTY_FILE'' ''File is empty'')
       else
         build_result A
           (extract_invoice_data (svc_lxml (gen_service (gen_lib A))) (svc_facturx (gen_service (gen_lib A)))
             file_content (filename file)))"

text \<open>
  The response model accepts what the service returns: pydantic refuses only values of other types than the
  declared ones, and \<^typ>\<open>extraction\<close> has the declared types.
\<close>

definition models_accept :: "('x, 's, 'v) api_lib \<Rightarrow> bool" where
  "models_accept A \<longleftrightarrow> (\<forall>r. result_refused A r = None)"

lemma build_result_accepted [simp]: "models_accept A \<Longrightarrow> build_result A r = Inr (to_ExtractionResult r)"
  by (simp add: models_accept_def build_result_def)

lemma build_result_Inr: "build_result A r = Inr x \<Longrightarrow> x = to_ExtractionResult r"
  by (simp add: build_result_def split: option.splits)

definition extract_facturx ::
    "('x, 's, 'v) api_lib \<Rightarrow> clock \<Rightarrow> upload \<Rightarrow> metric_op list \<times> ExtractionResult result" where
  "extract_facturx A clk file = framed ''requests_extract'' True clk [] (extract_body A file)"

section \<open>The operations of a request\<close>

text \<open>
  A call of one of the four handlers, with what it finds: the clock readings, its input and the
  process state.
\<close>

datatype 'v call =
    ConvertCall clock upload pystr "'v app_state"
  | XmlCall clock pystr
  | ValidateCall clock upload "'v app_state"
  | ExtractCall clock upload

fun call_ops :: "('x, 's, 'v) api_lib \<Rightarrow> 'v call \<Rightarrow> metric_op list" where
  "call_ops A (ConvertCall clk pdf md st) = fst (convert_to_facturx A clk pdf md st)"
| "call_ops A (XmlCall clk md) = fst (generate_facturx_xml A clk md)"
| "call_ops A (ValidateCall clk f st) = fst (validate_facturx A clk f st)"
| "call_ops A (ExtractCall clk f) = fst (extract_facturx A clk f)"

fun call_failed :: "('x, 's, 'v) api_lib \<Rightarrow> 'v call \<Rightarrow> bool" where
  "call_failed A (ConvertCall clk pdf md st) = isl (fst (snd (convert_to_facturx A clk pdf md st)))"
| "call_failed A (XmlCall clk md) = isl (snd (generate_facturx_xml A clk md))"
| "call_failed A (ValidateCall clk f st) = isl (fst (snd (validate_facturx A clk f st)))"
| "call_failed A (ExtractCall clk f) = isl (snd (extract_facturx A clk f))"

fun call_endpoint :: "'v call \<Rightarrow> pystr" where
  "call_endpoint (ConvertCall clk pdf md st) = ''requests_convert''"
| "call_endpoint (XmlCall clk md) = ''requests_xml''"
| "call_endpoint (ValidateCall clk f st) = ''requests_validate''"
| "call_endpoint (ExtractCall clk f) = ''requests_extract''"

fun call_gauged :: "'v call \<Rightarrow> bool" where
  "call_gauged (XmlCall clk md) = False"
| "call_gauged c = True"

text \<open>Only labelled counters: what a body does to the collector.\<close>

definition label_only :: "metric_op list \<Rightarrow> bool" where
  "label_only ops \<longleftrightarrow> (\<forall>op \<in> set ops. \<exists>k l v. op = IncLabeled k l v)"

lemma label_only_record_validation [simp]: "label_only (record_validation mode v p rs h)"
  by (auto simp: label_only_def record_validation_def Let_def split: option.splits if_splits)

lemma label_only_Nil [simp]: "label_only []"
  by (simp add: label_only_def)

lemma label_only_sums:
  assumes "label_only ops"
  shows "(\<Sum>op \<leftarrow> ops. counter_delta op k) = 0" and "(\<Sum>op \<leftarrow> ops. gauge_delta op k) = 0"
  using assms unfolding label_only_def by (induction ops) auto

lemma label_only_prefix: "label_only ops \<Longrightarrow> prefix p ops \<Longrightarrow> label_only p"
  by (auto simp: label_only_def prefix_def)

lemma label_only_pro_report [simp]: "label_only (fst (pro_report r))"
  by (simp add: pro_report_def)

lemma label_only_teaser_report [simp]: "label_only (fst (teaser_report r))"
  by (auto simp: teaser_report_def Let_def split: list.split)

lemma label_only_validate_body: "label_only (fst (validate_body A clk f st))"
  by (auto simp: validate_body_def split: sum.splits prod.splits if_splits)
    (metis fst_conv label_only_pro_report label_only_teaser_report)+

text \<open>The operations of a framed body.\<close>

definition frame_ops :: "pystr \<Rightarrow> bool \<Rightarrow> pyfloat \<Rightarrow> metric_op list \<Rightarrow> bool \<Rightarrow> metric_op list" where
  "frame_ops ep gauge d ops failed =
     [Inc ''requests_total'' 1, Inc ep 1] @ (if gauge then [IncGauge ''active_requests'' 1] else [])
     @ ops @ (if failed then [Inc ''errors_total'' 1] else [])
     @ (if gauge then [DecGauge ''active_requests'' 1] else []) @ [Observe ''request_duration_seconds'' d]"

lemma framed_ops: "fst (framed ep g clk ops res) = frame_ops ep g (fsub (t_end clk) (t_start clk)) ops (isl res)"
  by (cases res) (simp_all add: framed_def frame_ops_def)

lemma framed_isl [simp]: "isl (snd (framed ep g clk ops res)) = isl res"
  by (cases res) (simp_all add: framed_def)

lemma call_frame:
  "\<exists>d ops. call_ops A c = frame_ops (call_endpoint c) (call_gauged c) d ops (call_failed A c) \<and> label_only ops"
proof (cases c)
  case (ConvertCall clk pdf md st)
  obtain res loaded where b: "convert_body A pdf md (hybrid_module st) = (res, loaded)" by fastforce
  have "call_ops A c = fst (framed ''requests_convert'' True clk [] res)" "call_failed A c = isl res"
    using b by (simp_all add: ConvertCall convert_to_facturx_def split_beta)
  then show ?thesis
    by (intro exI [of _ "fsub (t_end clk) (t_start clk)"] exI [of _ "[]"]) (simp add: framed_ops ConvertCall)
next
  case (XmlCall clk md)
  then show ?thesis
    by (intro exI [of _ "fsub (t_end clk) (t_start clk)"] exI [of _ "[]"])
      (simp add: generate_facturx_xml_def framed_ops)
next
  case (ValidateCall clk f st)
  obtain ops res st' where b: "validate_body A clk f st = (ops, res, st')" by (metis prod_cases3)
  have "label_only ops" using label_only_validate_body [of A clk f st] b by simp
  moreover have "call_ops A c = fst (framed ''requests_validate'' True clk ops res)" "call_failed A c = isl res"
    using b by (simp_all add: ValidateCall validate_facturx_def split_beta)
  ultimately show ?thesis
    by (intro exI [of _ "fsub (t_end clk) (t_start clk)"] exI [of _ ops]) (simp add: framed_ops ValidateCall)
next
  case (ExtractCall clk f)
  then show ?thesis
    by (intro exI [of _ "fsub (t_end clk) (t_start clk)"] exI [of _ "[]"])
      (simp add: extract_facturx_def framed_ops)
qed

lemma counter_names_mem:
  "''requests_total'' \<in> set counter_names" "''errors_total'' \<in> set counter_names"
  "call_endpoint c \<in> set counter_names" "call_endpoint c \<noteq> ''requests_total''" "call_endpoint c \<noteq> ''errors_total''"
  "''active_requests'' \<in> set gauge_names"
  by (auto simp: counter_names_def gauge_names_def initialize_def) (cases c; simp)+

lemma frame_sums:
  assumes "label_only ops" and "ep \<in> set counter_names"
  shows "(\<Sum>op \<leftarrow> frame_ops ep g d ops failed. counter_delta op k) =
      (if k = ''requests_total'' then 1 else 0) + (if k = ep then 1 else 0) +
      (if failed \<and> k = ''errors_total'' then 1 else 0)"
    and "(\<Sum>op \<leftarrow> frame_ops ep g d ops failed. gauge_delta op k') = 0"
proof -
  have inc: "counter_delta (Inc j 1) k = (if k = j then 1 else 0)" if "j \<in> set counter_names" for j
    using that by simp
  show "(\<Sum>op \<leftarrow> frame_ops ep g d ops failed. counter_delta op k) =
      (if k = ''requests_total'' then 1 else 0) + (if k = ep then 1 else 0) +
      (if failed \<and> k = ''errors_total'' then 1 else 0)"
    using assms(2)
    by (cases g; cases failed)
      (simp_all add: frame_ops_def label_only_sums(1) [OF assms(1)] inc counter_names_mem
        del: counter_delta.simps(1))
  show "(\<Sum>op \<leftarrow> frame_ops ep g d ops failed. gauge_delta op k') = 0"
    by (simp add: frame_ops_def label_only_sums(2) [OF assms(1)])
qed

lemma call_sums:
  "(\<Sum>op \<leftarrow> call_ops A c. counter_delta op k) =
      (if k = ''requests_total'' then 1 else 0) + (if k = call_endpoint c then 1 else 0) +
      (if call_failed A c \<and> k = ''errors_total'' then 1 else 0)"
  "(\<Sum>op \<leftarrow> call_ops A c. gauge_delta op k') = 0"
  using call_frame [of A c] frame_sums [OF _ counter_names_mem(3)] by metis+

text \<open>No handler sets a gauge.\<close>

lemma label_only_no_set: "label_only ops \<Longrightarrow> list_all no_set ops"
  by (auto simp: label_only_def list_all_iff)

lemma call_ops_no_set: "list_all no_set (call_ops A c)"
proof -
  obtain d ops where "call_ops A c = frame_ops (call_endpoint c) (call_gauged c) d ops (call_failed A c)" "label_only ops"
    using call_frame by blast
  then show ?thesis by (simp add: frame_ops_def label_only_no_set)
qed

lemma calls_no_set: "list_all no_set (concat (map (call_ops A) calls))"
  using call_ops_no_set by (fastforce simp: list_all_iff)

text \<open>While a request runs, its own share of the gauge is zero or one.\<close>

lemma frame_gauge_prefix:
  assumes "label_only ops" and "prefix p (frame_ops ep g d ops failed)"
  shows "(\<Sum>op \<leftarrow> p. gauge_delta op ''active_requests'') \<in> {0, if g then 1 else 0}"
proof -
  have one: "gauge_delta (IncGauge ''active_requests'' 1) ''active_requests'' = 1"
    "gauge_delta (DecGauge ''active_requests'' 1) ''active_requests'' = -1"
    by (simp_all add: counter_names_mem)
  have ops: "(\<Sum>op \<leftarrow> q. gauge_delta op ''active_requests'') = 0" if "prefix q ops" for q
    using label_only_sums(2) [OF label_only_prefix [OF assms(1) that]] .
  show ?thesis
    using assms(2) unfolding frame_ops_def
    by (cases g; cases failed) (auto simp: prefix_Cons prefix_append one ops
        label_only_sums(2) [OF assms(1)] simp del: gauge_delta.simps(1,2))
qed

section \<open>Validation reports\<close>

lemma validate_facturx_Inr:
  assumes "validate_facturx A clk f st = (ops, Inr rep, st')"
  obtains (lite) c is_pro cache v rules e where "file_read f = Inr c" "c \<noteq> []"
      "check_license A clk (lic_cache st) = (is_pro, cache)"
      "import_hybrid (gen_missing (gen_lib A)) (gen_env (gen_lib A)) (hybrid_module st) = Inl e"
      "is_ImportError e" "validate_file (lite_lib_of A) c (filename f) (lite_rules st) = (v, rules)"
      "rep = lite_report v" "st' = st\<lparr>lic_cache := cache, lite_rules := rules\<rparr>"
    | (hybrid) c is_pro cache svc r svc' where "file_read f = Inr c" "c \<noteq> []"
      "check_license A clk (lic_cache st) = (is_pro, cache)"
      "import_hybrid (gen_missing (gen_lib A)) (gen_env (gen_lib A)) (hybrid_module st) = Inr svc"
      "service_validate (gen_service (gen_lib A)) c (filename f) svc = (r, svc')"
      "rep = snd (if is_pro then pro_report r else teaser_report r)"
      "st' = st\<lparr>lic_cache := cache, hybrid_module := Some svc'\<rparr>"
proof -
  obtain bops res st'' where b: "validate_body A clk f st = (bops, res, st'')" by (metis prod_cases3)
  with assms have res: "res = Inr rep" "st'' = st'"
    by (auto simp: validate_facturx_def framed_def split: prod.splits sum.splits)
  from b show thesis
    unfolding validate_body_def res
    by (auto split: sum.splits if_splits prod.splits intro: lite hybrid)
qed

lemma report_modes [simp]:
  "validation_mode (snd (pro_report r)) = Some ''pro''"
  "validation_mode (snd (teaser_report r)) = Some ''teaser''"
  "validation_mode (lite_report v) = Some ''lite''"
  by (simp_all add: pro_report_def teaser_report_def lite_report_def Let_def split: list.split)

lemma check_license_True:
  assumes "check_license A clk c = (True, c')"
  shows "is_licensed (lic_lib A) (gen_env (gen_lib A)) (t_license clk) (wall_clock clk) c = (Some True, c')"
  using assms by (auto simp: check_license_def split: if_splits prod.splits)

lemma slow_path_True:
  assumes "slow_path L env now wall = (Some True, e)"
  shows "license_key_of env \<noteq> [] \<and> license_accepts L wall (license_key_of env) \<and>
    e = fadd now (float_of_int 60)"
  using assms by (auto simp: slow_path_def Let_def verify_iff_accepts split: if_splits)

lemma is_licensed_True:
  assumes "licensing_state L c" and "is_licensed L env now wall c = (Some True, c')"
  shows "\<exists>key\<^sub>0 now\<^sub>0 wall\<^sub>0. key\<^sub>0 \<noteq> [] \<and> key_hash_of L key\<^sub>0 = key_hash_of L (license_key_of env) \<and>
     license_accepts L wall\<^sub>0 key\<^sub>0 \<and>
     (flt now (fadd now\<^sub>0 (float_of_int 60)) \<or> (key\<^sub>0, now\<^sub>0, wall\<^sub>0) = (license_key_of env, now, wall))"
proof -
  obtain env\<^sub>0 now\<^sub>0 wall\<^sub>0 e where
    sp: "slow_path L env\<^sub>0 now\<^sub>0 wall\<^sub>0 = (Some True, e)" and
    h: "key_hash_of L (license_key_of env\<^sub>0) = key_hash_of L (license_key_of env)" and
    f: "flt now e \<or> (env\<^sub>0, now\<^sub>0, wall\<^sub>0) = (env, now, wall)"
    using is_licensed_sound [OF assms] by metis
  from slow_path_True [OF sp] h f show ?thesis by blast
qed

section \<open>Properties\<close>

text \<open>
  Claim C16.  The teaser does not leak.  The Community response is determined by the detected format and
  profile, the first entry and the number of entries: two service results that agree on these give the
  same response, whatever the other entries are.  It has at most two lines, the first the first entry,
  the second naming exactly the number of entries left out.
\<close>

theorem teaser_discloses:
  assumes "r_format r = r_format r'" and "r_profile r = r_profile r'"
    and "length (r_errors r) = length (r_errors r')" and "take 1 (r_errors r) = take 1 (r_errors r')"
  shows "snd (teaser_report r) = snd (teaser_report r') \<and>
    length (v_errors (snd (teaser_report r))) = min 2 (length (r_errors r)) \<and>
    (valid (snd (teaser_report r)) \<longleftrightarrow> r_errors r = []) \<and>
    (1 < length (r_errors r) \<longrightarrow>
       v_errors (snd (teaser_report r)) ! 1 = teaser_offer (int (length (r_errors r)) - 1))"
proof (cases "r_errors r")
  case Nil
  with assms show ?thesis by (simp add: teaser_report_def)
next
  case (Cons e es)
  with assms obtain es' where r': "r_errors r' = e # es'" "length es' = length es"
    by (cases "r_errors r'") auto
  with Cons assms(1,2) show ?thesis
    by (cases es) (auto simp: teaser_report_def Let_def)
qed

definition demo_entry :: "pystr \<Rightarrow> pystr \<Rightarrow> report_error" where
  "demo_entry i s = \<lparr>e_rule_id = i, e_message = ''m'' @ i, e_location = None, e_severity = s, e_layer = ''schematron''\<rparr>"

theorem teaser_discloses_witness:
  "snd (teaser_report (initial_result\<lparr>r_errors := [demo_entry ''1'' ''error'', demo_entry ''2'' ''error'']\<rparr>)) =
   snd (teaser_report (initial_result\<lparr>r_errors := [demo_entry ''1'' ''error'', demo_entry ''9'' ''warning'']\<rparr>))"
  using teaser_discloses
    [of "initial_result\<lparr>r_errors := [demo_entry ''1'' ''error'', demo_entry ''2'' ''error'']\<rparr>"
        "initial_result\<lparr>r_errors := [demo_entry ''1'' ''error'', demo_entry ''9'' ''warning'']\<rparr>"]
  by simp

text \<open>
  Claim C24.  The two tiers on the same service result.  A file the teaser calls valid is valid in Pro
  mode, and the tiers agree when every entry of the report blocks.  They disagree on a report that has
  entries but no blocking one: Pro says valid, the teaser says invalid.
\<close>

theorem tiers_agree:
  assumes "xsd_logs (svc_engine S)" and "service_validate S c n svc = (r, svc')"
  shows "(valid (snd (teaser_report r)) \<longrightarrow> valid (snd (pro_report r))) \<and>
    ((\<forall>e \<in> set (r_errors r). e_blocking e) \<longrightarrow>
       valid (snd (teaser_report r)) = valid (snd (pro_report r))) \<and>
    (r_errors r \<noteq> [] \<and> (\<forall>e \<in> set (r_errors r). \<not> e_blocking e) \<longrightarrow>
       valid (snd (pro_report r)) \<and> \<not> valid (snd (teaser_report r)))"
proof -
  have t: "valid (snd (teaser_report r)) \<longleftrightarrow> r_errors r = []"
    by (cases "r_errors r") (simp_all add: teaser_report_def Let_def)
  have p: "valid (snd (pro_report r)) \<longleftrightarrow> filter e_blocking (r_errors r) = []"
    using svc.accepted_iff [of "(S, c, n, svc)"] assms by (simp add: pro_report_def)
  show ?thesis
    unfolding t p by (auto simp: filter_empty_conv)
qed

theorem tiers_agree_witness:
  "valid (snd (pro_report (fst (service_validate (demo_service\<lparr>svc_engine := demo_engine
      \<lparr>eng_lxml := (eng_lxml demo_engine)\<lparr>el_attr := (\<lambda>x a. Some ''warning'')\<rparr>\<rparr>\<rparr>)
      ''%PDF'' (Some ''f.pdf'') demo_svc)))) \<and>
   \<not> valid (snd (teaser_report (fst (service_validate (demo_service\<lparr>svc_engine := demo_engine
      \<lparr>eng_lxml := (eng_lxml demo_engine)\<lparr>el_attr := (\<lambda>x a. Some ''warning'')\<rparr>\<rparr>\<rparr>)
      ''%PDF'' (Some ''f.pdf'') demo_svc))))"
proof -
  let ?S = "demo_service\<lparr>svc_engine := demo_engine
      \<lparr>eng_lxml := (eng_lxml demo_engine)\<lparr>el_attr := (\<lambda>x a. Some ''warning'')\<rparr>\<rparr>\<rparr>"
  have l: "xsd_logs (svc_engine ?S)" by (simp add: xsd_logs_def demo_engine_def)
  have "r_errors (fst (service_validate ?S ''%PDF'' (Some ''f.pdf'') demo_svc)) \<noteq> []"
    and "list_all (\<lambda>e. \<not> e_blocking e) (r_errors (fst (service_validate ?S ''%PDF'' (Some ''f.pdf'') demo_svc)))"
    by code_simp+
  with tiers_agree [OF l prod.collapse [symmetric], of "''%PDF''" "Some ''f.pdf''" demo_svc]
  show ?thesis by (simp add: list_all_iff)
qed

lemma check_license_reachable:
  assumes "licensing_state (lic_lib A) c" and "check_license A clk c = (p, c')"
  shows "licensing_state (lic_lib A) c'"
  using assms is_licensed_reachable by (auto simp: check_license_def split: if_splits prod.splits)

lemma validate_facturx_cache:
  assumes "licensing_state (lic_lib A) (lic_cache st)" and "validate_facturx A clk f st = (ops, Inr rep, st')"
  shows "licensing_state (lic_lib A) (lic_cache st')"
  using assms(2)
proof (cases rule: validate_facturx_Inr)
  case (lite c is_pro cache v rules e)
  with check_license_reachable [OF assms(1) lite(3)] show ?thesis by simp
next
  case (hybrid c is_pro cache svc r svc')
  with check_license_reachable [OF assms(1) hybrid(3)] show ?thesis by simp
qed

text \<open>A concrete set of packages for the witnesses: the instances of the components' witnesses.\<close>

definition demo_api :: "(int, unit, unit) api_lib" where
  "demo_api = \<lparr>json_decode = (\<lambda>s. if s = ''{}'' then Inr (JObj []) else Inl (JSONDecodeError ''Expecting value'')),
     new_metadata = (\<lambda>d. Inr demo_metadata), result_refused = (\<lambda>r. None), encode_header = (\<lambda>h. None),
     gen_lib = demo_generator\<lparr>gen_env := demo_env\<rparr>, lite_lib_of = demo_lite, lic_lib = demo_lib\<rparr>"

definition demo_state :: "unit app_state" where
  "demo_state = \<lparr>hybrid_module = None, lite_rules = \<lparr>core_validator = None\<rparr>, lic_cache = empty_cache\<rparr>"

definition demo_clock :: clock where
  "demo_clock = \<lparr>t_start = fzero, t_end = float_of_int 2, t_license = fzero, wall_clock = demo_wall\<rparr>"

definition demo_upload :: upload where
  "demo_upload = \<lparr>filename = Some ''f.pdf'', file_read = Inr ''%PDF-1.7''\<rparr>"

text \<open>
  Claim C4.  The Pro report is the full report, and it is only given under a license.  From a reachable
  license cache, a response in mode \<^verbatim>\<open>pro\<close> carries the hybrid service's own verdict, format and profile
  and every message of its report in order, and some non-empty key with the hash of the configured one
  was found signed, complete and unexpired, now or less than 60 seconds before.  The cache stays
  reachable whatever the mode.
\<close>

theorem pro_report_licensed:
  assumes "licensing_state (lic_lib A) (lic_cache st)" and "validate_facturx A clk f st = (ops, Inr rep, st')"
  shows "licensing_state (lic_lib A) (lic_cache st') \<and>
    (validation_mode rep = Some ''pro'' \<longrightarrow>
      (\<exists>c svc r svc'. file_read f = Inr c \<and>
         service_validate (gen_service (gen_lib A)) c (filename f) svc = (r, svc') \<and>
         valid rep = r_is_valid r \<and> v_format rep = r_format r \<and> v_flavor rep = r_profile r \<and>
         v_errors rep = map e_message (r_errors r)) \<and>
      (\<exists>key\<^sub>0 now\<^sub>0 wall\<^sub>0. key\<^sub>0 \<noteq> [] \<and>
         key_hash_of (lic_lib A) key\<^sub>0 = key_hash_of (lic_lib A) (license_key_of (gen_env (gen_lib A))) \<and>
         license_accepts (lic_lib A) wall\<^sub>0 key\<^sub>0 \<and>
         (flt (t_license clk) (fadd now\<^sub>0 (float_of_int 60)) \<or>
          (key\<^sub>0, now\<^sub>0, wall\<^sub>0) = (license_key_of (gen_env (gen_lib A)), t_license clk, wall_clock clk))))"
proof -
  have "?thesis" if pro: "validation_mode rep = Some ''pro''"
    using assms(2)
  proof (cases rule: validate_facturx_Inr)
    case (lite c is_pro cache v rules e)
    with pro show ?thesis by simp
  next
    case (hybrid c is_pro cache svc r svc')
    with pro have is_pro: is_pro by (cases is_pro) auto
    with hybrid(3) have "check_license A clk (lic_cache st) = (True, cache)" by simp
    note check_license_True [OF this]
    from is_licensed_True [OF assms(1) this] hybrid is_pro validate_facturx_cache [OF assms]
    show ?thesis by (auto simp: pro_report_def)
  qed
  with validate_facturx_cache [OF assms] show ?thesis by blast
qed

lemma demo_validate_pro:
  obtains ops rep st' where "validate_facturx demo_api demo_clock demo_upload demo_state = (ops, Inr rep, st')"
    "validation_mode rep = Some ''pro''"
proof -
  have "fst (check_license demo_api demo_clock (lic_cache demo_state))" by code_simp
  then obtain cache where l: "check_license demo_api demo_clock (lic_cache demo_state) = (True, cache)"
    by (metis prod.collapse)
  have "\<not> isl (import_hybrid (gen_missing (gen_lib demo_api)) (gen_env (gen_lib demo_api)) (hybrid_module demo_state))"
    by code_simp
  then obtain svc where i: "import_hybrid (gen_missing (gen_lib demo_api)) (gen_env (gen_lib demo_api))
      (hybrid_module demo_state) = Inr svc"
    by (metis sum.collapse(2))
  obtain r svc' where r: "service_validate (gen_service (gen_lib demo_api)) ''%PDF-1.7'' (Some ''f.pdf'') svc = (r, svc')"
    by fastforce
  have "fst (snd (validate_facturx demo_api demo_clock demo_upload demo_state)) = Inr (snd (pro_report r))"
    by (simp add: validate_facturx_def validate_body_def demo_upload_def l i r framed_def split_beta)
  then show thesis
    by (cases "validate_facturx demo_api demo_clock demo_upload demo_state") (auto intro: that)
qed

theorem pro_report_licensed_witness:
  "\<exists>ops rep st' wall\<^sub>0 key\<^sub>0. validate_facturx demo_api demo_clock demo_upload demo_state = (ops, Inr rep, st') \<and>
     validation_mode rep = Some ''pro'' \<and> license_accepts (lic_lib demo_api) wall\<^sub>0 key\<^sub>0"
proof -
  have l: "licensing_state (lic_lib demo_api) (lic_cache demo_state)"
    by (simp add: demo_state_def lic.reach_empty)
  obtain ops rep st' where v: "validate_facturx demo_api demo_clock demo_upload demo_state = (ops, Inr rep, st')"
    "validation_mode rep = Some ''pro''"
    by (rule demo_validate_pro)
  from pro_report_licensed [OF l v(1)] v show ?thesis by blast
qed

lemma convert_to_facturx_Inr:
  assumes "convert_to_facturx A clk pdf metadata st = (ops, Inr resp, st')"
  obtains c md where "file_read pdf = Inr c" "c \<noteq> []" "parse_metadata A metadata = Inr md"
    "name_is_pdf (filename pdf) = Inr True"
    "generate_facturx_pdf (gen_lib A) c md (hybrid_module st) = (Inr (body resp), hybrid_module st')"
    "media_type resp = ''application/pdf''"
    "content_disposition resp = ''attachment; filename=facturx_'' @ md_invoice_number md @ ''.pdf''"
proof -
  have b: "convert_body A pdf metadata (hybrid_module st) = (Inr resp, hybrid_module st')"
    using assms by (auto simp: convert_to_facturx_def framed_def split: prod.splits sum.splits)
  then obtain c md where c: "name_is_pdf (filename pdf) = Inr True" "file_read pdf = Inr c" "c \<noteq> []"
    "parse_metadata A metadata = Inr md"
    by (auto simp: convert_body_def split: sum.splits if_splits)
  with b obtain x l where g: "generate_facturx_pdf (gen_lib A) c md (hybrid_module st) = (Inr x, l)"
    by (cases "generate_facturx_pdf (gen_lib A) c md (hybrid_module st)")
      (auto simp: convert_body_def split: sum.splits)
  with b c have "streaming A x ''application/pdf''
      (''attachment; filename=facturx_'' @ md_invoice_number md @ ''.pdf'') = Inr resp" "l = hybrid_module st'"
    by (simp_all add: convert_body_def)
  with c g show thesis
    by (intro that [of c md]) (auto simp: streaming_def split: option.splits)
qed

text \<open>
  Claim C2.  The conversion endpoint only delivers what passed the quality gate.  With an attachment that reads
  back as embedded, a successful response carries a PDF whose XML is exactly the rendering of the validated
  metadata, that XML was parsed and its format and profile were recognised, and the file name of the response is
  made from the invoice number.  When a validation file is installed, the hybrid engine accepted that XML with
  exactly the installed files; when none is, the gate is the service's mode \<^verbatim>\<open>lite\<close> and asks for no more than the
  parsing.
\<close>

theorem convert_gate:
  assumes "xsd_logs (svc_engine (gen_service (gen_lib A)))"
    and "embeds (svc_facturx (gen_service (gen_lib A)))"
    and "convert_to_facturx A clk pdf metadata st = (ops, Inr resp, st')"
  shows "\<exists>md xml. parse_metadata A metadata = Inr md \<and> generate_xml (gen_lib A) md = Inr xml \<and>
    get_xml_from_pdf (svc_facturx (gen_service (gen_lib A))) (body resp) = Inr (Some xml) \<and>
    (\<exists>t f l. fromstring (svc_lxml (gen_service (gen_lib A))) xml = Inr t \<and>
       get_flavor (svc_facturx (gen_service (gen_lib A))) t = Inr f \<and>
       get_level (svc_facturx (gen_service (gen_lib A))) t = Inr l) \<and>
    (assets_available (gen_service (gen_lib A)) \<longrightarrow> is_valid (engine_validate (svc_engine (gen_service (gen_lib A)))
      \<lparr>xsd_path = if path_exists (svc_engine (gen_service (gen_lib A))) (XSD_PATH (gen_service (gen_lib A)))
                  then Some (XSD_PATH (gen_service (gen_lib A))) else None,
       xslt_path = if path_exists (svc_engine (gen_service (gen_lib A))) (XSLT_PATH (gen_service (gen_lib A)))
                  then Some (XSLT_PATH (gen_service (gen_lib A))) else None\<rparr> xml)) \<and>
    media_type resp = ''application/pdf'' \<and>
    content_disposition resp = ''attachment; filename=facturx_'' @ md_invoice_number md @ ''.pdf''"
  using assms(3)
proof (cases rule: convert_to_facturx_Inr)
  case (1 c md)
  with generated_accepted [OF assms(1,2) 1(5)] show ?thesis by blast
qed

lemma demo_convert:
  obtains ops resp st' where "convert_to_facturx demo_api demo_clock demo_upload ''{}'' demo_state = (ops, Inr resp, st')"
proof -
  have "import_hybrid None demo_env None = Inr demo_svc" "get_executor demo_svc =
      Inr (\<lparr>max_workers = 2, max_tasks_per_child = 100\<rparr>, demo_svc\<lparr>svc_executor :=
        Some \<lparr>max_workers = 2, max_tasks_per_child = 100\<rparr>\<rparr>)" by code_simp+
  from demo_generates [OF this] obtain b l where
    b: "generate_facturx_pdf (gen_lib demo_api) ''%PDF-1.7'' demo_metadata None = (Inr b, l)" by (simp add: demo_api_def)
  have p: "parse_metadata demo_api ''{}'' = Inr demo_metadata"
    by (simp add: parse_metadata_def build_metadata_def demo_api_def)
  have n: "name_is_pdf (Some ''f.pdf'') = Inr True" by code_simp
  have "\<not> isl (fst (snd (convert_to_facturx demo_api demo_clock demo_upload ''{}'' demo_state)))"
    by (simp add: convert_to_facturx_def convert_body_def demo_upload_def n p demo_state_def b
        streaming_def framed_def split_beta) (simp add: demo_api_def)
  then show thesis
    by (metis prod.collapse sum.collapse(2) that)
qed

theorem convert_gate_witness:
  "\<exists>resp xml. fst (snd (convert_to_facturx demo_api demo_clock demo_upload ''{}'' demo_state)) = Inr resp \<and>
     get_xml_from_pdf (svc_facturx (gen_service (gen_lib demo_api))) (body resp) = Inr (Some xml) \<and>
     is_valid (engine_validate (svc_engine (gen_service (gen_lib demo_api)))
      \<lparr>xsd_path = if path_exists (svc_engine (gen_service (gen_lib demo_api))) (XSD_PATH (gen_service (gen_lib demo_api)))
                  then Some (XSD_PATH (gen_service (gen_lib demo_api))) else None,
       xslt_path = if path_exists (svc_engine (gen_service (gen_lib demo_api))) (XSLT_PATH (gen_service (gen_lib demo_api)))
                  then Some (XSLT_PATH (gen_service (gen_lib demo_api))) else None\<rparr> xml)"
proof -
  have ok: "xsd_logs (svc_engine (gen_service (gen_lib demo_api)))"
    "embeds (svc_facturx (gen_service (gen_lib demo_api)))"
    and assets: "assets_available (gen_service (gen_lib demo_api))"
    using demo_generator_ok by (simp_all add: demo_api_def)
  obtain ops resp st' where c: "convert_to_facturx demo_api demo_clock demo_upload ''{}'' demo_state = (ops, Inr resp, st')"
    by (rule demo_convert)
  from convert_gate [OF ok c] assets c show ?thesis by (auto simp only: fst_conv snd_conv)
qed

section \<open>Errors\<close>

text \<open>The packages and the upload raise no \<^verbatim>\<open>HTTPException\<close> of their own.\<close>

definition plain_packages :: "('x, 's, 'v) api_lib \<Rightarrow> upload \<Rightarrow> bool" where
  "plain_packages A f \<longleftrightarrow> (\<forall>e. file_read f = Inl e \<longrightarrow> \<not> is_HTTPExn e) \<and>
     (\<forall>h e. encode_header A h = Some e \<longrightarrow> \<not> is_HTTPExn e) \<and>
     (\<forall>e. gen_missing (gen_lib A) = Some e \<longrightarrow> \<not> is_HTTPExn e)"

definition internal :: exn where
  "internal = HTTPExn 500 (Detail ''INTERNAL_ERROR'' ''An unexpected error occurred'')"

lemma to_http_plain: "\<not> is_HTTPExn e \<Longrightarrow> to_http e = internal"
  by (simp add: to_http_def internal_def http_error_def)

lemma to_http_error [simp]: "to_http (http_error c err m) = HTTPExn c (Detail err m)"
  by (simp add: to_http_def http_error_def)

lemma framed_Inl: "snd (framed ep g clk ops res) = Inl x \<longleftrightarrow> (\<exists>e. res = Inl e \<and> x = to_http e)"
  by (cases res) (auto simp: framed_def)

lemma parse_metadata_Inl:
  "parse_metadata A m = Inl e \<Longrightarrow> \<exists>t. e = http_error 400 ''INVALID_JSON'' t \<or> e = http_error 400 ''INVALID_METADATA'' t"
  by (cases "bindR (json_decode A m) (build_metadata A)")
    (auto simp: parse_metadata_def split: exn.splits)

lemma name_is_pdf_plain: "name_is_pdf n = Inl e \<Longrightarrow> \<not> is_HTTPExn e"
  by (auto simp: name_is_pdf_def split: option.splits)

lemma read_config_plain: "read_config env = Inl e \<Longrightarrow> \<not> is_HTTPExn e"
  by (auto simp: read_config_def read_int_def split: option.splits)

lemma convert_body_Inl:
  assumes "convert_body A pdf md loaded = (Inl e, loaded')" and "plain_packages A pdf"
  shows "to_http e = internal \<or> (\<exists>t. \<exists>c \<in> {''INVALID_FILE_TYPE'', ''EMPTY_FILE'', ''INVALID_JSON'',
    ''INVALID_METADATA'', ''GENERATION_FAILED''}. to_http e = HTTPExn 400 (Detail c t))"
  using assms
  by (auto simp: convert_body_def plain_packages_def streaming_def to_http_plain
      dest!: parse_metadata_Inl name_is_pdf_plain generate_Inl
      split: sum.splits if_splits prod.splits option.splits)

lemma xml_body_Inl:
  assumes "xml_body A md = Inl e" and "plain_packages A f"
  shows "to_http e = internal \<or> (\<exists>t. to_http e = HTTPExn 500 (Detail ''GENERATION_FAILED'' t)) \<or>
    (\<exists>t. \<exists>c \<in> {''INVALID_JSON'', ''INVALID_METADATA''}. to_http e = HTTPExn 400 (Detail c t))"
  using assms
  by (auto simp: xml_body_def plain_packages_def streaming_def to_http_plain generate_xml_def catchR_def
      dest!: parse_metadata_Inl split: sum.splits option.splits)

lemma validate_body_Inl:
  assumes "validate_body A clk f st = (ops, Inl e, st')" and "plain_packages A f"
  shows "to_http e = internal \<or> (\<exists>t. to_http e = HTTPExn 400 (Detail ''EMPTY_FILE'' t))"
proof -
  have "\<not> is_HTTPExn e'" if "import_hybrid (gen_missing (gen_lib A)) (gen_env (gen_lib A)) l = Inl e'" for l e'
    using that assms(2) read_config_plain
    by (auto simp: import_hybrid_def plain_packages_def split: option.splits)
  with assms show ?thesis
    by (auto simp: validate_body_def plain_packages_def to_http_plain
        split: sum.splits if_splits prod.splits)
qed

text \<open>The refusal of the response model, as the handler reports it.\<close>

definition refused_result :: "('x, 's, 'v) api_lib \<Rightarrow> upload \<Rightarrow> exn \<Rightarrow> bool" where
  "refused_result A f x \<longleftrightarrow> (\<exists>c e. file_read f = Inr c \<and>
     result_refused A (extract_invoice_data (svc_lxml (gen_service (gen_lib A))) (svc_facturx (gen_service (gen_lib A)))
       c (filename f)) = Some e \<and> x = HTTPExn 500 (DetailText (''Schema validation failed: '' @ exn_str e)))"

lemma extract_body_Inl:
  assumes "extract_body A f = Inl e" and "plain_packages A f"
  shows "to_http e = internal \<or> (\<exists>t. to_http e = HTTPExn 400 (Detail ''EMPTY_FILE'' t)) \<or> refused_result A f (to_http e)"
  using assms
  by (auto simp: extract_body_def build_result_def plain_packages_def to_http_plain refused_result_def to_http_def [of "HTTPExn _ _"]
      split: if_splits option.splits)

text \<open>
  Claim C25.  The error contract of the endpoints.  Every failure is an HTTP error: status 400 with one of the
  documented codes of that endpoint, or status 500 with the fixed internal message, which reveals nothing of the
  exception, but for two cases.  \<^verbatim>\<open>/v1/xml\<close> answers 500 with \<^verbatim>\<open>GENERATION_FAILED\<close>, where \<^verbatim>\<open>/v1/convert\<close> answers
  400.  \<^verbatim>\<open>/v1/extract\<close> answers 500 with a plain text in place of a code and a message, and with the text of the
  exception in it, exactly when the response model refuses the service's result.
\<close>

theorem endpoint_errors:
  assumes "plain_packages A f"
  shows "(fst (snd (convert_to_facturx A clk f md st)) = Inl x \<longrightarrow>
      x = internal \<or> (\<exists>t. \<exists>c \<in> {''INVALID_FILE_TYPE'', ''EMPTY_FILE'', ''INVALID_JSON'', ''INVALID_METADATA'',
        ''GENERATION_FAILED''}. x = HTTPExn 400 (Detail c t))) \<and>
    (snd (generate_facturx_xml A clk md) = Inl x \<longrightarrow>
      x = internal \<or> (\<exists>t. x = HTTPExn 500 (Detail ''GENERATION_FAILED'' t)) \<or>
      (\<exists>t. \<exists>c \<in> {''INVALID_JSON'', ''INVALID_METADATA''}. x = HTTPExn 400 (Detail c t))) \<and>
    (fst (snd (validate_facturx A clk f st)) = Inl x \<longrightarrow>
      x = internal \<or> (\<exists>t. x = HTTPExn 400 (Detail ''EMPTY_FILE'' t))) \<and>
    (snd (extract_facturx A clk f) = Inl x \<longrightarrow>
      x = internal \<or> (\<exists>t. x = HTTPExn 400 (Detail ''EMPTY_FILE'' t)) \<or>
      (\<exists>c e. file_read f = Inr c \<and>
         result_refused A (extract_invoice_data (svc_lxml (gen_service (gen_lib A)))
           (svc_facturx (gen_service (gen_lib A))) c (filename f)) = Some e \<and>
         x = HTTPExn 500 (DetailText (''Schema validation failed: '' @ exn_str e)))) \<and>
    (file_read f = Inr c \<and> c \<noteq> [] \<and>
       result_refused A (extract_invoice_data (svc_lxml (gen_service (gen_lib A)))
         (svc_facturx (gen_service (gen_lib A))) c (filename f)) = Some e \<longrightarrow>
       snd (extract_facturx A clk f) = Inl (HTTPExn 500 (DetailText (''Schema validation failed: '' @ exn_str e))))"
proof (intro conjI impI)
  assume "fst (snd (convert_to_facturx A clk f md st)) = Inl x"
  then obtain e l where "convert_body A f md (hybrid_module st) = (Inl e, l)" "x = to_http e"
    by (cases "convert_body A f md (hybrid_module st)") (auto simp: convert_to_facturx_def split_beta framed_Inl)
  with convert_body_Inl assms show "x = internal \<or> (\<exists>t. \<exists>c \<in> {''INVALID_FILE_TYPE'', ''EMPTY_FILE'',
      ''INVALID_JSON'', ''INVALID_METADATA'', ''GENERATION_FAILED''}. x = HTTPExn 400 (Detail c t))"
    by blast
next
  assume "snd (generate_facturx_xml A clk md) = Inl x"
  then obtain e where "xml_body A md = Inl e" "x = to_http e"
    by (auto simp: generate_facturx_xml_def framed_Inl)
  with xml_body_Inl assms show "x = internal \<or> (\<exists>t. x = HTTPExn 500 (Detail ''GENERATION_FAILED'' t)) \<or>
      (\<exists>t. \<exists>c \<in> {''INVALID_JSON'', ''INVALID_METADATA''}. x = HTTPExn 400 (Detail c t))"
    by blast
next
  assume "fst (snd (validate_facturx A clk f st)) = Inl x"
  then obtain ops e st' where "validate_body A clk f st = (ops, Inl e, st')" "x = to_http e"
    by (cases "validate_body A clk f st") (auto simp: validate_facturx_def split_beta framed_Inl)
  with validate_body_Inl assms show "x = internal \<or> (\<exists>t. x = HTTPExn 400 (Detail ''EMPTY_FILE'' t))"
    by blast
next
  assume "snd (extract_facturx A clk f) = Inl x"
  then obtain e where "extract_body A f = Inl e" "x = to_http e"
    by (auto simp: extract_facturx_def framed_Inl)
  with extract_body_Inl assms show "x = internal \<or> (\<exists>t. x = HTTPExn 400 (Detail ''EMPTY_FILE'' t)) \<or>
      (\<exists>c e. file_read f = Inr c \<and>
         result_refused A (extract_invoice_data (svc_lxml (gen_service (gen_lib A)))
           (svc_facturx (gen_service (gen_lib A))) c (filename f)) = Some e \<and>
         x = HTTPExn 500 (DetailText (''Schema validation failed: '' @ exn_str e)))"
    unfolding refused_result_def by blast
next
  assume "file_read f = Inr c \<and> c \<noteq> [] \<and>
       result_refused A (extract_invoice_data (svc_lxml (gen_service (gen_lib A)))
         (svc_facturx (gen_service (gen_lib A))) c (filename f)) = Some e"
  then show "snd (extract_facturx A clk f) = Inl (HTTPExn 500 (DetailText (''Schema validation failed: '' @ exn_str e)))"
    by (simp add: extract_facturx_def extract_body_def build_result_def framed_def to_http_def)
qed

theorem endpoint_errors_witness:
  "\<exists>t. \<exists>c \<in> {''INVALID_JSON'', ''INVALID_METADATA''}.
     snd (generate_facturx_xml demo_api demo_clock ''nope'') = Inl (HTTPExn 400 (Detail c t))"
proof -
  have p: "plain_packages demo_api demo_upload"
    by (simp add: plain_packages_def demo_api_def demo_upload_def demo_generator_def)
  have e: "snd (generate_facturx_xml demo_api demo_clock ''nope'') = Inl (to_http (http_error 400 ''INVALID_JSON''
      (''Invalid JSON in metadata: '' @ ''Expecting value'')))"
    by (simp add: generate_facturx_xml_def framed_Inl xml_body_def parse_metadata_def demo_api_def del: to_http_error)
  have "to_http (http_error 400 ''INVALID_JSON'' (''Invalid JSON in metadata: '' @ ''Expecting value'')) \<noteq> internal"
    by (simp add: internal_def)
  with endpoint_errors [OF p, of demo_clock "''nope''" demo_state] e show ?thesis by simp
qed

text \<open>
  While the response model accepts it, the extraction endpoint answers every readable, non-empty upload with a report: problems of
  the document are entries of the report, not failures of the request.  The report lists at most ten
  lines, and the seller's country is always absent although the extractor has read the address.
\<close>

lemma extract_reports:
  assumes "models_accept A" and "file_read f = Inr c" and "c \<noteq> []"
  shows "\<exists>x. snd (extract_facturx A clk f) = Inr (to_ExtractionResult x) \<and>
    x = extract_invoice_data (svc_lxml (gen_service (gen_lib A))) (svc_facturx (gen_service (gen_lib A))) c (filename f) \<and>
    o_errors (to_ExtractionResult x) = x_errors x \<and>
    (\<forall>d. invoice_json x = Some d \<longrightarrow>
       length (line_items d) \<le> 10 \<and>
       (\<exists>j. o_invoice_json (to_ExtractionResult x) = Some j \<and>
          map l_line_total (j_line_items j) = map (Some \<circ> line_total) (line_items d) \<and>
          map_option s_country (j_seller j) = Some None))"
proof -
  define x where "x = extract_invoice_data (svc_lxml (gen_service (gen_lib A)))
    (svc_facturx (gen_service (gen_lib A))) c (filename f)"
  have "snd (extract_facturx A clk f) = Inr (to_ExtractionResult x)"
    using assms by (simp add: extract_facturx_def extract_body_def framed_def x_def)
  moreover have "length (line_items d) \<le> 10" if "invoice_json x = Some d" for d
    using that unfolding x_def by (rule extracted_lines_le)
  ultimately show ?thesis
    by (intro exI [of _ x]) (auto simp: x_def [symmetric] to_ExtractionResult_def to_InvoiceJson_def)
qed

lemma demo_models: "models_accept demo_api"
  by (simp add: models_accept_def demo_api_def)

lemma extract_reports_example:
  "\<exists>x. snd (extract_facturx demo_api demo_clock demo_upload) = Inr (to_ExtractionResult x)"
  using extract_reports [OF demo_models, of demo_upload "''%PDF-1.7''" demo_clock] by (auto simp: demo_upload_def)

end
