(* ===== verification/Odoo_Connector.thy ===== *)
theory Odoo_Connector
  imports Api
begin

text \<open>
  The Odoo connector, \<^verbatim>\<open>integrations/odoo/facturx_engine_connector\<close>: the import of an attached PDF into
  an \<^verbatim>\<open>account.move\<close> through the engine's extraction endpoint, and the mapping of its answer to the
  values that are written.  What Odoo's ORM finds and what \<^verbatim>\<open>requests\<close> delivers are the argument
  \<open>odoo\<close>; \<^verbatim>\<open>_(..)\<close> is the identity, as in a database without translations.
\<close>

section \<open>The environment of the connector\<close>

text \<open>
  Settings are read by \<^verbatim>\<open>get_param\<close>, which gives \<^verbatim>\<open>False\<close> for a missing one.  The attachment is the
  newest PDF of the move with its base64 data, if there is one; \<^verbatim>\<open>datas\<close> is \<^verbatim>\<open>False\<close> for an empty file.
  A search for a partner or an account gives a record's id or nothing.
\<close>

datatype partner_domain = VatIs json | NameLike json

record line_vals =
  lv_name :: json
  lv_quantity :: pyfloat
  lv_price_unit :: pyfloat
  lv_account_id :: "int option"

text \<open>
  A date that is written: \<^verbatim>\<open>False\<close>, a value of the answer as it is, a text, or the formatted slices of
  a list of eight values.
\<close>

datatype date_value =
    DateFalse
  | DateAs json
  | DateText pystr
  | DateSlices "json list" "json list" "json list"

record move_vals =
  mv_partner_id :: "int option"
  mv_invoice_date :: "date_value option"
  mv_invoice_date_due :: "date_value option"
  mv_ref :: "json option"
  mv_invoice_line_ids :: "line_vals list option"

record odoo =
  get_param :: "pystr \<Rightarrow> pystr option"
  pdf_attachment :: "int \<Rightarrow> pystr option option"
  odoo_b64decode :: "pystr option \<Rightarrow> bytes result"
  http_post :: "pystr \<Rightarrow> bytes \<Rightarrow> (pystr \<times> pystr) list \<Rightarrow> http_reply result"
  search_partner :: "partner_domain \<Rightarrow> int option"
  journal_default_account :: "int option"
  search_expense_account :: "int option"
  search_any_account :: "int option"
  move_write :: "move_vals \<Rightarrow> exn option"

abbreviation UserError :: "pystr \<Rightarrow> exn" where
  "UserError m \<equiv> OtherExn ''UserError'' m"

text \<open>\<^verbatim>\<open>isinstance(e, requests.exceptions.ConnectionError)\<close>, by the class of the exception.\<close>

fun is_ConnectionError :: "exn \<Rightarrow> bool" where
  "is_ConnectionError (OtherExn c m) =
     (c \<in> set [''ConnectionError'', ''ProxyError'', ''SSLError'', ''ConnectTimeout''])"
| "is_ConnectionError e = False"

section \<open>Values of the answer\<close>

text \<open>\<^verbatim>\<open>v.get(key, default)\<close>.\<close>

fun json_get_or :: "pystr \<Rightarrow> json \<Rightarrow> json \<Rightarrow> json result" where
  "json_get_or k d (JObj o') = Inr (case map_of o' k of None \<Rightarrow> d | Some v \<Rightarrow> v)"
| "json_get_or k d v = Inl (OtherExn ''AttributeError'' ''object has no attribute get'')"

text \<open>\<^verbatim>\<open>float(v)\<close>.\<close>

fun json_float :: "json \<Rightarrow> pyfloat result" where
  "json_float (JFloat x) = Inr x"
| "json_float (JBool b) = Inr (float_of_int (if b then 1 else 0))"
| "json_float (JInt n) =
     (case float_of_int n of
        FInf s \<Rightarrow> Inl (OtherExn ''OverflowError'' ''int too large to convert to float'')
      | x \<Rightarrow> Inr x)"
| "json_float (JStr s) =
     (case py_float s of
        None \<Rightarrow> Inl (ValueError (''could not convert string to float: '' @ s))
      | Some x \<Rightarrow> Inr x)"
| "json_float v = Inl (OtherExn ''TypeError'' ''float() argument must be a string or a real number'')"

text \<open>\<^verbatim>\<open>for item in v\<close>: the elements of a list, the keys of a dictionary, the characters of a text.\<close>

fun json_items :: "json \<Rightarrow> json list result" where
  "json_items (JArr xs) = Inr xs"
| "json_items (JObj d) = Inr (map (\<lambda>p. JStr (fst p)) d)"
| "json_items (JStr s) = Inr (map JStr (codepoints s))"
| "json_items v = Inl (OtherExn ''TypeError'' ''object is not iterable'')"

section \<open>Mapping the answer\<close>

text \<open>The dates: \<^verbatim>\<open>parse_facturx_date\<close> on any value of the answer.\<close>

definition parse_facturx_date :: "json \<Rightarrow> date_value result" where
  "parse_facturx_date d =
     (if \<not> json_truthy d then Inr DateFalse
      else
        bindR (json_contains ''-'' d) (\<lambda>dash.
          if dash then Inr (DateAs d)
          else
            (case d of
               JStr s \<Rightarrow>
                 Inr (if str_len s = 8
                      then DateText (str_slice 0 4 s @ ''-'' @ str_slice 4 6 s @ ''-'' @ str_slice 6 8 s)
                      else DateAs d)
             | JArr xs \<Rightarrow>
                 Inr (if length xs = 8 then DateSlices (take 4 xs) (take 2 (drop 4 xs)) (take 2 (drop 6 xs))
                      else DateAs d)
             | JObj kvs \<Rightarrow>
                 if length kvs = 8 then Inl (OtherExn ''TypeError'' ''unhashable type: slice'') else Inr (DateAs d)
             | _ \<Rightarrow> Inr (DateAs d))))"

definition date_field :: "pystr \<Rightarrow> json \<Rightarrow> date_value option result" where
  "date_field k data =
     bindR (json_get k data) (\<lambda>v.
       if json_truthy v then bindR (parse_facturx_date v) (\<lambda>d. Inr (Some d)) else Inr None)"

text \<open>The vendor: searched by VAT number when there is one and by name otherwise.\<close>

definition find_partner :: "odoo \<Rightarrow> json \<Rightarrow> int option result" where
  "find_partner od data =
     bindR (bindR (json_get_or ''seller'' (JObj []) data) (json_get ''name'')) (\<lambda>seller_name.
     bindR (bindR (json_get_or ''seller'' (JObj []) data) (json_get ''vat_number'')) (\<lambda>seller_vat.
       Inr (if json_truthy seller_name then
              search_partner od (if json_truthy seller_vat then VatIs seller_vat else NameLike seller_name)
            else None)))"

definition default_account :: "odoo \<Rightarrow> int option" where
  "default_account od =
     (case journal_default_account od of
        Some a \<Rightarrow> Some a
      | None \<Rightarrow> (case search_expense_account od of Some a \<Rightarrow> Some a | None \<Rightarrow> search_any_account od))"

definition line_of :: "int option \<Rightarrow> json \<Rightarrow> line_vals result" where
  "line_of account item =
     bindR (bindR (json_get_or ''name'' (JStr ''Unknown Item'') item) (\<lambda>d. json_get_or ''description'' d item)) (\<lambda>name.
     bindR (bindR (json_get_or ''quantity'' (JFloat (float_of_int 1)) item) json_float) (\<lambda>qty.
     bindR (bindR (json_get_or ''unit_price'' (JFloat fzero) item) json_float) (\<lambda>price.
     Inr \<lparr>lv_name = name, lv_quantity = qty, lv_price_unit = price, lv_account_id = account\<rparr>)))"

fun lines_of :: "int option \<Rightarrow> json list \<Rightarrow> line_vals list result" where
  "lines_of account [] = Inr []"
| "lines_of account (item # items) =
     bindR (line_of account item) (\<lambda>l. bindR (lines_of account items) (\<lambda>ls. Inr (l # ls)))"

definition summary_line :: "int option \<Rightarrow> json \<Rightarrow> line_vals list result" where
  "summary_line account data =
     bindR (bindR (json_get_or ''amounts'' (JObj []) data) (\<lambda>d. json_get_or ''totals'' d data)) (\<lambda>totals.
     bindR (bindR (bindR (json_get_or ''tax_basis_total'' (JFloat fzero) totals)
               (\<lambda>d. json_get_or ''net_amount'' d totals)) json_float) (\<lambda>net_amount.
       Inr (if flt fzero net_amount then
              [\<lparr>lv_name = JStr ''Factur-X Import (Summary/Minimum Profile)'', lv_quantity = float_of_int 1,
                lv_price_unit = net_amount, lv_account_id = account\<rparr>]
            else [])))"

definition line_commands :: "odoo \<Rightarrow> json \<Rightarrow> line_vals list result" where
  "line_commands od data =
     bindR (json_get_or ''line_items'' (JArr []) data) (\<lambda>line_items.
       if json_truthy line_items then bindR (json_items line_items) (lines_of (default_account od))
       else summary_line (default_account od) data)"

definition facturx_vals :: "odoo \<Rightarrow> json \<Rightarrow> move_vals result" where
  "facturx_vals od data =
     bindR (find_partner od data) (\<lambda>partner.
     bindR (date_field ''invoice_date'' data) (\<lambda>date.
     bindR (date_field ''due_date'' data) (\<lambda>due.
     bindR (json_get ''invoice_number'' data) (\<lambda>number.
     bindR (line_commands od data) (\<lambda>cmds.
     Inr \<lparr>mv_partner_id = partner, mv_invoice_date = date, mv_invoice_date_due = due,
          mv_ref = (if json_truthy number then Some number else None),
          mv_invoice_line_ids = (if cmds = [] then None else Some cmds)\<rparr>)))))"

text \<open>
  \<^verbatim>\<open>_apply_facturx_data\<close>: the values are written in one call; the second component lists what the
  database has afterwards.
\<close>

definition apply_facturx_data :: "odoo \<Rightarrow> json \<Rightarrow> unit result \<times> move_vals list" where
  "apply_facturx_data od data =
     (case facturx_vals od data of
        Inl e \<Rightarrow> (Inl e, [])
      | Inr vals \<Rightarrow> (case move_write od vals of Some e \<Rightarrow> (Inl e, []) | None \<Rightarrow> (Inr (), [vals])))"

section \<open>The action\<close>

record notification =
  n_title :: pystr
  n_message :: pystr
  n_type :: pystr
  n_sticky :: bool

definition success_notification :: notification where
  "success_notification =
     \<lparr>n_title = ''Success'', n_message = ''Invoice data imported successfully from Factur-X!'',
      n_type = ''success'', n_sticky = False\<rparr>"

definition request_headers :: "pystr option \<Rightarrow> (pystr \<times> pystr) list" where
  "request_headers license_key = (if truthy license_key then [(''X-LICENSE-KEY'', the license_key)] else [])"

text \<open>The \<^verbatim>\<open>try\<close> of step 3, and its two handlers.\<close>

definition call_engine :: "odoo \<Rightarrow> pystr \<Rightarrow> pystr option \<Rightarrow> pystr option \<Rightarrow> json result" where
  "call_engine od config_url license_key datas =
     catchR
       (bindR (odoo_b64decode od datas) (\<lambda>pdf_content.
        bindR (http_post od (config_url @ ''/v1/extract'') pdf_content (request_headers license_key)) (\<lambda>response.
          if status_code response \<noteq> 200
          then Inl (UserError (''Engine Error ('' @ int_str (status_code response) @ ''): '' @ reply_text response))
          else reply_json response)))
       (\<lambda>e. if is_ConnectionError e
            then Inl (UserError (''Could not connect to Factur-X Engine at '' @ config_url @
                    ''. Is the Docker container running?''))
            else Inl (UserError (''Extraction Failed: '' @ exn_str e)))"

definition action_import_facturx_pdf :: "odoo \<Rightarrow> int list \<Rightarrow> notification result \<times> move_vals list" where
  "action_import_facturx_pdf od ids =
     (case ids of
        [i] \<Rightarrow>
          (if \<not> truthy (get_param od ''facturx_engine.url'') then
             (Inl (UserError ''Please configure Factur-X Engine URL in Settings.''), [])
           else
             (case pdf_attachment od i of
                None \<Rightarrow>
                  (Inl (UserError ''No PDF attachment found on this invoice. Please upload one first.''), [])
              | Some datas \<Rightarrow>
                  (case bindR (call_engine od (the (get_param od ''facturx_engine.url''))
                                (get_param od ''facturx_engine.key'') datas)
                         (\<lambda>data. bindR (json_get ''invoice_json'' data) (\<lambda>v.
                            Inr (if json_truthy v then v else data))) of
                     Inl e \<Rightarrow> (Inl e, [])
                   | Inr invoice_data \<Rightarrow>
                       (case apply_facturx_data od invoice_data of
                          (Inl e, w) \<Rightarrow> (Inl e, w)
                        | (Inr u, w) \<Rightarrow> (Inr success_notification, w)))))
      | _ \<Rightarrow> (Inl (ValueError ''Expected singleton: account.move''), []))"

section \<open>The engine's answer\<close>

text \<open>The JSON of the response models, as the endpoint sends it.\<close>

definition seller_json :: "Seller \<Rightarrow> json" where
  "seller_json s =
     JObj [(''name'', opt_json (s_name s)), (''country'', opt_json (s_country s)), (''vat_number'', opt_json (s_vat_number s))]"

definition totals_json :: "invoice_totals \<Rightarrow> json" where
  "totals_json t =
     JObj [(''net_amount'', JStr (net_amount t)), (''tax_amount'', JStr (tax_amount t)),
       (''gross_amount'', JStr (gross_amount t)), (''payable_amount'', JStr (payable_amount t))]"

definition line_json :: "LineItem \<Rightarrow> json" where
  "line_json l =
     JObj [(''description'', opt_json (l_description l)), (''quantity'', opt_json (l_quantity l)),
       (''unit_price'', opt_json (l_unit_price l)), (''line_total'', opt_json (l_line_total l))]"

definition tax_json :: "tax_entry \<Rightarrow> json" where
  "tax_json t =
     JObj [(''vat_rate'', JStr (te_vat_rate t)), (''tax_amount'', JStr (te_tax_amount t)),
       (''taxable_amount'', JStr (te_taxable_amount t))]"

definition InvoiceJson_json :: "InvoiceJson \<Rightarrow> json" where
  "InvoiceJson_json j =
     JObj [(''invoice_number'', opt_json (j_invoice_number j)), (''invoice_date'', opt_json (j_invoice_date j)),
       (''document_type_code'', opt_json (j_document_type_code j)), (''currency'', opt_json (j_currency j)),
       (''seller'', case j_seller j of None \<Rightarrow> JNull | Some s \<Rightarrow> seller_json s),
       (''buyer'', case j_buyer j of None \<Rightarrow> JNull | Some b \<Rightarrow> JObj [(''name'', opt_json (b_name b))]),
       (''totals'', case j_totals j of None \<Rightarrow> JNull | Some t \<Rightarrow> totals_json t),
       (''line_items'', JArr (map line_json (j_line_items j))),
       (''tax_breakdown'', JArr (map tax_json (j_tax_breakdown j)))]"

definition ExtractionResult_json :: "ExtractionResult \<Rightarrow> json" where
  "ExtractionResult_json r =
     JObj [(''format_detected'', opt_json (o_format r)), (''profile_detected'', opt_json (o_profile r)),
       (''xml_extracted'', JBool (o_xml_extracted r)),
       (''invoice_json'', case o_invoice_json r of None \<Rightarrow> JNull | Some j \<Rightarrow> InvoiceJson_json j),
       (''errors'', JArr (map (\<lambda>e. JObj [(''code'', JStr (code e)), (''message'', JStr (msg e))]) (o_errors r)))]"

lemma json_truthy_line_items [simp]: "json_truthy (JArr (map f xs)) \<longleftrightarrow> xs \<noteq> []"
  by simp

section \<open>Failures\<close>

text \<open>Every outcome is a notification with one write, or an exception with none.\<close>

lemma apply_outcome:
  "(\<exists>e. apply_facturx_data od d = (Inl e, [])) \<or>
   (\<exists>v. apply_facturx_data od d = (Inr (), [v]) \<and> facturx_vals od d = Inr v \<and> move_write od v = None)"
  by (auto simp: apply_facturx_data_def split: sum.split option.split)

lemma action_outcome:
  "(\<exists>e. action_import_facturx_pdf od ids = (Inl e, [])) \<or>
   (\<exists>d v. action_import_facturx_pdf od ids = (Inr success_notification, [v]) \<and>
      facturx_vals od d = Inr v \<and> move_write od v = None)"
proof -
  have "(\<exists>e. (case apply_facturx_data od d of (Inl e, w) \<Rightarrow> (Inl e, w) | (Inr u, w) \<Rightarrow> (Inr success_notification, w)) = (Inl e, [])) \<or>
     (\<exists>v. (case apply_facturx_data od d of (Inl e, w) \<Rightarrow> (Inl e, w) | (Inr u, w) \<Rightarrow> (Inr success_notification, w)) =
        (Inr success_notification, [v]) \<and> facturx_vals od d = Inr v \<and> move_write od v = None)" for d
    using apply_outcome [of od d] by auto
  then show ?thesis
    unfolding action_import_facturx_pdf_def
    by (auto split: list.split option.split sum.split)
qed

text \<open>
  Claim C38.  The import is all or nothing.  Either it shows the success notification and has written exactly
  one set of values, or it raises and has written nothing.  An exception of the exchange with the engine
  is always a \<^verbatim>\<open>UserError\<close>; an answer with another status than 200 is reported with its status and text,
  once more wrapped as a failed extraction, because the handler of the same \<^verbatim>\<open>try\<close> catches it.
\<close>

theorem import_all_or_nothing:
  "(case action_import_facturx_pdf od ids of
      (Inl e, w) \<Rightarrow> w = []
    | (Inr n, w) \<Rightarrow> n = success_notification \<and> (\<exists>v. w = [v] \<and> move_write od v = None)) \<and>
   (\<forall>e. call_engine od url key datas = Inl e \<longrightarrow> (\<exists>m. e = UserError m)) \<and>
   (\<forall>pdf reply. odoo_b64decode od datas = Inr pdf \<longrightarrow>
      http_post od (url @ ''/v1/extract'') pdf (request_headers key) = Inr reply \<longrightarrow> status_code reply \<noteq> 200 \<longrightarrow>
      call_engine od url key datas =
        Inl (UserError (''Extraction Failed: Engine Error ('' @ int_str (status_code reply) @ ''): '' @ reply_text reply)))"
proof (intro conjI allI impI)
  show "case action_import_facturx_pdf od ids of
      (Inl e, w) \<Rightarrow> w = []
    | (Inr n, w) \<Rightarrow> n = success_notification \<and> (\<exists>v. w = [v] \<and> move_write od v = None)"
    using action_outcome [of od ids] by auto
  show "\<exists>m. e = UserError m" if "call_engine od url key datas = Inl e" for e
    using that by (auto simp: call_engine_def catchR_def split: sum.splits if_splits)
qed (simp add: call_engine_def)

text \<open>An engine that answers every request, and one that is overloaded.\<close>

definition demo_odoo :: "int \<Rightarrow> json \<Rightarrow> odoo" where
  "demo_odoo status answer =
     \<lparr>get_param = (\<lambda>k. if k = ''facturx_engine.url'' then Some ''http://engine'' else None),
      pdf_attachment = (\<lambda>i. Some (Some ''JVBERg=='')), odoo_b64decode = (\<lambda>d. Inr ''%PDF''),
      http_post = (\<lambda>u b h. Inr \<lparr>status_code = status, reply_text = ''busy'', reply_json = Inr answer\<rparr>),
      search_partner = (\<lambda>d. None), journal_default_account = None, search_expense_account = Some 600,
      search_any_account = None, move_write = (\<lambda>v. None)\<rparr>"

theorem import_all_or_nothing_witness:
  "call_engine (demo_odoo 503 JNull) ''http://engine'' None (Some ''JVBERg=='') =
     Inl (UserError ''Extraction Failed: Engine Error (503): busy'')"
proof -
  have "int_str 503 = ''503''" by code_simp
  moreover have "odoo_b64decode (demo_odoo 503 JNull) (Some ''JVBERg=='') = Inr ''%PDF''"
    "http_post (demo_odoo 503 JNull) (''http://engine'' @ ''/v1/extract'') ''%PDF'' (request_headers None) =
       Inr \<lparr>status_code = 503, reply_text = ''busy'', reply_json = Inr JNull\<rparr>"
    by (simp_all add: demo_odoo_def)
  ultimately show ?thesis
    using import_all_or_nothing [of "demo_odoo 503 JNull" "[]" "''http://engine''" None "Some ''JVBERg==''"] by simp
qed

section \<open>The mapping of the engine's answer\<close>

lemma lines_of_map:
  assumes "\<forall>x \<in> set xs. line_of a (f x) = Inr (g x)"
  shows "lines_of a (map f xs) = Inr (map g xs)"
  using assms by (induction xs) auto

text \<open>The date as it is written for a non-empty text.\<close>

definition written_date :: "pystr \<Rightarrow> date_value" where
  "written_date s =
     (if contains s ''-'' \<or> str_len s \<noteq> 8 then DateAs (JStr s)
      else DateText (str_slice 0 4 s @ ''-'' @ str_slice 4 6 s @ ''-'' @ str_slice 6 8 s))"

lemma parse_date_text: "s \<noteq> [] \<Longrightarrow> parse_facturx_date (JStr s) = Inr (written_date s)"
  by (simp add: parse_facturx_date_def written_date_def)

text \<open>What the connector makes of an extracted invoice.\<close>

definition imported_line :: "int option \<Rightarrow> line_item \<Rightarrow> line_vals" where
  "imported_line a l =
     \<lparr>lv_name = JStr (description l), lv_quantity = the (py_float (quantity l)),
      lv_price_unit = the (py_float (unit_price l)), lv_account_id = a\<rparr>"

definition imported_lines :: "int option \<Rightarrow> invoice_data \<Rightarrow> line_vals list" where
  "imported_lines a d =
     (if line_items d \<noteq> [] then map (imported_line a) (line_items d)
      else if flt fzero (the (py_float (net_amount (totals d)))) then
        [\<lparr>lv_name = JStr ''Factur-X Import (Summary/Minimum Profile)'', lv_quantity = float_of_int 1,
          lv_price_unit = the (py_float (net_amount (totals d))), lv_account_id = a\<rparr>]
      else [])"

definition imported :: "odoo \<Rightarrow> invoice_data \<Rightarrow> move_vals" where
  "imported od d =
     \<lparr>mv_partner_id =
        (if party_name (seller d) = [] then None
         else search_partner od (if party_vat (seller d) = [] then NameLike (JStr (party_name (seller d)))
                                 else VatIs (JStr (party_vat (seller d))))),
      mv_invoice_date = (if truthy (invoice_date d) then Some (written_date (the (invoice_date d))) else None),
      mv_invoice_date_due = None,
      mv_ref = (if truthy (invoice_number d) then Some (JStr (the (invoice_number d))) else None),
      mv_invoice_line_ids =
        (let ls = imported_lines (default_account od) d in if ls = [] then None else Some ls)\<rparr>"

abbreviation answer_of :: "invoice_data \<Rightarrow> json" where
  "answer_of d \<equiv> InvoiceJson_json (to_InvoiceJson d)"

lemmas answer_defs = InvoiceJson_json_def to_InvoiceJson_def

lemma find_partner_answer: "find_partner od (answer_of d) = Inr (mv_partner_id (imported od d))"
  by (simp add: find_partner_def answer_defs seller_json_def opt_json_def imported_def)

lemma date_answer: "date_field ''invoice_date'' (answer_of d) = Inr (mv_invoice_date (imported od d))"
  by (cases "invoice_date d") (auto simp: date_field_def answer_defs opt_json_def imported_def parse_date_text)

lemma due_answer: "date_field ''due_date'' (answer_of d) = Inr None"
  by (simp add: date_field_def answer_defs)

lemma number_answer: "json_get ''invoice_number'' (answer_of d) = Inr (opt_json (invoice_number d))"
  by (simp add: answer_defs)

lemma lines_answer:
  assumes "readable d"
  shows "line_commands od (answer_of d) = Inr (imported_lines (default_account od) d)"
proof (cases "line_items d = []")
  case True
  with assms obtain x where "py_float (net_amount (totals d)) = Some x" by (auto simp: readable_def)
  with True show ?thesis
    by (simp add: line_commands_def summary_line_def answer_defs totals_json_def imported_lines_def)
next
  case False
  have l: "line_of a (line_json \<lparr>l_description = Some (description l), l_quantity = Some (quantity l),
      l_unit_price = Some (unit_price l), l_line_total = Some (line_total l)\<rparr>) = Inr (imported_line a l)"
    if "l \<in> set (line_items d)" for l a
    using that assms by (auto simp: readable_def line_of_def line_json_def opt_json_def imported_line_def)
  with False show ?thesis
    by (simp add: line_commands_def answer_defs imported_lines_def lines_of_map)
qed

lemma vals_answer: "readable d \<Longrightarrow> facturx_vals od (answer_of d) = Inr (imported od d)"
  by (cases "invoice_number d")
    (auto simp: facturx_vals_def find_partner_answer date_answer [of d od] due_answer number_answer lines_answer
      opt_json_def imported_def Let_def)

section \<open>The connector and the engine\<close>

text \<open>
  The exchange works: a URL is configured, the move has a PDF attachment that decodes to \<open>pdf\<close>, and the
  request is answered by the extraction endpoint of \<open>A\<close>, whose response arrives as it was sent.
\<close>

definition delivered :: "('x, 's, 'v) api_lib \<Rightarrow> clock \<Rightarrow> odoo \<Rightarrow> int \<Rightarrow> bytes \<Rightarrow> bool" where
  "delivered A clk od i pdf \<longleftrightarrow>
     (\<exists>url datas reply r. get_param od ''facturx_engine.url'' = Some url \<and> url \<noteq> [] \<and>
        pdf_attachment od i = Some datas \<and> odoo_b64decode od datas = Inr pdf \<and> pdf \<noteq> [] \<and>
        http_post od (url @ ''/v1/extract'') pdf (request_headers (get_param od ''facturx_engine.key'')) = Inr reply \<and>
        status_code reply = 200 \<and> reply_json reply = Inr (ExtractionResult_json r) \<and>
        snd (extract_facturx A clk \<lparr>filename = Some ''invoice.pdf'', file_read = Inr pdf\<rparr>) = Inr r)"

abbreviation engine_extraction :: "('x, 's, 'v) api_lib \<Rightarrow> bytes \<Rightarrow> extraction" where
  "engine_extraction A pdf \<equiv>
     extract_invoice_data (svc_lxml (gen_service (gen_lib A))) (svc_facturx (gen_service (gen_lib A)))
       pdf (Some ''invoice.pdf'')"

definition chosen_data :: "extraction \<Rightarrow> json" where
  "chosen_data x =
     (case invoice_json x of
        None \<Rightarrow> ExtractionResult_json (to_ExtractionResult x)
      | Some d \<Rightarrow> InvoiceJson_json (to_InvoiceJson d))"

lemma delivered_action:
  assumes "delivered A clk od i pdf"
  shows "action_import_facturx_pdf od [i] =
    (case apply_facturx_data od (chosen_data (engine_extraction A pdf)) of
       (Inl e, w) \<Rightarrow> (Inl e, w) | (Inr u, w) \<Rightarrow> (Inr success_notification, w))"
proof -
  let ?x = "engine_extraction A pdf"
  obtain url datas reply r where
    e: "get_param od ''facturx_engine.url'' = Some url" "url \<noteq> []" "pdf_attachment od i = Some datas"
      "odoo_b64decode od datas = Inr pdf" "pdf \<noteq> []"
      "http_post od (url @ ''/v1/extract'') pdf (request_headers (get_param od ''facturx_engine.key'')) = Inr reply"
      "status_code reply = 200" "reply_json reply = Inr (ExtractionResult_json r)"
    and r: "snd (extract_facturx A clk \<lparr>filename = Some ''invoice.pdf'', file_read = Inr pdf\<rparr>) = Inr r"
    using assms unfolding delivered_def by blast
  have "r = to_ExtractionResult ?x"
    using r e(5) by (auto simp: extract_facturx_def extract_body_def framed_def dest: build_result_Inr split: sum.splits)
  moreover have "call_engine od url (get_param od ''facturx_engine.key'') datas = Inr (ExtractionResult_json r)"
    using e by (simp add: call_engine_def)
  moreover have "json_get ''invoice_json'' (ExtractionResult_json (to_ExtractionResult ?x)) =
      Inr (case invoice_json ?x of None \<Rightarrow> JNull | Some d \<Rightarrow> InvoiceJson_json (to_InvoiceJson d))"
    by (simp add: ExtractionResult_json_def to_ExtractionResult_def split: option.split)
  ultimately show ?thesis
    using e by (simp add: action_import_facturx_pdf_def chosen_data_def InvoiceJson_json_def split: option.split)
qed

text \<open>
  Claim C14.  A document the engine can read reaches the invoice in Odoo: when the exchange works, the import shows success and writes, once, the vendor found by VAT
  number or else by name, the invoice number as the reference, the date in the form Odoo expects, and the lines
  of the invoice in order with the quantities and prices the engine printed; an invoice without lines
  gets one line with a positive net total.  The due date is never written: the engine does not report it.
\<close>

theorem import_extracted:
  assumes "delivered A clk od i pdf" and "invoice_json (engine_extraction A pdf) = Some d"
    and "move_write od (imported od d) = None"
  shows "action_import_facturx_pdf od [i] = (Inr success_notification, [imported od d]) \<and>
    mv_invoice_date_due (imported od d) = None"
proof -
  obtain doc fl fn where "parse_demo_invoice (svc_lxml (gen_service (gen_lib A))) doc fl fn = Inr d"
    using assms(2) by (rule extracted_parse)
  note vals_answer [OF parse_demo_readable [OF this], of od]
  then show ?thesis
    using assms(2,3)
    by (simp add: delivered_action [OF assms(1)] chosen_data_def apply_facturx_data_def) (simp add: imported_def)
qed

text \<open>The packages of the witnesses around a given document and attachment reader.\<close>

definition with_document :: "int lxml \<Rightarrow> int facturx \<Rightarrow> (int, unit, unit) api_lib" where
  "with_document X F =
     demo_api\<lparr>gen_lib := (gen_lib demo_api)\<lparr>gen_service := (gen_service (gen_lib demo_api))
       \<lparr>svc_lxml := X, svc_facturx := F\<rparr>\<rparr>\<rparr>"

definition answering :: "('x, 's, 'v) api_lib \<Rightarrow> odoo" where
  "answering A = demo_odoo 200 (ExtractionResult_json (to_ExtractionResult (engine_extraction A ''%PDF'')))"

lemma with_document_accepts [simp]: "models_accept (with_document X F)"
  by (simp add: models_accept_def with_document_def demo_api_def)

lemma delivered_answering: "models_accept A \<Longrightarrow> delivered A demo_clock (answering A) 7 ''%PDF''"
  by (simp add: delivered_def answering_def demo_odoo_def extract_facturx_def extract_body_def framed_def)

lemma demo_extraction:
  "engine_extraction (with_document X F) pdf = extract_invoice_data X F pdf (Some ''invoice.pdf'')"
  by (simp add: with_document_def)

text \<open>The demo document is readable.\<close>

lemma demo_document:
  obtains d where "invoice_json (engine_extraction (with_document demo_doc demo_fx) ''%PDF'') = Some d"
proof -
  have "queries_ok demo_doc" by (simp add: queries_ok_def demo_doc_def)
  from parse_demo_invoice_total [OF this demo_doc_items, of "''invoice.pdf''"] obtain d where
    "parse_demo_invoice demo_doc 0 ''factur-x'' ''invoice.pdf'' = Inr d" by blast
  moreover have "fromstring demo_doc b = Inr 0" for b by (simp add: demo_doc_def)
  ultimately have "invoice_json (engine_extraction (with_document demo_doc demo_fx) ''%PDF'') = Some d"
    unfolding demo_extraction
    by (simp add: extract_invoice_data_def is_pdf_Some demo_fx_def parse_xml_def Let_def)
  then show thesis by (rule that)
qed

theorem import_extracted_witness:
  "\<exists>d. invoice_json (engine_extraction (with_document demo_doc demo_fx) ''%PDF'') = Some d \<and>
     action_import_facturx_pdf (answering (with_document demo_doc demo_fx)) [7] =
       (Inr success_notification, [imported (answering (with_document demo_doc demo_fx)) d])"
proof -
  let ?A = "with_document demo_doc demo_fx"
  obtain d where d: "invoice_json (engine_extraction ?A ''%PDF'') = Some d" by (rule demo_document)
  have "move_write (answering ?A) (imported (answering ?A) d) = None" by (simp add: answering_def demo_odoo_def)
  from import_extracted [OF delivered_answering [OF with_document_accepts] d this] d show ?thesis by blast
qed

lemma no_invoice_error:
  "invoice_json (extract_invoice_data X F c n) = None \<Longrightarrow> x_errors (extract_invoice_data X F c n) \<noteq> []"
  by (auto simp: extract_invoice_data_def parse_xml_def add_x_error_def Let_def split: sum.splits if_splits)

lemma vals_no_invoice:
  "o_invoice_json r = None \<Longrightarrow> facturx_vals od (ExtractionResult_json r) =
     Inr \<lparr>mv_partner_id = None, mv_invoice_date = None, mv_invoice_date_due = None, mv_ref = None,
          mv_invoice_line_ids = None\<rparr>"
  by (simp add: facturx_vals_def find_partner_def date_field_def line_commands_def summary_line_def
      ExtractionResult_json_def aligned_def)

text \<open>
  Claim C23.  A failed extraction is imported as a success.  When the engine answers that it could not read the
  document, with its errors and no invoice, the connector takes the report itself for the invoice, finds
  none of its fields there, writes nothing of the document and shows the success notification; the errors of the
  report are dropped.
\<close>

theorem failed_extraction_imported:
  assumes "delivered A clk od i pdf" and "invoice_json (engine_extraction A pdf) = None"
    and "\<forall>v. move_write od v = None"
  shows "x_errors (engine_extraction A pdf) \<noteq> [] \<and>
    action_import_facturx_pdf od [i] = (Inr success_notification,
      [\<lparr>mv_partner_id = None, mv_invoice_date = None, mv_invoice_date_due = None, mv_ref = None,
        mv_invoice_line_ids = None\<rparr>])"
proof
  show "x_errors (engine_extraction A pdf) \<noteq> []" using assms(2) by (rule no_invoice_error)
  have "o_invoice_json (to_ExtractionResult (engine_extraction A pdf)) = None"
    using assms(2) by (simp add: to_ExtractionResult_def)
  note vals_no_invoice [OF this, of od]
  then show "action_import_facturx_pdf od [i] = (Inr success_notification,
      [\<lparr>mv_partner_id = None, mv_invoice_date = None, mv_invoice_date_due = None, mv_ref = None,
        mv_invoice_line_ids = None\<rparr>])"
    using assms(2,3) by (simp add: delivered_action [OF assms(1)] chosen_data_def apply_facturx_data_def)
qed

theorem failed_extraction_imported_witness:
  "fst (action_import_facturx_pdf
     (answering (with_document demo_doc (demo_fx\<lparr>get_xml_from_pdf := (\<lambda>b. Inr None)\<rparr>))) [7]) = Inr success_notification"
proof -
  let ?A = "with_document demo_doc (demo_fx\<lparr>get_xml_from_pdf := (\<lambda>b. Inr None)\<rparr>)"
  have n: "invoice_json (engine_extraction ?A ''%PDF'') = None"
    unfolding demo_extraction
    by (simp add: extract_invoice_data_def is_pdf_Some add_x_error_def no_extraction_def)
  have "\<forall>v. move_write (answering ?A) v = None" by (simp add: answering_def demo_odoo_def)
  from failed_extraction_imported [OF delivered_answering [OF with_document_accepts] n this] show ?thesis by simp
qed

section \<open>Dates\<close>

text \<open>The date format of the XML (102), \<^verbatim>\<open>YYYYMMDD\<close>, and the one Odoo stores, \<^verbatim>\<open>YYYY-MM-DD\<close>.\<close>

definition ymd_fields :: "date \<Rightarrow> pystr \<times> pystr \<times> pystr" where
  "ymd_fields d = (pad_zeros 4 (dec_str (year d)), pad_zeros 2 (dec_str (month d)), pad_zeros 2 (dec_str (day d)))"

definition format_102 :: "date \<Rightarrow> pystr" where
  "format_102 d = (case ymd_fields d of (y, m, dd) \<Rightarrow> y @ m @ dd)"

definition format_iso :: "date \<Rightarrow> pystr" where
  "format_iso d = (case ymd_fields d of (y, m, dd) \<Rightarrow> y @ ''-'' @ m @ ''-'' @ dd)"

lemma days_in_month_le: "days_in_month y m \<le> 31"
  by (simp add: days_in_month_def)

lemma ymd_fields_digits:
  assumes "valid_date d"
  obtains y m dd where "ymd_fields d = (y, m, dd)" "length y = 4" "length m = 2" "length dd = 2"
    "\<forall>c \<in> set y \<union> set m \<union> set dd. is_digit c"
    "digits_val y = year d" "digits_val m = month d" "digits_val dd = day d"
proof -
  have v: "0 \<le> year d" "year d < 10 ^ 4" "0 \<le> month d" "month d < 10 ^ 2" "0 \<le> day d" "day d < 10 ^ 2"
    using assms days_in_month_le [of "year d" "month d"] by (auto simp: valid_date_def)
  note f = pad_zeros_digits [OF v(1,2)] pad_zeros_digits [OF v(3,4)] pad_zeros_digits [OF v(5,6)]
  show thesis
    by (rule that [OF ymd_fields_def]) (use f in auto)
qed

lemma digit_not_dash: "\<forall>c \<in> set s. is_digit c \<Longrightarrow> CHR ''-'' \<notin> set s"
  by (auto simp: is_digit_def byte_of_def)

lemma digits_codepoints: "\<forall>c \<in> set s. is_digit c \<Longrightarrow> codepoints s = map (\<lambda>c. [c]) s"
  by (rule codepoints_ascii) (auto simp: is_digit_def)

lemma contains_char: "contains s [c] \<longleftrightarrow> c \<in> set s"
  unfolding contains_iff by (auto simp: in_set_conv_decomp)

lemma concat_singletons: "concat (map (\<lambda>c. [c]) s) = s"
  by (induction s) auto

text \<open>
  Claim C39.  The date conversion is right and harmless: every calendar date in the XML's eight-digit format is
  written as the text \<^verbatim>\<open>YYYY-MM-DD\<close> that names the same date, and that text is left alone when it is
  converted again.
\<close>

theorem facturx_date_roundtrip:
  assumes "valid_date d"
  shows "parse_facturx_date (JStr (format_102 d)) = Inr (DateText (format_iso d)) \<and>
    strptime_ymd (format_iso d) = Some d \<and>
    parse_facturx_date (JStr (format_iso d)) = Inr (DateAs (JStr (format_iso d)))"
proof -
  obtain y m dd where f: "ymd_fields d = (y, m, dd)" "length y = 4" "length m = 2" "length dd = 2"
    "\<forall>c \<in> set y \<union> set m \<union> set dd. is_digit c"
    "digits_val y = year d" "digits_val m = month d" "digits_val dd = day d"
    using assms by (rule ymd_fields_digits)
  let ?s = "y @ m @ dd"
  have dig: "\<forall>c \<in> set ?s. is_digit c" using f(5) by auto
  note cp = digits_codepoints [OF dig]
  have sl: "str_len ?s = 8" "str_slice 0 4 ?s = y" "str_slice 4 6 ?s = m" "str_slice 6 8 ?s = dd"
    using f(2-4) by (simp_all add: str_len_def str_slice_def cp concat_singletons)
  have nd: "CHR ''-'' \<notin> set y" "CHR ''-'' \<notin> set m" "CHR ''-'' \<notin> set dd"
    using f(5) by (auto intro!: digit_not_dash)
  have "?s \<noteq> []" using f(2) by auto
  then have a: "parse_facturx_date (JStr (format_102 d)) = Inr (DateText (format_iso d))"
    using nd sl by (simp add: format_102_def format_iso_def f(1) parse_date_text written_date_def contains_char)
  have "split_on (CHR ''-'') (format_iso d) = [y, m, dd]"
    using nd by (simp add: format_iso_def f(1) split_on_append split_on_word)
  moreover have "read_field m = Some (month d)" using f by (simp add: read_field_def)
  moreover have "read_day dd = Some (day d)"
  proof -
    obtain a b where ab: "dd = [a, b]" using f(4) by (auto simp: numeral_2_eq_2 length_Suc_conv)
    have "a \<noteq> CHR '' ''" using f(5) by (auto simp: ab is_digit_def byte_of_def)
    then show ?thesis using f(5,8) by (simp add: ab read_day_def read_field_def)
  qed
  ultimately have b: "strptime_ymd (format_iso d) = Some d"
    using f assms by (simp add: strptime_ymd_def Let_def valid_date_def)
  have "contains (format_iso d) ''-''" "format_iso d \<noteq> []"
    by (simp_all add: contains_char format_iso_def f(1))
  then have "parse_facturx_date (JStr (format_iso d)) = Inr (DateAs (JStr (format_iso d)))"
    by (simp add: parse_date_text written_date_def)
  with a b show ?thesis by blast
qed

theorem facturx_date_roundtrip_witness:
  "parse_facturx_date (JStr (format_102 \<lparr>year = 2024, month = 2, day = 29\<rparr>)) =
     Inr (DateText (format_iso \<lparr>year = 2024, month = 2, day = 29\<rparr>)) \<and>
   format_iso \<lparr>year = 2024, month = 2, day = 29\<rparr> = ''2024-02-29''"
proof -
  have "valid_date \<lparr>year = 2024, month = 2, day = 29\<rparr>" by (simp add: valid_date_def days_in_month_def leap_def)
  moreover have "format_iso \<lparr>year = 2024, month = 2, day = 29\<rparr> = ''2024-02-29''" by code_simp
  ultimately show ?thesis using facturx_date_roundtrip by blast
qed

end
