(* ===== verification/Main_App.thy ===== *)
theory Main_App
  imports Api
begin

text \<open>
  The application, \<^verbatim>\<open>app/main.py\<close>: the start-up license check, the upload-size middleware, the CORS
  origins, the structured log record and the endpoints outside the API router.
\<close>

section \<open>Start-up\<close>

text \<open>How start-up ends; \<^verbatim>\<open>sys.exit\<close> raises \<^verbatim>\<open>SystemExit\<close>, which no clause catches.\<close>

datatype startup = Running | SysExit int

text \<open>\<open>missing\<close> is the exception of \<^verbatim>\<open>from app.license import is_licensed\<close>, if it raises.\<close>

definition startup_event ::
    "exn option \<Rightarrow> license_lib \<Rightarrow> environ \<Rightarrow> pyfloat \<Rightarrow> datetime \<Rightarrow> license_cache \<Rightarrow> startup \<times> license_cache" where
  "startup_event missing L env now wall c =
     (case missing of
        Some e \<Rightarrow> (if is_ImportError e then Running else SysExit 1, c)
      | None \<Rightarrow>
          if license_key_of env \<noteq> [] then
            (case is_licensed L env now wall c of
               (v, c') \<Rightarrow> (if v \<noteq> Some True then SysExit 1 else Running, c'))
          else (Running, c))"

section \<open>Upload size\<close>

record http_request =
  http_method :: pystr
  headers :: "pystr \<Rightarrow> pystr option"

datatype 'a dispatched = Rejected int pystr | Forwarded 'a

definition limit_dispatch :: "int \<Rightarrow> ('b http_request_scheme \<Rightarrow> 'a) \<Rightarrow> 'b http_request_scheme \<Rightarrow> 'a dispatched" where
  "limit_dispatch max_upload_size call_next request =
     (if http_method request = ''POST'' then
        (case headers request ''content-length'' of
           None \<Rightarrow> Forwarded (call_next request)
         | Some v \<Rightarrow>
             (case py_int v of
                None \<Rightarrow> Forwarded (call_next request)
              | Some content_length \<Rightarrow>
                  if max_upload_size < content_length
                  then Rejected 413 ''File too large. Max size is 20MB.''
                  else Forwarded (call_next request)))
      else Forwarded (call_next request))"

definition max_upload :: int where
  "max_upload = 20 * 1024 * 1024"

section \<open>CORS\<close>

definition allow_origins :: "environ \<Rightarrow> pystr list" where
  "allow_origins env = map str_strip (split_on (CHR '','') (getenv env ''CORS_ORIGINS'' ''*''))"

record cors =
  cors_origins_of :: "pystr list"
  cors_credentials :: bool
  cors_methods :: "pystr list"
  cors_headers :: "pystr list"

definition cors_settings :: "environ \<Rightarrow> cors" where
  "cors_settings env = \<lparr>cors_origins_of = allow_origins env, cors_credentials = True, cors_methods = [''*''],
     cors_headers = [''*'']\<rparr>"

text \<open>Without a setting every origin is allowed, and with credentials.\<close>

lemma cors_default: "cors_origins_of (cors_settings (\<lambda>v. None)) = [''*''] \<and> cors_credentials (cors_settings (\<lambda>v. None))"
  by code_simp

section \<open>Logging\<close>

record log_record =
  log_time :: pystr
  levelno :: int
  levelname :: pystr
  log_text :: pystr
  log_module :: pystr
  lineno :: int
  request_id :: "json option"
  exc_text :: "pystr option"

text \<open>The dictionary \<^verbatim>\<open>JsonFormatter.format\<close> hands to \<^verbatim>\<open>json.dumps\<close>.\<close>

definition log_object :: "log_record \<Rightarrow> json" where
  "log_object r = JObj
     ([(''timestamp'', JStr (log_time r)), (''level'', JStr (levelname r)), (''message'', JStr (log_text r)),
       (''module'', JStr (log_module r)), (''line'', JInt (lineno r))]
      @ (case request_id r of None \<Rightarrow> [] | Some i \<Rightarrow> [(''request_id'', i)])
      @ (case exc_text r of None \<Rightarrow> [] | Some t \<Rightarrow> [(''exception'', JStr t)]))"

section \<open>Endpoints\<close>

definition root_redirect :: pystr where
  "root_redirect = ''/docs''"

text \<open>The files of the two static endpoints.\<close>

definition static_file :: "pystr \<Rightarrow> pystr option" where
  "static_file path =
     (if path = ''/robots.txt'' then Some ''app/assets/robots.txt''
      else if path = ''/sitemap.xml'' then Some ''app/assets/sitemap.xml'' else None)"

definition health_check :: "(pystr \<times> pystr) list" where
  "health_check = [(''status'', ''healthy''), (''service'', ''factur-x-api''), (''version'', ''1.0.0'')]"

text \<open>
  \<^verbatim>\<open>GET /metrics\<close>.  \<^verbatim>\<open>os.getenv("LICENSE_KEY")\<close> is not stripped here; the four states are the
  collector's at the lock sections of the export.
\<close>

definition metrics_endpoint ::
    "license_lib \<Rightarrow> environ \<Rightarrow> pyfloat \<Rightarrow> datetime \<Rightarrow> pyfloat \<Rightarrow> metrics \<Rightarrow> metrics \<Rightarrow> metrics \<Rightarrow> metrics \<Rightarrow>
     license_cache \<Rightarrow> pystr \<times> license_cache" where
  "metrics_endpoint L env now wall t mc mg mh ml c =
     (case (if truthy (env ''LICENSE_KEY'') then
              (case is_licensed L env now wall c of (v, c') \<Rightarrow> (v = Some True, c'))
            else (False, c)) of
        (is_pro, c') \<Rightarrow>
          (if is_pro then get_prometheus_format t mc mg mh ml
           else get_basic_prometheus_format t mc mg mh, c'))"

section \<open>Properties\<close>

lemma int_str_dec: "0 \<le> n \<Longrightarrow> int_str n = dec_str n"
  by (simp add: int_str_def)



text \<open>
  The size limit.  A request is rejected exactly when it is a POST whose \<^verbatim>\<open>Content-Length\<close>
  reads as an integer above 20 MiB; everything else, a POST without that header included, is passed on
  unchanged.  A decimal length is read back exactly, so the boundary is 20971520 bytes.
\<close>

lemma upload_limit:
  "(limit_dispatch max_upload handler request = Rejected 413 ''File too large. Max size is 20MB.'' \<longleftrightarrow>
      http_method request = ''POST'' \<and>
      (\<exists>v n. headers request ''content-length'' = Some v \<and> py_int v = Some n \<and> 20971520 < n)) \<and>
   (limit_dispatch max_upload handler request \<noteq> Rejected 413 ''File too large. Max size is 20MB.'' \<longrightarrow>
      limit_dispatch max_upload handler request = Forwarded (handler request)) \<and>
   (0 \<le> n \<and> length (dec_str n) \<le> 4300 \<longrightarrow>
      limit_dispatch max_upload handler
        \<lparr>http_method = ''POST'', headers = [''content-length'' \<mapsto> dec_str n]\<rparr> =
      (if 20971520 < n then Rejected 413 ''File too large. Max size is 20MB.''
       else Forwarded (handler \<lparr>http_method = ''POST'', headers = [''content-length'' \<mapsto> dec_str n]\<rparr>)))"
  by (auto simp: limit_dispatch_def max_upload_def py_int_dec_str simp del: dec_str.simps split: option.splits)

lemma upload_limit_example:
  "limit_dispatch max_upload (\<lambda>r. ()) \<lparr>http_method = ''POST'', headers = [''content-length'' \<mapsto> dec_str 20971521]\<rparr> =
     Rejected 413 ''File too large. Max size is 20MB.''"
proof -
  have "length (dec_str 20971521) \<le> 4300" using length_dec_str_le [of 20971521 8] by simp
  then show ?thesis
    using upload_limit [where n = 20971521 and request = "\<lparr>http_method = ''GET'', headers = \<lambda>h. None\<rparr>" and
        handler = "\<lambda>r. ()"] by (simp del: dec_str.simps)
qed

text \<open>
  Claim C33.  The business metrics are behind the license.  The metrics endpoint gives the full export exactly when the
  variable \<^verbatim>\<open>LICENSE_KEY\<close> is not empty and the license check answers true, and then, from a reachable cache, a key
  with the same hash was accepted.  In every other case the answer is the Community export, and it is the same
  whatever the labelled counters are: no label and no labelled value can be read from it.
\<close>

theorem metrics_behind_license:
  assumes "licensing_state L c" and "metrics_endpoint L env now wall t mc mg mh ml c = (out, c')"
  shows "licensing_state L c' \<and>
    (if truthy (env ''LICENSE_KEY'') \<and> fst (is_licensed L env now wall c) = Some True
     then out = get_prometheus_format t mc mg mh ml \<and>
       (\<exists>key\<^sub>0 wall\<^sub>0. key\<^sub>0 \<noteq> [] \<and> key_hash_of L key\<^sub>0 = key_hash_of L (license_key_of env) \<and>
          license_accepts L wall\<^sub>0 key\<^sub>0)
     else out = get_basic_prometheus_format t mc mg mh \<and>
       (\<forall>l\<^sub>1 l\<^sub>2 l\<^sub>3 l\<^sub>4. metrics_endpoint L env now wall t (mc\<lparr>labeled_counters := l\<^sub>1\<rparr>) (mg\<lparr>labeled_counters := l\<^sub>2\<rparr>)
          (mh\<lparr>labeled_counters := l\<^sub>3\<rparr>) (ml\<lparr>labeled_counters := l\<^sub>4\<rparr>) c = (out, c'))) \<and>
    (str_strip (getenv env ''LICENSE_KEY'' []) = [] \<longrightarrow> cache_lookup c (key_hash_of L []) now = None \<longrightarrow>
       out = get_basic_prometheus_format t mc mg mh)"
proof -
  obtain v c'' where l: "is_licensed L env now wall c = (v, c'')" by fastforce
  let ?pro = "truthy (env ''LICENSE_KEY'') \<and> v = Some True"
  have e: "metrics_endpoint L env now wall t mc mg mh ml c =
      (if ?pro then get_prometheus_format t mc mg mh ml else get_basic_prometheus_format t mc mg mh,
       if truthy (env ''LICENSE_KEY'') then c'' else c)" for mc mg mh ml
    by (simp add: metrics_endpoint_def l)
  have o: "out = (if ?pro then get_prometheus_format t mc mg mh ml else get_basic_prometheus_format t mc mg mh)"
    "c' = (if truthy (env ''LICENSE_KEY'') then c'' else c)" using assms(2) by (simp_all add: e)
  have "v \<noteq> Some True" if "license_key_of env = []" "cache_lookup c (key_hash_of L []) now = None"
    using l that by (auto simp: is_licensed_def slow_path_def)
  then have none: "str_strip (getenv env ''LICENSE_KEY'' []) = [] \<longrightarrow> cache_lookup c (key_hash_of L []) now = None \<longrightarrow>
       out = get_basic_prometheus_format t mc mg mh"
    by (auto simp: o license_key_of_def)
  have state: "licensing_state L c'" using is_licensed_reachable [OF assms(1) l] assms(1) by (simp add: o)
  show ?thesis
  proof (cases ?pro)
    case True
    with is_licensed_True [OF assms(1)] l have "\<exists>key\<^sub>0 wall\<^sub>0. key\<^sub>0 \<noteq> [] \<and>
        key_hash_of L key\<^sub>0 = key_hash_of L (license_key_of env) \<and> license_accepts L wall\<^sub>0 key\<^sub>0" by blast
    with True none state l show ?thesis by (simp add: o)
  next
    case False
    have b: "get_basic_prometheus_format t (mc\<lparr>labeled_counters := l\<^sub>1\<rparr>) (mg\<lparr>labeled_counters := l\<^sub>2\<rparr>)
        (mh\<lparr>labeled_counters := l\<^sub>3\<rparr>) = get_basic_prometheus_format t mc mg mh" for l\<^sub>1 l\<^sub>2 l\<^sub>3
      by (rule conjunct1 [OF metrics_tiers])
    have basic: "metrics_endpoint L env now wall t mc mg mh ml c =
        (get_basic_prometheus_format t mc mg mh, if truthy (env ''LICENSE_KEY'') then c'' else c)" for mc mg mh ml
      using False by (auto simp: e)
    have cond: "\<not> (truthy (env ''LICENSE_KEY'') \<and> fst (is_licensed L env now wall c) = Some True)"
      using False by (simp add: l)
    have out: "out = get_basic_prometheus_format t mc mg mh" using assms(2) by (simp add: basic)
    show ?thesis unfolding if_not_P [OF cond] using state none by (simp add: basic b out o(2))
  qed
qed

theorem metrics_behind_license_witness:
  "fst (metrics_endpoint demo_lib (\<lambda>v. None) fzero demo_wall fzero (initialize fzero) (initialize fzero)
      (initialize fzero) (initialize fzero) empty_cache) =
   get_basic_prometheus_format fzero (initialize fzero) (initialize fzero) (initialize fzero)"
proof -
  have "str_strip (getenv (\<lambda>v. None) ''LICENSE_KEY'' []) = []" by code_simp
  moreover have "cache_lookup empty_cache (key_hash_of demo_lib []) fzero = None"
    by (rule lic.lookup_empty)
  ultimately show ?thesis
    using metrics_behind_license [OF lic.reach_empty prod.collapse [symmetric], of demo_lib "\<lambda>v. None" fzero
        demo_wall fzero "initialize fzero" "initialize fzero" "initialize fzero" "initialize fzero"]
    by blast
qed

text \<open>
  The configured origins.  With no setting every origin is allowed; a comma-separated list of
  non-empty origins without commas and blanks is read back as the list it was written from.
\<close>

lemma cors_origins:
  assumes "\<forall>o' \<in> set os. (\<forall>ch \<in> set o'. byte_of ch < 128 \<and> \<not> is_space [ch] \<and> ch \<noteq> CHR '','')" and "os \<noteq> []"
  shows "allow_origins (\<lambda>v. None) = [''*''] \<and>
    allow_origins [''CORS_ORIGINS'' \<mapsto> join '','' os] = os"
proof -
  have strip: "map str_strip os = os"
    using assms(1) by (intro map_idI str_strip_ascii_id) auto
  have "split_on (CHR '','') (join '','' os) = os"
    using assms by (intro split_on_join) auto
  with strip have "allow_origins [''CORS_ORIGINS'' \<mapsto> join '','' os] = os"
    by (simp add: allow_origins_def getenv_def)
  moreover have "allow_origins (\<lambda>v. None) = [''*'']" by code_simp
  ultimately show ?thesis by blast
qed

lemma cors_origins_example:
  "allow_origins [''CORS_ORIGINS'' \<mapsto> join '','' [''https://a.example'', ''https://b.example'']] =
     [''https://a.example'', ''https://b.example'']"
proof -
  have "\<forall>o' \<in> set [''https://a.example'', ''https://b.example''].
      (\<forall>ch \<in> set o'. byte_of ch < 128 \<and> \<not> is_space [ch] \<and> ch \<noteq> CHR '','')" by code_simp
  then show ?thesis using cors_origins [of "[''https://a.example'', ''https://b.example'']"] by blast
qed

end
