(* ===== verification/Diagnostics.thy ===== *)
theory Diagnostics
  imports Main_App
begin

text \<open>
  The diagnostics endpoint, \<^verbatim>\<open>app/diagnostics.py\<close>, with the version constants of \<^verbatim>\<open>app/version.py\<close>: the
  report of versions, configuration, memory, features and uptime.  What the interpreter, the platform
  and psutil say is the argument \<open>host\<close>.
\<close>

section \<open>Rounding\<close>

text \<open>Python's \<^verbatim>\<open>round(x, 2)\<close>: the decimal with two digits nearest to the float, read back.\<close>

fun py_round2 :: "pyfloat \<Rightarrow> pyfloat" where
  "py_round2 (FFin s m e) =
     (case py_float (fmt_fixed 2 (FFin s m e)) of None \<Rightarrow> FFin s m e | Some y \<Rightarrow> y)"
| "py_round2 x = x"

text \<open>True division of a non-negative integer, and the conversion \<^verbatim>\<open>n / 1024 / 1024\<close> to megabytes.\<close>

definition int_div :: "int \<Rightarrow> int \<Rightarrow> pyfloat" where
  "int_div a b = round_ratio (a < 0) \<bar>a\<bar> b"

definition megabytes :: "int \<Rightarrow> pyfloat" where
  "megabytes n = (case fdiv (int_div n 1024) (float_of_int 1024) of None \<Rightarrow> FNan | Some x \<Rightarrow> py_round2 x)"

section \<open>The report\<close>

record RuntimeConfig =
  rc_mode :: pystr
  rc_workers :: int
  rc_max_upload_size_mb :: int

record EnvironmentInfo =
  env_os :: pystr
  env_architecture :: pystr
  env_python_version :: pystr
  env_hostname :: pystr

record MemoryStatus =
  total_mb :: pyfloat
  available_mb :: pyfloat
  process_mb :: pyfloat
  percent_used :: pyfloat

record DiagnosticsResponse =
  diag_version :: pystr
  git_hash :: pystr
  build_date :: pystr
  diag_python_version :: pystr
  dependencies :: "(pystr \<times> pystr) list"
  runtime_config :: RuntimeConfig
  environment :: EnvironmentInfo
  memory_status :: MemoryStatus
  features_enabled :: "pystr list"
  uptime_seconds :: pyfloat

definition app_version :: pystr where "app_version = ''1.3.4''"
definition app_git_hash :: pystr where "app_git_hash = ''dev''"
definition app_build_date :: pystr where "app_build_date = ''2026-01-30''"

text \<open>
  The host: the versions of three packages, each an exception where the import or the attribute fails,
  the interpreter's version text, the platform's names, the memory figures, and the microseconds since
  the module was loaded.
\<close>

record host =
  facturx_version :: "pystr result"
  lxml_version :: "pystr result"
  fastapi_version :: "pystr result"
  sys_version :: pystr
  platform_system :: pystr
  platform_release :: pystr
  platform_machine :: pystr
  platform_node :: pystr
  memory_total :: int
  memory_available :: int
  process_rss :: int
  memory_percent :: pyfloat
  uptime_micros :: int

text \<open>\<^verbatim>\<open>s.split()[0]\<close>.\<close>

definition first_word :: "pystr \<Rightarrow> pystr result" where
  "first_word s =
     (case dropWhile is_space (codepoints s) of
        [] \<Rightarrow> Inl (OtherExn ''IndexError'' ''list index out of range'')
      | cs \<Rightarrow> Inr (concat (takeWhile (\<lambda>c. \<not> is_space c) cs)))"

definition or_unknown :: "pystr result \<Rightarrow> pystr" where
  "or_unknown v = (case v of Inl e \<Rightarrow> ''unknown'' | Inr s \<Rightarrow> s)"

text \<open>\<^verbatim>\<open>int(os.getenv(name, default))\<close> with an integer default.\<close>

definition env_int :: "environ \<Rightarrow> pystr \<Rightarrow> int \<Rightarrow> int result" where
  "env_int env name d = (case env name of None \<Rightarrow> Inr d | Some s \<Rightarrow> read_int s)"

definition features :: "environ \<Rightarrow> pystr list" where
  "features env =
     (if env ''DISABLE_CONVERT'' = Some ''true'' then remove1 ''convert'' [''validate'', ''convert'', ''extract'']
      else [''validate'', ''convert'', ''extract''])
     @ (if truthy (env ''LICENSE_KEY'') then [''mode:paid''] else [''mode:community''])"

definition get_diagnostics :: "environ \<Rightarrow> host \<Rightarrow> DiagnosticsResponse result" where
  "get_diagnostics env h =
     bindR (first_word (sys_version h)) (\<lambda>py.
     bindR (env_int env ''WORKERS'' 1) (\<lambda>workers.
     bindR (env_int env ''MAX_UPLOAD_SIZE_MB'' 10) (\<lambda>mb.
     Inr \<lparr>diag_version = app_version, git_hash = app_git_hash, build_date = app_build_date,
          diag_python_version = py,
          dependencies = [(''factur-x'', or_unknown (facturx_version h)), (''lxml'', or_unknown (lxml_version h)),
             (''fastapi'', or_unknown (fastapi_version h)), (''python'', py)],
          runtime_config = \<lparr>rc_mode = getenv env ''APP_MODE'' ''production'', rc_workers = workers,
             rc_max_upload_size_mb = mb\<rparr>,
          environment = \<lparr>env_os = platform_system h @ '' '' @ platform_release h,
             env_architecture = platform_machine h, env_python_version = sys_version h,
             env_hostname = platform_node h\<rparr>,
          memory_status = \<lparr>total_mb = megabytes (memory_total h), available_mb = megabytes (memory_available h),
             process_mb = megabytes (process_rss h), percent_used = memory_percent h\<rparr>,
          features_enabled = features env,
          uptime_seconds = py_round2 (int_div (uptime_micros h) 1000000)\<rparr>)))"

section \<open>How far rounding moves a value\<close>

lemma py_round2_near:
  assumes "0 \<le> m" and "real_of_int m * 2 powi e < 2 powi k" and "-900 \<le> k" and "k \<le> 900"
  shows "\<exists>m' e'. py_round2 (FFin s m e) = FFin s m' e' \<and>
    \<bar>real_of_int m' * 2 powi e' - real_of_int m * 2 powi e\<bar> \<le> 1 / 200 + 2 powi (max k 0 - 53)"
proof -
  obtain N where N: "0 \<le> N" "fmt_fixed 2 (FFin s m e) = (if s then ''-'' else []) @ fixed_digits 2 N"
    "\<bar>real_of_int m * 2 powi e * 100 - real_of_int N\<bar> \<le> 1 / 2"
    using fmt_fixed_digits [OF assms(1)] by blast
  have r: "py_round2 (FFin s m e) = round_ratio s N 100"
    using py_float_fixed_digits [OF N(1), of 2] by (simp add: N(2) del: fmt_fixed.simps)
  let ?k = "max k 0"
  have d: "\<bar>real_of_int N / 100 - real_of_int m * 2 powi e\<bar> \<le> 1 / 200"
    using N(3) unfolding abs_le_iff by simp
  show ?thesis
  proof (cases "N = 0")
    case True
    have "0 < (2::real) powi (?k - 53)" by simp
    with True d show ?thesis
      by (intro exI [of _ 0] exI [of _ "-1074"] conjI) (simp add: r round_ratio_def del: py_round2.simps, linarith)
  next
    case False
    have "(2::real) powi k \<le> 2 powi ?k" by (intro power_int_increasing) auto
    moreover have "(1::real) \<le> 2 powi ?k" by (intro one_le_power_int) auto
    moreover have "(2::real) powi (?k + 1) = 2 * 2 powi ?k" by (rule powi_add_1)
    ultimately have "real_of_int N / 100 < 2 powi (?k + 1)"
      using d assms(2) unfolding abs_le_iff by linarith
    with False N(1) assms(3,4) obtain m' e' where y: "round_ratio s N 100 = FFin s m' e'"
      "\<bar>real_of_int m' * 2 powi e' - real_of_int N / 100\<bar> \<le> 2 powi (?k + 1 - 54)"
      using round_ratio_near [of N 100 "?k + 1" s] by auto
    have "?k + 1 - 54 = ?k - 53" by simp
    with y(2) d have "\<bar>real_of_int m' * 2 powi e' - real_of_int m * 2 powi e\<bar> \<le> 1 / 200 + 2 powi (?k - 53)"
      by (simp only: abs_le_iff) linarith
    with y(1) show ?thesis unfolding r by blast
  qed
qed

section \<open>Properties\<close>

text \<open>
  The reported uptime is right to within 5.4 milliseconds for every uptime below \<open>2\<^sup>4\<^sup>0\<close> seconds,
  the two roundings of the float and the rounding to two decimals together.
\<close>

lemma uptime_accuracy:
  assumes "get_diagnostics env h = Inr d" and "0 < uptime_micros h" and "uptime_micros h < 1000000 * 2 ^ 40"
  shows "\<exists>m e. uptime_seconds d = FFin False m e \<and>
    \<bar>real_of_int m * 2 powi e - real_of_int (uptime_micros h) / 1000000\<bar> \<le> 54 / 10000"
proof -
  have u: "uptime_seconds d = py_round2 (round_ratio False (uptime_micros h) 1000000)"
    using assms(1,2) by (auto simp: get_diagnostics_def int_div_def)
  have "real_of_int (uptime_micros h) < real_of_int (1000000 * 2 ^ 40)" using assms(3) by (simp only: of_int_less_iff)
  then have b: "real_of_int (uptime_micros h) / real_of_int 1000000 < 2 powi 40" by (simp add: power_int_def)
  have p: "(2::real) powi (40 - 54) = 1 / 16384" "(2::real) powi (max 41 0 - 53) = 1 / 4096"
      "(2::real) powi 41 = 2 * 2 powi 40"
    by (simp_all add: power_int_def power_one_over)
  obtain m e where x: "round_ratio False (uptime_micros h) 1000000 = FFin False m e" "0 \<le> m"
    "\<bar>real_of_int m * 2 powi e - real_of_int (uptime_micros h) / real_of_int 1000000\<bar> \<le> 1 / 16384"
    using round_ratio_near [OF assms(2) _ b, of False] unfolding p by auto
  have "(1::real) \<le> 2 powi 40" by (intro one_le_power_int) auto
  then have "real_of_int m * 2 powi e < 2 powi 41" using x(3) b unfolding p(3) abs_le_iff by linarith
  from py_round2_near [OF x(2) this, of False] obtain m' e' where
    y: "py_round2 (FFin False m e) = FFin False m' e'"
    "\<bar>real_of_int m' * 2 powi e' - real_of_int m * 2 powi e\<bar> \<le> 1 / 200 + 1 / 4096"
    unfolding p by auto
  have "\<bar>real_of_int m' * 2 powi e' - real_of_int (uptime_micros h) / 1000000\<bar> \<le> 54 / 10000"
    using x(3) y(2) unfolding of_int_numeral abs_le_iff by linarith
  with y(1) show ?thesis unfolding u x(1) by blast
qed

definition demo_host :: host where
  "demo_host = \<lparr>facturx_version = Inr ''3.8'', lxml_version = Inr ''5.3'', fastapi_version = Inl (ImportError ''fastapi''),
     sys_version = ''3.11.9 (main)'', platform_system = ''Linux'', platform_release = ''6.1'',
     platform_machine = ''x86_64'', platform_node = ''box'', memory_total = 8589934592,
     memory_available = 4294967296, process_rss = 104857600, memory_percent = float_of_int 50,
     uptime_micros = 1234567\<rparr>"

lemma uptime_accuracy_example:
  "\<exists>d m e. get_diagnostics (\<lambda>v. None) demo_host = Inr d \<and> uptime_seconds d = FFin False m e \<and>
     \<bar>real_of_int m * 2 powi e - 1234567 / 1000000\<bar> \<le> 54 / 10000"
proof -
  have "first_word ''3.11.9 (main)'' = Inr ''3.11.9''" by code_simp
  then obtain d where "get_diagnostics (\<lambda>v. None) demo_host = Inr d"
    by (simp add: get_diagnostics_def demo_host_def env_int_def)
  from uptime_accuracy [OF this] this show ?thesis by (auto simp: demo_host_def)
qed

lemma generator_sel:
  "template_error (G\<lparr>gen_env := e\<rparr>) = template_error G" "text_repr (G\<lparr>gen_env := e\<rparr>) = text_repr G" "gen_service (G\<lparr>gen_env := e\<rparr>) = gen_service G"
  "gen_missing (G\<lparr>gen_env := e\<rparr>) = gen_missing G" "gen_env (G\<lparr>gen_env := e\<rparr>) = e"
  by simp_all

lemma import_hybrid_env:
  "read_config env = read_config env' \<Longrightarrow> import_hybrid x env l = import_hybrid x env' l"
  by (simp add: import_hybrid_def split: option.split)

lemma generate_env:
  assumes "read_config env = read_config env'"
  shows "generate_facturx_pdf (G\<lparr>gen_env := env\<rparr>) c m l = generate_facturx_pdf (G\<lparr>gen_env := env'\<rparr>) c m l"
  unfolding generate_facturx_pdf_def generate_xml_def quality_gate_def generator_sel
    import_hybrid_env [OF assms] ..

lemma gen_lib_sel: "gen_lib (A\<lparr>gen_lib := G\<rparr>) = G"
  by simp

lemma parse_metadata_lib: "parse_metadata (A\<lparr>gen_lib := G\<rparr>) = parse_metadata A"
proof -
  have "build_metadata (A\<lparr>gen_lib := G\<rparr>) j = build_metadata A j" for j
    by (cases j) (simp_all add: build_metadata_def)
  then have "build_metadata (A\<lparr>gen_lib := G\<rparr>) = build_metadata A" by (rule ext)
  then show ?thesis by (intro ext) (simp add: parse_metadata_def)
qed

lemma streaming_lib: "streaming (A\<lparr>gen_lib := G\<rparr>) = streaming A"
  by (simp add: fun_eq_iff streaming_def)

lemma convert_lib:
  assumes "generate_facturx_pdf G = generate_facturx_pdf G'"
  shows "convert_to_facturx (A\<lparr>gen_lib := G\<rparr>) = convert_to_facturx (A\<lparr>gen_lib := G'\<rparr>)"
  unfolding fun_eq_iff convert_to_facturx_def convert_body_def gen_lib_sel parse_metadata_lib streaming_lib assms
  by simp

text \<open>
  The feature list is a label, not a switch.  With \<^verbatim>\<open>DISABLE_CONVERT\<close> set to \<^verbatim>\<open>true\<close> the endpoint
  reports no \<^verbatim>\<open>convert\<close> feature, yet the conversion endpoint behaves exactly as without the setting; and the
  mode is reported as paid for every non-empty key, whether or not the license is accepted.
\<close>

lemma features_are_labels:
  "''convert'' \<notin> set (features (env(''DISABLE_CONVERT'' \<mapsto> ''true''))) \<and>
   convert_to_facturx (A\<lparr>gen_lib := (gen_lib A)\<lparr>gen_env := env(''DISABLE_CONVERT'' \<mapsto> ''true'')\<rparr>\<rparr>) clk pdf md st =
     convert_to_facturx (A\<lparr>gen_lib := (gen_lib A)\<lparr>gen_env := env\<rparr>\<rparr>) clk pdf md st \<and>
   (''mode:paid'' \<in> set (features env) \<longleftrightarrow> truthy (env ''LICENSE_KEY'')) \<and>
   (''mode:community'' \<in> set (features env) \<longleftrightarrow> \<not> truthy (env ''LICENSE_KEY''))"
proof -
  have "read_config (env(''DISABLE_CONVERT'' \<mapsto> ''true'')) = read_config env"
    by (simp add: read_config_def getenv_def)
  then have "generate_facturx_pdf ((gen_lib A)\<lparr>gen_env := env(''DISABLE_CONVERT'' \<mapsto> ''true'')\<rparr>) =
      generate_facturx_pdf ((gen_lib A)\<lparr>gen_env := env\<rparr>)"
    by (intro ext generate_env)
  note convert_lib [OF this, of A]
  moreover have "''convert'' \<notin> set (features (env(''DISABLE_CONVERT'' \<mapsto> ''true'')))" by (simp add: features_def)
  moreover have "''mode:paid'' \<in> set (features env) \<longleftrightarrow> truthy (env ''LICENSE_KEY'')"
    "''mode:community'' \<in> set (features env) \<longleftrightarrow> \<not> truthy (env ''LICENSE_KEY'')" by (simp_all add: features_def)
  ultimately show ?thesis by simp
qed

end
