(* ===== verification/Http_App.thy ===== *)
theory Http_App
  imports Diagnostics
begin

text \<open>
  The application as a whole: the FastAPI object of \<^verbatim>\<open>app/main.py\<close>, its routes, which the
  decorators of \<^verbatim>\<open>app/api.py\<close>, \<^verbatim>\<open>app/diagnostics.py\<close> and \<^verbatim>\<open>app/main.py\<close> declare, its two middlewares, and the way a
  request takes through them to its handler and back.  Requests run one after the other here; the
  interleavings of their metric operations are the subject of the root theory.
\<close>

section \<open>The application object\<close>

record app_config =
  app_title :: pystr
  app_description :: pystr
  app_version_text :: pystr
  docs_url :: pystr
  redoc_url :: pystr

definition PRODUCT_NAME :: pystr where
  "PRODUCT_NAME = ''Factur-X Engine''"

definition PRODUCT_VERSION :: pystr where
  "PRODUCT_VERSION = ''1.3.3''"

definition fastapi_app :: app_config where
  "fastapi_app = \<lparr>app_title = PRODUCT_NAME,
     app_description = ''Production-ready REST API for Factur-X (ZUGFeRD 2.4) conversions and data extraction.'',
     app_version_text = PRODUCT_VERSION, docs_url = ''/docs'', redoc_url = ''/redoc''\<rparr>"

section \<open>Routes\<close>

datatype endpoint =
    Convert | Xml | Validate | Extract | Diagnostics_Report | Root | Health | Metrics_Text | Static pystr

record route =
  rt_method :: pystr
  rt_path :: pystr
  rt_endpoint :: endpoint
  rt_responses :: "(int \<times> pystr) list"

text \<open>The answers a decorator documents besides the default one: status and description.\<close>

definition convert_route :: route where
  "convert_route = \<lparr>rt_method = ''POST'', rt_path = ''/convert'', rt_endpoint = Convert,
     rt_responses = [(200, ''Factur-X PDF successfully generated''), (400, ''Invalid input''), (500, ''Server error'')]\<rparr>"

definition xml_route :: route where
  "xml_route = \<lparr>rt_method = ''POST'', rt_path = ''/xml'', rt_endpoint = Xml,
     rt_responses = [(200, ''Factur-X/CII XML successfully generated''), (400, ''Invalid input''), (500, ''Server error'')]\<rparr>"

definition validate_route :: route where
  "validate_route = \<lparr>rt_method = ''POST'', rt_path = ''/validate'', rt_endpoint = Validate,
     rt_responses = [(400, ''Invalid input''), (500, ''Server error'')]\<rparr>"

definition extract_route :: route where
  "extract_route = \<lparr>rt_method = ''POST'', rt_path = ''/extract'', rt_endpoint = Extract,
     rt_responses = [(400, ''Invalid input''), (500, ''Server error'')]\<rparr>"

definition diagnostics_route :: route where
  "diagnostics_route = \<lparr>rt_method = ''GET'', rt_path = ''/diagnostics'', rt_endpoint = Diagnostics_Report,
     rt_responses = []\<rparr>"

text \<open>\<^verbatim>\<open>APIRouter(prefix=..)\<close>: the prefix is put before the path of every route of the router.\<close>

definition with_prefix :: "pystr \<Rightarrow> route list \<Rightarrow> route list" where
  "with_prefix p rs = map (\<lambda>r. r\<lparr>rt_path := p @ rt_path r\<rparr>) rs"

definition api_router :: "route list" where
  "api_router = with_prefix ''/v1'' [convert_route, xml_route, validate_route, extract_route]"

definition main_routes :: "route list" where
  "main_routes =
     [\<lparr>rt_method = ''GET'', rt_path = ''/'', rt_endpoint = Root, rt_responses = []\<rparr>,
      \<lparr>rt_method = ''GET'', rt_path = ''/health'', rt_endpoint = Health, rt_responses = []\<rparr>,
      \<lparr>rt_method = ''GET'', rt_path = ''/metrics'', rt_endpoint = Metrics_Text, rt_responses = []\<rparr>,
      \<lparr>rt_method = ''GET'', rt_path = ''/robots.txt'', rt_endpoint = Static ''/robots.txt'', rt_responses = []\<rparr>,
      \<lparr>rt_method = ''GET'', rt_path = ''/sitemap.xml'', rt_endpoint = Static ''/sitemap.xml'', rt_responses = []\<rparr>]"

text \<open>The routers are included first, the routes of the module itself follow.\<close>

definition app_routes :: "route list" where
  "app_routes = api_router @ [diagnostics_route] @ main_routes"

section \<open>Requests, answers and the framework\<close>

record web_request = http_request +
  url_path :: pystr
  content :: bytes

text \<open>What an answer carries; its encoding is the framework's.\<close>

datatype payload =
    Document response
  | Verdict ValidationReport
  | Extraction ExtractionResult
  | Diagnosis DiagnosticsResponse
  | Fields "(pystr \<times> pystr) list"
  | Text pystr
  | File_At pystr
  | Location pystr
  | Failure detail
  | Framework bytes

record web_reply =
  reply_status :: int
  reply_headers :: "(pystr \<times> pystr) list"
  payload_of :: payload

text \<open>The two parameters of the handlers: the uploaded file and the form field with the metadata.\<close>

record form =
  form_file :: upload
  form_metadata :: pystr

text \<open>
  FastAPI and Starlette: the search in the route table, the reading of a handler's parameters, which answers
  itself when they are missing, the answer where no route matches (and the documentation pages), and the CORS
  middleware: its own answer to a preflight request and the headers it adds to every other answer.
\<close>

record web_lib =
  find_route :: "route list \<Rightarrow> pystr \<Rightarrow> pystr \<Rightarrow> endpoint option"
  read_form :: "endpoint \<Rightarrow> web_request \<Rightarrow> web_reply + form"
  default_reply :: "web_request \<Rightarrow> web_reply"
  preflight :: "cors \<Rightarrow> web_request \<Rightarrow> web_reply option"
  cors_reply_headers :: "cors \<Rightarrow> web_request \<Rightarrow> (pystr \<times> pystr) list"

text \<open>Exceptions of a handler: an \<^verbatim>\<open>HTTPException\<close> is its status and detail, any other one a plain 500.\<close>

fun error_reply :: "exn \<Rightarrow> web_reply" where
  "error_reply (HTTPExn c d) = \<lparr>reply_status = c, reply_headers = [], payload_of = Failure d\<rparr>"
| "error_reply e = \<lparr>reply_status = 500, reply_headers = [], payload_of = Text ''Internal Server Error''\<rparr>"

definition reply_with :: "('a \<Rightarrow> payload) \<Rightarrow> 'a result \<Rightarrow> web_reply" where
  "reply_with k res =
     (case res of Inl e \<Rightarrow> error_reply e | Inr r \<Rightarrow> \<lparr>reply_status = 200, reply_headers = [], payload_of = k r\<rparr>)"

section \<open>The server\<close>

text \<open>
  The module of the metrics is imported by the handlers, so its collector only exists from the first request that
  reaches one of them.
\<close>

record 'v server =
  process :: "'v app_state"
  collector :: "metrics option"

definition recorded :: "clock \<Rightarrow> metric_op list \<Rightarrow> 'v server \<Rightarrow> 'v server" where
  "recorded clk ops st =
     (case new_collector (t_start clk) (collector st) of (m, inst) \<Rightarrow> st\<lparr>collector := Some (run_ops ops m)\<rparr>)"

text \<open>A handler runs on the state of the process and records its operations in the collector.\<close>

definition with_form ::
    "web_lib \<Rightarrow> endpoint \<Rightarrow> web_request \<Rightarrow> 'v server \<Rightarrow> (form \<Rightarrow> web_reply \<times> 'v server) \<Rightarrow> web_reply \<times> 'v server" where
  "with_form W ep rq st k = (case read_form W ep rq of Inl rep \<Rightarrow> (rep, st) | Inr f \<Rightarrow> k f)"

fun handle ::
    "web_lib \<Rightarrow> ('x, 's, 'v) api_lib \<Rightarrow> host \<Rightarrow> clock \<Rightarrow> endpoint \<Rightarrow> web_request \<Rightarrow> 'v server \<Rightarrow> web_reply \<times> 'v server" where
  "handle W A h clk Convert rq st = with_form W Convert rq st (\<lambda>f.
     case convert_to_facturx A clk (form_file f) (form_metadata f) (process st) of
       (ops, res, p) \<Rightarrow> (reply_with Document res, (recorded clk ops st)\<lparr>process := p\<rparr>))"
| "handle W A h clk Xml rq st = with_form W Xml rq st (\<lambda>f.
     case generate_facturx_xml A clk (form_metadata f) of (ops, res) \<Rightarrow> (reply_with Document res, recorded clk ops st))"
| "handle W A h clk Validate rq st = with_form W Validate rq st (\<lambda>f.
     case validate_facturx A clk (form_file f) (process st) of
       (ops, res, p) \<Rightarrow> (reply_with Verdict res, (recorded clk ops st)\<lparr>process := p\<rparr>))"
| "handle W A h clk Extract rq st = with_form W Extract rq st (\<lambda>f.
     case extract_facturx A clk (form_file f) of (ops, res) \<Rightarrow> (reply_with Extraction res, recorded clk ops st))"
| "handle W A h clk Diagnostics_Report rq st = (reply_with Diagnosis (get_diagnostics (gen_env (gen_lib A)) h), st)"
| "handle W A h clk Root rq st =
     (\<lparr>reply_status = 307, reply_headers = [], payload_of = Location root_redirect\<rparr>, st)"
| "handle W A h clk Health rq st = (reply_with Fields (Inr health_check), st)"
| "handle W A h clk Metrics_Text rq st =
     (case new_collector (t_start clk) (collector st) of (m, inst) \<Rightarrow>
      (case metrics_endpoint (lic_lib A) (gen_env (gen_lib A)) (t_license clk) (wall_clock clk) (t_start clk)
          m m m m (lic_cache (process st)) of
         (text, c) \<Rightarrow> (reply_with Text (Inr text), st\<lparr>collector := inst, process := (process st)\<lparr>lic_cache := c\<rparr>\<rparr>)))"
| "handle W A h clk (Static path) rq st =
     (reply_with File_At (case static_file path of None \<Rightarrow> Inl (OtherExn ''RuntimeError'' []) | Some f \<Rightarrow> Inr f), st)"

definition route_request ::
    "web_lib \<Rightarrow> ('x, 's, 'v) api_lib \<Rightarrow> host \<Rightarrow> clock \<Rightarrow> web_request \<Rightarrow> 'v server \<Rightarrow> web_reply \<times> 'v server" where
  "route_request W A h clk rq st =
     (case find_route W app_routes (http_method rq) (url_path rq) of
        None \<Rightarrow> (default_reply W rq, st)
      | Some ep \<Rightarrow> handle W A h clk ep rq st)"

text \<open>
  The middlewares.  The one added last is called first, so the CORS middleware is outside the size limit: it
  answers preflight requests itself and adds its headers to the answers, refusals included.
\<close>

definition limited ::
    "web_lib \<Rightarrow> ('x, 's, 'v) api_lib \<Rightarrow> host \<Rightarrow> clock \<Rightarrow> web_request \<Rightarrow> 'v server \<Rightarrow> web_reply \<times> 'v server" where
  "limited W A h clk rq st =
     (case limit_dispatch max_upload (\<lambda>r. route_request W A h clk r st) rq of
        Rejected c t \<Rightarrow> (\<lparr>reply_status = c, reply_headers = [], payload_of = Text t\<rparr>, st)
      | Forwarded a \<Rightarrow> a)"

definition serve ::
    "web_lib \<Rightarrow> ('x, 's, 'v) api_lib \<Rightarrow> host \<Rightarrow> clock \<Rightarrow> web_request \<Rightarrow> 'v server \<Rightarrow> web_reply \<times> 'v server" where
  "serve W A h clk rq st =
     (let c = cors_settings (gen_env (gen_lib A)) in
      case preflight W c rq of
        Some rep \<Rightarrow> (rep, st)
      | None \<Rightarrow>
          (case limited W A h clk rq st of
             (rep, st') \<Rightarrow> (rep\<lparr>reply_headers := reply_headers rep @ cors_reply_headers W c rq\<rparr>, st')))"

text \<open>The life of the process: start-up, requests in order, and the shutdown handler, which only logs.\<close>

definition start_server ::
    "exn option \<Rightarrow> ('x, 's, 'v) api_lib \<Rightarrow> pyfloat \<Rightarrow> datetime \<Rightarrow> 'v lite_state \<Rightarrow> 'v server option" where
  "start_server missing A now wall rules =
     (case startup_event missing (lic_lib A) (gen_env (gen_lib A)) now wall empty_cache of
        (SysExit n, c) \<Rightarrow> None
      | (Running, c) \<Rightarrow>
          Some \<lparr>process = \<lparr>hybrid_module = None, lite_rules = rules, lic_cache = c\<rparr>, collector = None\<rparr>)"

fun serve_all ::
    "web_lib \<Rightarrow> ('x, 's, 'v) api_lib \<Rightarrow> host \<Rightarrow> (clock \<times> web_request) list \<Rightarrow> 'v server \<Rightarrow> web_reply list \<times> 'v server" where
  "serve_all W A h [] st = ([], st)"
| "serve_all W A h ((clk, rq) # rqs) st =
     (case serve W A h clk rq st of
        (rep, st') \<Rightarrow> (case serve_all W A h rqs st' of (reps, st'') \<Rightarrow> (rep # reps, st'')))"

definition shutdown_event :: "'v server \<Rightarrow> 'v server" where
  "shutdown_event st = st"

section \<open>Routing\<close>

text \<open>No two routes have the same method and path.\<close>

lemmas route_defs = app_routes_def api_router_def main_routes_def with_prefix_def convert_route_def xml_route_def
  validate_route_def extract_route_def diagnostics_route_def

lemma routes_distinct: "distinct (map (\<lambda>r. (rt_method r, rt_path r)) app_routes)"
  by (simp add: route_defs)

lemma find_distinct: "distinct (map g xs) \<Longrightarrow> x \<in> set xs \<Longrightarrow> find (\<lambda>y. g y = g x) xs = Some x"
  by (induction xs) auto

text \<open>Starlette's router: the first route with the method and path of the request.\<close>

definition first_match :: "web_lib \<Rightarrow> bool" where
  "first_match W \<longleftrightarrow> (\<forall>rs m p r. find (\<lambda>r. rt_method r = m \<and> rt_path r = p) rs = Some r \<longrightarrow>
     find_route W rs m p = Some (rt_endpoint r))"

lemma find_route_find:
  "first_match W \<Longrightarrow> find (\<lambda>r. rt_method r = m \<and> rt_path r = p) rs = Some r \<Longrightarrow> find_route W rs m p = Some (rt_endpoint r)"
  by (simp add: first_match_def)

lemma routes_of_app:
  assumes "first_match W"
  shows "find_route W app_routes ''POST'' ''/v1/extract'' = Some Extract"
    "find_route W app_routes ''POST'' ''/v1/validate'' = Some Validate"
    "find_route W app_routes ''POST'' ''/v1/convert'' = Some Convert"
    "find_route W app_routes ''POST'' ''/v1/xml'' = Some Xml"
    "find_route W app_routes ''GET'' ''/metrics'' = Some Metrics_Text"
  using find_route_find [OF assms, of "''POST''" "''/v1/extract''" app_routes]
    find_route_find [OF assms, of "''POST''" "''/v1/validate''" app_routes]
    find_route_find [OF assms, of "''POST''" "''/v1/convert''" app_routes]
    find_route_find [OF assms, of "''POST''" "''/v1/xml''" app_routes]
    find_route_find [OF assms, of "''GET''" "''/metrics''" app_routes]
  by (simp_all add: route_defs)

text \<open>The root page leads to the documentation the application serves.\<close>

lemma root_leads_to_docs: "root_redirect = docs_url fastapi_app"
  by (simp add: root_redirect_def fastapi_app_def)

text \<open>The three places that name a version name three versions.\<close>

lemma versions_differ:
  "map_of health_check ''version'' \<noteq> Some app_version" "app_version_text fastapi_app \<noteq> app_version"
  "map_of health_check ''version'' \<noteq> Some (app_version_text fastapi_app)"
  by (simp_all add: health_check_def app_version_def fastapi_app_def PRODUCT_VERSION_def)

section \<open>The handler calls of a request\<close>

fun endpoint_call :: "endpoint \<Rightarrow> clock \<Rightarrow> form \<Rightarrow> 'v app_state \<Rightarrow> 'v call option" where
  "endpoint_call Convert clk f p = Some (ConvertCall clk (form_file f) (form_metadata f) p)"
| "endpoint_call Xml clk f p = Some (XmlCall clk (form_metadata f))"
| "endpoint_call Validate clk f p = Some (ValidateCall clk (form_file f) p)"
| "endpoint_call Extract clk f p = Some (ExtractCall clk (form_file f))"
| "endpoint_call _ clk f p = None"

text \<open>The call a request makes, if it gets as far as one of the four handlers.\<close>

definition request_call ::
    "web_lib \<Rightarrow> ('x, 's, 'v) api_lib \<Rightarrow> clock \<Rightarrow> web_request \<Rightarrow> 'v server \<Rightarrow> 'v call option" where
  "request_call W A clk rq st =
     (if preflight W (cors_settings (gen_env (gen_lib A))) rq \<noteq> None then None
      else
        (case limit_dispatch max_upload (\<lambda>r. ()) rq of
           Rejected c t \<Rightarrow> None
         | Forwarded u \<Rightarrow>
             (case find_route W app_routes (http_method rq) (url_path rq) of
                None \<Rightarrow> None
              | Some ep \<Rightarrow>
                  (case read_form W ep rq of Inl rep \<Rightarrow> None | Inr f \<Rightarrow> endpoint_call ep clk f (process st)))))"

text \<open>A request the size limit refuses.\<close>

definition too_large :: "'b http_request_scheme \<Rightarrow> bool" where
  "too_large rq \<longleftrightarrow> http_method rq = ''POST'' \<and>
     (case headers rq ''content-length'' of
        None \<Rightarrow> False
      | Some v \<Rightarrow> (case py_int v of None \<Rightarrow> False | Some n \<Rightarrow> max_upload < n))"

lemma limit_dispatch_if:
  "limit_dispatch max_upload k rq =
     (if too_large rq then Rejected 413 ''File too large. Max size is 20MB.'' else Forwarded (k rq))"
  by (simp add: limit_dispatch_def too_large_def split: option.split)

text \<open>The collector holds exactly the given operations, or does not exist yet.\<close>

definition collected :: "metric_op list \<Rightarrow> metrics option \<Rightarrow> bool" where
  "collected ops inst \<longleftrightarrow>
     (case inst of None \<Rightarrow> ops = [] | Some m \<Rightarrow> (\<exists>now. m = run_ops ops (initialize now)))"

lemma run_ops_append: "run_ops (ops @ ops') m = run_ops ops' (run_ops ops m)"
  by (simp add: run_ops_def)

lemma run_ops_Nil [simp]: "run_ops [] m = m"
  by (simp add: run_ops_def)

lemma collected_None [simp]: "collected [] None"
  by (simp add: collected_def)

lemma collected_new:
  assumes "collected ops inst"
  shows "\<exists>now. fst (new_collector t inst) = run_ops ops (initialize now)" and "collected ops (snd (new_collector t inst))"
  using assms by (auto simp: collected_def new_collector_def Let_def split: option.splits)

lemma collected_recorded: "collected ops (collector st) \<Longrightarrow> collected (ops @ ops') (collector (recorded clk ops' st))"
  using collected_new(1) [of ops "collector st" "t_start clk"]
  by (auto simp: recorded_def collected_def [of "_ @ _"] run_ops_append split_beta)

lemma recorded_process [simp]: "process (recorded clk ops st) = process st"
  by (simp add: recorded_def split_beta)

lemma handle_call:
  assumes "read_form W ep rq = Inr f" and "endpoint_call ep clk f (process st) = Some c" and "collected ops (collector st)"
  shows "collected (ops @ call_ops A c) (collector (snd (handle W A h clk ep rq st)))"
  using assms(1,2) by (cases ep) (auto simp: with_form_def collected_recorded [OF assms(3)] split_beta)

lemma handle_no_call:
  assumes "\<And>f. read_form W ep rq = Inr f \<Longrightarrow> endpoint_call ep clk f (process st) = None" and "collected ops (collector st)"
  shows "collected ops (collector (snd (handle W A h clk ep rq st)))"
  using assms(1) by (cases ep) (auto simp: with_form_def split_beta assms(2) collected_new(2) [OF assms(2)] split: sum.splits)

lemma serve_collected:
  assumes "collected ops (collector st)"
  shows "collected (ops @ (case request_call W A clk rq st of None \<Rightarrow> [] | Some c \<Rightarrow> call_ops A c))
    (collector (snd (serve W A h clk rq st)))"
proof (cases "too_large rq")
  case True
  with assms show ?thesis
    by (auto simp: serve_def request_call_def limited_def limit_dispatch_if Let_def split: option.split)
next
  case False
  with assms show ?thesis
    by (auto simp: serve_def request_call_def limited_def limit_dispatch_if route_request_def
        Let_def split_beta handle_call intro!: handle_no_call split: option.split sum.split)
qed

section \<open>Status and failure\<close>

text \<open>The error of a handler is an answer with an error status.\<close>

fun error_exn :: "exn \<Rightarrow> bool" where
  "error_exn (HTTPExn c d) = (c = 400 \<or> c = 500)"
| "error_exn e = False"

definition status_of :: "bool \<Rightarrow> int \<Rightarrow> bool" where
  "status_of failed status = (if failed then status = 400 \<or> status = 500 else status = 200)"

lemma status_of_400: "status_of failed status \<Longrightarrow> 400 \<le> status \<longleftrightarrow> failed"
  by (auto simp: status_of_def split: if_splits)

lemma reply_status_with:
  assumes "\<And>e. res = Inl e \<Longrightarrow> error_exn e"
  shows "status_of (isl res) (reply_status (reply_with k res))"
proof (cases res)
  case (Inl e)
  with assms have "error_exn e" by blast
  with Inl show ?thesis by (cases e) (auto simp: reply_with_def status_of_def)
qed (simp add: reply_with_def status_of_def)

lemma internal_HTTPExn: "internal = HTTPExn 500 (Detail ''INTERNAL_ERROR'' ''An unexpected error occurred'')"
  by (simp add: internal_def)

lemma handler_errors:
  assumes "plain_packages A f"
  shows "fst (snd (convert_to_facturx A clk f md p)) = Inl e \<Longrightarrow> error_exn e"
    and "snd (generate_facturx_xml A clk md) = Inl e \<Longrightarrow> error_exn e"
    and "fst (snd (validate_facturx A clk f p)) = Inl e \<Longrightarrow> error_exn e"
    and "snd (extract_facturx A clk f) = Inl e \<Longrightarrow> error_exn e"
proof -
  assume "fst (snd (convert_to_facturx A clk f md p)) = Inl e"
  then obtain e' l where "convert_body A f md (hybrid_module p) = (Inl e', l)" "e = to_http e'"
    by (cases "convert_body A f md (hybrid_module p)") (auto simp: convert_to_facturx_def split_beta framed_Inl)
  with convert_body_Inl [OF _ assms] show "error_exn e"
    by (force simp: internal_HTTPExn)
next
  assume "snd (generate_facturx_xml A clk md) = Inl e"
  then obtain e' where "xml_body A md = Inl e'" "e = to_http e'"
    by (auto simp: generate_facturx_xml_def framed_Inl)
  with xml_body_Inl [OF _ assms] show "error_exn e"
    by (force simp: internal_HTTPExn)
next
  assume "fst (snd (validate_facturx A clk f p)) = Inl e"
  then obtain ops e' p' where "validate_body A clk f p = (ops, Inl e', p')" "e = to_http e'"
    by (cases "validate_body A clk f p") (auto simp: validate_facturx_def split_beta framed_Inl)
  with validate_body_Inl [OF _ assms] show "error_exn e"
    by (force simp: internal_HTTPExn)
next
  assume "snd (extract_facturx A clk f) = Inl e"
  then obtain e' where "extract_body A f = Inl e'" "e = to_http e'"
    by (auto simp: extract_facturx_def framed_Inl)
  with extract_body_Inl [OF _ assms] show "error_exn e"
    by (force simp: internal_HTTPExn refused_result_def)
qed

lemma handle_status:
  assumes "read_form W ep rq = Inr f" and "endpoint_call ep clk f (process st) = Some c" and "plain_packages A (form_file f)"
  shows "status_of (call_failed A c) (reply_status (fst (handle W A h clk ep rq st)))"
  using assms(1,2) handler_errors [OF assms(3)]
  by (cases ep) (auto simp: with_form_def split_beta intro!: reply_status_with)

lemma request_call_Some:
  assumes "request_call W A clk rq st = Some c"
  obtains ep f where "find_route W app_routes (http_method rq) (url_path rq) = Some ep" "read_form W ep rq = Inr f"
    "endpoint_call ep clk f (process st) = Some c"
    "reply_status (fst (serve W A h clk rq st)) = reply_status (fst (handle W A h clk ep rq st))"
  using assms
  by (auto simp: request_call_def serve_def limited_def limit_dispatch_if route_request_def Let_def split_beta
      split: if_splits option.splits sum.splits)

lemma serve_status:
  assumes "request_call W A clk rq st = Some c" and "\<And>ep f. read_form W ep rq = Inr f \<Longrightarrow> plain_packages A (form_file f)"
  shows "status_of (call_failed A c) (reply_status (fst (serve W A h clk rq st)))"
  using request_call_Some [OF assms(1), of h] handle_status assms(2) by metis

section \<open>The license cache across requests\<close>

lemma validate_license:
  assumes "licensing_state (lic_lib A) (lic_cache p)"
  shows "licensing_state (lic_lib A) (lic_cache (snd (snd (validate_facturx A clk f p))))"
proof -
  have "licensing_state (lic_lib A) (snd (check_license A clk (lic_cache p)))"
    using check_license_reachable [OF assms] by (metis prod.collapse)
  with assms have "licensing_state (lic_lib A) (lic_cache (snd (snd (validate_body A clk f p))))"
    by (auto simp: validate_body_def split_beta split: sum.split)
  then show ?thesis by (simp add: validate_facturx_def split_beta)
qed

lemma metrics_license:
  assumes "licensing_state L c"
  shows "licensing_state L (snd (metrics_endpoint L env now wall t mc mg mh ml c))"
  using assms is_licensed_reachable [OF assms] by (auto simp: metrics_endpoint_def split_beta) (metis prod.collapse)

lemma handle_license:
  assumes "licensing_state (lic_lib A) (lic_cache (process st))"
  shows "licensing_state (lic_lib A) (lic_cache (process (snd (handle W A h clk ep rq st))))"
  using assms
  by (cases ep) (auto simp: with_form_def recorded_def split_beta convert_to_facturx_def
      validate_license metrics_license split: sum.split)

lemma serve_license:
  assumes "licensing_state (lic_lib A) (lic_cache (process st))"
  shows "licensing_state (lic_lib A) (lic_cache (process (snd (serve W A h clk rq st))))"
  using assms handle_license [OF assms]
  by (auto simp: serve_def limited_def limit_dispatch_if route_request_def Let_def split_beta split: option.split)

lemma start_license:
  assumes "start_server missing A now wall rules = Some st"
  shows "licensing_state (lic_lib A) (lic_cache (process st))" and "collector st = None"
proof -
  obtain s c where c: "startup_event missing (lic_lib A) (gen_env (gen_lib A)) now wall empty_cache = (s, c)" by fastforce
  then have "licensing_state (lic_lib A) c"
    using is_licensed_reachable [OF lic.reach_empty]
    by (auto simp: startup_event_def lic.reach_empty split: option.splits if_splits prod.splits)
  with assms c show "licensing_state (lic_lib A) (lic_cache (process st))" and "collector st = None"
    by (auto simp: start_server_def split: startup.splits)
qed

section \<open>A history of requests\<close>

text \<open>The handler calls of a history, request by request, each in the state it finds.\<close>

fun calls_made ::
    "web_lib \<Rightarrow> ('x, 's, 'v) api_lib \<Rightarrow> host \<Rightarrow> (clock \<times> web_request) list \<Rightarrow> 'v server \<Rightarrow> 'v call option list" where
  "calls_made W A h [] st = []"
| "calls_made W A h ((clk, rq) # rqs) st =
     request_call W A clk rq st # calls_made W A h rqs (snd (serve W A h clk rq st))"

lemma calls_made_length: "length (calls_made W A h rqs st) = length (fst (serve_all W A h rqs st))"
  by (induction rqs arbitrary: st) (auto simp: split_beta)

text \<open>The calls that were made.\<close>

abbreviation made :: "'v call option list \<Rightarrow> 'v call list" where
  "made cs \<equiv> List.map_filter (\<lambda>c. c) cs"

lemma serve_all_collected:
  assumes "collected ops (collector st)"
  shows "collected (ops @ concat (map (call_ops A) (made (calls_made W A h rqs st)))) (collector (snd (serve_all W A h rqs st)))"
  using assms
proof (induction rqs arbitrary: st ops)
  case (Cons q rqs)
  obtain clk rq where q: "q = (clk, rq)" by fastforce
  from Cons.IH [OF serve_collected [OF Cons.prems, where W = W and A = A and clk = clk and rq = rq and h = h]] show ?case
    by (cases "request_call W A clk rq st") (auto simp: q split_beta map_filter_simps)
qed (simp add: map_filter_simps)

lemma serve_all_license:
  "licensing_state (lic_lib A) (lic_cache (process st)) \<Longrightarrow>
   licensing_state (lic_lib A) (lic_cache (process (snd (serve_all W A h rqs st))))"
proof (induction rqs arbitrary: st)
  case (Cons q rqs)
  obtain clk rq where "q = (clk, rq)" by fastforce
  with Cons.IH [OF serve_license [OF Cons.prems]] show ?case by (simp add: split_beta)
qed simp

text \<open>The parameters FastAPI reads raise no \<^verbatim>\<open>HTTPException\<close> of their own.\<close>

definition plain_forms :: "web_lib \<Rightarrow> ('x, 's, 'v) api_lib \<Rightarrow> bool" where
  "plain_forms W A \<longleftrightarrow> (\<forall>ep rq f. read_form W ep rq = Inr f \<longrightarrow> plain_packages A (form_file f))"

text \<open>The requests that made a call, and those of them that were answered with an error status.\<close>

definition handled :: "('v call option \<times> web_reply) list \<Rightarrow> int" where
  "handled trace = int (length (filter (\<lambda>(c, rep). c \<noteq> None) trace))"

definition refused_calls :: "('v call option \<times> web_reply) list \<Rightarrow> int" where
  "refused_calls trace = int (length (filter (\<lambda>(c, rep). c \<noteq> None \<and> 400 \<le> reply_status rep) trace))"

lemma trace_counts:
  assumes "plain_forms W A"
  shows "int (length (made (calls_made W A h rqs st))) =
      handled (zip (calls_made W A h rqs st) (fst (serve_all W A h rqs st))) \<and>
    int (length (filter (call_failed A) (made (calls_made W A h rqs st)))) =
      refused_calls (zip (calls_made W A h rqs st) (fst (serve_all W A h rqs st)))"
proof (induction rqs arbitrary: st)
  case (Cons q rqs)
  obtain clk rq where q: "q = (clk, rq)" by fastforce
  have "plain_packages A (form_file f)" if "read_form W ep rq = Inr f" for ep f
    using assms that by (auto simp: plain_forms_def)
  with q Cons status_of_400 [OF serve_status [of W A clk rq st _ h]] show ?case
    by (cases "request_call W A clk rq st")
      (auto simp: handled_def refused_calls_def map_filter_simps split_beta)
qed (simp add: handled_def refused_calls_def map_filter_simps)

section \<open>What the counters say\<close>

lemma initial_values [simp]:
  "counter_value (initialize now) k = 0" "gauge_value (initialize now) k = 0"
  by (simp_all add: counter_value_def gauge_value_def initialize_def)

lemma endpoint_not_total [simp]:
  "call_endpoint c \<noteq> ''requests_total''" "call_endpoint c \<noteq> ''errors_total''"
  "''requests_total'' \<noteq> call_endpoint c" "''errors_total'' \<noteq> call_endpoint c"
  using counter_names_mem by metis+

lemma sum_indicator: "(\<Sum>x \<leftarrow> xs. if P x then 1 else 0) = int (length (filter P xs))"
  by (induction xs) auto

text \<open>The counters after any interleaving of the operations of some calls.\<close>

lemma calls_counter:
  assumes "mset ops = mset (concat (map (call_ops A) calls))"
  shows "counter_value (run_ops ops (initialize now)) k =
    (\<Sum>c \<leftarrow> calls. (if k = ''requests_total'' then 1 else 0) + (if call_endpoint c = k then 1 else 0) +
      (if call_failed A c \<and> k = ''errors_total'' then 1 else 0))"
  using cnt.read_interleaving [OF wf_initialize assms, of now k]
  by (simp add: list_all_iff run_ops_def comp_def call_sums eq_commute [of k])

lemma calls_totals:
  assumes "mset ops = mset (concat (map (call_ops A) calls))"
  shows "counter_value (run_ops ops (initialize now)) ''requests_total'' = int (length calls)"
    and "counter_value (run_ops ops (initialize now)) ''errors_total'' = int (length (filter (call_failed A) calls))"
    and "gauge_value (run_ops ops (initialize now)) ''active_requests'' = 0"
proof -
  show "gauge_value (run_ops ops (initialize now)) ''active_requests'' = 0"
    using gau.read_interleaving [OF wf_initialize assms calls_no_set, of now "''active_requests''"]
    by (simp add: run_ops_def comp_def call_sums)
qed (simp_all add: calls_counter [OF assms] sum_list_triv sum_indicator)

text \<open>A line of the export is a line of its text.\<close>

lemma join_middle: "us \<noteq> [] \<Longrightarrow> vs \<noteq> [] \<Longrightarrow> \<exists>l r. join d (us @ w # vs) = l @ d @ w @ d @ r"
proof (induction d us rule: join.induct)
  case (2 d u)
  then obtain v ws where "vs = v # ws" by (cases vs) auto
  then have "join d ([u] @ w # vs) = u @ d @ w @ d @ join d (v # ws)" by simp
  then show ?case by blast
next
  case (3 d u v us)
  then obtain l r where "join d ((v # us) @ w # vs) = l @ d @ w @ d @ r" by auto
  then have "join d ((u # v # us) @ w # vs) = (u @ d @ l) @ d @ w @ d @ r" by simp
  then show ?case by blast
qed simp

definition has_line :: "pystr \<Rightarrow> pystr \<Rightarrow> bool" where
  "has_line text line \<longleftrightarrow> contains text (newline @ line @ newline)"

lemma has_line_prefix: "has_line text line \<Longrightarrow> has_line (text @ rest) line"
  by (auto simp: has_line_def contains_iff) (metis append.assoc)

lemma has_line_mapped:
  assumes "(k, v) \<in> set kvs" and "us \<noteq> []" and "vs \<noteq> []"
  shows "has_line (join newline (us @ map value_line kvs @ vs)) (value_line (k, v))"
proof -
  from assms(1) obtain ys zs where "kvs = ys @ (k, v) # zs" by (meson split_list)
  with join_middle [of "us @ map value_line ys" "map value_line zs @ vs" newline "value_line (k, v)"] assms(2,3)
  show ?thesis by (auto simp: has_line_def contains_iff)
qed

lemma counter_mem: "wf_metrics m \<Longrightarrow> k \<in> set counter_names \<Longrightarrow> (k, counter_value m k) \<in> set (counters m)"
  using keys_of_wf(1) [of m k] by (auto simp: counter_value_def dest: map_of_SomeD)

lemma gauge_mem: "wf_metrics m \<Longrightarrow> k \<in> set gauge_names \<Longrightarrow> (k, gauge_value m k) \<in> set (gauges m)"
  using keys_of_wf(2) [of m k] by (auto simp: gauge_value_def dest: map_of_SomeD)

lemma basic_lines_parts:
  "\<exists>us vs ws. basic_lines t m m m = us @ map value_line (counters m) @ vs @ map value_line (gauges m) @ ws \<and>
     us \<noteq> [] \<and> vs \<noteq> [] \<and> ws \<noteq> []"
  unfolding basic_lines_def by (intro exI conjI, rule refl) simp_all

lemma basic_has_line:
  assumes "wf_metrics m"
  shows "k \<in> set counter_names \<Longrightarrow> has_line (get_basic_prometheus_format t m m m) (value_line (k, counter_value m k))"
    and "k \<in> set gauge_names \<Longrightarrow> has_line (get_basic_prometheus_format t m m m) (value_line (k, gauge_value m k))"
proof -
  obtain us vs ws where b: "basic_lines t m m m = us @ map value_line (counters m) @ vs @ map value_line (gauges m) @ ws"
    "us \<noteq> []" "vs \<noteq> []" "ws \<noteq> []"
    using basic_lines_parts by blast
  show "has_line (get_basic_prometheus_format t m m m) (value_line (k, counter_value m k))" if "k \<in> set counter_names"
    using has_line_mapped [OF counter_mem [OF assms that] b(2), of "vs @ map value_line (gauges m) @ ws"] b(3)
    by (simp add: get_basic_prometheus_format_def b(1))
  show "has_line (get_basic_prometheus_format t m m m) (value_line (k, gauge_value m k))" if "k \<in> set gauge_names"
    using has_line_mapped [OF gauge_mem [OF assms that] _ b(4), of "us @ map value_line (counters m) @ vs"] b(2)
    by (simp add: get_basic_prometheus_format_def b(1))
qed

lemma join_Cons: "\<exists>r. join d (w # ws) = w @ r"
  by (cases ws) auto

lemma full_has_line:
  assumes "has_line (get_basic_prometheus_format t m m m) l"
  shows "has_line (get_prometheus_format t m m m m) l"
proof -
  obtain r where "get_prometheus_format t m m m m = get_basic_prometheus_format t m m m @ r"
    unfolding get_prometheus_format_def using join_Cons by blast
  with has_line_prefix [OF assms] show ?thesis by simp
qed

lemma metrics_has_line:
  "has_line (get_basic_prometheus_format t m m m) l \<Longrightarrow> has_line (fst (metrics_endpoint L env now wall t m m m m c)) l"
  by (simp add: metrics_endpoint_def full_has_line split_beta)

section \<open>Properties\<close>

text \<open>
  Claim C6.  What the operator reads.  Start the server and let it answer any requests; then \<^verbatim>\<open>GET /metrics\<close> is
  answered with a text in which \<^verbatim>\<open>requests_total\<close> is exactly the number of requests that reached one of the
  four handlers, \<^verbatim>\<open>errors_total\<close> the number of those that were answered with a status of 400 or more, and
  \<^verbatim>\<open>active_requests\<close> is zero.  Refused uploads, unknown paths, preflight requests, requests without the form
  fields, and the other endpoints do not count.  The license cache is still one the license check can reach.
\<close>

theorem metrics_report_history:
  assumes "start_server missing A now wall rules = Some st\<^sub>0" and "serve_all W A h rqs st\<^sub>0 = (reps, st)"
    and "plain_forms W A" and "first_match W"
    and "http_method rq = ''GET''" and "url_path rq = ''/metrics''"
    and "preflight W (cors_settings (gen_env (gen_lib A))) rq = None"
  shows "\<exists>text. reply_status (fst (serve W A h clk rq st)) = 200 \<and> payload_of (fst (serve W A h clk rq st)) = Text text \<and>
      has_line text (value_line (''requests_total'', handled (zip (calls_made W A h rqs st\<^sub>0) reps))) \<and>
      has_line text (value_line (''errors_total'', refused_calls (zip (calls_made W A h rqs st\<^sub>0) reps))) \<and>
      has_line text (value_line (''active_requests'', 0)) \<and>
    licensing_state (lic_lib A) (lic_cache (process (snd (serve W A h clk rq st))))"
proof -
  let ?calls = "made (calls_made W A h rqs st\<^sub>0)" and ?m = "fst (new_collector (t_start clk) (collector st))"
  have "collected (concat (map (call_ops A) ?calls)) (collector st)"
    using serve_all_collected [of "[]" st\<^sub>0 A W h rqs] assms(2) start_license(2) [OF assms(1)] by simp
  from collected_new(1) [OF this] obtain now\<^sub>0 where
    m: "?m = run_ops (concat (map (call_ops A) ?calls)) (initialize now\<^sub>0)" by blast
  note totals = calls_totals [OF refl, of A ?calls now\<^sub>0]
  have wf: "wf_metrics ?m" by (simp add: m)
  have names: "''requests_total'' \<in> set counter_names" "''errors_total'' \<in> set counter_names"
    "''active_requests'' \<in> set gauge_names" by (rule counter_names_mem)+
  have "\<not> too_large rq" using assms(5) by (simp add: too_large_def)
  moreover have "find_route W app_routes (http_method rq) (url_path rq) = Some Metrics_Text"
    using routes_of_app(5) [OF assms(4)] assms(5,6) by simp
  ultimately have s: "payload_of (fst (serve W A h clk rq st)) = Text (fst (metrics_endpoint (lic_lib A)
      (gen_env (gen_lib A)) (t_license clk) (wall_clock clk) (t_start clk) ?m ?m ?m ?m (lic_cache (process st))))"
    "reply_status (fst (serve W A h clk rq st)) = 200"
    using assms(7)
    by (simp_all add: serve_def limited_def limit_dispatch_if route_request_def reply_with_def Let_def split_beta)
  note lines = metrics_has_line [OF basic_has_line(1) [OF wf names(1)]]
    metrics_has_line [OF basic_has_line(1) [OF wf names(2)]] metrics_has_line [OF basic_has_line(2) [OF wf names(3)]]
  have "licensing_state (lic_lib A) (lic_cache (process st))"
    using serve_all_license [OF start_license(1) [OF assms(1)], of W h rqs] assms(2) by simp
  note serve_license [OF this, of W h clk rq]
  moreover note lines [unfolded totals [folded m]] trace_counts [OF assms(3), of h rqs st\<^sub>0]
  ultimately show ?thesis using s assms(2) by auto
qed

text \<open>A framework for the witnesses.\<close>

definition demo_web :: web_lib where
  "demo_web = \<lparr>find_route = (\<lambda>rs m p. map_option rt_endpoint (find (\<lambda>r. rt_method r = m \<and> rt_path r = p) rs)),
     read_form = (\<lambda>ep rq. Inr \<lparr>form_file = demo_upload, form_metadata = ''{}''\<rparr>),
     default_reply = (\<lambda>rq. \<lparr>reply_status = 404, reply_headers = [], payload_of = Text ''Not Found''\<rparr>),
     preflight = (\<lambda>c rq. if http_method rq = ''OPTIONS''
        then Some \<lparr>reply_status = 200, reply_headers = [], payload_of = Text ''OK''\<rparr> else None),
     cors_reply_headers = (\<lambda>c rq. [(''access-control-allow-origin'', ''*'')])\<rparr>"

definition demo_request :: "pystr \<Rightarrow> pystr \<Rightarrow> web_request" where
  "demo_request m p = \<lparr>http_method = m, headers = (\<lambda>h. None), url_path = p, content = []\<rparr>"

lemma demo_web_ok: "first_match demo_web" "plain_forms demo_web demo_api"
  by (simp_all add: first_match_def demo_web_def plain_forms_def plain_packages_def demo_api_def demo_upload_def
      demo_generator_def)

theorem metrics_report_history_witness:
  "\<exists>st\<^sub>0 text. start_server None demo_api fzero demo_wall \<lparr>core_validator = None\<rparr> = Some st\<^sub>0 \<and>
     payload_of (fst (serve demo_web demo_api demo_host demo_clock (demo_request ''GET'' ''/metrics'')
       (snd (serve_all demo_web demo_api demo_host [(demo_clock, demo_request ''GET'' ''/health'')] st\<^sub>0)))) = Text text \<and>
     has_line text (value_line (''requests_total'', 0))"
proof -
  let ?rqs = "[(demo_clock, demo_request ''GET'' ''/health'')]"
  have "fst (startup_event None (lic_lib demo_api) (gen_env (gen_lib demo_api)) fzero demo_wall empty_cache) = Running"
    by code_simp
  then obtain st\<^sub>0 where st: "start_server None demo_api fzero demo_wall \<lparr>core_validator = None\<rparr> = Some st\<^sub>0"
    by (cases "startup_event None (lic_lib demo_api) (gen_env (gen_lib demo_api)) fzero demo_wall empty_cache")
      (simp add: start_server_def)
  have "calls_made demo_web demo_api demo_host ?rqs st\<^sub>0 = [None]"
    by (simp add: request_call_def demo_web_def demo_request_def limit_dispatch_if too_large_def route_defs)
  then have "handled (zip (calls_made demo_web demo_api demo_host ?rqs st\<^sub>0) rs) = 0" for rs
    by (cases rs) (simp_all add: handled_def)
  with metrics_report_history [OF st prod.collapse [symmetric] demo_web_ok(2,1),
      where h = demo_host and rqs = ?rqs and clk = demo_clock and rq = "demo_request ''GET'' ''/metrics''"] st
  show ?thesis by (auto simp: demo_request_def demo_web_def)
qed

text \<open>
  Claim C31.  The documented answers.  A request that reaches one of the four handlers is answered with status 200 or
  with a status its route documents, an error status exactly when the handler failed.  The refusal of the size
  limit, 413, is documented by no route.
\<close>

theorem statuses_documented:
  assumes "request_call W A clk rq st = Some c" and "plain_forms W A" and "first_match W"
    and "r \<in> set app_routes" and "rt_method r = http_method rq" and "rt_path r = url_path rq"
  shows "(reply_status (fst (serve W A h clk rq st)) = 200 \<or>
      reply_status (fst (serve W A h clk rq st)) \<in> fst ` set (rt_responses r)) \<and>
    (call_failed A c \<longleftrightarrow> 400 \<le> reply_status (fst (serve W A h clk rq st))) \<and>
    413 \<notin> fst ` set (rt_responses r)"
proof -
  obtain ep f where ep: "find_route W app_routes (http_method rq) (url_path rq) = Some ep"
    "endpoint_call ep clk f (process st) = Some c"
    using request_call_Some [OF assms(1)] by metis
  have "find (\<lambda>q. rt_method q = rt_method r \<and> rt_path q = rt_path r) app_routes = Some r"
    using find_distinct [OF routes_distinct assms(4)] by simp
  with find_route_find [OF assms(3) this] ep assms(5,6) have "rt_endpoint r = ep" by simp
  with ep(2) assms(4) have "{400, 500} \<subseteq> fst ` set (rt_responses r) \<and> 413 \<notin> fst ` set (rt_responses r)"
    by (auto simp: route_defs)
  moreover have "status_of (call_failed A c) (reply_status (fst (serve W A h clk rq st)))"
    using serve_status [OF assms(1)] assms(2) unfolding plain_forms_def by blast
  ultimately show ?thesis by (cases "call_failed A c") (simp_all add: status_of_def, elim disjE, simp_all)
qed

theorem statuses_documented_witness:
  "reply_status (fst (serve demo_web demo_api demo_host demo_clock (demo_request ''POST'' ''/v1/extract'')
     \<lparr>process = demo_state, collector = None\<rparr>)) \<in> {200, 400, 500}"
proof -
  let ?rq = "demo_request ''POST'' ''/v1/extract''"
  let ?st = "\<lparr>process = demo_state, collector = None\<rparr>"
  have c: "request_call demo_web demo_api demo_clock ?rq ?st = Some (ExtractCall demo_clock demo_upload)"
    using routes_of_app(1) [OF demo_web_ok(1)]
    by (simp add: request_call_def limit_dispatch_if too_large_def demo_request_def) (simp add: demo_web_def)
  have r: "extract_route\<lparr>rt_path := ''/v1/extract''\<rparr> \<in> set app_routes" by (simp add: route_defs)
  show ?thesis
    using statuses_documented [OF c demo_web_ok(2,1) r, of demo_host]
    by (auto simp: demo_request_def extract_route_def)
qed

text \<open>
  Claim C30.  The size limit.  A POST whose \<^verbatim>\<open>Content-Length\<close> reads as an integer above 20971520 is refused with status
  413 before any route or form is looked at: nothing in the server changes and no handler runs.  Every other
  request that is not a preflight is routed as if there were no limit: one with another method, one without the
  header, one whose header does not read as an integer, and one whose header reads as at most 20971520.  The decimal
  text of a length up to the limit reads as that length.
\<close>

theorem oversized_refused:
  assumes "preflight W (cors_settings (gen_env (gen_lib A))) rq = None"
  shows "(http_method rq = ''POST'' \<and> headers rq ''content-length'' = Some v \<and> py_int v = Some n \<and> 20971520 < n \<longrightarrow>
      serve W A h clk rq st =
        (\<lparr>reply_status = 413, reply_headers = cors_reply_headers W (cors_settings (gen_env (gen_lib A))) rq,
          payload_of = Text ''File too large. Max size is 20MB.''\<rparr>, st) \<and>
      request_call W A clk rq st = None) \<and>
    (http_method rq \<noteq> ''POST'' \<or> headers rq ''content-length'' = None \<or>
     headers rq ''content-length'' = Some v \<and> (py_int v = None \<or> py_int v = Some n \<and> n \<le> 20971520) \<longrightarrow>
      snd (serve W A h clk rq st) = snd (route_request W A h clk rq st) \<and>
      payload_of (fst (serve W A h clk rq st)) = payload_of (fst (route_request W A h clk rq st)) \<and>
      reply_status (fst (serve W A h clk rq st)) = reply_status (fst (route_request W A h clk rq st))) \<and>
    (0 \<le> k \<and> k \<le> 20971521 \<longrightarrow> py_int (dec_str k) = Some k)"
proof (intro conjI impI)
  assume "http_method rq \<noteq> ''POST'' \<or> headers rq ''content-length'' = None \<or>
     headers rq ''content-length'' = Some v \<and> (py_int v = None \<or> py_int v = Some n \<and> n \<le> 20971520)"
  then have "\<not> too_large rq" by (auto simp: too_large_def max_upload_def)
  then have "limited W A h clk rq st = route_request W A h clk rq st" by (simp add: limited_def limit_dispatch_if)
  then show "snd (serve W A h clk rq st) = snd (route_request W A h clk rq st)"
    "payload_of (fst (serve W A h clk rq st)) = payload_of (fst (route_request W A h clk rq st))"
    "reply_status (fst (serve W A h clk rq st)) = reply_status (fst (route_request W A h clk rq st))"
    using assms by (simp_all add: serve_def Let_def split_beta)
next
  assume "http_method rq = ''POST'' \<and> headers rq ''content-length'' = Some v \<and> py_int v = Some n \<and> 20971520 < n"
  then have "too_large rq" by (simp add: too_large_def max_upload_def)
  then show "serve W A h clk rq st =
        (\<lparr>reply_status = 413, reply_headers = cors_reply_headers W (cors_settings (gen_env (gen_lib A))) rq,
          payload_of = Text ''File too large. Max size is 20MB.''\<rparr>, st)" and "request_call W A clk rq st = None"
    using assms by (simp_all add: serve_def limited_def limit_dispatch_if request_call_def)
next
  assume "0 \<le> k \<and> k \<le> 20971521"
  then show "py_int (dec_str k) = Some k" using length_dec_str_le [of k 8] by (intro py_int_dec_str) simp_all
qed

theorem oversized_refused_witness:
  "reply_status (fst (serve demo_web demo_api demo_host demo_clock
     ((demo_request ''POST'' ''/v1/extract'')\<lparr>headers := [''content-length'' \<mapsto> dec_str 20971521]\<rparr>)
     \<lparr>process = demo_state, collector = None\<rparr>)) = 413"
proof -
  have "length (dec_str 20971521) \<le> 4300" using length_dec_str_le [of 20971521 8] by simp
  then have "py_int (dec_str 20971521) = Some 20971521" by (simp add: py_int_dec_str)
  then show ?thesis
    using oversized_refused [of demo_web demo_api
        "(demo_request ''POST'' ''/v1/extract'')\<lparr>headers := [''content-length'' \<mapsto> dec_str 20971521]\<rparr>"
        "dec_str 20971521" 20971521]
    by (simp add: demo_request_def demo_web_def del: dec_str.simps)
qed

end
