(* ===== verification/Odoo_Settings.thy ===== *)
theory Odoo_Settings
  imports Odoo_Connector Http_App
begin

text \<open>
  The settings form and the manifest of the Odoo module, \<^verbatim>\<open>models/res_config_settings.py\<close> and
  \<^verbatim>\<open>__manifest__.py\<close>, and the way from the form to the invoice: the saved settings are those the connector
  reads, its upload goes through the HTTP application, and the answer fills the invoice.
\<close>

section \<open>The form\<close>

text \<open>A \<^verbatim>\<open>fields.Char\<close> with a \<^verbatim>\<open>config_parameter\<close>.\<close>

record char_field =
  cf_name :: pystr
  cf_string :: pystr
  cf_parameter :: pystr
  cf_default :: "pystr option"
  cf_help :: pystr

definition facturx_engine_url :: char_field where
  "facturx_engine_url = \<lparr>cf_name = ''facturx_engine_url'', cf_string = ''Factur-X Engine URL'',
     cf_parameter = ''facturx_engine.url'', cf_default = Some ''http://facturx-engine:8000'',
     cf_help = ''URL of the local Docker container (e.g. http://localhost:8000 or http://facturx-engine:8000)''\<rparr>"

definition facturx_engine_key :: char_field where
  "facturx_engine_key = \<lparr>cf_name = ''facturx_engine_key'', cf_string = ''License Key'',
     cf_parameter = ''facturx_engine.key'', cf_default = None,
     cf_help = ''Pro License Key to unlock full extraction. Leave empty for Demo mode (masked data).''\<rparr>"

definition ResConfigSettings :: "char_field list" where
  "ResConfigSettings = [facturx_engine_url, facturx_engine_key]"

text \<open>
  Odoo's part of the form: the values it shows for the stored parameters, and the parameters after the values
  were saved.  Documented is that a field shows its parameter or else its default, and that saving stores the
  value without surrounding blanks under the parameter and removes the parameter of an empty value.
\<close>

type_synonym params = "pystr \<Rightarrow> pystr option"

record settings_lib =
  open_form :: "char_field list \<Rightarrow> params \<Rightarrow> params"
  save_form :: "char_field list \<Rightarrow> params \<Rightarrow> params \<Rightarrow> params"

definition non_empty :: "pystr \<Rightarrow> pystr option" where
  "non_empty s = (if s = [] then None else Some s)"

definition form_contract :: "settings_lib \<Rightarrow> bool" where
  "form_contract F \<longleftrightarrow>
     (\<forall>fs f ps vals. distinct (map cf_name fs) \<longrightarrow> distinct (map cf_parameter fs) \<longrightarrow> f \<in> set fs \<longrightarrow>
        open_form F fs ps (cf_name f) = (case ps (cf_parameter f) of None \<Rightarrow> cf_default f | Some v \<Rightarrow> Some v) \<and>
        save_form F fs vals ps (cf_parameter f) =
          (case vals (cf_name f) of None \<Rightarrow> None | Some v \<Rightarrow> non_empty (str_strip v)))"

section \<open>The manifest\<close>

record manifest =
  m_name :: pystr
  m_version :: pystr
  m_category :: pystr
  m_summary :: pystr
  m_description :: "pystr list"
  m_author :: pystr
  m_website :: pystr
  m_license :: pystr
  m_depends :: "pystr list"
  m_data :: "pystr list"
  m_images :: "pystr list"
  m_installable :: bool
  m_application :: bool
  m_auto_install :: bool

definition odoo_manifest :: manifest where
  "odoo_manifest =
     \<lparr>m_name = ''Factur-X Engine Connector'', m_version = ''1.0.0'', m_category = ''Accounting/Accounting'',
      m_summary = ''Import Factur-X/ZUGFeRD invoices using Local Engine'',
      m_description = ['''', ''Factur-X Engine Connector'', ''========================='',
        ''This module allows you to import Supplier Invoices (Vendor Bills) from PDF files '',
        ''containing Factur-X / ZUGFeRD metadata.'', '''',
        ''It connects to your local \"Factur-X Engine\" Docker container to perform '',
        ''safe and reliable data extraction without relying on Cloud OCR services.'', '''',
        ''Features:'', ''- Import PDF invoice -> Auto-fill Odoo Bill'',
        ''- 100% Privacy (Data stays on your server)'', ''- Support for EN16931 and ZUGFeRD standards'', ''    ''],
      m_author = ''Factur-X Engine Team'', m_website = ''https://facturx-engine.lemonsqueezy.com'',
      m_license = ''OPL-1'', m_depends = [''account'', ''base_setup''],
      m_data = [''views/res_config_settings_views.xml'', ''views/account_move_views.xml''],
      m_images = [''static/description/banner.png''],
      m_installable = True, m_application = False, m_auto_install = False\<rparr>"

section \<open>The upload over HTTP\<close>

text \<open>
  What \<^verbatim>\<open>requests.post\<close> sends for a file.  \<open>enc\<close> is the package's multipart encoding of the form
  \<^verbatim>\<open>{'file': ('invoice.pdf', pdf, 'application/pdf')}\<close>: the boundary it chooses and the body.  The boundary goes into
  the header \<^verbatim>\<open>Content-Type\<close>, which \<^verbatim>\<open>requests\<close> sets unless the caller gave one, and the length of the body into
  \<^verbatim>\<open>Content-Length\<close>; header names are compared without case.
\<close>

type_synonym encoding = "bytes \<Rightarrow> pystr \<times> bytes"

definition multipart_type :: "pystr \<Rightarrow> pystr" where
  "multipart_type boundary = ''multipart/form-data; boundary='' @ boundary"

definition post_request :: "encoding \<Rightarrow> bytes \<Rightarrow> (pystr \<times> pystr) list \<Rightarrow> web_request" where
  "post_request enc pdf hdrs =
     (case enc pdf of (boundary, form_body) \<Rightarrow>
       \<lparr>http_method = ''POST'',
        headers = ([''content-type'' \<mapsto> multipart_type boundary] ++ map_of (map (\<lambda>(k, v). (map ascii_lower k, v)) hdrs))
          (''content-length'' \<mapsto> dec_str (int (length form_body))),
        url_path = ''/v1/extract'', content = form_body\<rparr>)"

text \<open>The length of the body.\<close>

definition upload_size :: "encoding \<Rightarrow> bytes \<Rightarrow> nat" where
  "upload_size enc pdf = length (snd (enc pdf))"

text \<open>The URL leads to the engine: its answers arrive with their status, and with their JSON or text.\<close>

definition engine_at ::
    "odoo \<Rightarrow> pystr \<Rightarrow> encoding \<Rightarrow> (web_request \<Rightarrow> web_reply) \<Rightarrow> bool" where
  "engine_at od url enc answer \<longleftrightarrow>
     (\<forall>pdf hdrs. \<exists>reply. http_post od (url @ ''/v1/extract'') pdf hdrs = Inr reply \<and>
        status_code reply = reply_status (answer (post_request enc pdf hdrs)) \<and>
        (\<forall>r. payload_of (answer (post_request enc pdf hdrs)) = Extraction r \<longrightarrow>
           reply_json reply = Inr (ExtractionResult_json r)) \<and>
        (\<forall>t. payload_of (answer (post_request enc pdf hdrs)) = Text t \<longrightarrow> reply_text reply = t))"

text \<open>
  Starlette reads a multipart form that \<^verbatim>\<open>requests\<close> has encoded: from a POST whose \<^verbatim>\<open>Content-Type\<close> is
  \<^verbatim>\<open>multipart/form-data\<close> with the boundary of the body, the handler's parameter is the file with its name and
  content.  And a POST is no preflight request: those have the method OPTIONS.
\<close>

definition reads_upload :: "web_lib \<Rightarrow> encoding \<Rightarrow> bool" where
  "reads_upload W enc \<longleftrightarrow>
     (\<forall>pdf rq. http_method rq = ''POST'' \<and> headers rq ''content-type'' = Some (multipart_type (fst (enc pdf))) \<and>
          content rq = snd (enc pdf) \<longrightarrow>
        (\<exists>f. read_form W Extract rq = Inr f \<and> form_file f = \<lparr>filename = Some ''invoice.pdf'', file_read = Inr pdf\<rparr>)) \<and>
     (\<forall>c rq. http_method rq = ''POST'' \<longrightarrow> preflight W c rq = None)"

lemma post_request_sel [simp]:
  "http_method (post_request enc pdf hdrs) = ''POST''" "url_path (post_request enc pdf hdrs) = ''/v1/extract''"
  "content (post_request enc pdf hdrs) = snd (enc pdf)"
  "headers (post_request enc pdf hdrs) ''content-length'' = Some (dec_str (int (upload_size enc pdf)))"
  by (simp_all add: post_request_def upload_size_def split: prod.split)

text \<open>The only header the connector gives is that of the key.\<close>

lemma post_request_type:
  "headers (post_request enc pdf (request_headers key)) ''content-type'' = Some (multipart_type (fst (enc pdf)))"
proof -
  have "map ascii_lower ''X-LICENSE-KEY'' = ''x-license-key''" by code_simp
  then show ?thesis by (simp add: post_request_def request_headers_def map_add_def split: prod.split)
qed

lemma post_request_size:
  assumes "int (upload_size enc pdf) < 10 ^ 20"
  shows "too_large (post_request enc pdf hdrs) \<longleftrightarrow> 20971520 < upload_size enc pdf"
proof -
  have "length (dec_str (int (upload_size enc pdf))) \<le> 20" using length_dec_str_le [of "int (upload_size enc pdf)" 20] assms by simp
  then have "py_int (dec_str (int (upload_size enc pdf))) = Some (int (upload_size enc pdf))"
    by (simp add: py_int_dec_str)
  then show ?thesis by (simp add: too_large_def max_upload_def)
qed

lemma serve_upload:
  assumes "first_match W" and "reads_upload W enc" and "models_accept A" and "int (upload_size enc pdf) < 10 ^ 20"
    and "pdf \<noteq> []"
  obtains (refused) "20971520 < upload_size enc pdf"
      "reply_status (fst (serve W A h clk (post_request enc pdf (request_headers key)) st)) = 413"
      "payload_of (fst (serve W A h clk (post_request enc pdf (request_headers key)) st)) =
         Text ''File too large. Max size is 20MB.''"
    | (extracted) r where "upload_size enc pdf \<le> 20971520"
      "reply_status (fst (serve W A h clk (post_request enc pdf (request_headers key)) st)) = 200"
      "payload_of (fst (serve W A h clk (post_request enc pdf (request_headers key)) st)) = Extraction r"
      "snd (extract_facturx A clk \<lparr>filename = Some ''invoice.pdf'', file_read = Inr pdf\<rparr>) = Inr r"
proof (cases "too_large (post_request enc pdf (request_headers key))")
  case True
  with assms show thesis
    by (intro refused) (auto simp: post_request_size serve_def limited_def limit_dispatch_if reads_upload_def Let_def)
next
  case False
  let ?rq = "post_request enc pdf (request_headers key)"
  obtain f where f: "read_form W Extract ?rq = Inr f"
    "form_file f = \<lparr>filename = Some ''invoice.pdf'', file_read = Inr pdf\<rparr>"
    using assms(2) post_request_sel(1,3) post_request_type unfolding reads_upload_def by metis
  obtain r where r: "snd (extract_facturx A clk \<lparr>filename = Some ''invoice.pdf'', file_read = Inr pdf\<rparr>) = Inr r"
    using assms(3,5) by (simp add: extract_facturx_def extract_body_def framed_def)
  have "serve W A h clk ?rq st =
      (case handle W A h clk Extract ?rq st of (rep, st') \<Rightarrow>
         (rep\<lparr>reply_headers := reply_headers rep @
            cors_reply_headers W (cors_settings (gen_env (gen_lib A))) ?rq\<rparr>, st'))"
    using False assms(1,2) routes_of_app(1) [OF assms(1)]
    by (simp add: serve_def limited_def limit_dispatch_if route_request_def reads_upload_def Let_def)
  then show thesis
    using f r False assms(4) by (intro extracted) (simp_all add: with_form_def split_beta reply_with_def post_request_size)
qed

section \<open>Properties\<close>

lemma fields_distinct:
  "distinct (map cf_name ResConfigSettings)" "distinct (map cf_parameter ResConfigSettings)"
  by (simp_all add: ResConfigSettings_def facturx_engine_url_def facturx_engine_key_def)

lemma contractD:
  assumes "form_contract F" and "f \<in> set ResConfigSettings"
  shows "open_form F ResConfigSettings ps (cf_name f) = (case ps (cf_parameter f) of None \<Rightarrow> cf_default f | Some v \<Rightarrow> Some v)"
    and "save_form F ResConfigSettings vals ps (cf_parameter f) =
      (case vals (cf_name f) of None \<Rightarrow> None | Some v \<Rightarrow> non_empty (str_strip v))"
  using assms fields_distinct unfolding form_contract_def by blast+

lemma field_sel [simp]:
  "cf_name facturx_engine_url = ''facturx_engine_url''" "cf_parameter facturx_engine_url = ''facturx_engine.url''"
  "cf_default facturx_engine_url = Some ''http://facturx-engine:8000''"
  "cf_name facturx_engine_key = ''facturx_engine_key''" "cf_parameter facturx_engine_key = ''facturx_engine.key''"
  "cf_default facturx_engine_key = None"
  "facturx_engine_url \<in> set ResConfigSettings" "facturx_engine_key \<in> set ResConfigSettings"
  by (simp_all add: facturx_engine_url_def facturx_engine_key_def ResConfigSettings_def)

lemmas url_field = contractD [where f = facturx_engine_url, simplified]

lemmas key_field = contractD [where f = facturx_engine_key, simplified]

lemma odoo_param_sel:
  "journal_default_account (od\<lparr>get_param := g\<rparr>) = journal_default_account od"
  "search_expense_account (od\<lparr>get_param := g\<rparr>) = search_expense_account od"
  "search_any_account (od\<lparr>get_param := g\<rparr>) = search_any_account od"
  "search_partner (od\<lparr>get_param := g\<rparr>) = search_partner od"
  by simp_all

lemma imported_param [simp]: "imported (od\<lparr>get_param := g\<rparr>) d = imported od d"
  unfolding imported_def default_account_def odoo_param_sel ..

text \<open>
  Claim C8.  From the settings form to the invoice.  With an address saved in the form at which the engine answers, a
  readable PDF attached to the move is sent, as a multipart form with its boundary in the header \<^verbatim>\<open>Content-Type\<close>,
  through the size limit and the route of \<^verbatim>\<open>/v1/extract\<close>, and what the engine extracts is written, as long as the
  body of the form is at most 20971520 bytes; a larger one is refused with status 413 and reported to the user, and
  nothing is written.  The license key of the form makes no difference, although its help text says that it
  unlocks the full extraction.
\<close>

theorem settings_to_invoice:
  assumes "form_contract F" and "vals ''facturx_engine_url'' = Some url" and "str_strip url = url" and "url \<noteq> []"
    and "engine_at od url enc (\<lambda>rq. fst (serve W A h clk rq st))" and "first_match W" and "reads_upload W enc"
    and "models_accept A" and "int (upload_size enc pdf) < 10 ^ 20" and "pdf \<noteq> []"
    and "pdf_attachment od i = Some datas" and "odoo_b64decode od datas = Inr pdf"
    and "invoice_json (engine_extraction A pdf) = Some d" and "move_write od (imported od d) = None"
  shows "action_import_facturx_pdf
      (od\<lparr>get_param := save_form F ResConfigSettings (vals(''facturx_engine_key'' := key)) ps\<rparr>) [i] =
    (if upload_size enc pdf \<le> 20971520 then (Inr success_notification, [imported od d])
     else (Inl (UserError (''Extraction Failed: Engine Error (413): File too large. Max size is 20MB.'')), []))"
proof -
  let ?g = "save_form F ResConfigSettings (vals(''facturx_engine_key'' := key)) ps"
  let ?od = "od\<lparr>get_param := ?g\<rparr>" and ?hdrs = "request_headers (?g ''facturx_engine.key'')"
  have url: "?g ''facturx_engine.url'' = Some url"
    using url_field(2) [OF assms(1), of "vals(''facturx_engine_key'' := key)" ps] assms(2-4) by (simp add: non_empty_def)
  obtain reply where reply: "http_post od (url @ ''/v1/extract'') pdf ?hdrs = Inr reply"
    "status_code reply = reply_status (fst (serve W A h clk (post_request enc pdf ?hdrs) st))"
    "\<And>r. payload_of (fst (serve W A h clk (post_request enc pdf ?hdrs) st)) = Extraction r \<Longrightarrow>
       reply_json reply = Inr (ExtractionResult_json r)"
    "\<And>t. payload_of (fst (serve W A h clk (post_request enc pdf ?hdrs) st)) = Text t \<Longrightarrow> reply_text reply = t"
    using assms(5) [unfolded engine_at_def, THEN spec, THEN spec, of pdf ?hdrs] by (elim exE conjE) blast
  from assms(6-10) show ?thesis
  proof (cases rule: serve_upload [where A = A and h = h and clk = clk and key = "?g ''facturx_engine.key''" and st = st])
    case refused
    with reply have "status_code reply = 413" "reply_text reply = ''File too large. Max size is 20MB.''" by simp_all
    moreover have "''Engine Error ('' @ int_str 413 @ ''): '' = ''Engine Error (413): ''" by code_simp
    ultimately have "call_engine ?od url (?g ''facturx_engine.key'') datas =
        Inl (UserError (''Extraction Failed: Engine Error (413): File too large. Max size is 20MB.''))"
      using reply(1) assms(12) by (simp add: call_engine_def)
    with refused(1) url assms(4,11) show ?thesis by (simp add: action_import_facturx_pdf_def)
  next
    case (extracted r)
    with reply have "delivered A clk ?od i pdf"
      using url assms(4,10-12) unfolding delivered_def by auto
    note action = delivered_action [OF this]
    obtain doc fl fn where "parse_demo_invoice (svc_lxml (gen_service (gen_lib A))) doc fl fn = Inr d"
      using assms(13) by (rule extracted_parse)
    note vals_answer [OF parse_demo_readable [OF this], of ?od]
    moreover have "move_write ?od (imported ?od d) = None" using assms(14) by simp
    ultimately show ?thesis
      using extracted(1) assms(13) unfolding action by (simp add: chosen_data_def apply_facturx_data_def)
  qed
qed

definition demo_form :: settings_lib where
  "demo_form =
     \<lparr>open_form = (\<lambda>fs ps n. case find (\<lambda>f. cf_name f = n) fs of
        None \<Rightarrow> None | Some f \<Rightarrow> (case ps (cf_parameter f) of None \<Rightarrow> cf_default f | Some v \<Rightarrow> Some v)),
      save_form = (\<lambda>fs vals ps k. case find (\<lambda>f. cf_parameter f = k) fs of
        None \<Rightarrow> ps k | Some f \<Rightarrow> (case vals (cf_name f) of None \<Rightarrow> None | Some v \<Rightarrow> non_empty (str_strip v)))\<rparr>"

lemma demo_form_ok: "form_contract demo_form"
  by (auto simp: form_contract_def demo_form_def find_distinct)

text \<open>
  The multipart encoding of a form with one file, with the boundary \<^verbatim>\<open>B\<close>, and a reader of such forms, which takes
  the boundary from the header and refuses a request without it or with a body of another form.
\<close>

definition crlf :: pystr where
  "crlf = [CHR 0x0D, CHR 0x0A]"

definition part_head :: "pystr \<Rightarrow> bytes" where
  "part_head b = ''--'' @ b @ crlf @ ''Content-Disposition: form-data; name='' @ quoted ''file'' @ ''; filename='' @ quoted ''invoice.pdf''
     @ crlf @ ''Content-Type: application/pdf'' @ crlf @ crlf"

definition part_tail :: "pystr \<Rightarrow> bytes" where
  "part_tail b = crlf @ ''--'' @ b @ ''--'' @ crlf"

definition demo_enc :: encoding where
  "demo_enc pdf = (''B'', part_head ''B'' @ pdf @ part_tail ''B'')"

definition read_multipart :: "web_request \<Rightarrow> web_reply + form" where
  "read_multipart rq =
     (let refusal = \<lparr>reply_status = 422, reply_headers = [], payload_of = Framework ''Field required''\<rparr> in
      case headers rq ''content-type'' of
        None \<Rightarrow> Inl refusal
      | Some ct \<Rightarrow>
          (let b = drop (length (multipart_type [])) ct; hd_len = length (part_head b); tl_len = length (part_tail b);
               pdf = take (length (content rq) - hd_len - tl_len) (drop hd_len (content rq)) in
           if ct = multipart_type b \<and> content rq = part_head b @ pdf @ part_tail b
           then Inr \<lparr>form_file = \<lparr>filename = Some ''invoice.pdf'', file_read = Inr pdf\<rparr>, form_metadata = []\<rparr>
           else Inl refusal))"

definition upload_web :: web_lib where
  "upload_web = demo_web\<lparr>read_form := \<lambda>ep rq. read_multipart rq\<rparr>"

lemma read_multipart_enc:
  assumes "headers rq ''content-type'' = Some (multipart_type (fst (demo_enc pdf)))" and "content rq = snd (demo_enc pdf)"
  shows "read_multipart rq = Inr \<lparr>form_file = \<lparr>filename = Some ''invoice.pdf'', file_read = Inr pdf\<rparr>, form_metadata = []\<rparr>"
proof -
  have "drop (length (multipart_type [])) (multipart_type ''B'') = ''B''" by (simp add: multipart_type_def)
  with assms show ?thesis by (simp add: read_multipart_def demo_enc_def)
qed

lemma upload_web_ok: "first_match upload_web" "reads_upload upload_web demo_enc"
  by (simp_all add: upload_web_def first_match_def reads_upload_def read_multipart_enc) (simp_all add: demo_web_def)

text \<open>Without the header the same body is refused.\<close>

lemma header_needed: "read_multipart ((post_request demo_enc pdf [])\<lparr>headers := (\<lambda>h. None)\<rparr>) =
    Inl \<lparr>reply_status = 422, reply_headers = [], payload_of = Framework ''Field required''\<rparr>"
  by (simp add: read_multipart_def)

definition demo_server :: "unit server" where
  "demo_server = \<lparr>process = demo_state, collector = None\<rparr>"

definition connected :: "(web_request \<Rightarrow> web_reply) \<Rightarrow> odoo" where
  "connected answer = (demo_odoo 200 JNull)\<lparr>http_post := \<lambda>u b hdrs.
     Inr (case answer (post_request demo_enc b hdrs) of rep \<Rightarrow>
       \<lparr>status_code = reply_status rep,
        reply_text = (case payload_of rep of Text t \<Rightarrow> t | _ \<Rightarrow> []),
        reply_json = (case payload_of rep of Extraction r \<Rightarrow> Inr (ExtractionResult_json r)
                      | _ \<Rightarrow> Inl (JSONDecodeError ''Expecting value''))\<rparr>)\<rparr>"

lemma connected_ok: "engine_at (connected answer) url demo_enc answer"
  by (simp add: engine_at_def connected_def)

theorem settings_to_invoice_witness:
  "\<exists>d. action_import_facturx_pdf
     ((connected (\<lambda>rq. fst (serve upload_web (with_document demo_doc demo_fx) demo_host demo_clock rq demo_server)))
       \<lparr>get_param := save_form demo_form ResConfigSettings
          ([''facturx_engine_url'' \<mapsto> ''http://engine''](''facturx_engine_key'' := Some ''secret'')) (\<lambda>k. None)\<rparr>) [7] =
     (Inr success_notification,
      [imported (connected (\<lambda>rq. fst (serve upload_web (with_document demo_doc demo_fx) demo_host demo_clock rq demo_server))) d])"
proof -
  let ?A = "with_document demo_doc demo_fx"
  obtain d where d: "invoice_json (engine_extraction ?A ''%PDF'') = Some d" by (rule demo_document)
  have "upload_size demo_enc ''%PDF'' \<le> 200" by code_simp
  moreover have "str_strip ''http://engine'' = ''http://engine''" by code_simp
  ultimately show ?thesis
    using settings_to_invoice [OF demo_form_ok _ _ _ connected_ok upload_web_ok with_document_accepts _ _ _ _ d,
        where i = 7 and url = "''http://engine''" and vals = "[''facturx_engine_url'' \<mapsto> ''http://engine'']"]
    by (auto simp: connected_def demo_odoo_def)
qed

text \<open>
  The default address has to be saved.  On a fresh installation the form shows the default address, yet the
  import refuses with the request to configure one, because the connector reads the stored parameter; once
  the form is saved as it is shown, the connector uses that address and sends no key.
\<close>

lemma default_url_needs_saving:
  assumes "form_contract F" and "ps ''facturx_engine.url'' = None" and "ps ''facturx_engine.key'' = None"
  shows "open_form F ResConfigSettings ps ''facturx_engine_url'' = Some ''http://facturx-engine:8000'' \<and>
    action_import_facturx_pdf (od\<lparr>get_param := ps\<rparr>) [i] =
      (Inl (UserError ''Please configure Factur-X Engine URL in Settings.''), []) \<and>
    save_form F ResConfigSettings (open_form F ResConfigSettings ps) ps ''facturx_engine.url'' =
      Some ''http://facturx-engine:8000'' \<and>
    request_headers (save_form F ResConfigSettings (open_form F ResConfigSettings ps) ps ''facturx_engine.key'') = []"
proof -
  have f: "open_form F ResConfigSettings ps ''facturx_engine_url'' = Some ''http://facturx-engine:8000''"
    "open_form F ResConfigSettings ps ''facturx_engine_key'' = None"
    using url_field(1) [OF assms(1), of ps] key_field(1) [OF assms(1), of ps] assms(2,3) by simp_all
  have "str_strip ''http://facturx-engine:8000'' = ''http://facturx-engine:8000''" by code_simp
  then show ?thesis
    using f url_field(2) [OF assms(1), of "open_form F ResConfigSettings ps" ps]
      key_field(2) [OF assms(1), of "open_form F ResConfigSettings ps" ps] assms(2)
    by (simp add: action_import_facturx_pdf_def request_headers_def non_empty_def)
qed

lemma default_url_needs_saving_example:
  "action_import_facturx_pdf ((demo_odoo 200 JNull)\<lparr>get_param := \<lambda>k. None\<rparr>) [7] =
     (Inl (UserError ''Please configure Factur-X Engine URL in Settings.''), []) \<and>
   open_form demo_form ResConfigSettings (\<lambda>k. None) ''facturx_engine_url'' = Some ''http://facturx-engine:8000''"
  using default_url_needs_saving [OF demo_form_ok, of "\<lambda>k. None"] by simp

end
