(* ===== verification/Support_Bundle.thy ===== *)
theory Support_Bundle
  imports Py_Json "HOL-Library.Sublist"
begin

text \<open>
  The support bundle, \<^verbatim>\<open>tools/support_bundle.py\<close>: the entries of the ZIP file that is sent to support.
  What the engine answers, the process environment and the two files are the argument \<open>bundle_host\<close>;
  writing the archive itself is not modelled.  Names of environment variables are ASCII, so
  \<^verbatim>\<open>key.upper()\<close> is \<open>str_upper\<close>.
\<close>

section \<open>The bundle\<close>

datatype content = Plain pystr | Dumped json | File bytes

type_synonym entry = "pystr \<times> content"

text \<open>\<open>None\<close> for a file that does not exist; reading one may raise.\<close>

record bundle_host =
  get_diagnostics_reply :: "http_reply result"
  get_health_reply :: "http_reply result"
  bundle_environ :: "(pystr \<times> pystr) list"
  bundle_timestamp :: pystr
  bundle_cwd :: pystr
  bundle_sys_version :: pystr
  version_file :: "bytes result option"
  env_example_file :: "bytes result option"

definition diagnostics_entry :: "http_reply result \<Rightarrow> entry" where
  "diagnostics_entry reply =
     (case bindR reply (\<lambda>resp.
        if status_code resp = 200 then bindR (reply_json resp) (\<lambda>j. Inr (''diagnostics.json'', Dumped j))
        else Inr (''diagnostics_error.txt'', Plain (''Error: HTTP '' @ int_str (status_code resp)))) of
        Inr en \<Rightarrow> en
      | Inl e \<Rightarrow> (''diagnostics_error.txt'', Plain (''Error: '' @ exn_str e)))"

definition health_entry :: "http_reply result \<Rightarrow> entry" where
  "health_entry reply =
     (case bindR reply reply_json of
        Inr j \<Rightarrow> (''health.json'', Dumped j)
      | Inl e \<Rightarrow> (''health_error.txt'', Plain (''Error: '' @ exn_str e)))"

definition safe_key :: "pystr \<Rightarrow> bool" where
  "safe_key key \<longleftrightarrow>
     \<not> contains (str_upper key) ''KEY'' \<and> \<not> contains (str_upper key) ''SECRET'' \<and>
     \<not> contains (str_upper key) ''PASSWORD''"

definition env_vars_safe :: "(pystr \<times> pystr) list \<Rightarrow> (pystr \<times> json) list" where
  "env_vars_safe env = map (\<lambda>(k, v). (k, JStr v)) (filter (\<lambda>(k, v). safe_key k) env)"

definition environment_entry :: "bundle_host \<Rightarrow> entry" where
  "environment_entry h =
     (''environment.json'', Dumped (JObj
        [(''timestamp'', JStr (bundle_timestamp h)), (''cwd'', JStr (bundle_cwd h)),
         (''python_version'', JStr (bundle_sys_version h)), (''env_vars_safe'', JObj (env_vars_safe (bundle_environ h)))]))"

definition file_entry :: "pystr \<Rightarrow> bytes result option \<Rightarrow> entry list" where
  "file_entry name f = (case f of Some (Inr b) \<Rightarrow> [(name, File b)] | _ \<Rightarrow> [])"

definition generate_support_bundle :: "bundle_host \<Rightarrow> pystr \<times> entry list" where
  "generate_support_bundle h =
     (''support_bundle_'' @ bundle_timestamp h @ ''.zip'',
      [diagnostics_entry (get_diagnostics_reply h), health_entry (get_health_reply h), environment_entry h]
      @ file_entry ''version.py'' (version_file h) @ file_entry ''env_example.txt'' (env_example_file h))"

section \<open>Properties\<close>

lemma str_upper_append: "str_upper (s @ t) = str_upper s @ str_upper t"
  by (simp add: str_upper_def)

text \<open>
  A name carries a mark when some part of it is one of the three words, in any spelling of upper and lower case.
\<close>

definition marked :: "pystr \<Rightarrow> bool" where
  "marked key \<longleftrightarrow> (\<exists>a w b. key = a @ w @ b \<and> str_upper w \<in> {''KEY'', ''SECRET'', ''PASSWORD''})"

lemma contains_upper: "contains (str_upper key) m \<longleftrightarrow> (\<exists>a w b. key = a @ w @ b \<and> str_upper w = m)"
proof
  assume "contains (str_upper key) m"
  then obtain a b where "str_upper key = a @ m @ b" unfolding contains_iff by blast
  then have "str_upper (take (length m) (drop (length a) key)) = m"
    by (simp add: str_upper_def flip: take_map drop_map)
  moreover have "key = take (length a) key @ take (length m) (drop (length a) key) @ drop (length m) (drop (length a) key)"
    by (simp only: append_take_drop_id)
  ultimately show "\<exists>a w b. key = a @ w @ b \<and> str_upper w = m" by blast
next
  assume "\<exists>a w b. key = a @ w @ b \<and> str_upper w = m"
  then show "contains (str_upper key) m" unfolding contains_iff by (elim exE conjE) (simp add: str_upper_append, blast)
qed

lemma safe_key_iff: "safe_key key \<longleftrightarrow> \<not> marked key"
  unfolding safe_key_def marked_def contains_upper by (simp only: insert_iff empty_iff) blast

lemma env_vars_safe_unmarked:
  "env_vars_safe env = map (\<lambda>(k, v). (k, JStr v)) (filter (\<lambda>(k, v). \<not> marked k) env)"
  by (simp add: env_vars_safe_def safe_key_iff)

lemma marked_part: "str_upper w \<in> {''KEY'', ''SECRET'', ''PASSWORD''} \<Longrightarrow> marked (a @ w @ b)"
  unfolding marked_def by blast

lemma diagnostics_entry_cases:
  "diagnostics_entry reply = (case reply of
     Inl e \<Rightarrow> (''diagnostics_error.txt'', Plain (''Error: '' @ exn_str e))
   | Inr resp \<Rightarrow>
       if status_code resp \<noteq> 200 then (''diagnostics_error.txt'', Plain (''Error: HTTP '' @ int_str (status_code resp)))
       else (case reply_json resp of
           Inl e \<Rightarrow> (''diagnostics_error.txt'', Plain (''Error: '' @ exn_str e))
         | Inr j \<Rightarrow> (''diagnostics.json'', Dumped j)))"
  by (simp add: diagnostics_entry_def bindR_def split: sum.split)

lemma health_entry_cases:
  "health_entry reply = (case reply of
     Inl e \<Rightarrow> (''health_error.txt'', Plain (''Error: '' @ exn_str e))
   | Inr resp \<Rightarrow> (case reply_json resp of
         Inl e \<Rightarrow> (''health_error.txt'', Plain (''Error: '' @ exn_str e))
       | Inr j \<Rightarrow> (''health.json'', Dumped j)))"
  by (simp add: health_entry_def bindR_def split: sum.split)

text \<open>
  Claim C40.  What the bundle contains.  The bundle is always produced.  Its first three entries are one for the
  diagnostics and one for the health report, each the engine's answer or the error that came instead, and
  \<^verbatim>\<open>environment.json\<close>, which holds the time, the working directory, the Python version and, in order and with their
  values unchanged, exactly the variables whose name has none of the three marks as a part, in any spelling of
  upper and lower case; after them come only the version file and the configuration template.  So variables such
  as \<^verbatim>\<open>LICENSE_KEY\<close> cannot leak: two environments that only differ in marked variables, in their values, number
  or presence, give the same bundle.
\<close>

theorem support_bundle_filter:
  "map fst (take 2 (snd (generate_support_bundle h))) \<in>
     {[d, s] | d s. d \<in> {''diagnostics.json'', ''diagnostics_error.txt''} \<and> s \<in> {''health.json'', ''health_error.txt''}} \<and>
   (\<forall>j. (''diagnostics.json'', Dumped j) \<in> set (snd (generate_support_bundle h)) \<longleftrightarrow>
      (\<exists>resp. get_diagnostics_reply h = Inr resp \<and> status_code resp = 200 \<and> reply_json resp = Inr j)) \<and>
   (\<forall>j. (''health.json'', Dumped j) \<in> set (snd (generate_support_bundle h)) \<longleftrightarrow>
      (\<exists>resp. get_health_reply h = Inr resp \<and> reply_json resp = Inr j)) \<and>
   (\<exists>files. drop 2 (snd (generate_support_bundle h)) =
      (''environment.json'', Dumped (JObj
        [(''timestamp'', JStr (bundle_timestamp h)), (''cwd'', JStr (bundle_cwd h)),
         (''python_version'', JStr (bundle_sys_version h)),
         (''env_vars_safe'', JObj (map (\<lambda>(k, v). (k, JStr v)) (filter (\<lambda>(k, v). \<not> marked k) (bundle_environ h))))]))
      # files \<and> subseq (map fst files) [''version.py'', ''env_example.txt'']) \<and>
   (\<forall>env. filter (\<lambda>(k, v). \<not> marked k) env = filter (\<lambda>(k, v). \<not> marked k) (bundle_environ h) \<longrightarrow>
      generate_support_bundle (h\<lparr>bundle_environ := env\<rparr>) = generate_support_bundle h)"
proof (intro conjI allI impI)
  show "map fst (take 2 (snd (generate_support_bundle h))) \<in>
     {[d, s] | d s. d \<in> {''diagnostics.json'', ''diagnostics_error.txt''} \<and> s \<in> {''health.json'', ''health_error.txt''}}"
    by (simp add: generate_support_bundle_def diagnostics_entry_cases health_entry_cases split: sum.split)
  show "(''diagnostics.json'', Dumped j) \<in> set (snd (generate_support_bundle h)) \<longleftrightarrow>
      (\<exists>resp. get_diagnostics_reply h = Inr resp \<and> status_code resp = 200 \<and> reply_json resp = Inr j)" for j
    by (auto simp: generate_support_bundle_def diagnostics_entry_cases health_entry_cases environment_entry_def
        file_entry_def split: sum.splits option.splits if_splits)
  show "(''health.json'', Dumped j) \<in> set (snd (generate_support_bundle h)) \<longleftrightarrow>
      (\<exists>resp. get_health_reply h = Inr resp \<and> reply_json resp = Inr j)" for j
    by (auto simp: generate_support_bundle_def diagnostics_entry_cases health_entry_cases environment_entry_def
        file_entry_def split: sum.splits option.splits if_splits)
  let ?files = "file_entry ''version.py'' (version_file h) @ file_entry ''env_example.txt'' (env_example_file h)"
  have "drop 2 (snd (generate_support_bundle h)) = environment_entry h # ?files"
    by (simp add: generate_support_bundle_def)
  moreover have "subseq (map fst ?files) [''version.py'', ''env_example.txt'']"
    by (simp add: file_entry_def split: option.split sum.split)
  ultimately show "\<exists>files. drop 2 (snd (generate_support_bundle h)) =
      (''environment.json'', Dumped (JObj
        [(''timestamp'', JStr (bundle_timestamp h)), (''cwd'', JStr (bundle_cwd h)),
         (''python_version'', JStr (bundle_sys_version h)),
         (''env_vars_safe'', JObj (map (\<lambda>(k, v). (k, JStr v)) (filter (\<lambda>(k, v). \<not> marked k) (bundle_environ h))))]))
      # files \<and> subseq (map fst files) [''version.py'', ''env_example.txt'']"
    by (intro exI [of _ ?files]) (simp add: environment_entry_def env_vars_safe_unmarked)
  show "generate_support_bundle (h\<lparr>bundle_environ := env\<rparr>) = generate_support_bundle h"
    if "filter (\<lambda>(k, v). \<not> marked k) env = filter (\<lambda>(k, v). \<not> marked k) (bundle_environ h)" for env
    using that by (simp add: generate_support_bundle_def environment_entry_def env_vars_safe_unmarked)
qed

definition demo_bundle :: bundle_host where
  "demo_bundle = \<lparr>get_diagnostics_reply = Inl (OtherExn ''ConnectionError'' ''refused''),
     get_health_reply = Inl (OtherExn ''ConnectionError'' ''refused''),
     bundle_environ = [(''license_Key'', ''x''), (''PATH'', ''/bin'')], bundle_timestamp = ''20260130_120000'',
     bundle_cwd = ''/app'', bundle_sys_version = ''3.11.9'', version_file = None, env_example_file = None\<rparr>"

lemma demo_marks: "marked ''license_Key''" "\<not> marked ''PATH''"
proof -
  have "\<not> safe_key ''license_Key''" "safe_key ''PATH''" by code_simp+
  then show "marked ''license_Key''" "\<not> marked ''PATH''" by (simp_all add: safe_key_iff)
qed

theorem support_bundle_filter_witness:
  "generate_support_bundle (demo_bundle\<lparr>bundle_environ := [(''PATH'', ''/bin''), (''license_Key'', ''y'')]\<rparr>) =
     generate_support_bundle demo_bundle \<and>
   (\<exists>files. drop 2 (snd (generate_support_bundle demo_bundle)) =
      (''environment.json'', Dumped (JObj
        [(''timestamp'', JStr ''20260130_120000''), (''cwd'', JStr ''/app''), (''python_version'', JStr ''3.11.9''),
         (''env_vars_safe'', JObj [(''PATH'', JStr ''/bin'')])])) # files)"
proof -
  note f = support_bundle_filter [of demo_bundle]
  have "filter (\<lambda>(k, v). \<not> marked k) [(''PATH'', ''/bin''), (''license_Key'', ''y'')] =
      filter (\<lambda>(k, v). \<not> marked k) (bundle_environ demo_bundle)"
    by (simp add: demo_bundle_def demo_marks)
  then have "generate_support_bundle (demo_bundle\<lparr>bundle_environ := [(''PATH'', ''/bin''), (''license_Key'', ''y'')]\<rparr>) =
      generate_support_bundle demo_bundle"
    using f by (elim conjE allE impE)
  moreover from f obtain files where "drop 2 (snd (generate_support_bundle demo_bundle)) =
      (''environment.json'', Dumped (JObj
        [(''timestamp'', JStr (bundle_timestamp demo_bundle)), (''cwd'', JStr (bundle_cwd demo_bundle)),
         (''python_version'', JStr (bundle_sys_version demo_bundle)),
         (''env_vars_safe'', JObj (map (\<lambda>(k, v). (k, JStr v)) (filter (\<lambda>(k, v). \<not> marked k) (bundle_environ demo_bundle))))]))
      # files" by (elim conjE exE)
  then have "drop 2 (snd (generate_support_bundle demo_bundle)) =
      (''environment.json'', Dumped (JObj
        [(''timestamp'', JStr ''20260130_120000''), (''cwd'', JStr ''/app''), (''python_version'', JStr ''3.11.9''),
         (''env_vars_safe'', JObj [(''PATH'', JStr ''/bin'')])])) # files"
    by (simp add: demo_marks demo_bundle_def)
  ultimately show ?thesis by blast
qed

end
