(* ===== verification/Example_Client.thy ===== *)
theory Example_Client
  imports Api Jinja
begin

text \<open>
  The example client, \<^verbatim>\<open>examples/python/validate.py\<close>: it posts a file to the validation endpoint and prints the
  answer.  \<open>post\<close> is \<^verbatim>\<open>requests.post\<close>; the result is what is printed, line by line.
\<close>

section \<open>The script\<close>

text \<open>The lines for an answer with status 200.\<close>

definition print_report :: "(pystr \<Rightarrow> pystr) \<Rightarrow> json \<Rightarrow> pystr list result" where
  "print_report rep report =
     bindR (json_get ''valid'' report) (\<lambda>valid.
     bindR (json_get ''format'' report) (\<lambda>format.
     bindR (json_get ''errors'' report) (\<lambda>errs.
     Inr ([''Valid: '' @ out_text rep (Some valid), ''Format: '' @ out_text rep (Some format)] @
       (if \<not> json_truthy valid then [''Errors: '' @ out_text rep (Some errs)]
        else [''Success: File is a valid Factur-X/ZUGFeRD invoice.''])))))"

definition print_response :: "(pystr \<Rightarrow> pystr) \<Rightarrow> http_reply \<Rightarrow> pystr list result" where
  "print_response rep response =
     (if status_code response = 200 then bindR (reply_json response) (print_report rep)
      else Inr [''Error '' @ int_str (status_code response) @ '': '' @ reply_text response])"

definition client_validate ::
    "(pystr \<Rightarrow> pystr) \<Rightarrow> (bytes \<Rightarrow> http_reply result) \<Rightarrow> pystr \<Rightarrow> bytes result option \<Rightarrow> pystr list" where
  "client_validate rep post file_path file =
     (case file of
        None \<Rightarrow> [''Error: File '' @ quoted file_path @ '' not found.'']
      | Some content \<Rightarrow>
          (case bindR content (\<lambda>b. bindR (post b) (print_response rep)) of
             Inr printed \<Rightarrow> printed
           | Inl e \<Rightarrow> [''Connection Error: '' @ exn_str e, ''Make sure Docker container is running on port 8000'']))"

text \<open>\<^verbatim>\<open>python validate.py ARGS\<close>: the exit status and the lines.\<close>

definition client_main ::
    "(pystr \<Rightarrow> pystr) \<Rightarrow> (bytes \<Rightarrow> http_reply result) \<Rightarrow> (pystr \<Rightarrow> bytes result option) \<Rightarrow> pystr list \<Rightarrow> int \<times> pystr list" where
  "client_main rep post file_system args =
     (case args of
        [] \<Rightarrow> (1, [''Usage: python validate.py <file.pdf>''])
      | a # as \<Rightarrow> (0, client_validate rep post a (file_system a)))"

section \<open>Against the engine\<close>

text \<open>
  The answers of the validation endpoint: the report as JSON, or FastAPI's answer to an \<^verbatim>\<open>HTTPException\<close>, whose
  detail stands under the key \<^verbatim>\<open>detail\<close>.  \<open>dumps\<close> is the encoder.
\<close>

definition ValidationResult_json :: "ValidationReport \<Rightarrow> json" where
  "ValidationResult_json r =
     JObj [(''valid'', JBool (valid r)), (''format'', opt_json (v_format r)), (''flavor'', opt_json (v_flavor r)),
       (''errors'', JArr (map JStr (v_errors r))), (''validation_mode'', opt_json (validation_mode r))]"

fun detail_json :: "detail \<Rightarrow> json" where
  "detail_json (Detail e m) = JObj [(''error'', JStr e), (''message'', JStr m)]"
| "detail_json (DetailText t) = JStr t"

definition reply_of :: "(json \<Rightarrow> pystr) \<Rightarrow> int \<Rightarrow> json \<Rightarrow> http_reply" where
  "reply_of dumps status j = \<lparr>status_code = status, reply_text = dumps j, reply_json = Inr j\<rparr>"

fun answer_of_result :: "(json \<Rightarrow> pystr) \<Rightarrow> ValidationReport result \<Rightarrow> http_reply" where
  "answer_of_result dumps (Inr r) = reply_of dumps 200 (ValidationResult_json r)"
| "answer_of_result dumps (Inl (HTTPExn status d)) = reply_of dumps status (JObj [(''detail'', detail_json d)])"
| "answer_of_result dumps (Inl e) = reply_of dumps 500 (JObj [(''detail'', JStr ''Internal Server Error'')])"

lemma print_report_answer:
  "print_report rep (ValidationResult_json r) =
     Inr ([''Valid: '' @ (if valid r then ''True'' else ''False''), ''Format: '' @ get_or (v_format r) ''None''] @
       (if valid r then [''Success: File is a valid Factur-X/ZUGFeRD invoice.'']
        else [''Errors: ['' @ join '', '' (map rep (v_errors r)) @ '']'']))"
  by (cases "v_format r")
    (simp_all add: print_report_def ValidationResult_json_def out_text_def opt_json_def comp_def)

text \<open>
  Against the engine the client prints the success line exactly for the files the endpoint calls valid, and for
  the others all the messages of the report; it never reports a connection error.
\<close>

lemma client_verdict:
  assumes "\<And>b. post b = Inr (answer_of_result dumps (fst (snd (validate_facturx A clk \<lparr>filename = Some n, file_read = Inr b\<rparr> st))))"
    and "fst (snd (validate_facturx A clk \<lparr>filename = Some n, file_read = Inr b\<rparr> st)) = Inr r"
  shows "client_validate rep post n (Some (Inr b)) =
    [''Valid: '' @ (if valid r then ''True'' else ''False''), ''Format: '' @ get_or (v_format r) ''None''] @
    (if valid r then [''Success: File is a valid Factur-X/ZUGFeRD invoice.'']
     else [''Errors: ['' @ join '', '' (map rep (v_errors r)) @ '']''])"
  by (simp add: client_validate_def assms print_response_def reply_of_def print_report_answer)

lemma client_verdict_example:
  "last (client_validate quoted (\<lambda>b. Inr (answer_of_result (\<lambda>j. []) (Inr \<lparr>valid = False, v_format = Some ''factur-x'',
     v_flavor = None, v_errors = [''a'', ''b''], validation_mode = None\<rparr>))) ''f.pdf'' (Some (Inr ''%PDF''))) =
   ''Errors: ['' @ quoted ''a'' @ '', '' @ quoted ''b'' @ '']''"
  by (simp add: client_validate_def print_response_def reply_of_def print_report_answer)

end
