(* ===== verification/Tree_Reader.thy ===== *)
theory Tree_Reader
  imports Xml_Tree Extractor
begin

text \<open>
  The XML package on one document: its XPath queries answer as path selection in the document's tree
  does, and its parser reads back what \<open>xml_text\<close> prints when no text of the document has markup in it.
  The locales state this of the package; the package that works on trees directly meets them.  Reading
  an invoice through any such package is reading its tree.
\<close>

section \<open>Expressions\<close>

text \<open>
  \<^verbatim>\<open>//a/b\<close> starts at the document, \<^verbatim>\<open>.//a/b\<close> at the element; a last step \<^verbatim>\<open>@k\<close> asks for an attribute.  The
  other forms of the language are not read.
\<close>

definition read_query :: "pystr \<Rightarrow> (bool \<times> path \<times> pystr option) option" where
  "read_query s =
     (case split_on (CHR ''/'') s of
        [] \<Rightarrow> None
      | w # ws \<Rightarrow>
          (let att = (if ws \<noteq> [] \<and> startswith (last ws) ''@'' then Some (tl (last ws)) else None);
               steps = (if att = None then ws else butlast ws) in
           (if steps \<noteq> [] \<and> (w = [] \<or> w = ''.'')
            then map_option (\<lambda>p. (w = [], p, att)) (read_steps Child steps) else None)))"

fun kids :: "xml \<Rightarrow> xml list" where
  "kids (Elem t as cs) = cs"
| "kids (Txt s) = []"

definition tree_query :: "xml \<Rightarrow> bool \<times> path \<times> pystr option \<Rightarrow> xml \<Rightarrow> xml xnode list" where
  "tree_query doc q el =
     (case q of (whole, p, att) \<Rightarrow>
        (let ns = select [p] (if whole then [doc] else kids el) in
         (case att of
            None \<Rightarrow> map XEl ns
          | Some k \<Rightarrow> map XStr (concat (map (\<lambda>n. case tree_attr n k of None \<Rightarrow> [] | Some v \<Rightarrow> [v]) ns)))))"

text \<open>The prefixes of a query are those of the document.\<close>

definition declares :: "xml \<Rightarrow> nsmap \<Rightarrow> bool" where
  "declares doc ns \<longleftrightarrow> list_all (\<lambda>(p, u). tree_attr doc (''xmlns:'' @ p) = Some u) ns"

section \<open>The package on a document\<close>

text \<open>
  \<open>inside\<close> is true of the elements of one parsed document, whose tree is \<open>doc\<close>: the laws speak of these only, and
  a query from one of them finds elements of the same document.
\<close>

locale tree_reader =
  fixes X :: "'x lxml" and node :: "'x \<Rightarrow> xml" and doc :: xml and inside :: "'x \<Rightarrow> bool"
  assumes xpath_tree: "inside x \<Longrightarrow> declares doc ns \<Longrightarrow> read_query s = Some q \<Longrightarrow>
      \<exists>rs. xpath X ns s x = Inr rs \<and> map (map_xnode node) rs = tree_query doc q (node x) \<and>
        (\<forall>y. XEl y \<in> set rs \<longrightarrow> inside y)"
    and text_tree: "inside x \<Longrightarrow> el_text X x = tree_text (node x)"

locale document_reader = tree_reader +
  assumes parse_tree: "well_formed doc \<Longrightarrow> plain_tree doc \<Longrightarrow>
      \<exists>x. fromstring X (xml_prolog @ xml_text doc) = Inr x \<and> inside x \<and> node x = doc"

text \<open>The package whose elements are trees.\<close>

definition tree_lxml :: "xml \<Rightarrow> xml lxml" where
  "tree_lxml doc =
     \<lparr>fromstring = (\<lambda>b. if b = xml_prolog @ xml_text doc then Inr doc else Inl (OtherExn ''XMLSyntaxError'' [])),
      xpath = (\<lambda>ns s el. case read_query s of
          None \<Rightarrow> Inl (OtherExn ''XPathEvalError'' [])
        | Some q \<Rightarrow> Inr (tree_query doc q el)),
      el_text = tree_text, el_attr = tree_attr\<rparr>"

interpretation tree_lib: document_reader "tree_lxml doc" "\<lambda>t. t" doc "\<lambda>t. True"
  by unfold_locales (simp_all add: tree_lxml_def xnode.map_id0 [unfolded id_def])

section \<open>Reading through the package\<close>

text \<open>The queries of the extraction service are all of the forms above.\<close>

definition readable_queries :: "pystr list \<Rightarrow> bool" where
  "readable_queries qs \<longleftrightarrow> list_all (\<lambda>s. read_query s \<noteq> None) qs"

context tree_reader
begin

lemma xpath_same:
  assumes "inside x" and "declares doc ns" and "read_query s \<noteq> None"
  obtains rs where "xpath X ns s x = Inr rs" "xpath (tree_lxml doc) ns s (node x) = Inr (map (map_xnode node) rs)"
    "\<forall>y. XEl y \<in> set rs \<longrightarrow> inside y"
  using assms(3) xpath_tree [OF assms(1,2), of s] by (auto simp: tree_lxml_def)

lemma value_same: "(\<And>y. v = XEl y \<Longrightarrow> inside y) \<Longrightarrow> node_value X v = node_value (tree_lxml doc) (map_xnode node v)"
  by (cases v) (simp_all add: text_tree tree_lxml_def)

lemma first_same:
  assumes "inside x" and "declares doc ns" and "readable_queries qs"
  shows "xpath_first X ns (XEl x) qs = xpath_first (tree_lxml doc) ns (XEl (node x)) qs"
  using assms(3)
proof (induction qs)
  case (Cons s qs)
  then have q: "read_query s \<noteq> None" "readable_queries qs" by (simp_all add: readable_queries_def)
  obtain rs where "xpath X ns s x = Inr rs" "xpath (tree_lxml doc) ns s (node x) = Inr (map (map_xnode node) rs)"
    "\<forall>y. XEl y \<in> set rs \<longrightarrow> inside y"
    by (rule xpath_same [OF assms(1,2) q(1)])
  with Cons.IH [OF q(2)] show ?case by (cases rs) (simp_all add: value_same)
qed simp

lemma or_same:
  "inside x \<Longrightarrow> declares doc ns \<Longrightarrow> readable_queries qs \<Longrightarrow>
    xpath_or X ns (XEl x) qs d = xpath_or (tree_lxml doc) ns (XEl (node x)) qs d"
  by (simp only: xpath_or_def first_same)

end

lemma service_queries:
  "readable_queries [''.//ram:SpecifiedTradeProduct/ram:Name'']"
  "readable_queries [''.//ram:BilledQuantity'']"
  "readable_queries [''.//ram:SpecifiedLineTradeAgreement/ram:NetPriceProductTradePrice/ram:ChargeAmount'',
     ''.//ram:NetPriceProductTradePrice/ram:ChargeAmount'', ''.//ram:GrossPriceProductTradePrice/ram:ChargeAmount'']"
  "readable_queries line_total_paths"
  "readable_queries [''.//ram:SpecifiedLineTradeSettlement/ram:ApplicableTradeTax/ram:RateApplicablePercent'',
     ''.//ram:ApplicableTradeTax/ram:RateApplicablePercent'']"
  "readable_queries [''.//ram:BilledQuantity/@unitCode'']"
  "readable_queries net_total_paths"
  "readable_queries [''//ram:ApplicableHeaderTradeSettlement/ram:SpecifiedTradeSettlementHeaderMonetarySummation/ram:TaxTotalAmount'',
     ''//ram:SpecifiedTradeSettlementMonetarySummation/ram:TaxTotalAmount'']"
  "readable_queries [''//ram:ApplicableHeaderTradeSettlement/ram:SpecifiedTradeSettlementHeaderMonetarySummation/ram:GrandTotalAmount'',
     ''//ram:SpecifiedTradeSettlementMonetarySummation/ram:GrandTotalAmount'']"
  "readable_queries [''//ram:ApplicableHeaderTradeSettlement/ram:SpecifiedTradeSettlementHeaderMonetarySummation/ram:DuePayableAmount'',
     ''//ram:SpecifiedTradeSettlementMonetarySummation/ram:DuePayableAmount'']"
  "readable_queries [''//rsm:ExchangedDocument/ram:ID'', ''//rsm:HeaderExchangedDocument/ram:ID'']"
  "readable_queries [''//rsm:ExchangedDocument/ram:IssueDateTime/udt:DateTimeString'',
     ''//rsm:HeaderExchangedDocument/ram:IssueDateTime/udt:DateTimeString'', ''//ram:IssueDateTime/udt:DateTimeString'']"
  "readable_queries [''//ram:InvoiceCurrencyCode'']"
  "readable_queries [''//ram:IncludedSupplyChainTradeLineItem'']"
  by code_simp+

text \<open>The queries of a party.\<close>

lemma party_queries:
  assumes "p \<in> {''SellerTradeParty'', ''BuyerTradeParty''}"
  shows "readable_queries [(''//ram:'' @ p) @ ''/ram:Name'']"
    "readable_queries [(''//ram:'' @ p) @ ''//ram:SpecifiedTaxRegistration/ram:ID'']"
    "readable_queries [((''//ram:'' @ p) @ ''/ram:PostalTradeAddress/ram:'') @ ''LineOne'']"
    "readable_queries [((''//ram:'' @ p) @ ''/ram:PostalTradeAddress/ram:'') @ ''CityName'']"
    "readable_queries [((''//ram:'' @ p) @ ''/ram:PostalTradeAddress/ram:'') @ ''PostcodeCode'']"
    "readable_queries [((''//ram:'' @ p) @ ''/ram:PostalTradeAddress/ram:'') @ ''CountryID'']"
proof -
  have "\<forall>p \<in> set [''SellerTradeParty'', ''BuyerTradeParty'']. readable_queries
     [(''//ram:'' @ p) @ ''/ram:Name'', (''//ram:'' @ p) @ ''//ram:SpecifiedTaxRegistration/ram:ID'',
      ((''//ram:'' @ p) @ ''/ram:PostalTradeAddress/ram:'') @ ''LineOne'',
      ((''//ram:'' @ p) @ ''/ram:PostalTradeAddress/ram:'') @ ''CityName'',
      ((''//ram:'' @ p) @ ''/ram:PostalTradeAddress/ram:'') @ ''PostcodeCode'',
      ((''//ram:'' @ p) @ ''/ram:PostalTradeAddress/ram:'') @ ''CountryID'']"
    by code_simp
  then show "readable_queries [(''//ram:'' @ p) @ ''/ram:Name'']"
    "readable_queries [(''//ram:'' @ p) @ ''//ram:SpecifiedTaxRegistration/ram:ID'']"
    "readable_queries [((''//ram:'' @ p) @ ''/ram:PostalTradeAddress/ram:'') @ ''LineOne'']"
    "readable_queries [((''//ram:'' @ p) @ ''/ram:PostalTradeAddress/ram:'') @ ''CityName'']"
    "readable_queries [((''//ram:'' @ p) @ ''/ram:PostalTradeAddress/ram:'') @ ''PostcodeCode'']"
    "readable_queries [((''//ram:'' @ p) @ ''/ram:PostalTradeAddress/ram:'') @ ''CountryID'']"
    using assms unfolding readable_queries_def by auto
qed

context tree_reader
begin

lemma line_same:
  "inside x \<Longrightarrow> declares doc ns \<Longrightarrow> parse_line X ns (XEl x) = parse_line (tree_lxml doc) ns (XEl (node x))"
  by (simp only: parse_line_def first_same or_same service_queries)

lemma lines_same:
  "list_all inside xs \<Longrightarrow> declares doc ns \<Longrightarrow>
    parse_lines X ns (map XEl xs) t = parse_lines (tree_lxml doc) ns (map (\<lambda>x. XEl (node x)) xs) t"
  by (induction xs arbitrary: t) (simp_all only: list.map parse_lines.simps line_same list.pred_inject)

lemma totals_same:
  "inside x \<Longrightarrow> declares doc ns \<Longrightarrow> parse_totals X ns (XEl x) t = parse_totals (tree_lxml doc) ns (XEl (node x)) t"
  by (simp only: parse_totals_def first_same service_queries)

lemma party_same:
  "inside x \<Longrightarrow> declares doc ns \<Longrightarrow> p \<in> {''SellerTradeParty'', ''BuyerTradeParty''} \<Longrightarrow>
    parse_party X ns (XEl x) p = parse_party (tree_lxml doc) ns (XEl (node x)) p"
  by (simp only: parse_party_def Let_def or_same party_queries)

lemma items_elements:
  assumes "map (map_xnode node) rs = map XEl ts"
  obtains xs where "rs = map XEl xs" "ts = map node xs"
proof -
  have "\<exists>xs. rs = map XEl xs \<and> ts = map node xs"
    using assms
  proof (induction rs arbitrary: ts)
    case (Cons r rs)
    then obtain t ts' where ts: "ts = t # ts'" "map_xnode node r = XEl t" "map (map_xnode node) rs = map XEl ts'" by auto
    from Cons.IH [OF ts(3)] obtain xs where "rs = map XEl xs" "ts' = map node xs" by blast
    with ts show ?case by (cases r) (auto intro!: exI [of _ "_ # xs"])
  qed simp
  with that show thesis by blast
qed

lemma invoice_same:
  assumes "inside x" and "declares doc (namespaces_of flavor)"
  shows "parse_demo_invoice X x flavor fn = parse_demo_invoice (tree_lxml doc) (node x) flavor fn"
proof -
  let ?ns = "namespaces_of flavor" and ?q = "''//ram:IncludedSupplyChainTradeLineItem''"
  have "read_query ?q = Some (True, [(Desc, ''ram:IncludedSupplyChainTradeLineItem'')], None)" by code_simp
  from xpath_tree [OF assms this] obtain rs where rs: "xpath X ?ns ?q x = Inr rs"
    "map (map_xnode node) rs = map XEl (select [[(Desc, ''ram:IncludedSupplyChainTradeLineItem'')]] [doc])"
    and within: "\<forall>y. XEl y \<in> set rs \<longrightarrow> inside y"
    by (auto simp: tree_query_def Let_def)
  from items_elements [OF rs(2)] obtain xs where xs: "rs = map XEl xs"
    "select [[(Desc, ''ram:IncludedSupplyChainTradeLineItem'')]] [doc] = map node xs" .
  have "list_all inside xs" using within by (auto simp: xs(1) list_all_iff)
  then have ls: "list_all inside (take 10 xs)" by (auto simp: list_all_iff dest: in_set_takeD)
  have t: "xpath (tree_lxml doc) ?ns ?q (node x) = Inr (map (\<lambda>x. XEl (node x)) xs)"
    using rs(2) \<open>read_query ?q = _\<close> by (simp add: tree_lxml_def tree_query_def Let_def xs comp_def)
  have w: "line_warnings flavor (map XEl xs) = line_warnings flavor (map (\<lambda>x. XEl (node x)) xs)"
    by (simp add: line_warnings_def)
  show ?thesis
    unfolding parse_demo_invoice_def Let_def rs(1) t xs(1) bindR_simps take_map w
    by (simp only: first_same [OF assms] or_same [OF assms] lines_same [OF ls assms(2)] totals_same [OF assms]
        party_same [OF assms] service_queries insert_iff simp_thms)
qed

end

end
