(* ===== verification/Invoice_Tree.thy ===== *)
theory Invoice_Tree
  imports Template Tree_Reader
begin

text \<open>
  What the queries of the extraction service find in the document the template renders: one lemma per
  query, on the document and on each of its lines.  The proofs evaluate the selection on the template,
  passing over the parts in which the first name of the query does not occur.
\<close>

section \<open>Parts a query passes over\<close>

definition full :: "pystr \<Rightarrow> pystr option" where
  "full s = (if s = [] then None else Some s)"

named_theorems tag_facts \<open>names that do not occur in a part\<close>

lemma no_seller [tag_facts]:
  "''ram:SellerTradeParty'' \<notin> set (tags_of t_context)" "''ram:SellerTradeParty'' \<notin> set (tags_of t_document)"
  "''ram:SellerTradeParty'' \<notin> set (tags_of t_lines)" "''ram:SellerTradeParty'' \<notin> set (tags_of t_buyer)"
  "''ram:SellerTradeParty'' \<notin> set (tags_of t_delivery)" "''ram:SellerTradeParty'' \<notin> set (tags_of t_settlement)"
  by code_simp+

lemma no_buyer [tag_facts]:
  "''ram:BuyerTradeParty'' \<notin> set (tags_of t_context)" "''ram:BuyerTradeParty'' \<notin> set (tags_of t_document)"
  "''ram:BuyerTradeParty'' \<notin> set (tags_of t_lines)" "''ram:BuyerTradeParty'' \<notin> set (tags_of t_seller)"
  "''ram:BuyerTradeParty'' \<notin> set (tags_of t_delivery)" "''ram:BuyerTradeParty'' \<notin> set (tags_of t_settlement)"
  by code_simp+

lemma no_document [tag_facts]:
  "''rsm:ExchangedDocument'' \<notin> set (tags_of t_context)" "''rsm:ExchangedDocument'' \<notin> set (tags_of t_transaction)"
  "''rsm:ExchangedDocument'' \<notin> set (tags_of t_notes)"
  by code_simp+

lemma no_item [tag_facts]:
  "''ram:IncludedSupplyChainTradeLineItem'' \<notin> set (tags_of t_context)"
  "''ram:IncludedSupplyChainTradeLineItem'' \<notin> set (tags_of t_document)"
  "''ram:IncludedSupplyChainTradeLineItem'' \<notin> set (tags_of t_agreement)"
  "''ram:IncludedSupplyChainTradeLineItem'' \<notin> set (tags_of t_delivery)"
  "''ram:IncludedSupplyChainTradeLineItem'' \<notin> set (tags_of t_settlement)"
  "''ram:IncludedSupplyChainTradeLineItem'' \<notin> set (tags_of t_product)"
  "''ram:IncludedSupplyChainTradeLineItem'' \<notin> set (tags_of t_line_agreement)"
  "''ram:IncludedSupplyChainTradeLineItem'' \<notin> set (tags_of t_line_settlement)"
  by code_simp+

lemma no_settlement [tag_facts]:
  "''ram:ApplicableHeaderTradeSettlement'' \<notin> set (tags_of t_context)"
  "''ram:ApplicableHeaderTradeSettlement'' \<notin> set (tags_of t_document)"
  "''ram:ApplicableHeaderTradeSettlement'' \<notin> set (tags_of t_lines)"
  "''ram:ApplicableHeaderTradeSettlement'' \<notin> set (tags_of t_agreement)"
  "''ram:ApplicableHeaderTradeSettlement'' \<notin> set (tags_of t_delivery)"
  by code_simp+

lemma no_currency [tag_facts]:
  "''ram:InvoiceCurrencyCode'' \<notin> set (tags_of t_context)" "''ram:InvoiceCurrencyCode'' \<notin> set (tags_of t_document)"
  "''ram:InvoiceCurrencyCode'' \<notin> set (tags_of t_lines)" "''ram:InvoiceCurrencyCode'' \<notin> set (tags_of t_agreement)"
  "''ram:InvoiceCurrencyCode'' \<notin> set (tags_of t_delivery)" "''ram:InvoiceCurrencyCode'' \<notin> set (tags_of t_payment_means)"
  "''ram:InvoiceCurrencyCode'' \<notin> set (tags_of t_taxes)" "''ram:InvoiceCurrencyCode'' \<notin> set (tags_of t_allowances)"
  "''ram:InvoiceCurrencyCode'' \<notin> set (tags_of t_charges)" "''ram:InvoiceCurrencyCode'' \<notin> set (tags_of t_payment_terms)"
  "''ram:InvoiceCurrencyCode'' \<notin> set (tags_of t_summation)"
  by code_simp+

lemma no_settlement_parts [tag_facts]:
  "''ram:ApplicableHeaderTradeSettlement'' \<notin> set (tags_of t_payment_means)"
  "''ram:ApplicableHeaderTradeSettlement'' \<notin> set (tags_of t_taxes)"
  "''ram:ApplicableHeaderTradeSettlement'' \<notin> set (tags_of t_allowances)"
  "''ram:ApplicableHeaderTradeSettlement'' \<notin> set (tags_of t_charges)"
  "''ram:ApplicableHeaderTradeSettlement'' \<notin> set (tags_of t_payment_terms)"
  "''ram:SpecifiedTradeSettlementHeaderMonetarySummation'' \<notin> set (tags_of t_payment_means)"
  "''ram:SpecifiedTradeSettlementHeaderMonetarySummation'' \<notin> set (tags_of t_taxes)"
  "''ram:SpecifiedTradeSettlementHeaderMonetarySummation'' \<notin> set (tags_of t_allowances)"
  "''ram:SpecifiedTradeSettlementHeaderMonetarySummation'' \<notin> set (tags_of t_charges)"
  "''ram:SpecifiedTradeSettlementHeaderMonetarySummation'' \<notin> set (tags_of t_payment_terms)"
  by code_simp+

lemma select_skip2 [sel_simps]:
  assumes "n \<notin> set (tags_of t)" and "n' \<notin> set (tags_of t)"
  shows "select [(ax, n) # q, (ax', n') # q'] (trees rep c (t # ts)) = select [(ax, n) # q, (ax', n') # q'] (trees rep c ts)"
proof -
  have "select [(ax, n) # q, (ax', n') # q'] (trees rep c [t]) = []"
    by (rule select_absent [OF trees_tags]) (use assms in \<open>simp add: tags_of_def\<close>)
  then show ?thesis by (subst trees_Cons) (simp add: select_append)
qed

section \<open>The document\<close>

definition found :: "(pystr \<Rightarrow> pystr) \<Rightarrow> InvoiceMetadata \<Rightarrow> path \<Rightarrow> pystr option list" where
  "found rep m p = map tree_text (select [p] (trees rep (model_dump m) [t_invoice]))"

lemmas found_simps = found_def t_invoice_def t_transaction_def sel_simps tag_facts

lemmas text_simps = trees.simps val_def ctx_simps full_def Let_def

lemma found_document:
  "found rep m [(Desc, ''rsm:ExchangedDocument''), (Child, ''ram:ID'')] = [full (md_invoice_number m)]"
  "found rep m [(Desc, ''rsm:ExchangedDocument''), (Child, ''ram:IssueDateTime''), (Child, ''udt:DateTimeString'')] =
     [full (issue_date m)]"
  by (simp add: found_def t_invoice_def sel_simps tag_facts t_document_def t_notes_def cong: if_cong; simp add: text_simps)+

lemma found_currency: "found rep m [(Desc, ''ram:InvoiceCurrencyCode'')] = [full (currency_code m)]"
  by (simp add: found_simps t_settlement_def cong: if_cong; simp add: text_simps)

abbreviation total_path :: "pystr \<Rightarrow> path" where
  "total_path n \<equiv> [(Desc, ''ram:ApplicableHeaderTradeSettlement''),
     (Child, ''ram:SpecifiedTradeSettlementHeaderMonetarySummation''), (Child, n)]"

lemma found_totals:
  "found rep m (total_path ''ram:TaxBasisTotalAmount'') = [full (tax_basis_total (amounts m))]"
  "found rep m (total_path ''ram:TaxTotalAmount'') = [full (tax_total (amounts m))]"
  "found rep m (total_path ''ram:GrandTotalAmount'') = [full (grand_total (amounts m))]"
  "found rep m (total_path ''ram:DuePayableAmount'') = [full (due_payable (amounts m))]"
  by (simp add: found_simps t_settlement_def t_summation_def cong: if_cong; simp add: text_simps)+

section \<open>The parties\<close>

text \<open>\<^verbatim>\<open>s or d\<close> on texts.\<close>

definition or_text :: "pystr \<Rightarrow> pystr \<Rightarrow> pystr" where
  "or_text s d = (if s = [] then d else s)"

lemmas party_simps = text_simps truthy_def opt_truthy_def or_text_def

lemma found_seller_name: "found rep m [(Desc, ''ram:SellerTradeParty''), (Child, ''ram:Name'')] = [full (seller_name (md_seller m))]"
  by (simp add: found_simps t_agreement_def t_seller_def cong: if_cong; simp add: text_simps)

lemma found_seller_registration:
  "found rep m [(Desc, ''ram:SellerTradeParty''), (Desc, ''ram:SpecifiedTaxRegistration''), (Child, ''ram:ID'')] =
     filter truthy [seller_vat_number (md_seller m), seller_tax_number (md_seller m)]"
  by (simp add: found_simps t_agreement_def t_seller_def cong: if_cong; cases "seller_vat_number (md_seller m)"; cases "seller_tax_number (md_seller m)"; simp add: party_simps)

lemma found_seller_address:
  "found rep m [(Desc, ''ram:SellerTradeParty''), (Child, ''ram:PostalTradeAddress''), (Child, ''ram:LineOne'')] =
     (case seller_address (md_seller m) of None \<Rightarrow> [] | Some a \<Rightarrow> [Some (or_text (line1 a) ''Street'')])"
  "found rep m [(Desc, ''ram:SellerTradeParty''), (Child, ''ram:PostalTradeAddress''), (Child, ''ram:CityName'')] =
     (case seller_address (md_seller m) of None \<Rightarrow> [] | Some a \<Rightarrow> [Some (or_text (city a) ''City'')])"
  "found rep m [(Desc, ''ram:SellerTradeParty''), (Child, ''ram:PostalTradeAddress''), (Child, ''ram:PostcodeCode'')] =
     (case seller_address (md_seller m) of None \<Rightarrow> [] | Some a \<Rightarrow> if postcode a = [] then [] else [Some (postcode a)])"
  "found rep m [(Desc, ''ram:SellerTradeParty''), (Child, ''ram:PostalTradeAddress''), (Child, ''ram:CountryID'')] =
     [Some (case seller_address (md_seller m) of None \<Rightarrow> ''FR'' | Some a \<Rightarrow> or_text (country_code a) ''FR'')]"
  by (simp add: found_simps t_agreement_def t_seller_def cong: if_cong; cases "seller_address (md_seller m)"; simp add: party_simps)+

lemma found_buyer_name: "found rep m [(Desc, ''ram:BuyerTradeParty''), (Child, ''ram:Name'')] = [full (buyer_name (md_buyer m))]"
  by (simp add: found_simps t_agreement_def t_buyer_def cong: if_cong; simp add: text_simps)

lemma found_buyer_registration:
  "found rep m [(Desc, ''ram:BuyerTradeParty''), (Desc, ''ram:SpecifiedTaxRegistration''), (Child, ''ram:ID'')] =
     filter truthy [buyer_vat_number (md_buyer m)]"
  by (simp add: found_simps t_agreement_def t_buyer_def cong: if_cong; cases "buyer_vat_number (md_buyer m)"; simp add: party_simps)

lemma found_buyer_address:
  "found rep m [(Desc, ''ram:BuyerTradeParty''), (Child, ''ram:PostalTradeAddress''), (Child, ''ram:LineOne'')] =
     (case buyer_address (md_buyer m) of None \<Rightarrow> [] | Some a \<Rightarrow> [Some (or_text (line1 a) ''Street'')])"
  "found rep m [(Desc, ''ram:BuyerTradeParty''), (Child, ''ram:PostalTradeAddress''), (Child, ''ram:CityName'')] =
     (case buyer_address (md_buyer m) of None \<Rightarrow> [] | Some a \<Rightarrow> [Some (or_text (city a) ''City'')])"
  "found rep m [(Desc, ''ram:BuyerTradeParty''), (Child, ''ram:PostalTradeAddress''), (Child, ''ram:PostcodeCode'')] =
     (case buyer_address (md_buyer m) of None \<Rightarrow> [] | Some a \<Rightarrow> if postcode a = [] then [] else [Some (postcode a)])"
  "found rep m [(Desc, ''ram:BuyerTradeParty''), (Child, ''ram:PostalTradeAddress''), (Child, ''ram:CountryID'')] =
     (case buyer_address (md_buyer m) of None \<Rightarrow> [] | Some a \<Rightarrow> [Some (or_text (country_code a) ''FR'')])"
  by (simp add: found_simps t_agreement_def t_buyer_def cong: if_cong; cases "buyer_address (md_buyer m)"; simp add: party_simps)+

section \<open>The lines\<close>

definition line_tree :: "(pystr \<Rightarrow> pystr) \<Rightarrow> InvoiceMetadata \<Rightarrow> InvoiceLine \<Rightarrow> xml" where
  "line_tree rep m l = hd (trees rep (line_ctx m l) [t_line])"

lemma found_lines:
  "select [[(Desc, ''ram:IncludedSupplyChainTradeLineItem'')]] [invoice_tree rep m] = map (line_tree rep m) (md_lines m)"
proof -
  have one: "select [[(Desc, ''ram:IncludedSupplyChainTradeLineItem'')]] (trees rep (line_ctx m l) [t_line, TWs (nl 0)]) =
      [line_tree rep m l]" for l
    by (simp add: line_tree_def t_line_def sel_simps tag_facts cong: if_cong) (simp add: trees.simps)
  have "items_of (model_dump m) (Var ''lines'') = map dump_line (md_lines m)"
    by (simp add: items_of_def val_def ctx_simps)
  then show ?thesis
    by (simp add: trees_invoice [symmetric] t_invoice_def t_transaction_def t_lines_def sel_simps tag_facts one comp_def)
qed

definition line_found :: "(pystr \<Rightarrow> pystr) \<Rightarrow> InvoiceMetadata \<Rightarrow> InvoiceLine \<Rightarrow> path \<Rightarrow> pystr option list" where
  "line_found rep m l p = map tree_text (select [p] (kids (line_tree rep m l)))"

lemma kids_line_tree: "kids (line_tree rep m l) = (case t_line of TElem t as b \<Rightarrow> trees rep (line_ctx m l) b | _ \<Rightarrow> [])"
  by (simp add: line_tree_def t_line_def trees.simps)

lemma no_line_name [tag_facts]:
  "''ram:SpecifiedTradeProduct'' \<notin> set (tags_of t_line_agreement)"
  "''ram:SpecifiedTradeProduct'' \<notin> set (tags_of t_line_settlement)"
  "''ram:BilledQuantity'' \<notin> set (tags_of t_product)"
  "''ram:BilledQuantity'' \<notin> set (tags_of t_line_agreement)"
  "''ram:BilledQuantity'' \<notin> set (tags_of t_line_settlement)"
  "''ram:SpecifiedLineTradeAgreement'' \<notin> set (tags_of t_product)"
  "''ram:SpecifiedLineTradeAgreement'' \<notin> set (tags_of t_line_settlement)"
  "''ram:SpecifiedLineTradeSettlement'' \<notin> set (tags_of t_product)"
  "''ram:SpecifiedLineTradeSettlement'' \<notin> set (tags_of t_line_agreement)"
  by code_simp+

lemma found_line_name: "line_found rep m l [(Desc, ''ram:SpecifiedTradeProduct''), (Child, ''ram:Name'')] = [full (line_name l)]"
  by (simp add: line_found_def kids_line_tree t_line_def t_product_def sel_simps tag_facts cong: if_cong; simp add: text_simps)

lemma found_line_quantity:
  "line_found rep m l [(Desc, ''ram:BilledQuantity'')] = [full (float_repr (line_quantity l))]"
  "map (\<lambda>n. tree_attr n ''unitCode'') (select [[(Desc, ''ram:BilledQuantity'')]] (kids (line_tree rep m l))) =
     [Some (line_unit_code l)]"
  by (simp add: line_found_def kids_line_tree t_line_def sel_simps tag_facts cong: if_cong; simp add: text_simps attrs_of_def)+

lemma found_line_price:
  "line_found rep m l [(Desc, ''ram:SpecifiedLineTradeAgreement''), (Child, ''ram:NetPriceProductTradePrice''),
     (Child, ''ram:ChargeAmount'')] = [full (money (net_price l))]"
  by (simp add: line_found_def kids_line_tree t_line_def t_line_agreement_def sel_simps tag_facts cong: if_cong;
      simp add: text_simps)

lemma found_line_settlement:
  "line_found rep m l [(Desc, ''ram:SpecifiedLineTradeSettlement''),
     (Child, ''ram:SpecifiedTradeSettlementLineMonetarySummation''), (Child, ''ram:LineTotalAmount'')] =
     [full (money (net_total l))]"
  "line_found rep m l [(Desc, ''ram:SpecifiedLineTradeSettlement''), (Child, ''ram:ApplicableTradeTax''),
     (Child, ''ram:RateApplicablePercent'')] = [full (money (line_vat_rate l))]"
  by (simp add: line_found_def kids_line_tree t_line_def t_line_settlement_def sel_simps tag_facts cong: if_cong;
      simp add: text_simps)+

end
