(* ===== verification/Round_Trip.thy ===== *)
theory Round_Trip
  imports Invoice_Tree Api
begin

text \<open>
  From the metadata of an invoice to the report the extraction service makes of the generated document:
  what is reported of each field, and the proof that generating and extracting give exactly that.  The
  packages in between enter through the locales of theory \<open>Tree_Reader\<close>.
\<close>

section \<open>The report of a generated invoice\<close>

text \<open>
  Empty texts come back as the defaults of the template or of the service, the registration is the VAT
  number or else the tax number, prices and amounts are those printed with two decimals.
\<close>

definition reported_party :: "pystr \<Rightarrow> pystr option list \<Rightarrow> Address option \<Rightarrow> pystr option \<Rightarrow> party" where
  "reported_party name registrations address no_address =
     \<lparr>party_name = name,
      party_vat = (case filter truthy registrations of Some v # vs \<Rightarrow> v | _ \<Rightarrow> []),
      addr_line = (case address of None \<Rightarrow> [] | Some a \<Rightarrow> or_text (line1 a) ''Street''),
      addr_city = (case address of None \<Rightarrow> [] | Some a \<Rightarrow> or_text (city a) ''City''),
      addr_postcode = (case address of None \<Rightarrow> [] | Some a \<Rightarrow> postcode a),
      addr_country = (case address of None \<Rightarrow> get_or no_address [] | Some a \<Rightarrow> or_text (country_code a) ''FR'')\<rparr>"

definition reported_seller :: "SellerInfo \<Rightarrow> party" where
  "reported_seller s =
     reported_party (seller_name s) [seller_vat_number s, seller_tax_number s] (seller_address s) (Some ''FR'')"

definition reported_buyer :: "BuyerInfo \<Rightarrow> party" where
  "reported_buyer b = reported_party (buyer_name b) [buyer_vat_number b] (buyer_address b) None"

definition reported_line :: "InvoiceLine \<Rightarrow> line_item" where
  "reported_line l =
     \<lparr>description = or_text (line_name l) ''Item'', quantity = float_repr (line_quantity l),
      unit_code = or_text (line_unit_code l) ''C62'', unit_price = money (net_price l),
      vat_rate = money (line_vat_rate l), line_total = money (net_total l)\<rparr>"

text \<open>An empty total is reported as the sum of the printed line totals, or of the other totals.\<close>

definition reported_totals :: "MonetaryAmounts \<Rightarrow> InvoiceLine list \<Rightarrow> invoice_totals" where
  "reported_totals a ls =
     totals_of (full (tax_basis_total a)) (full (tax_total a)) (full (grand_total a)) (full (due_payable a))
       (foldl fadd fzero (map (\<lambda>l. float_or (Some (money (net_total l))) fzero) ls))"

definition reported :: "InvoiceMetadata \<Rightarrow> pystr \<Rightarrow> pystr \<Rightarrow> invoice_data" where
  "reported m flavor fn =
     (let tot = reported_totals (amounts m) (take 10 (md_lines m)) in
      \<lparr>invoice_number = full (md_invoice_number m), invoice_date = full (issue_date m),
       currency = or_text (currency_code m) ''EUR'', seller = reported_seller (md_seller m),
       buyer = reported_buyer (md_buyer m), totals = tot,
       tax_breakdown = [\<lparr>te_vat_rate = ''REAL'', te_tax_amount = tax_amount tot, te_taxable_amount = net_amount tot\<rparr>],
       line_items = map reported_line (take 10 (md_lines m)), meta_filename = fn, meta_edition = ''community'',
       meta_warnings = (if md_lines m \<noteq> [] then [] else line_warnings flavor ([] :: xml xnode list))\<rparr>)"

definition wf_line :: "InvoiceLine \<Rightarrow> bool" where
  "wf_line l \<longleftrightarrow> list_all wf_float [line_quantity l, net_price l, net_total l, line_vat_rate l]"

section \<open>Queries through the package on trees\<close>

lemma or_default_or_text: "or_default (Some s) d = or_text s d" "or_default (full s) d = or_text s d" "or_default None d = d"
  by (simp_all add: or_default_def or_text_def full_def truthy_def)

lemma first_found:
  assumes "read_query q = Some (True, p, None)"
  shows "xpath_first (tree_lxml (invoice_tree rep m)) ns (XEl el) (q # qs) =
    (case found rep m p of [] \<Rightarrow> xpath_first (tree_lxml (invoice_tree rep m)) ns (XEl el) qs | v # vs \<Rightarrow> Inr v)"
proof -
  have "xpath (tree_lxml (invoice_tree rep m)) ns q el = Inr (map XEl (select [p] [invoice_tree rep m]))"
    by (simp add: tree_lxml_def assms tree_query_def)
  moreover have "el_text (tree_lxml (invoice_tree rep m)) = tree_text" by (simp add: tree_lxml_def)
  ultimately show ?thesis
    by (cases "select [p] [invoice_tree rep m]") (simp_all add: found_def trees_invoice)
qed

lemma first_line_found:
  assumes "read_query q = Some (False, p, None)"
  shows "xpath_first (tree_lxml doc) ns (XEl (line_tree rep m l)) (q # qs) =
    (case line_found rep m l p of [] \<Rightarrow> xpath_first (tree_lxml doc) ns (XEl (line_tree rep m l)) qs | v # vs \<Rightarrow> Inr v)"
proof -
  have "xpath (tree_lxml doc) ns q (line_tree rep m l) = Inr (map XEl (select [p] (kids (line_tree rep m l))))"
    by (simp add: tree_lxml_def assms tree_query_def)
  moreover have "el_text (tree_lxml doc) = tree_text" by (simp add: tree_lxml_def)
  ultimately show ?thesis
    by (cases "select [p] (kids (line_tree rep m l))") (simp_all add: line_found_def)
qed

named_theorems read_simps \<open>the expressions of the service\<close>

lemma read_document [read_simps]:
  "read_query ''//rsm:ExchangedDocument/ram:ID'' = Some (True, [(Desc, ''rsm:ExchangedDocument''), (Child, ''ram:ID'')], None)"
  "read_query ''//rsm:ExchangedDocument/ram:IssueDateTime/udt:DateTimeString'' =
     Some (True, [(Desc, ''rsm:ExchangedDocument''), (Child, ''ram:IssueDateTime''), (Child, ''udt:DateTimeString'')], None)"
  "read_query ''//ram:InvoiceCurrencyCode'' = Some (True, [(Desc, ''ram:InvoiceCurrencyCode'')], None)"
  "read_query ''//ram:IncludedSupplyChainTradeLineItem'' = Some (True, [(Desc, ''ram:IncludedSupplyChainTradeLineItem'')], None)"
  by code_simp+

lemma read_totals [read_simps]:
  "read_query ''//ram:ApplicableHeaderTradeSettlement/ram:SpecifiedTradeSettlementHeaderMonetarySummation/ram:TaxBasisTotalAmount'' =
     Some (True, total_path ''ram:TaxBasisTotalAmount'', None)"
  "read_query ''//ram:ApplicableHeaderTradeSettlement/ram:SpecifiedTradeSettlementHeaderMonetarySummation/ram:TaxTotalAmount'' =
     Some (True, total_path ''ram:TaxTotalAmount'', None)"
  "read_query ''//ram:ApplicableHeaderTradeSettlement/ram:SpecifiedTradeSettlementHeaderMonetarySummation/ram:GrandTotalAmount'' =
     Some (True, total_path ''ram:GrandTotalAmount'', None)"
  "read_query ''//ram:ApplicableHeaderTradeSettlement/ram:SpecifiedTradeSettlementHeaderMonetarySummation/ram:DuePayableAmount'' =
     Some (True, total_path ''ram:DuePayableAmount'', None)"
  by code_simp+

lemma read_seller [read_simps]:
  "read_query ''//ram:SellerTradeParty/ram:Name'' = Some (True, [(Desc, ''ram:SellerTradeParty''), (Child, ''ram:Name'')], None)"
  "read_query ''//ram:SellerTradeParty//ram:SpecifiedTaxRegistration/ram:ID'' =
     Some (True, [(Desc, ''ram:SellerTradeParty''), (Desc, ''ram:SpecifiedTaxRegistration''), (Child, ''ram:ID'')], None)"
  "read_query ''//ram:SellerTradeParty/ram:PostalTradeAddress/ram:LineOne'' =
     Some (True, [(Desc, ''ram:SellerTradeParty''), (Child, ''ram:PostalTradeAddress''), (Child, ''ram:LineOne'')], None)"
  "read_query ''//ram:SellerTradeParty/ram:PostalTradeAddress/ram:CityName'' =
     Some (True, [(Desc, ''ram:SellerTradeParty''), (Child, ''ram:PostalTradeAddress''), (Child, ''ram:CityName'')], None)"
  "read_query ''//ram:SellerTradeParty/ram:PostalTradeAddress/ram:PostcodeCode'' =
     Some (True, [(Desc, ''ram:SellerTradeParty''), (Child, ''ram:PostalTradeAddress''), (Child, ''ram:PostcodeCode'')], None)"
  "read_query ''//ram:SellerTradeParty/ram:PostalTradeAddress/ram:CountryID'' =
     Some (True, [(Desc, ''ram:SellerTradeParty''), (Child, ''ram:PostalTradeAddress''), (Child, ''ram:CountryID'')], None)"
  by code_simp+

lemma read_buyer [read_simps]:
  "read_query ''//ram:BuyerTradeParty/ram:Name'' = Some (True, [(Desc, ''ram:BuyerTradeParty''), (Child, ''ram:Name'')], None)"
  "read_query ''//ram:BuyerTradeParty//ram:SpecifiedTaxRegistration/ram:ID'' =
     Some (True, [(Desc, ''ram:BuyerTradeParty''), (Desc, ''ram:SpecifiedTaxRegistration''), (Child, ''ram:ID'')], None)"
  "read_query ''//ram:BuyerTradeParty/ram:PostalTradeAddress/ram:LineOne'' =
     Some (True, [(Desc, ''ram:BuyerTradeParty''), (Child, ''ram:PostalTradeAddress''), (Child, ''ram:LineOne'')], None)"
  "read_query ''//ram:BuyerTradeParty/ram:PostalTradeAddress/ram:CityName'' =
     Some (True, [(Desc, ''ram:BuyerTradeParty''), (Child, ''ram:PostalTradeAddress''), (Child, ''ram:CityName'')], None)"
  "read_query ''//ram:BuyerTradeParty/ram:PostalTradeAddress/ram:PostcodeCode'' =
     Some (True, [(Desc, ''ram:BuyerTradeParty''), (Child, ''ram:PostalTradeAddress''), (Child, ''ram:PostcodeCode'')], None)"
  "read_query ''//ram:BuyerTradeParty/ram:PostalTradeAddress/ram:CountryID'' =
     Some (True, [(Desc, ''ram:BuyerTradeParty''), (Child, ''ram:PostalTradeAddress''), (Child, ''ram:CountryID'')], None)"
  by code_simp+

lemma read_line [read_simps]:
  "read_query ''.//ram:SpecifiedTradeProduct/ram:Name'' =
     Some (False, [(Desc, ''ram:SpecifiedTradeProduct''), (Child, ''ram:Name'')], None)"
  "read_query ''.//ram:BilledQuantity'' = Some (False, [(Desc, ''ram:BilledQuantity'')], None)"
  "read_query ''.//ram:BilledQuantity/@unitCode'' = Some (False, [(Desc, ''ram:BilledQuantity'')], Some ''unitCode'')"
  "read_query ''.//ram:SpecifiedLineTradeAgreement/ram:NetPriceProductTradePrice/ram:ChargeAmount'' =
     Some (False, [(Desc, ''ram:SpecifiedLineTradeAgreement''), (Child, ''ram:NetPriceProductTradePrice''),
       (Child, ''ram:ChargeAmount'')], None)"
  "read_query ''.//ram:SpecifiedLineTradeSettlement/ram:SpecifiedTradeSettlementLineMonetarySummation/ram:LineTotalAmount'' =
     Some (False, [(Desc, ''ram:SpecifiedLineTradeSettlement''),
       (Child, ''ram:SpecifiedTradeSettlementLineMonetarySummation''), (Child, ''ram:LineTotalAmount'')], None)"
  "read_query ''.//ram:SpecifiedLineTradeSettlement/ram:ApplicableTradeTax/ram:RateApplicablePercent'' =
     Some (False, [(Desc, ''ram:SpecifiedLineTradeSettlement''), (Child, ''ram:ApplicableTradeTax''),
       (Child, ''ram:RateApplicablePercent'')], None)"
  by code_simp+

section \<open>Reading the parts\<close>

lemma py_float_nonempty: "py_float s \<noteq> None \<Longrightarrow> s \<noteq> []"
proof
  assume "py_float s \<noteq> None" "s = []"
  moreover have "py_float [] = None" by code_simp
  ultimately show False by simp
qed

lemma float_or_repr: "wf_float x \<Longrightarrow> float_or (full (float_repr x)) d = x"
  using py_float_repr [of x] py_float_nonempty [of "float_repr x"] by (simp add: full_def float_or_def truthy_def)

lemma float_or_money:
  assumes "wf_float x"
  shows "money (float_or (full (money x)) d) = money x" and "float_or (full (money x)) d = float_or (Some (money x)) fzero"
proof -
  obtain y where y: "py_float (money x) = Some y" "money y = money x" by (rule money_again [OF assms])
  then have "money x \<noteq> []" by (intro py_float_nonempty) simp
  with y show "money (float_or (full (money x)) d) = money x" and "float_or (full (money x)) d = float_or (Some (money x)) fzero"
    by (simp_all add: full_def float_or_def truthy_def)
qed

lemma unit_code_found:
  "xpath_first (tree_lxml doc) ns (XEl (line_tree rep m l)) [''.//ram:BilledQuantity/@unitCode''] = Inr (Some (line_unit_code l))"
proof -
  let ?ns = "select [[(Desc, ''ram:BilledQuantity'')]] (kids (line_tree rep m l))"
  from found_line_quantity(2) [of rep m l] obtain n where n: "?ns = [n]" "tree_attr n ''unitCode'' = Some (line_unit_code l)"
    by (cases ?ns) auto
  then have "xpath (tree_lxml doc) ns ''.//ram:BilledQuantity/@unitCode'' (line_tree rep m l) = Inr [XStr (line_unit_code l)]"
    by (simp add: tree_lxml_def read_simps tree_query_def)
  then show ?thesis by simp
qed

lemma parse_line_tree:
  assumes "wf_line l"
  shows "parse_line (tree_lxml doc) ns (XEl (line_tree rep m l)) =
    Inr (reported_line l, float_or (Some (money (net_total l))) fzero)"
proof -
  have wf: "wf_float (line_quantity l)" "wf_float (net_price l)" "wf_float (net_total l)" "wf_float (line_vat_rate l)"
    using assms by (simp_all add: wf_line_def)
  show ?thesis
    by (simp add: parse_line_def xpath_or_def line_total_paths_def unit_code_found first_line_found read_simps
        found_line_name found_line_quantity found_line_price found_line_settlement or_default_or_text
        float_or_repr float_or_money(1) wf reported_line_def Let_def del: xpath_first.simps(2))
      (simp add: float_or_money(2) [OF wf(3)] or_text_def)
qed

lemma parse_lines_tree:
  assumes "list_all wf_line ls"
  shows "parse_lines (tree_lxml doc) ns (map (\<lambda>l. XEl (line_tree rep m l)) ls) t =
    Inr (map reported_line ls, foldl fadd t (map (\<lambda>l. float_or (Some (money (net_total l))) fzero) ls))"
  using assms by (induction ls arbitrary: t) (simp_all add: parse_line_tree)

lemma parse_totals_tree:
  "parse_totals (tree_lxml (invoice_tree rep m)) ns (XEl el) t =
    Inr (totals_of (full (tax_basis_total (amounts m))) (full (tax_total (amounts m))) (full (grand_total (amounts m)))
      (full (due_payable (amounts m))) t)"
  by (simp add: parse_totals_def net_total_paths_def first_found read_simps found_totals del: xpath_first.simps(2))

lemma parse_seller_tree:
  "parse_party (tree_lxml (invoice_tree rep m)) ns (XEl el) ''SellerTradeParty'' = Inr (reported_seller (md_seller m))"
  by (cases "seller_address (md_seller m)"; cases "seller_vat_number (md_seller m)"; cases "seller_tax_number (md_seller m)")
    (simp_all add: parse_party_def xpath_or_def first_found read_simps found_seller_name found_seller_registration
      found_seller_address or_default_or_text reported_seller_def reported_party_def Let_def truthy_def or_text_def
      del: xpath_first.simps(2))

lemma parse_buyer_tree:
  "parse_party (tree_lxml (invoice_tree rep m)) ns (XEl el) ''BuyerTradeParty'' = Inr (reported_buyer (md_buyer m))"
  by (cases "buyer_address (md_buyer m)"; cases "buyer_vat_number (md_buyer m)")
    (simp_all add: parse_party_def xpath_or_def first_found read_simps found_buyer_name found_buyer_registration
      found_buyer_address or_default_or_text reported_buyer_def reported_party_def Let_def truthy_def or_text_def
      del: xpath_first.simps(2))

lemma parse_invoice_tree:
  assumes "list_all wf_line (take 10 (md_lines m))"
  shows "parse_demo_invoice (tree_lxml (invoice_tree rep m)) (invoice_tree rep m) flavor fn = Inr (reported m flavor fn)"
proof -
  let ?X = "tree_lxml (invoice_tree rep m)"
  have items: "xpath ?X ns ''//ram:IncludedSupplyChainTradeLineItem'' (invoice_tree rep m) =
      Inr (map (\<lambda>l. XEl (line_tree rep m l)) (md_lines m))" for ns
    by (simp add: tree_lxml_def read_simps tree_query_def found_lines comp_def)
  have w: "line_warnings flavor (map (\<lambda>l. XEl (line_tree rep m l)) (md_lines m)) =
      (if md_lines m \<noteq> [] then [] else line_warnings flavor ([] :: xml xnode list))"
    by (simp add: line_warnings_def)
  show ?thesis
    by (simp add: parse_demo_invoice_def Let_def items take_map parse_lines_tree [OF assms] parse_totals_tree
        parse_seller_tree parse_buyer_tree xpath_or_def first_found read_simps found_document found_currency
        or_default_or_text reported_def reported_totals_def w comp_def del: xpath_first.simps(2))
qed

section \<open>Generating and extracting\<close>

lemma invoice_declares: "flavor \<in> set [''factur-x'', ''facturx''] \<Longrightarrow> declares (invoice_tree rep m) (namespaces_of flavor)"
  by (simp add: namespaces_of_def ns_cii_def declares_def invoice_tree_def t_invoice_def trees.simps attrs_of_def
      val_def ctx_simps)

text \<open>The text of an element found in a forest is part of the text of the forest.\<close>

lemma contains_mid: "contains s p \<Longrightarrow> contains (l @ s @ r) p"
  unfolding contains_iff by (metis append.assoc)

lemma select_part_of_text:
  "e \<in> set (select ps xs) \<Longrightarrow> contains (concat (map xml_text xs)) (xml_text e)"
proof (induction ps xs rule: select.induct)
  case (2 ps s xs)
  then show ?case using contains_mid [of _ _ s "[]"] by simp
next
  case (3 ps t as cs xs)
  let ?qs = "concat (map (below t) ps)" and ?l = "''<'' @ t @ concat (map attr_text as) @ ''>''"
    and ?r = "''</'' @ t @ ''>''"
  have x: "concat (map xml_text (Elem t as cs # xs)) = ?l @ concat (map xml_text cs) @ ?r @ concat (map xml_text xs)"
    by simp
  from 3(3) consider "e = Elem t as cs" | "e \<in> set (select (filter (\<lambda>p. p \<noteq> []) ?qs) cs)" | "e \<in> set (select ps xs)"
    by (auto simp: Let_def split: if_splits)
  then show ?case
  proof cases
    case 1
    have "contains (xml_text e) (xml_text e)" unfolding contains_iff by (metis append_Nil append_Nil2)
    from contains_mid [OF this, of "[]"] show ?thesis unfolding 1 by simp
  next
    case 2
    from contains_mid [OF 3(1) [OF refl 2]] show ?thesis unfolding x .
  next
    case 3
    from contains_mid [OF "3.IH"(2) [OF refl 3], of "xml_text (Elem t as cs)" "[]"] show ?thesis by simp
  qed
qed simp

text \<open>The elements with the names, as they stand in the document.\<close>

lemma seller_name_element:
  "select [[(Desc, ''ram:SellerTradeParty''), (Child, ''ram:Name'')]] [invoice_tree rep m] =
     [Elem ''ram:Name'' [] [Txt (seller_name (md_seller m))]]"
  by (simp add: trees_invoice [symmetric] t_invoice_def t_transaction_def sel_simps tag_facts t_agreement_def t_seller_def
        cong: if_cong; simp add: text_simps attrs_of_def)

lemma buyer_name_element:
  "select [[(Desc, ''ram:BuyerTradeParty''), (Child, ''ram:Name'')]] [invoice_tree rep m] =
     [Elem ''ram:Name'' [] [Txt (buyer_name (md_buyer m))]]"
  by (simp add: trees_invoice [symmetric] t_invoice_def t_transaction_def sel_simps tag_facts t_agreement_def t_buyer_def
        cong: if_cong; simp add: text_simps attrs_of_def)

lemma line_name_element:
  "select [[(Desc, ''ram:SpecifiedTradeProduct''), (Child, ''ram:Name'')]] (kids (line_tree rep m l)) =
     [Elem ''ram:Name'' [] [Txt (line_name l)]]"
  by (simp add: kids_line_tree t_line_def t_product_def sel_simps tag_facts cong: if_cong; simp add: text_simps attrs_of_def)

lemmas name_elements = seller_name_element buyer_name_element line_name_element

lemma contains_trans: "contains s t \<Longrightarrow> contains t p \<Longrightarrow> contains s p"
  unfolding contains_iff by (metis append.assoc)

lemma kids_in_text: "contains (xml_text (Elem t as cs)) (concat (map xml_text cs))"
proof -
  have "xml_text (Elem t as cs) = (''<'' @ t @ concat (map attr_text as) @ ''>'') @ concat (map xml_text cs) @ ''</'' @ t @ ''>''"
    by simp
  then show ?thesis unfolding contains_iff by blast
qed

text \<open>The service on a file the generator has accepted, under any PDF name.\<close>

lemma generated_extracts:
  assumes "document_reader X node (invoice_tree (text_repr G) m) inside" and "embeds F" and "F = svc_facturx (gen_service G)"
    and "generate_facturx_pdf G pdf m loaded = (Inr b, loaded')"
    and "plain_tree (invoice_tree (text_repr G) m)"
    and "\<forall>x. inside x \<and> node x = invoice_tree (text_repr G) m \<longrightarrow> get_flavor F x = Inr ''factur-x'' \<and> get_level F x = Inr level"
    and "is_pdf (Some n) b = Inr True" and "list_all wf_line (take 10 (md_lines m))"
  shows "extract_invoice_data X F b (Some n) =
    \<lparr>x_format = Some ''factur-x'', x_profile = Some level, xml_extracted = True,
     invoice_json = Some (reported m ''factur-x'' n), x_errors = []\<rparr>"
proof -
  let ?d = "invoice_tree (text_repr G) m"
  have reader: "tree_reader X node ?d inside" using assms(1) by (rule document_reader.axioms(1))
  obtain xml where xml: "generate_xml G m = Inr xml"
    "generate_from_binary F pdf xml ''factur-x'' (profile_text (profile m)) (pdf_metadata m) = Inr b"
    using generate_Inr [OF assms(4)] assms(3) by metis
  then have t: "xml = xml_prolog @ xml_text ?d"
    by (cases "template_error G") (auto simp: generate_xml_tree generate_xml_def catchR_def render_template_tree)
  have emb: "get_xml_from_pdf F b = Inr (Some xml)" using assms(2) xml(2) unfolding embeds_def by blast
  obtain r where r: "fromstring X xml = Inr r" "node r = ?d" "inside r"
    using document_reader.parse_tree [OF assms(1) invoice_tree_well_formed assms(5)] unfolding t by blast
  have "parse_demo_invoice X r ''factur-x'' n = Inr (reported m ''factur-x'' n)"
    using tree_reader.invoice_same [OF reader r(3) invoice_declares, of "''factur-x''" n] parse_invoice_tree [OF assms(8)] r(2)
    by simp
  moreover have "truthy (Some xml)" by (simp add: t truthy_def xml_prolog_def)
  ultimately show ?thesis
    using assms(6,7) emb r by (simp add: extract_invoice_data_def parse_xml_def Let_def no_extraction_def)
qed

section \<open>Properties\<close>

text \<open>
  Claim C20.  Every invoice renders: no metadata makes an expression of the template fail, whatever optional
  fields are missing and however many lines, taxes, notes, allowances and charges there are; the result is
  the prolog and a single element whose namespaces are declared at the root and whose names are well formed.
\<close>

theorem template_renders:
  "render_template rep m = Inr (xml_prolog @ xml_text (invoice_tree rep m)) \<and> well_formed (invoice_tree rep m)"
  by (simp add: render_template_tree invoice_tree_well_formed)

text \<open>
  Claim C21.  The template escapes nothing: the names of the seller, of the buyer and of every line stand in the
  XML text exactly as the client sent them, so a name with an ampersand or an angle bracket yields a text that
  is not XML, or other elements than the template's.
\<close>

theorem template_verbatim:
  "\<exists>t. render_template rep m = Inr t \<and>
     (\<forall>s \<in> {seller_name (md_seller m), buyer_name (md_buyer m)} \<union> line_name ` set (md_lines m).
        contains t (''<ram:Name>'' @ s @ ''</ram:Name>''))"
proof -
  let ?d = "invoice_tree rep m"
  have doc: "contains (xml_prolog @ xml_text ?d) (xml_text e)" if "e \<in> set (select ps [?d])" for e ps
    using contains_mid [OF select_part_of_text [OF that], of xml_prolog "[]"] by simp
  have n: "xml_text (Elem ''ram:Name'' [] [Txt s]) = ''<ram:Name>'' @ s @ ''</ram:Name>''" for s by simp
  have "contains (xml_prolog @ xml_text ?d) (''<ram:Name>'' @ line_name l @ ''</ram:Name>'')" if "l \<in> set (md_lines m)" for l
  proof -
    have "line_tree rep m l \<in> set (select [[(Desc, ''ram:IncludedSupplyChainTradeLineItem'')]] [?d])"
      using that by (simp add: found_lines)
    from doc [OF this] have line: "contains (xml_prolog @ xml_text ?d) (xml_text (line_tree rep m l))" .
    have "contains (concat (map xml_text (kids (line_tree rep m l)))) (xml_text (Elem ''ram:Name'' [] [Txt (line_name l)]))"
      by (rule select_part_of_text [where ps = "[[(Desc, ''ram:SpecifiedTradeProduct''), (Child, ''ram:Name'')]]"])
        (simp add: name_elements)
    moreover have "contains (xml_text (line_tree rep m l)) (concat (map xml_text (kids (line_tree rep m l))))"
      by (simp only: line_tree_def t_line_def trees.simps list.sel kids.simps kids_in_text)
    ultimately show ?thesis using line unfolding n by (blast intro: contains_trans)
  qed
  moreover have "contains (xml_prolog @ xml_text ?d) (''<ram:Name>'' @ s @ ''</ram:Name>'')"
    if "s = seller_name (md_seller m) \<or> s = buyer_name (md_buyer m)" for s
    using doc [of "Elem ''ram:Name'' [] [Txt s]" "[[(Desc, ''ram:SellerTradeParty''), (Child, ''ram:Name'')]]"]
      doc [of "Elem ''ram:Name'' [] [Txt s]" "[[(Desc, ''ram:BuyerTradeParty''), (Child, ''ram:Name'')]]"] that
    unfolding n name_elements by auto
  ultimately show ?thesis by (auto simp: render_template_tree)
qed

text \<open>
  Claim C5.  What the template writes the extraction service reads back, through any XML package that answers
  its queries as the tree of the document does: number, date, currency, seller, buyer and the first ten lines
  are those of the metadata (with the defaults for empty texts), quantities exactly and prices and amounts as
  printed; totals given with two decimals are reported digit for digit.
\<close>

theorem generated_reads_back:
  assumes "tree_reader X node (invoice_tree rep m) inside" and "inside r" and "node r = invoice_tree rep m"
    and "flavor \<in> set [''factur-x'', ''facturx'']" and "list_all wf_line (take 10 (md_lines m))"
  shows "parse_demo_invoice X r flavor fn = Inr (reported m flavor fn) \<and>
    (\<forall>n t g p. (\<forall>N \<in> {n, t, g, p}. 0 \<le> N \<and> N < 100 * 2 ^ 45) \<and>
        tax_basis_total (amounts m) = fixed_digits 2 n \<and> tax_total (amounts m) = fixed_digits 2 t \<and>
        grand_total (amounts m) = fixed_digits 2 g \<and> due_payable (amounts m) = fixed_digits 2 p \<longrightarrow>
      totals (reported m flavor fn) =
        \<lparr>net_amount = fixed_digits 2 n, tax_amount = fixed_digits 2 t, gross_amount = fixed_digits 2 g,
         payable_amount = fixed_digits 2 p\<rparr>)"
proof (intro conjI allI impI)
  show "parse_demo_invoice X r flavor fn = Inr (reported m flavor fn)"
    using tree_reader.invoice_same [OF assms(1,2) invoice_declares [OF assms(4)], of fn] parse_invoice_tree [OF assms(5)]
      assms(3) by simp
next
  fix n t g p :: int
  assume a: "(\<forall>N \<in> {n, t, g, p}. 0 \<le> N \<and> N < 100 * 2 ^ 45) \<and>
      tax_basis_total (amounts m) = fixed_digits 2 n \<and> tax_total (amounts m) = fixed_digits 2 t \<and>
      grand_total (amounts m) = fixed_digits 2 g \<and> due_payable (amounts m) = fixed_digits 2 p"
  then show "totals (reported m flavor fn) =
      \<lparr>net_amount = fixed_digits 2 n, tax_amount = fixed_digits 2 t, gross_amount = fixed_digits 2 g,
       payable_amount = fixed_digits 2 p\<rparr>"
    by (simp add: reported_def Let_def reported_totals_def full_def fixed_digits_nonempty totals_of_def money_fixed)
qed

text \<open>An invoice with one line.\<close>

definition demo_line :: InvoiceLine where
  "demo_line = \<lparr>line_id = ''1'', line_name = ''Widget'', line_quantity = float_of_int 2, line_unit_code = ''C62'',
     net_price = float_of_int 5, net_total = float_of_int 10, line_vat_rate = float_of_int 20, line_vat_category = ''S'',
     line_note = None, line_global_id = None, line_global_id_scheme = None, seller_assigned_id = None,
     buyer_assigned_id = None, line_description = None, country_of_origin = None, gross_price = None,
     price_discount = None, billing_period = None\<rparr>"

definition demo_invoice :: InvoiceMetadata where
  "demo_invoice = demo_metadata\<lparr>md_lines := [demo_line]\<rparr>"

theorem template_verbatim_witness:
  "\<exists>t. render_template quoted (demo_invoice\<lparr>md_lines := [demo_line\<lparr>line_name := ''Nuts & Bolts''\<rparr>]\<rparr>) = Inr t \<and>
     contains t (''<ram:Name>'' @ ''Nuts & Bolts'' @ ''</ram:Name>'')"
proof -
  let ?m = "demo_invoice\<lparr>md_lines := [demo_line\<lparr>line_name := ''Nuts & Bolts''\<rparr>]\<rparr>"
  have "''Nuts & Bolts'' \<in> line_name ` set (md_lines ?m)" by (simp add: demo_line_def)
  with template_verbatim [of quoted ?m] show ?thesis by blast
qed

lemma demo_invoice_wf: "list_all wf_line (take 10 (md_lines demo_invoice))"
  by (simp add: demo_invoice_def demo_line_def wf_line_def float_of_int_wf)

theorem generated_reads_back_witness:
  "parse_demo_invoice (tree_lxml (invoice_tree quoted demo_invoice)) (invoice_tree quoted demo_invoice)
     ''factur-x'' ''f.pdf'' = Inr (reported demo_invoice ''factur-x'' ''f.pdf'') \<and>
   net_amount (totals (reported demo_invoice ''factur-x'' ''f.pdf'')) = ''1.00''"
proof -
  note * = generated_reads_back [where fn = "''f.pdf''" and flavor = "''factur-x''",
      OF tree_lib.tree_reader_axioms [of "invoice_tree quoted demo_invoice"] TrueI refl _ demo_invoice_wf]
  have f: "fixed_digits 2 100 = ''1.00''" "fixed_digits 2 20 = ''0.20''" "fixed_digits 2 120 = ''1.20''" by code_simp+
  have "tax_basis_total (amounts demo_invoice) = fixed_digits 2 100 \<and> tax_total (amounts demo_invoice) = fixed_digits 2 20 \<and>
      grand_total (amounts demo_invoice) = fixed_digits 2 120 \<and> due_payable (amounts demo_invoice) = fixed_digits 2 120"
    unfolding f by (simp add: demo_invoice_def demo_metadata_def)
  moreover have "\<forall>N \<in> {100, 20, 120, 120 :: int}. 0 \<le> N \<and> N < 100 * 2 ^ 45" by simp
  ultimately have "totals (reported demo_invoice ''factur-x'' ''f.pdf'') =
      \<lparr>net_amount = fixed_digits 2 100, tax_amount = fixed_digits 2 20, gross_amount = fixed_digits 2 120,
       payable_amount = fixed_digits 2 120\<rparr>"
    using conjunct2 [OF *] by (simp only: list.set insertI1 simp_thms)
  then show ?thesis using conjunct1 [OF *] by (simp add: f)
qed

text \<open>
  Claim C3.  What \<^verbatim>\<open>/v1/convert\<close> delivers \<^verbatim>\<open>/v1/extract\<close> reads back.  When the file of a successful conversion is
  uploaded to the extraction endpoint, the answer has no error and its invoice is the one of the converted metadata,
  field by field.  The texts of the invoice must be plain: no character of markup (\<^verbatim>\<open><\<close>, \<^verbatim>\<open>>\<close>, \<^verbatim>\<open>&\<close>), which the
  template does not escape, no carriage return, no control character but tab and line feed, and no quote or line
  break where the template writes an attribute; every character of any script is allowed, the euro sign and
  typographic quotes included.  The packages enter with their contracts: the attachment reads back as embedded, the
  parser and its XPath queries see the tree of the document, the detection names format and profile, and the
  response model accepts values of the declared types.
\<close>

theorem convert_then_extract:
  assumes "document_reader (svc_lxml (gen_service (gen_lib A))) node (invoice_tree (text_repr (gen_lib A)) md) inside"
    and "embeds (svc_facturx (gen_service (gen_lib A)))"
    and "parse_metadata A metadata = Inr md" and "list_all wf_line (take 10 (md_lines md))"
    and "plain_tree (invoice_tree (text_repr (gen_lib A)) md)"
    and "\<forall>x. inside x \<and> node x = invoice_tree (text_repr (gen_lib A)) md \<longrightarrow>
      get_flavor (svc_facturx (gen_service (gen_lib A))) x = Inr ''factur-x'' \<and>
      get_level (svc_facturx (gen_service (gen_lib A))) x = Inr level"
    and "convert_to_facturx A clk pdf metadata st = (ops, Inr resp, st')"
    and "file_read f = Inr (body resp)" and "filename f = Some n" and "startswith (body resp) ''%PDF''"
    and "models_accept A"
  shows "snd (extract_facturx A clk' f) =
    Inr \<lparr>o_format = Some ''factur-x'', o_profile = Some level, o_xml_extracted = True,
         o_invoice_json = Some (to_InvoiceJson (reported md ''factur-x'' n)), o_errors = []\<rparr>"
proof -
  have pdf: "is_pdf (Some n) (body resp) = Inr True" using assms(10) by (simp add: is_pdf_Some)
  have ne: "body resp \<noteq> []" using assms(10) by (cases "body resp") simp_all
  obtain c where "generate_facturx_pdf (gen_lib A) c md (hybrid_module st) = (Inr (body resp), hybrid_module st')"
    using assms(7)
  proof (cases rule: convert_to_facturx_Inr)
    case (1 c md')
    then show ?thesis using assms(3) that by simp
  qed
  from generated_extracts [OF assms(1,2) refl this assms(5,6) pdf assms(4)] show ?thesis
    using ne by (simp add: extract_facturx_def extract_body_def framed_def assms(8,9,11) to_ExtractionResult_def)
qed

text \<open>The packages on trees, and a service without validation files.\<close>

definition tree_generator :: "xml \<Rightarrow> (xml, unit) generator_lib" where
  "tree_generator doc = \<lparr>template_error = None, text_repr = quoted,
     gen_service = \<lparr>svc_lxml = tree_lxml doc,
       svc_facturx = \<lparr>get_xml_from_pdf = (\<lambda>b. Inr (Some (drop 4 b))), get_flavor = (\<lambda>x. Inr ''factur-x''),
         get_level = (\<lambda>x. Inr ''en16931''), xml_check_xsd = (\<lambda>c f l. Inr ()),
         generate_from_binary = (\<lambda>p x f l m. Inr (''%PDF'' @ x))\<rparr>,
       svc_engine = \<lparr>eng_lxml = tree_lxml doc, path_exists = (\<lambda>p. False), load_schema = (\<lambda>p. Inr ()),
         schema_validate = (\<lambda>s d. True), error_log = (\<lambda>s d. []), saxon_transform = (\<lambda>p t. Inr (Some t)),
         svrl_parse = (\<lambda>b. Inr doc)\<rparr>,
       pool = (\<lambda>x c t. None), project_root = ''/app''\<rparr>,
     gen_missing = None, gen_env = (\<lambda>v. None)\<rparr>"

definition tree_api :: "xml \<Rightarrow> InvoiceMetadata \<Rightarrow> (xml, unit, unit) api_lib" where
  "tree_api doc m = \<lparr>json_decode = (\<lambda>s. Inr (JObj [])), new_metadata = (\<lambda>d. Inr m), result_refused = (\<lambda>r. None), encode_header = (\<lambda>h. None),
     gen_lib = tree_generator doc,
     lite_lib_of = \<lparr>lite_lxml = tree_lxml doc, lite_facturx = svc_facturx (gen_service (tree_generator doc)),
       core_path_exists = True, load_core = Inr (), run_core = (\<lambda>v x. Inr None)\<rparr>,
     lic_lib = demo_lib\<rparr>"

lemma tree_generates:
  "generate_facturx_pdf (tree_generator (invoice_tree quoted m)) pdf m (Some demo_svc) =
     (Inr (''%PDF'' @ xml_prolog @ xml_text (invoice_tree quoted m)), Some demo_svc)"
proof -
  let ?d = "invoice_tree quoted m" let ?G = "tree_generator ?d" let ?b = "''%PDF'' @ xml_prolog @ xml_text ?d"
  have "r_is_valid (fst (service_validate (gen_service ?G) ?b (Some ''generated_check.pdf'') demo_svc)) \<and>
      snd (service_validate (gen_service ?G) ?b (Some ''generated_check.pdf'') demo_svc) = demo_svc"
    by (simp add: service_validate_def generated_name_is_pdf extract_xml_def detect_profile_def assets_available_def
        tree_generator_def tree_lxml_def truthy_def xml_prolog_def Let_def)
  then have "quality_gate ?G ?b (Some demo_svc) = (Inr ?b, Some demo_svc)"
    by (simp add: quality_gate_def import_hybrid_def split_beta)
  then show ?thesis
    using generate_xml_tree [of ?G m] by (simp add: generate_facturx_pdf_def tree_generator_def)
qed

theorem convert_then_extract_witness:
  "\<exists>resp. fst (snd (convert_to_facturx (tree_api (invoice_tree quoted demo_invoice) demo_invoice) demo_clock demo_upload ''{}''
       (demo_state\<lparr>hybrid_module := Some demo_svc\<rparr>))) = Inr resp \<and>
     map_option o_invoice_json (case snd (extract_facturx (tree_api (invoice_tree quoted demo_invoice) demo_invoice) demo_clock
       \<lparr>filename = Some ''f.pdf'', file_read = Inr (body resp)\<rparr>) of Inl e \<Rightarrow> None | Inr r \<Rightarrow> Some r) =
     Some (Some (to_InvoiceJson (reported demo_invoice ''factur-x'' ''f.pdf'')))"
proof -
  let ?d = "invoice_tree quoted demo_invoice" let ?A = "tree_api ?d demo_invoice" let ?b = "''%PDF'' @ xml_prolog @ xml_text ?d"
  let ?st = "demo_state\<lparr>hybrid_module := Some demo_svc\<rparr>"
  have n: "name_is_pdf (Some ''f.pdf'') = Inr True" by code_simp
  have p: "parse_metadata ?A ''{}'' = Inr demo_invoice"
    by (simp add: parse_metadata_def build_metadata_def tree_api_def)
  have "fst (snd (convert_to_facturx ?A demo_clock demo_upload ''{}'' ?st)) =
      Inr \<lparr>body = ?b, media_type = ''application/pdf'',
        content_disposition = ''attachment; filename=facturx_'' @ md_invoice_number demo_invoice @ ''.pdf''\<rparr>"
    using tree_generates [of demo_invoice]
    by (simp add: convert_to_facturx_def convert_body_def demo_upload_def n p framed_def split_beta)
      (simp add: tree_api_def streaming_def)
  then obtain ops resp st' where c: "convert_to_facturx ?A demo_clock demo_upload ''{}'' ?st = (ops, Inr resp, st')"
    and resp: "body resp = ?b" by (metis prod.collapse response.select_convs(1))
  have plain: "plain_tree ?d" by code_simp
  have r: "text_repr (gen_lib ?A) = quoted" "svc_lxml (gen_service (gen_lib ?A)) = tree_lxml ?d"
    by (simp_all add: tree_api_def tree_generator_def)
  have lib: "document_reader (svc_lxml (gen_service (gen_lib ?A))) (\<lambda>t. t) (invoice_tree (text_repr (gen_lib ?A)) demo_invoice)
      (\<lambda>t. True)"
    unfolding r by (rule tree_lib.document_reader_axioms)
  have embeds: "embeds (svc_facturx (gen_service (gen_lib ?A)))" by (simp add: tree_api_def tree_generator_def embeds_def)
  have found: "\<forall>x. True \<and> x = invoice_tree (text_repr (gen_lib ?A)) demo_invoice \<longrightarrow>
      get_flavor (svc_facturx (gen_service (gen_lib ?A))) x = Inr ''factur-x'' \<and>
      get_level (svc_facturx (gen_service (gen_lib ?A))) x = Inr ''en16931''" by (simp add: tree_api_def tree_generator_def)
  have pl: "plain_tree (invoice_tree (text_repr (gen_lib ?A)) demo_invoice)" unfolding r by (rule plain)
  have accept: "models_accept ?A" by (simp add: models_accept_def tree_api_def)
  have "startswith (body resp) ''%PDF''" by (simp add: resp)
  from convert_then_extract [OF lib embeds p demo_invoice_wf pl found c,
      of "\<lparr>filename = Some ''f.pdf'', file_read = Inr (body resp)\<rparr>" "''f.pdf''" demo_clock] this c accept
  show ?thesis by auto
qed

end
