(* ===== verification/Process_Pool.thy ===== *)
theory Process_Pool
  imports Hybrid_Service
begin

text \<open>
  The process pool over time.  \<^verbatim>\<open>HybridValidationService.validate\<close> submits the XML to a
  \<^verbatim>\<open>ProcessPoolExecutor\<close> and waits for the future at most \<^verbatim>\<open>VALIDATION_TIMEOUT\<close> seconds; the endpoints run
  on the threads of the server, so several calls wait at the same time.  This theory follows a whole history of
  calls on one pool: the executor's slots and its queue, the deadlines, workers that never return and
  workers that die.  What a worker process does with a document is the argument \<open>W\<close>.  Times are
  milliseconds.
\<close>

section \<open>The executor\<close>

text \<open>
  What becomes of a task in its worker process: it returns after some time, it never returns, or
  the process dies abruptly (the operating system kills it, or native code crashes).
\<close>

datatype fate = Ends nat | Hangs | Dies nat

text \<open>
  A slot is a worker process (or the process that replaces it after \<^verbatim>\<open>max_tasks_per_child\<close> tasks), with
  the time from which it takes the next task; a slot whose process never returns stays taken, because the
  code never cancels a future.  A dead process breaks the executor from then on.
\<close>

record process_pool =
  free_from :: "int option list"
  broken_at :: "int option"

definition new_pool :: "executor \<Rightarrow> process_pool" where
  "new_pool x = \<lparr>free_from = replicate (nat (max_workers x)) (Some 0), broken_at = None\<rparr>"

text \<open>The slot that is free first, with its time.\<close>

fun earliest :: "int option list \<Rightarrow> (nat \<times> int) option" where
  "earliest [] = None"
| "earliest (None # xs) = map_option (\<lambda>(i, t). (Suc i, t)) (earliest xs)"
| "earliest (Some t # xs) =
     (case earliest xs of
        None \<Rightarrow> Some (0, t)
      | Some (i, u) \<Rightarrow> if t \<le> u then Some (0, t) else Some (Suc i, u))"

text \<open>A future: pool_unusable by \<^verbatim>\<open>submit\<close>, or pending with the time at which its value arrives, if it does.\<close>

datatype future = Refused | Pending "int option"

definition first_break :: "int \<Rightarrow> int option \<Rightarrow> int option" where
  "first_break t b = Some (case b of None \<Rightarrow> t | Some u \<Rightarrow> min t u)"

text \<open>\<^verbatim>\<open>executor.submit\<close>: the queue is first in, first out, so a task goes to the slot that is free first.\<close>

definition submit :: "int \<Rightarrow> fate \<Rightarrow> process_pool \<Rightarrow> future \<times> process_pool" where
  "submit now f p =
     (if (case broken_at p of None \<Rightarrow> False | Some b \<Rightarrow> b \<le> now) then (Refused, p)
      else
        (case earliest (free_from p) of
           None \<Rightarrow> (Pending None, p)
         | Some (i, t) \<Rightarrow>
             (let start = max now t in
              case f of
                Ends d \<Rightarrow> (Pending (Some (start + int d)), p\<lparr>free_from := (free_from p)[i := Some (start + int d)]\<rparr>)
              | Hangs \<Rightarrow> (Pending None, p\<lparr>free_from := (free_from p)[i := None]\<rparr>)
              | Dies d \<Rightarrow> (Pending None, p\<lparr>free_from := (free_from p)[i := None],
                            broken_at := first_break (start + int d) (broken_at p)\<rparr>))))"

text \<open>What \<^verbatim>\<open>submit\<close> raises on a broken executor, and what the waiting futures are given when it breaks.\<close>

definition pool_unusable :: exn where
  "pool_unusable = OtherExn ''BrokenProcessPool''
     ''A child process terminated abruptly, the process pool is not usable anymore''"

definition worker_died :: exn where
  "worker_died = OtherExn ''BrokenProcessPool''
     ''A process in the process pool was terminated abruptly while the future was running or pending.''"

text \<open>
  \<^verbatim>\<open>future.result(timeout)\<close> for a future submitted at \<open>now\<close>: the exception it raises, if any, and the time
  at which it comes back.  \<open>p\<close> is the pool with everything that was submitted to it.
\<close>

definition future_result :: "process_pool \<Rightarrow> future \<Rightarrow> int \<Rightarrow> int \<Rightarrow> exn option \<times> int" where
  "future_result p fut now timeout =
     (let deadline = now + 1000 * max 0 timeout in
      case fut of
        Refused \<Rightarrow> (Some pool_unusable, now)
      | Pending v \<Rightarrow>
          (case (v, broken_at p) of
             (Some t, None) \<Rightarrow> if t \<le> deadline then (None, t) else (Some (FuturesTimeoutError []), deadline)
           | (Some t, Some b) \<Rightarrow>
               if t < b \<and> t \<le> deadline then (None, t)
               else if b \<le> deadline then (Some worker_died, b)
               else (Some (FuturesTimeoutError []), deadline)
           | (None, Some b) \<Rightarrow>
               if b \<le> deadline then (Some worker_died, b) else (Some (FuturesTimeoutError []), deadline)
           | (None, None) \<Rightarrow> (Some (FuturesTimeoutError []), deadline)))"

section \<open>A history of validations\<close>

type_synonym task = "int \<times> bytes"

fun pool_after :: "(bytes \<Rightarrow> fate) \<Rightarrow> task list \<Rightarrow> process_pool \<Rightarrow> process_pool" where
  "pool_after W [] p = p"
| "pool_after W ((t, xml) # ts) p = pool_after W ts (snd (submit t (W xml) p))"

text \<open>Submitting one document between earlier and later ones, and waiting for it.\<close>

definition run_task ::
    "(bytes \<Rightarrow> fate) \<Rightarrow> task list \<Rightarrow> int \<Rightarrow> task list \<Rightarrow> executor \<Rightarrow> bytes \<Rightarrow> int \<Rightarrow> exn option \<times> int" where
  "run_task W before now later x xml timeout =
     (case submit now (W xml) (pool_after W before (new_pool x)) of
        (fut, p) \<Rightarrow> future_result (pool_after W later p) fut now timeout)"

text \<open>The XML a call of \<^verbatim>\<open>validate\<close> submits, when it gets that far.\<close>

definition pool_job :: "('x, 's) service_lib \<Rightarrow> pystr option \<Rightarrow> bytes \<Rightarrow> bytes option" where
  "pool_job S filename file_content =
     (case is_pdf filename file_content of
        Inl e \<Rightarrow> None
      | Inr pdf \<Rightarrow>
          (case extract_xml S file_content pdf initial_result of
             Inl r \<Rightarrow> None
           | Inr xml \<Rightarrow>
               (case detect_profile S xml initial_result of
                  Inl r \<Rightarrow> None
                | Inr r \<Rightarrow> if assets_available S then Some xml else None)))"

type_synonym validation_call = "int \<times> pystr option \<times> bytes"

definition tasks :: "('x, 's) service_lib \<Rightarrow> validation_call list \<Rightarrow> task list" where
  "tasks S calls = concat (map (\<lambda>(t, n, c). case pool_job S n c of None \<Rightarrow> [] | Some xml \<Rightarrow> [(t, xml)]) calls)"

text \<open>A call of \<^verbatim>\<open>validate\<close> at the time \<open>now\<close>, with the calls before and after it on the same pool.\<close>

definition timed_validate ::
    "('x, 's) service_lib \<Rightarrow> (bytes \<Rightarrow> fate) \<Rightarrow> validation_call list \<Rightarrow> int \<Rightarrow> validation_call list \<Rightarrow>
     bytes \<Rightarrow> pystr option \<Rightarrow> service \<Rightarrow> service_result \<times> service" where
  "timed_validate S W before now later file_content filename svc =
     service_validate
       (S\<lparr>pool := \<lambda>x xml timeout. fst (run_task W (tasks S before) now (tasks S later) x xml timeout)\<rparr>)
       file_content filename svc"

section \<open>The slots\<close>

lemma earliest_None: "earliest xs = None \<longleftrightarrow> set xs \<subseteq> {None}"
  by (induction xs rule: earliest.induct) (auto split: option.splits if_splits)

lemma earliest_Some:
  "earliest xs = Some (i, t) \<Longrightarrow> i < length xs \<and> xs ! i = Some t \<and> (\<forall>u. Some u \<in> set xs \<longrightarrow> t \<le> u)"
proof (induction xs arbitrary: i t rule: earliest.induct)
  case (3 v xs)
  show ?case
  proof (cases "earliest xs")
    case None
    with 3 show ?thesis by (auto simp: earliest_None)
  next
    case (Some q)
    obtain j u where q: "q = (j, u)" by fastforce
    with 3 Some show ?thesis by (force split: if_splits)
  qed
qed auto

text \<open>The slots that are not taken for ever, and the time they are taken after \<open>t\<close>, summed up.\<close>

definition alive :: "int option list \<Rightarrow> int" where
  "alive xs = (\<Sum>x \<leftarrow> xs. case x of None \<Rightarrow> 0 | Some u \<Rightarrow> 1)"

definition load :: "int \<Rightarrow> int option list \<Rightarrow> int" where
  "load t xs = (\<Sum>x \<leftarrow> xs. case x of None \<Rightarrow> 0 | Some u \<Rightarrow> max u t - t)"

lemma alive_nonneg: "0 \<le> alive xs"
  unfolding alive_def by (intro sum_list_nonneg) (auto split: option.splits)

lemma alive_0: "alive xs = 0 \<longleftrightarrow> set xs \<subseteq> {None}"
proof (induction xs)
  case (Cons x xs)
  with alive_nonneg [of xs] show ?case by (cases x) (auto simp: alive_def)
qed (simp add: alive_def)

lemma sum_list_upd:
  fixes f :: "'a \<Rightarrow> int"
  shows "i < length xs \<Longrightarrow> (\<Sum>x \<leftarrow> xs[i := y]. f x) = (\<Sum>x \<leftarrow> xs. f x) - f (xs ! i) + f y"
  by (induction xs arbitrary: i) (auto split: nat.split)

lemma load_later: "t \<le> t' \<Longrightarrow> load t' xs \<le> load t xs"
  unfolding load_def by (intro sum_list_mono) (auto split: option.splits)

text \<open>The first free slot is free after at most the average of the load.\<close>

lemma load_earliest:
  assumes "earliest xs = Some (i, u)"
  shows "alive xs * (max t u - t) \<le> load t xs"
proof -
  have "(max t u - t) * alive ys \<le> load t ys" if "set ys \<subseteq> set xs" for ys
    using that
  proof (induction ys)
    case (Cons y ys)
    then show ?case
      using earliest_Some [OF assms]
      by (cases y) (auto simp: alive_def load_def distrib_left intro: add_mono order_trans [OF _ max.cobounded1])
  qed (simp add: alive_def load_def)
  then show ?thesis by (simp add: mult.commute)
qed

section \<open>Histories without crashes\<close>

text \<open>The tasks that return, within \<open>D\<close> milliseconds, and those that never do.\<close>

fun mild :: "nat \<Rightarrow> fate \<Rightarrow> bool" where
  "mild D (Ends d) = (d \<le> D)"
| "mild D Hangs = True"
| "mild D (Dies d) = False"

definition returning :: "(bytes \<Rightarrow> fate) \<Rightarrow> task list \<Rightarrow> int" where
  "returning W ts = int (length (filter (\<lambda>(t, xml). W xml \<noteq> Hangs) ts))"

definition hanging :: "(bytes \<Rightarrow> fate) \<Rightarrow> task list \<Rightarrow> int" where
  "hanging W ts = int (length (filter (\<lambda>(t, xml). W xml = Hangs) ts))"

lemma count_simps [simp]:
  "returning W [] = 0" "hanging W [] = 0"
  "returning W ((t, xml) # ts) = (if W xml = Hangs then 0 else 1) + returning W ts"
  "hanging W ((t, xml) # ts) = (if W xml = Hangs then 1 else 0) + hanging W ts"
  by (simp_all add: returning_def hanging_def)

lemma hanging_nonneg: "0 \<le> hanging W ts"
  by (simp add: hanging_def)

lemma submit_mild:
  assumes "mild D f" and "broken_at p = None"
  shows "broken_at (snd (submit now f p)) = None"
    and "alive (free_from (snd (submit now f p))) = max 0 (alive (free_from p) - (if f = Hangs then 1 else 0))"
    and "load now (free_from (snd (submit now f p))) \<le>
      load now (free_from p) + int D * (if f = Hangs then 0 else 1)"
proof -
  have "broken_at (snd (submit now f p)) = None \<and>
    alive (free_from (snd (submit now f p))) = max 0 (alive (free_from p) - (if f = Hangs then 1 else 0)) \<and>
    load now (free_from (snd (submit now f p))) \<le> load now (free_from p) + int D * (if f = Hangs then 0 else 1)"
  proof (cases "earliest (free_from p)")
    case None
    then have "alive (free_from p) = 0" using earliest_None alive_0 by blast
    with None assms(2) show ?thesis by (simp add: submit_def)
  next
    case (Some q)
    obtain i u where q: "q = (i, u)" by fastforce
    note e = earliest_Some [OF Some [unfolded q]]
    have "alive (free_from p) \<noteq> 0" using e nth_mem [of i "free_from p"] by (auto simp: alive_0)
    then have "1 \<le> alive (free_from p)" using alive_nonneg [of "free_from p"] by simp
    with Some q e assms show ?thesis
      by (cases f) (auto simp: submit_def Let_def alive_def load_def sum_list_upd)
  qed
  then show "broken_at (snd (submit now f p)) = None"
    and "alive (free_from (snd (submit now f p))) = max 0 (alive (free_from p) - (if f = Hangs then 1 else 0))"
    and "load now (free_from (snd (submit now f p))) \<le>
      load now (free_from p) + int D * (if f = Hangs then 0 else 1)" by blast+
qed

lemma pool_after_whole:
  "\<forall>(t, xml) \<in> set ts. mild D (W xml) \<Longrightarrow> broken_at p = None \<Longrightarrow> broken_at (pool_after W ts p) = None"
  by (induction W ts p rule: pool_after.induct) (auto simp: submit_mild(1))

lemma pool_after_alive:
  assumes "\<forall>(t, xml) \<in> set ts. mild D (W xml)" and "broken_at p = None"
  shows "alive (free_from (pool_after W ts p)) = max 0 (alive (free_from p) - hanging W ts)"
  using assms
proof (induction W ts p rule: pool_after.induct)
  case (1 W p)
  then show ?case using alive_nonneg [of "free_from p"] by simp
next
  case (2 W t xml ts p)
  then have "alive (free_from (pool_after W ts (snd (submit t (W xml) p)))) =
      max 0 (alive (free_from (snd (submit t (W xml) p))) - hanging W ts)"
    using submit_mild(1) by auto
  then show ?case using 2 submit_mild(2) [of D "W xml" p t] hanging_nonneg [of W ts] by auto
qed

lemma pool_after_load:
  assumes "\<forall>(t, xml) \<in> set ts. mild D (W xml)" and "broken_at p = None" and "sorted (s # map fst ts @ [now])"
  shows "load now (free_from (pool_after W ts p)) \<le> load s (free_from p) + int D * returning W ts"
  using assms
proof (induction W ts p arbitrary: s rule: pool_after.induct)
  case (1 W p)
  then show ?case by (simp add: load_later)
next
  case (2 W t xml ts p)
  then have "load now (free_from (pool_after W ts (snd (submit t (W xml) p)))) \<le>
      load t (free_from (snd (submit t (W xml) p))) + int D * returning W ts"
    using submit_mild(1) by auto
  moreover have "load t (free_from p) \<le> load s (free_from p)" using 2(4) by (intro load_later) simp
  ultimately show ?case
    using 2 submit_mild(3) [of D "W xml" p t] by (auto simp: distrib_left split: if_splits)
qed

lemma new_pool_sel [simp]:
  "broken_at (new_pool x) = None" "load 0 (free_from (new_pool x)) = 0"
  "0 \<le> max_workers x \<Longrightarrow> alive (free_from (new_pool x)) = max_workers x"
  by (simp_all add: new_pool_def load_def alive_def sum_list_replicate)

text \<open>
  With \<open>w\<close> workers, \<open>h\<close> of them taken for ever, a task that needs \<open>d\<close> and comes after \<open>n\<close> tasks of at most
  \<open>D\<close> is ready after \<open>n D / (w - h) + d\<close> at the latest.
\<close>

lemma submit_ready:
  assumes "\<forall>(t, xml) \<in> set before. mild D (W xml)" and "sorted (0 # map fst before @ [now])"
    and "hanging W before < max_workers x"
  obtains u where "fst (submit now (Ends d) (pool_after W before (new_pool x))) = Pending (Some u)" and "now \<le> u"
    and "(max_workers x - hanging W before) * (u - now) \<le>
      int D * returning W before + (max_workers x - hanging W before) * int d"
proof -
  let ?p = "pool_after W before (new_pool x)"
  have w: "0 \<le> max_workers x" using assms(3) hanging_nonneg [of W before] by simp
  note p = pool_after_whole [OF assms(1), of "new_pool x"] pool_after_alive [OF assms(1), of "new_pool x"]
    pool_after_load [OF assms(1) _ assms(2), of "new_pool x"]
  have a: "alive (free_from ?p) = max_workers x - hanging W before" using p(2) w assms(3) by simp
  then have "earliest (free_from ?p) \<noteq> None" using assms(3) alive_0 [of "free_from ?p"] by (simp add: earliest_None)
  then obtain i u where e: "earliest (free_from ?p) = Some (i, u)" by auto
  have "alive (free_from ?p) * (max now u - now) \<le> int D * returning W before"
    using load_earliest [OF e, of now] p(3) by simp
  then have "(max_workers x - hanging W before) * (max now u + int d - now) \<le>
      int D * returning W before + (max_workers x - hanging W before) * int d"
    unfolding a by (simp add: algebra_simps)
  moreover have "fst (submit now (Ends d) ?p) = Pending (Some (max now u + int d))"
    using e p(1) by (simp add: submit_def Let_def)
  ultimately show thesis by (intro that) auto
qed

lemma submit_full:
  assumes "\<forall>(t, xml) \<in> set before. mild D (W xml)" and "max_workers x \<le> hanging W before" and "0 \<le> max_workers x"
  shows "submit now f (pool_after W before (new_pool x)) = (Pending None, pool_after W before (new_pool x))"
proof -
  let ?p = "pool_after W before (new_pool x)"
  have "alive (free_from ?p) = 0" using pool_after_alive [OF assms(1), of "new_pool x"] assms(2,3) by simp
  then have "earliest (free_from ?p) = None" by (simp add: alive_0 earliest_None)
  with pool_after_whole [OF assms(1), of "new_pool x"] show ?thesis by (simp add: submit_def)
qed

section \<open>Crashes\<close>

lemma submit_broken:
  "broken_at p = Some b \<Longrightarrow> \<exists>b'. broken_at (snd (submit now f p)) = Some b' \<and> b' \<le> b"
  by (auto simp: submit_def Let_def first_break_def split: option.split fate.split)

lemma pool_after_broken:
  "broken_at p = Some b \<Longrightarrow> \<exists>b'. broken_at (pool_after W ts p) = Some b' \<and> b' \<le> b"
proof (induction W ts p arbitrary: b rule: pool_after.induct)
  case (2 W t xml ts p)
  from submit_broken [OF 2(2), of t "W xml"] 2(1) show ?case by fastforce
qed simp

lemma pool_after_append: "pool_after W (ts @ us) p = pool_after W us (pool_after W ts p)"
  by (induction W ts p rule: pool_after.induct) simp_all

lemma submit_refused: "broken_at p = Some b \<Longrightarrow> b \<le> now \<Longrightarrow> submit now f p = (Refused, p)"
  by (simp add: submit_def)

lemma submit_dies:
  assumes "fst (submit now (Ends d) p) = Pending (Some u)" and "broken_at p = None"
  shows "broken_at (snd (submit now (Dies d) p)) = Some u"
  using assms by (auto simp: submit_def Let_def first_break_def split: option.splits)

text \<open>Whatever the workers do, the caller has its answer by the deadline.\<close>

lemma run_task_deadline: "snd (run_task W before now later x xml timeout) \<le> now + 1000 * max 0 timeout"
  by (auto simp: run_task_def future_result_def Let_def split: prod.split future.split option.split)

section \<open>Calls that reach the pool\<close>

lemma tasks_append [simp]: "tasks S (cs @ ds) = tasks S cs @ tasks S ds"
  by (simp add: tasks_def)

lemma tasks_Cons: "tasks S ((t, n, c) # cs) = (case pool_job S n c of None \<Rightarrow> [] | Some xml \<Rightarrow> [(t, xml)]) @ tasks S cs"
  by (simp add: tasks_def)

lemma tasks_Nil [simp]: "tasks S [] = []"
  by (simp add: tasks_def)

lemma pool_update_sel:
  "svc_lxml (S\<lparr>pool := P\<rparr>) = svc_lxml S" "svc_facturx (S\<lparr>pool := P\<rparr>) = svc_facturx S"
  "svc_engine (S\<lparr>pool := P\<rparr>) = svc_engine S" "project_root (S\<lparr>pool := P\<rparr>) = project_root S"
  by simp_all

lemma pool_update [simp]:
  "extract_xml (S\<lparr>pool := P\<rparr>) = extract_xml S" "detect_profile (S\<lparr>pool := P\<rparr>) = detect_profile S"
  "XSD_PATH (S\<lparr>pool := P\<rparr>) = XSD_PATH S" "XSLT_PATH (S\<lparr>pool := P\<rparr>) = XSLT_PATH S"
  "assets_available (S\<lparr>pool := P\<rparr>) = assets_available S"
  unfolding fun_eq_iff extract_xml_def detect_profile_def assets_available_def XSD_PATH_def XSLT_PATH_def
    docs_root_def pool_update_sel by simp_all

lemma pool_job_run:
  assumes "pool_job S n c = Some xml" and "get_executor svc = Inr (x, svc')"
  obtains r where "\<not> r_is_valid r" and "r_errors r = []" and
    "\<And>P. service_validate (S\<lparr>pool := P\<rparr>) c n svc =
       (run_in_pool (S\<lparr>pool := P\<rparr>) x (VALIDATION_TIMEOUT (svc_config svc)) xml r, svc')"
proof -
  from assms(1) obtain pdf r where r: "is_pdf n c = Inr pdf" "extract_xml S c pdf initial_result = Inr xml"
    "detect_profile S xml initial_result = Inr r" "assets_available S"
    by (auto simp: pool_job_def split: sum.splits if_splits)
  have "service_validate (S\<lparr>pool := P\<rparr>) c n svc =
      (run_in_pool (S\<lparr>pool := P\<rparr>) x (VALIDATION_TIMEOUT (svc_config svc)) xml r, svc')" for P
    using r assms(2) by (simp add: service_validate_def)
  moreover have "\<not> r_is_valid r" "r_errors r = []" using r(3) by (auto simp: detect_profile_Inr)
  ultimately show thesis by (intro that)
qed

lemma run_in_pool_sel:
  "P x xml t = Some e \<Longrightarrow> run_in_pool (S\<lparr>pool := P\<rparr>) x t xml r =
     (case e of FuturesTimeoutError m \<Rightarrow>
        append_error ''FX-TIMEOUT'' (''Validation timed out after '' @ int_str t @ ''s'') ''system'' r
      | _ \<Rightarrow> append_error ''FX-POOL-ERROR'' (''Process pool error: '' @ exn_str e) ''system'' r)"
  "P x xml t = None \<Longrightarrow> Q x xml t = None \<Longrightarrow> run_in_pool (S\<lparr>pool := P\<rparr>) x t xml r = run_in_pool (S\<lparr>pool := Q\<rparr>) x t xml r"
  by (cases e) (simp_all add: run_in_pool_def)

lemma demo_executor:
  "get_executor demo_svc = Inr (\<lparr>max_workers = 2, max_tasks_per_child = 100\<rparr>,
     demo_svc\<lparr>svc_executor := Some \<lparr>max_workers = 2, max_tasks_per_child = 100\<rparr>\<rparr>)"
  "VALIDATION_TIMEOUT (svc_config demo_svc) = 30"
  by code_simp+

lemma demo_job: "pool_job demo_service (Some ''f.pdf'') ''%PDF'' = Some ''<xml/>''"
  by code_simp

section \<open>Properties\<close>

text \<open>
  Claim C7.  The wait in the pool is bounded.  Let \<open>w\<close> workers serve a history in which every worker returns within
  \<open>D\<close> milliseconds or hangs, \<open>h\<close> calls before this one hung, fewer than \<open>w\<close>, and \<open>k\<close> returned.  A document
  whose worker needs \<open>d\<close> then has its verdict after at most \<open>k D / (w - h) + d\<close>; when the timeout is not shorter
  than that, the report is the one of the engine, as if the document were alone.
\<close>

theorem pool_in_time:
  assumes "get_executor svc = Inr (x, svc')" and "pool_job S n c = Some xml" and "W xml = Ends d"
    and "\<forall>(t, y) \<in> set (tasks S (before @ later)). mild D (W y)" and "sorted (0 # map fst (tasks S before) @ [now])"
    and "h = hanging W (tasks S before)" and "k = returning W (tasks S before)" and "h < max_workers x"
    and "int D * k + (max_workers x - h) * int d \<le> (max_workers x - h) * (1000 * VALIDATION_TIMEOUT (svc_config svc))"
  shows "timed_validate S W before now later c n svc = service_validate (S\<lparr>pool := \<lambda>x y t. None\<rparr>) c n svc \<and>
    (\<exists>u. run_task W (tasks S before) now (tasks S later) x xml (VALIDATION_TIMEOUT (svc_config svc)) = (None, u) \<and>
       now \<le> u \<and> (max_workers x - h) * (u - now) \<le> int D * k + (max_workers x - h) * int d)"
proof -
  let ?T = "VALIDATION_TIMEOUT (svc_config svc)" and ?p = "pool_after W (tasks S before) (new_pool x)"
  have mild: "\<forall>(t, y) \<in> set (tasks S before). mild D (W y)" "\<forall>(t, y) \<in> set (tasks S later). mild D (W y)"
    using assms(4) by auto
  obtain u where u: "fst (submit now (Ends d) ?p) = Pending (Some u)" "now \<le> u"
    "(max_workers x - h) * (u - now) \<le> int D * k + (max_workers x - h) * int d"
    using submit_ready [OF mild(1) assms(5), of x d] assms(6-8) by auto
  then have "(max_workers x - h) * (u - now) \<le> (max_workers x - h) * (1000 * ?T)" using assms(9) by linarith
  then have "u - now \<le> 1000 * ?T" using assms(8) by (simp add: mult_le_cancel_left)
  moreover have "broken_at (pool_after W (tasks S later) (snd (submit now (Ends d) ?p))) = None"
  proof (rule pool_after_whole [OF mild(2)])
    show "broken_at (snd (submit now (Ends d) ?p)) = None"
      by (rule submit_mild(1) [of d]) (simp_all add: pool_after_whole [OF mild(1)])
  qed
  ultimately have run: "run_task W (tasks S before) now (tasks S later) x xml ?T = (None, u)"
    using u(1,2) assms(3) by (auto simp: run_task_def future_result_def Let_def split: prod.split)
  obtain r where r: "\<And>P. service_validate (S\<lparr>pool := P\<rparr>) c n svc = (run_in_pool (S\<lparr>pool := P\<rparr>) x ?T xml r, svc')"
    using pool_job_run [OF assms(2,1)] by blast
  show ?thesis
    using run u(2,3) unfolding timed_validate_def r by (auto intro: run_in_pool_sel(2))
qed

theorem pool_in_time_witness:
  "timed_validate demo_service (\<lambda>y. Ends 15000) [(0, Some ''f.pdf'', ''%PDF''), (0, Some ''f.pdf'', ''%PDF'')] 1000 []
     ''%PDF'' (Some ''f.pdf'') demo_svc =
   service_validate (demo_service\<lparr>pool := \<lambda>x y t. None\<rparr>) ''%PDF'' (Some ''f.pdf'') demo_svc"
proof -
  let ?before = "[(0, Some ''f.pdf'', ''%PDF''), (0, Some ''f.pdf'', ''%PDF'')]"
  have "tasks demo_service ?before = [(0, ''<xml/>''), (0, ''<xml/>'')]" by (simp add: tasks_Cons demo_job)
  then show ?thesis
    using pool_in_time [OF demo_executor(1) demo_job, where W = "\<lambda>y. Ends 15000" and d = 15000 and before = ?before and
        later = "[]" and D = 15000 and now = 1000 and h = 0 and k = 2]
    by (simp add: demo_executor(2))
qed

text \<open>
  Claim C12.  Hanging documents use the pool up.  The service never cancels a future and never replaces its pool, so once
  as many documents have hung as there are workers, every later document that reaches the pool is reported
  as timed out, whatever its worker would do and however long ago that was, after the whole timeout.
\<close>

theorem pool_exhausted:
  assumes "get_executor svc = Inr (x, svc')" and "pool_job S n c = Some xml"
    and "\<forall>(t, y) \<in> set (tasks S before). mild D (W y)" and "0 \<le> max_workers x"
    and "max_workers x \<le> hanging W (tasks S before)"
  shows "\<exists>r. timed_validate S W before now later c n svc =
      (append_error ''FX-TIMEOUT'' (''Validation timed out after '' @ int_str (VALIDATION_TIMEOUT (svc_config svc)) @ ''s'')
         ''system'' r, svc') \<and> \<not> r_is_valid r \<and>
    snd (run_task W (tasks S before) now (tasks S later) x xml (VALIDATION_TIMEOUT (svc_config svc))) =
      now + 1000 * max 0 (VALIDATION_TIMEOUT (svc_config svc))"
proof -
  let ?T = "VALIDATION_TIMEOUT (svc_config svc)" and ?p = "pool_after W (tasks S before) (new_pool x)"
  have full: "submit t f ?p = (Pending None, ?p)" for t f
    using submit_full [OF assms(3,5,4)] .
  have "pool_after W ts ?p = ?p" for ts
    by (induction ts) (auto simp: full)
  with full pool_after_whole [OF assms(3)] have run: "run_task W (tasks S before) now (tasks S later) x xml ?T =
      (Some (FuturesTimeoutError []), now + 1000 * max 0 ?T)"
    by (simp add: run_task_def future_result_def Let_def)
  obtain r where r: "\<not> r_is_valid r"
    "\<And>P. service_validate (S\<lparr>pool := P\<rparr>) c n svc = (run_in_pool (S\<lparr>pool := P\<rparr>) x ?T xml r, svc')"
    using pool_job_run [OF assms(2,1)] by blast
  show ?thesis
    by (intro exI [of _ r]) (simp add: timed_validate_def r run run_in_pool_sel(1))
qed

theorem pool_exhausted_witness:
  "\<exists>r. fst (timed_validate demo_service (\<lambda>y. Hangs) [(0, Some ''f.pdf'', ''%PDF''), (5, Some ''f.pdf'', ''%PDF'')] 86400000 []
     ''%PDF'' (Some ''f.pdf'') demo_svc) = append_error ''FX-TIMEOUT'' ''Validation timed out after 30s'' ''system'' r"
proof -
  let ?before = "[(0, Some ''f.pdf'', ''%PDF''), (5, Some ''f.pdf'', ''%PDF'')]"
  have "tasks demo_service ?before = [(0, ''<xml/>''), (5, ''<xml/>'')]" by (simp add: tasks_Cons demo_job)
  moreover have "''Validation timed out after '' @ int_str 30 @ ''s'' = ''Validation timed out after 30s''" by code_simp
  ultimately show ?thesis
    using pool_exhausted [OF demo_executor(1) demo_job, where before = ?before and D = 0 and W = "\<lambda>y. Hangs" and
        later = "[]" and now = 86400000]
    by (auto simp: demo_executor(2))
qed

text \<open>
  Claim C10.  One crash breaks the pool for good.  After a worker process died on a document that found a free slot,
  which is certain once its own time and its wait are over, every later document that reaches the pool is
  reported at once with the pool's error, whatever it is: the executor stays in place although it is not usable
  any more.
\<close>

theorem pool_broken:
  assumes "get_executor svc = Inr (x, svc')" and "pool_job S n c = Some xml" and "pool_job S n\<^sub>0 c\<^sub>0 = Some xml\<^sub>0"
    and "W xml\<^sub>0 = Dies d" and "\<forall>(t, y) \<in> set (tasks S early). mild D (W y)"
    and "sorted (0 # map fst (tasks S early) @ [t\<^sub>0])" and "hanging W (tasks S early) < max_workers x"
    and "int D * returning W (tasks S early) + (max_workers x - hanging W (tasks S early)) * int d \<le>
      (max_workers x - hanging W (tasks S early)) * (now - t\<^sub>0)"
  shows "\<exists>r. timed_validate S W (early @ (t\<^sub>0, n\<^sub>0, c\<^sub>0) # between) now later c n svc =
      (append_error ''FX-POOL-ERROR'' (''Process pool error: '' @ exn_str pool_unusable) ''system'' r, svc') \<and> \<not> r_is_valid r \<and>
    snd (run_task W (tasks S (early @ (t\<^sub>0, n\<^sub>0, c\<^sub>0) # between)) now (tasks S later) x xml
      (VALIDATION_TIMEOUT (svc_config svc))) = now"
proof -
  let ?T = "VALIDATION_TIMEOUT (svc_config svc)" and ?p = "pool_after W (tasks S early) (new_pool x)"
    and ?w = "max_workers x - hanging W (tasks S early)" and ?ts = "tasks S (early @ (t\<^sub>0, n\<^sub>0, c\<^sub>0) # between)"
  obtain u where u: "fst (submit t\<^sub>0 (Ends d) ?p) = Pending (Some u)"
    "?w * (u - t\<^sub>0) \<le> int D * returning W (tasks S early) + ?w * int d"
    using submit_ready [OF assms(5,6,7), of d] by blast
  then have "?w * (u - t\<^sub>0) \<le> ?w * (now - t\<^sub>0)" using assms(8) by linarith
  then have "u \<le> now" using assms(7) by (simp add: mult_le_cancel_left)
  have "broken_at (snd (submit t\<^sub>0 (Dies d) ?p)) = Some u"
    by (rule submit_dies [OF u(1)]) (simp add: pool_after_whole [OF assms(5)])
  from pool_after_broken [OF this, of W "tasks S between"] obtain b where
    "broken_at (pool_after W ?ts (new_pool x)) = Some b" "b \<le> now"
    using \<open>u \<le> now\<close> assms(3,4) by (auto simp: tasks_Cons pool_after_append)
  from submit_refused [OF this] have run: "run_task W ?ts now (tasks S later) x xml ?T = (Some pool_unusable, now)"
    by (simp add: run_task_def future_result_def Let_def)
  obtain r where r: "\<not> r_is_valid r"
    "\<And>P. service_validate (S\<lparr>pool := P\<rparr>) c n svc = (run_in_pool (S\<lparr>pool := P\<rparr>) x ?T xml r, svc')"
    using pool_job_run [OF assms(2,1)] by blast
  show ?thesis
    by (intro exI [of _ r]) (simp only: timed_validate_def r run run_in_pool_sel(1) fst_conv snd_conv,
        simp add: pool_unusable_def r run_in_pool_sel(1))
qed

theorem pool_broken_witness:
  "\<exists>r. fst (timed_validate demo_service (\<lambda>y. Dies 250) [(0, Some ''f.pdf'', ''%PDF'')] 1000 [] ''%PDF'' (Some ''f.pdf'') demo_svc) =
     append_error ''FX-POOL-ERROR'' (''Process pool error: '' @ exn_str pool_unusable) ''system'' r"
proof -
  show ?thesis
    using pool_broken [OF demo_executor(1) demo_job demo_job, where W = "\<lambda>y. Dies 250" and d = 250 and early = "[]" and
        D = 0 and t\<^sub>0 = 0 and now = 1000 and between = "[]" and later = "[]"] by force
qed

end
