(* ===== verification/Log_Format.thy ===== *)
theory Log_Format
  imports Main_App
begin

text \<open>
  The log lines: Python's \<^verbatim>\<open>json.dumps\<close> with its defaults, and \<^verbatim>\<open>JsonFormatter.format\<close> of \<^verbatim>\<open>app/main.py\<close>, which
  writes every log record as one JSON object.
\<close>

section \<open>\<^verbatim>\<open>json.dumps\<close>\<close>

text \<open>The code point of a character in UTF-8.\<close>

fun cp_value :: "pystr \<Rightarrow> int" where
  "cp_value [a] = byte_of a"
| "cp_value [a, b] = (byte_of a - 0xC0) * 64 + (byte_of b - 0x80)"
| "cp_value [a, b, c] = ((byte_of a - 0xE0) * 64 + (byte_of b - 0x80)) * 64 + (byte_of c - 0x80)"
| "cp_value [a, b, c, d] =
     (((byte_of a - 0xF0) * 64 + (byte_of b - 0x80)) * 64 + (byte_of c - 0x80)) * 64 + (byte_of d - 0x80)"
| "cp_value w = 0"

text \<open>\<^verbatim>\<open>'\\u{:04x}'\<close>, for a value below 65536.\<close>

definition u_escape :: "int \<Rightarrow> pystr" where
  "u_escape n = [CHR 0x5C, CHR ''u''] @
     map hex_char [n div 4096 mod 16, n div 256 mod 16, n div 16 mod 16, n mod 16]"

text \<open>
  One character: printable ASCII as it is, except the quote and the backslash; the short escapes; everything
  else by its code point, as a surrogate pair beyond the basic plane.
\<close>

definition escape_char :: "pystr \<Rightarrow> pystr" where
  "escape_char w =
     (let n = cp_value w in
      if n = 0x22 then [CHR 0x5C, CHR 0x22]
      else if n = 0x5C then [CHR 0x5C, CHR 0x5C]
      else if 32 \<le> n \<and> n \<le> 126 then [char_of n]
      else if n = 0x0A then [CHR 0x5C, CHR ''n'']
      else if n = 0x0D then [CHR 0x5C, CHR ''r'']
      else if n = 0x09 then [CHR 0x5C, CHR ''t'']
      else if n = 0x0C then [CHR 0x5C, CHR ''f'']
      else if n = 0x08 then [CHR 0x5C, CHR ''b'']
      else if n < 0x10000 then u_escape n
      else u_escape (0xD800 + (n - 0x10000) div 1024 mod 1024) @ u_escape (0xDC00 + (n - 0x10000) mod 1024))"

definition dumps_str :: "pystr \<Rightarrow> pystr" where
  "dumps_str s = [CHR 0x22] @ concat (map escape_char (codepoints s)) @ [CHR 0x22]"

fun dumps_float :: "pyfloat \<Rightarrow> pystr" where
  "dumps_float FNan = ''NaN''"
| "dumps_float (FInf s) = (if s then ''-Infinity'' else ''Infinity'')"
| "dumps_float x = float_repr x"

fun json_dumps :: "json \<Rightarrow> pystr" where
  "json_dumps JNull = ''null''"
| "json_dumps (JBool b) = (if b then ''true'' else ''false'')"
| "json_dumps (JInt n) = int_str n"
| "json_dumps (JFloat x) = dumps_float x"
| "json_dumps (JStr s) = dumps_str s"
| "json_dumps (JArr xs) = ''['' @ join '', '' (map json_dumps xs) @ '']''"
| "json_dumps (JObj kvs) = ''{'' @ join '', '' (map (\<lambda>(k, v). dumps_str k @ '': '' @ json_dumps v) kvs) @ ''}''"

text \<open>\<^verbatim>\<open>JsonFormatter.format\<close>.\<close>

definition format_record :: "log_record \<Rightarrow> pystr" where
  "format_record r = json_dumps (log_object r)"

text \<open>
  The handler: \<^verbatim>\<open>basicConfig(level=logging.INFO)\<close> drops the records whose number is below that of the level, the
  stream handler writes each other one, formatted, and a line feed.
\<close>

definition logging_INFO :: int where
  "logging_INFO = 20"

definition emit :: "log_record \<Rightarrow> pystr" where
  "emit r = (if logging_INFO \<le> levelno r then format_record r @ [CHR 0x0A] else [])"

section \<open>Printable output\<close>

definition printable :: "pystr \<Rightarrow> bool" where
  "printable s \<longleftrightarrow> (\<forall>c \<in> set s. 32 \<le> byte_of c \<and> byte_of c \<le> 126)"

lemma printable_simps [simp]:
  "printable []" "printable (c # s) \<longleftrightarrow> 32 \<le> byte_of c \<and> byte_of c \<le> 126 \<and> printable s"
  "printable (s @ t) \<longleftrightarrow> printable s \<and> printable t"
  by (auto simp: printable_def)

lemma printable_concat: "(\<And>w. w \<in> set ws \<Longrightarrow> printable w) \<Longrightarrow> printable (concat ws)"
  by (auto simp: printable_def)

lemma printable_join: "printable d \<Longrightarrow> (\<And>w. w \<in> set ws \<Longrightarrow> printable w) \<Longrightarrow> printable (join d ws)"
  by (induction d ws rule: join.induct) auto

lemma byte_of_code: "0 \<le> n \<Longrightarrow> n < 256 \<Longrightarrow> byte_of (char_of n) = n"
  by (simp add: byte_of_def)

lemma printable_u_escape: "printable (u_escape n)"
proof -
  have "32 \<le> byte_of (hex_char k) \<and> byte_of (hex_char k) \<le> 126" if "0 \<le> k" "k < 16" for k
    using that by (simp add: hex_char_def byte_of_code)
  then show ?thesis by (simp add: u_escape_def byte_of_def)
qed

lemma printable_escape: "printable (escape_char w)"
  by (simp add: escape_char_def Let_def printable_u_escape byte_of_code) (simp add: byte_of_def)

lemma printable_dumps_str: "printable (dumps_str s)"
proof -
  have "printable (concat (map escape_char (codepoints s)))"
    by (rule printable_concat) (auto simp: printable_escape)
  then show ?thesis by (simp add: dumps_str_def byte_of_def)
qed

lemma digit_printable: "is_digit c \<Longrightarrow> 32 \<le> byte_of c \<and> byte_of c \<le> 126"
  by (simp add: is_digit_def)

lemma printable_int_str: "printable (int_str n)"
proof -
  have "printable (dec_str k)" if "0 \<le> k" for k
    using dec_str_digits [OF that] digit_printable by (auto simp: printable_def)
  then show ?thesis by (simp add: int_str_def byte_of_def)
qed

text \<open>JSON without floats.\<close>

fun no_floats :: "json \<Rightarrow> bool" where
  "no_floats (JFloat x) = False"
| "no_floats (JArr xs) = list_all no_floats xs"
| "no_floats (JObj kvs) = list_all (\<lambda>(k, v). no_floats v) kvs"
| "no_floats v = True"

lemma printable_dumps: "no_floats v \<Longrightarrow> printable (json_dumps v)"
proof (induction v rule: json_dumps.induct)
  case (6 xs)
  then show ?case by (auto simp: list_all_iff byte_of_def intro!: printable_join)
next
  case (7 kvs)
  then show ?case by (force simp: list_all_iff byte_of_def printable_dumps_str intro!: printable_join)
qed (simp_all add: printable_dumps_str printable_int_str byte_of_def)

section \<open>Properties\<close>

lemma format_printable:
  "\<forall>v. request_id r = Some v \<longrightarrow> no_floats v \<Longrightarrow> printable (format_record r)"
  unfolding format_record_def by (rule printable_dumps) (auto simp: log_object_def split: option.split)

lemma printable_no_newline: "printable s \<Longrightarrow> CHR 0x0A \<notin> set s"
  by (auto simp: printable_def byte_of_def)

text \<open>
  Claim C32.  One record, one line.  Whatever the messages, exception texts and other fields of the log records are, line
  feeds, quotes, control characters and any Unicode included, the log is printable ASCII with exactly one line for
  every record of level \<^verbatim>\<open>INFO\<close> or above, in order: no input can end its line early and forge another record.  The one
  field that may be any JSON value, \<^verbatim>\<open>request_id\<close>, must hold no float; nothing in the repository sets it.
\<close>

theorem log_stream_lines:
  assumes "\<forall>r \<in> set rs. \<forall>v. request_id r = Some v \<longrightarrow> no_floats v"
  shows "split_on (CHR 0x0A) (concat (map emit rs)) =
      map format_record (filter (\<lambda>r. 20 \<le> levelno r) rs) @ [[]] \<and>
    (\<forall>r \<in> set rs. \<forall>c \<in> set (format_record r). 32 \<le> byte_of c \<and> byte_of c \<le> 126)"
proof
  have p: "printable (format_record r)" if "r \<in> set rs" for r
    using assms that by (blast intro: format_printable)
  then show "\<forall>r \<in> set rs. \<forall>c \<in> set (format_record r). 32 \<le> byte_of c \<and> byte_of c \<le> 126"
    by (auto simp: printable_def)
  show "split_on (CHR 0x0A) (concat (map emit rs)) =
      map format_record (filter (\<lambda>r. 20 \<le> levelno r) rs) @ [[]]"
    using p
  proof (induction rs)
    case (Cons r rs)
    then have "CHR 0x0A \<notin> set (format_record r)" using printable_no_newline by simp
    with Cons show ?case by (auto simp: emit_def logging_INFO_def split_on_append)
  qed simp
qed

definition forged_record :: log_record where
  "forged_record = \<lparr>log_time = ''t'', levelno = 20, levelname = ''INFO'', log_text = ''a'' @ [CHR 0x0A, CHR 0x22] @ e_acute,
     log_module = ''api'', lineno = 7, request_id = None, exc_text = None\<rparr>"

theorem log_stream_lines_witness:
  "split_on (CHR 0x0A) (concat (map emit [forged_record, forged_record])) =
     [format_record forged_record, format_record forged_record, []] \<and>
   dumps_str (log_text forged_record) =
     [CHR 0x22, CHR ''a'', CHR 0x5C, CHR ''n'', CHR 0x5C, CHR 0x22, CHR 0x5C] @ ''u00e9'' @ [CHR 0x22]"
proof
  show "split_on (CHR 0x0A) (concat (map emit [forged_record, forged_record])) =
     [format_record forged_record, format_record forged_record, []]"
    using log_stream_lines [of "[forged_record, forged_record]"] by (simp add: forged_record_def)
qed code_simp

end
