(* ===== verification/Spec2Isabelle.thy ===== *)
theory Spec2Isabelle
  imports Odoo_Settings Support_Bundle Example_Client Round_Trip Process_Pool Log_Format
begin

text \<open>
  The Factur-X engine: a verification library.

  \<^bold>\<open>The program.\<close>  The engine is an HTTP service (\<^verbatim>\<open>app/\<close>) that embeds an invoice as XML in a PDF
  (\<^verbatim>\<open>/v1/convert\<close>, \<^verbatim>\<open>/v1/xml\<close>), checks such files (\<^verbatim>\<open>/v1/validate\<close>) and reads them (\<^verbatim>\<open>/v1/extract\<close>).  Its
  parts call each other as follows.  The endpoints (\<^verbatim>\<open>app/api.py\<close>) count every request in the metrics
  collector (\<^verbatim>\<open>app/metrics.py\<close>), ask the license check (\<^verbatim>\<open>app/license.py\<close>) which report to give, and hand
  the work to the services: the generator (\<^verbatim>\<open>services/generator.py\<close>), which renders the template
  \<^verbatim>\<open>templates/factur-x.xml.j2\<close> and whose quality gate calls the hybrid
  validation service (\<^verbatim>\<open>services/hybrid_validation_service.py\<close>), which runs the hybrid engine
  (\<^verbatim>\<open>services/hybrid_validator.py\<close>) in a process pool; the lite validator (\<^verbatim>\<open>services/validator.py\<close>), used
  when the hybrid one cannot be imported; and the extraction service (\<^verbatim>\<open>services/extractor.py\<close>).  The
  application (\<^verbatim>\<open>app/main.py\<close>) verifies the license at start-up, limits uploads and exposes the metrics;
  \<^verbatim>\<open>app/diagnostics.py\<close> reports versions and settings.  Outside the service, an Odoo module
  (\<^verbatim>\<open>integrations/odoo\<close>) imports invoices through the extraction endpoint, \<^verbatim>\<open>examples/python/validate.py\<close> is a
  client of the validation endpoint, and \<^verbatim>\<open>tools/support_bundle.py\<close> collects data for support.

  \<^bold>\<open>The theories\<close>, from the bottom up.

  \<^item> \<open>Fx_Prelude\<close>: Python's text (UTF-8), dictionaries, numerals, exceptions as the sum type \<open>'a result\<close>,
    environment variables, and the lemma collections.
  \<^item> \<open>Py_Float\<close>, \<open>Float_Repr\<close>: IEEE doubles as Python has them: correctly rounded reading, arithmetic,
    \<^verbatim>\<open>f"{x:.2f}"\<close> and \<^verbatim>\<open>repr\<close>.  Their lemmas bound every rounding, show that amounts with two decimals
    and sums of them survive the conversion, that \<^verbatim>\<open>float(repr(x))\<close> is \<open>x\<close> for every double, and that an amount
    printed with two decimals prints the same again once it is read.
  \<^item> \<open>Py_Json\<close>, \<open>Xml_Lib\<close>: JSON values and the interface of lxml and of the factur-x package.
  \<^item> \<open>Metrics\<close> (\<^verbatim>\<open>app/metrics.py\<close>): the collector's state as the record \<open>metrics\<close>, one operation per method.
    The locale \<open>additive_store\<close>, interpreted for counters, gauges and labelled counters, gives that the
    end values do not depend on the order of the operations that add; for gauges these are all but \<^verbatim>\<open>set_gauge\<close>
    (\<open>no_set\<close>), which no handler uses.
  \<^item> \<open>License\<close> (\<^verbatim>\<open>app/license.py\<close>, \<^verbatim>\<open>app/constants.py\<close>): signature, payload, expiry and the cache; the locale \<open>ttl_cache\<close>
    is its contract.  \<open>license_history\<close> runs the calls of a process from its start, and the lemmas trace every verdict
    to the call of the history that computed it.
  \<^item> \<open>Verdict\<close>: the locale \<open>verdict\<close>, the contract \<open>valid exactly when nothing blocks\<close>, interpreted for the lite validator,
    the hybrid engine and the service.
  \<^item> \<open>Lite_Validator\<close>, \<open>Hybrid_Engine\<close>, \<open>Hybrid_Service\<close>: the three validators, with the pool's life cycle as
    an inductive reachability predicate.
  \<^item> \<open>Process_Pool\<close>: the pool over time, for whole histories of concurrent validations: slots, queue and deadlines of the
    executor, documents that hang and workers that die.  Its lemmas bound the wait by the load of the slots and
    show what hanging and crashing documents do to all later ones.
  \<^item> \<open>Xml_Tree\<close>: documents as trees, their text, and the selection of nodes by paths of child and descendant steps.
  \<^item> \<open>Jinja\<close>, \<open>Template\<close>: the part of Jinja2 the template uses, with its error values, and the template itself as data, part by
    part (\<open>t_document\<close>, \<open>t_seller\<close>, \<open>t_line\<close> and so on), applied to the context the generator makes of the metadata
    (\<open>model_dump\<close>).  The lemmas show that every part renders, as the total function \<open>trees\<close> says.
  \<^item> \<open>Extractor\<close>, \<open>Schemas\<close>, \<open>Generator\<close>: extraction, the request models (\<^verbatim>\<open>app/schemas\<close>), and generation with its gate.
  \<^item> \<open>Tree_Reader\<close>: the locales \<open>tree_reader\<close> and \<open>document_reader\<close>, the contract of the XML package on one document, interpreted
    for the package that works on trees; \<open>inside\<close> says which elements belong to the document, so the laws promise
    nothing of other documents.  Reading an invoice through any such package is reading its tree.
  \<^item> \<open>Invoice_Tree\<close>, \<open>Round_Trip\<close>: what each query of the extraction service finds in the rendered document, and from it the
    round trip from the metadata through generation and extraction to the report (\<open>reported\<close> says what the report is).
  \<^item> \<open>Api\<close>, \<open>Main_App\<close>, \<open>Diagnostics\<close>: the handlers, start-up, size limit, settings and reports.
  \<^item> \<open>Log_Format\<close>: \<^verbatim>\<open>json.dumps\<close>, the log formatter and the handler, which compares the numeric level of a record.
  \<^item> \<open>Http_App\<close>: the application as one function \<open>serve\<close> from a request and the server's state to the answer and the new state:
    the collector, which the first handler that runs creates, middlewares, routes, dispatch to the handlers, and histories of requests from start-up on.
  \<^item> \<open>Odoo_Connector\<close>, \<open>Odoo_Settings\<close>, \<open>Support_Bundle\<close>, \<open>Example_Client\<close>: the clients; \<open>Odoo_Settings\<close> follows an import from
    the settings form through \<open>serve\<close> to the values that are written.
  \<^item> this theory: the accounting of finished requests and of requests in flight, in which the operations of
    several handlers interleave.

  \<^bold>\<open>Correspondence.\<close>  A Python function is the definition of the same name; a class or a model is a record.  A handler
  that changes state returns the new state; exceptions are \<open>Inl\<close> values, and every \<^verbatim>\<open>try\<close> is a \<open>catchR\<close> or a case on them.  The
  metric operations a handler performs are returned as a list, so that they can be run in any interleaving;
  each is atomic because the collector holds its lock.  The log output is left out, except for the
  formatter and its handler in \<open>Log_Format\<close>.  \<open>fate\<close> and the executor of \<open>Process_Pool\<close>, and \<open>json_dumps\<close> with its
  parts, model what the program uses of Python's standard library.

  \<^bold>\<open>Parameters.\<close>  Code outside the repository is an argument: lxml and the factur-x package (\<open>lxml\<close>,
  \<open>facturx\<close>), SaxonC (in \<open>engine_lib\<close>), the process pool (\<open>pool\<close>), PyNaCl, hashlib and base64 (\<open>license_lib\<close>),
  pydantic's construction of a model from JSON (\<open>new_metadata\<close>) and of the answer of the extraction endpoint
  (\<open>result_refused\<close>), the loading of the template file (\<open>template_error\<close>) and
  \<^verbatim>\<open>repr\<close> on texts (\<open>text_repr\<close>, which only shows in notes that are dictionaries with nested values), psutil and platform
  (\<open>host\<close>), Odoo's ORM and \<^verbatim>\<open>requests\<close> (\<open>odoo\<close>, \<open>post\<close>, and \<open>encoding\<close> for the
  multipart form it sends: the body and its boundary), Odoo's settings form (\<open>settings_lib\<close>), and FastAPI's and Starlette's
  router, form reading and CORS answers (\<open>web_lib\<close>).  What a worker process does with a document is the
  argument \<open>W\<close> of \<open>Process_Pool\<close>; the executor itself is Python's and is modelled.  What a theorem needs of them is a named hypothesis
  (\<open>queries_ok\<close>, \<open>xsd_logs\<close>, \<open>embeds\<close>, \<open>plain_packages\<close>, \<open>delivered\<close>, \<open>tree_reader\<close>, \<open>document_reader\<close>,
  \<open>first_match\<close>, \<open>plain_forms\<close>, \<open>form_contract\<close>, \<open>engine_at\<close>, \<open>reads_upload\<close>,
  \<open>models_accept\<close>), and its witness
  instantiates them.  The parser's law only speaks of documents whose texts are plain (\<open>plain_tree\<close>): the template
  escapes nothing, so a text with a markup character can be read as markup.  Texts of any script are plain.

  \<^bold>\<open>Bounds.\<close>  All functions are total: loops run over finite lists, and no definition uses fuel.  The amounts in the
  theorems about totals are below \<open>2\<^sup>4\<^sup>5\<close> (single amounts) and \<open>2\<^sup>3\<^sup>8\<close> (summands); beyond that a double no
  longer holds every hundredth.  The search for the shortest decimal tries 1 to 17 digits, and \<open>try_17\<close> shows that 17
  suffice.

  \<^bold>\<open>Not modelled.\<close>  The inside of FastAPI, Starlette and uvicorn; pydantic's validation of the metadata; the stylesheets
  and schemas under \<^verbatim>\<open>app/assets\<close> and \<^verbatim>\<open>docs\<close>, which are data for lxml and SaxonC; the rest of Jinja2 and of XPath; the
  smoke test, a script of requests against a running engine; Odoo's XML views; tests.
\<close>

section \<open>Requests and metrics\<close>

text \<open>
  Claim C1.  Accounting of the requests.  However the operations of finished requests were interleaved
  since start-up, \<^verbatim>\<open>requests_total\<close> is the number of requests, each endpoint's counter the number of its
  requests, \<^verbatim>\<open>errors_total\<close> the number of requests that were answered with an error, and the gauge
  \<^verbatim>\<open>active_requests\<close> is back at zero.
\<close>

theorem requests_accounting:
  assumes "mset ops = mset (concat (map (call_ops A) calls))"
  shows "counter_value (run_ops ops (initialize now)) ''requests_total'' = int (length calls) \<and>
    counter_value (run_ops ops (initialize now)) ''errors_total'' = int (length (filter (call_failed A) calls)) \<and>
    (\<forall>k \<in> {''requests_convert'', ''requests_xml'', ''requests_validate'', ''requests_extract''}.
       counter_value (run_ops ops (initialize now)) k =
         int (length (filter (\<lambda>c. call_endpoint c = k) calls))) \<and>
    gauge_value (run_ops ops (initialize now)) ''active_requests'' = 0"
proof -
  note count = calls_counter [OF assms, of now] and totals = calls_totals [OF assms, of now]
  have "counter_value (run_ops ops (initialize now)) k = int (length (filter (\<lambda>c. call_endpoint c = k) calls))"
    if "k \<in> {''requests_convert'', ''requests_xml'', ''requests_validate'', ''requests_extract''}" for k
  proof -
    have "k \<noteq> ''requests_total''" "k \<noteq> ''errors_total''" using that by auto
    then show ?thesis by (simp add: count sum_indicator)
  qed
  with totals show ?thesis by blast
qed

theorem requests_accounting_witness:
  "counter_value (run_ops (concat (map (call_ops demo_api)
      [XmlCall demo_clock ''nope'', ExtractCall demo_clock demo_upload])) (initialize fzero)) ''requests_total'' = 2"
  using requests_accounting [where A = demo_api and
      calls = "[XmlCall demo_clock ''nope'', ExtractCall demo_clock demo_upload]", OF refl, of fzero]
  by simp

text \<open>
  Claim C19.  The gauge while requests run.  If every request has performed some first part of its
  operations, in any interleaving, \<^verbatim>\<open>active_requests\<close> lies between zero and the number of requests that
  use the gauge: it never goes negative and never counts a request twice.
\<close>

theorem requests_in_flight:
  assumes "list_all2 (\<lambda>p c. prefix p (call_ops A c)) ps calls" and "mset ops = mset (concat ps)"
  shows "0 \<le> gauge_value (run_ops ops (initialize now)) ''active_requests'' \<and>
    gauge_value (run_ops ops (initialize now)) ''active_requests'' \<le> int (length (filter call_gauged calls))"
proof -
  have one: "(\<Sum>op \<leftarrow> p. gauge_delta op ''active_requests'') \<in> {0, if call_gauged c then 1 else 0}"
    if "prefix p (call_ops A c)" for p c
    using call_frame [of A c] frame_gauge_prefix that by metis
  have "0 \<le> (\<Sum>p \<leftarrow> ps. \<Sum>op \<leftarrow> p. gauge_delta op ''active_requests'') \<and>
      (\<Sum>p \<leftarrow> ps. \<Sum>op \<leftarrow> p. gauge_delta op ''active_requests'') \<le> int (length (filter call_gauged calls))"
    using assms(1)
  proof (induction ps calls rule: list_all2_induct)
    case (Cons p ps c calls)
    with one [of p c] show ?case by (auto split: if_splits)
  qed simp
  moreover have "list_all no_set (concat ps)"
    using assms(1)
  proof (induction ps calls rule: list_all2_induct)
    case (Cons p ps c calls)
    then show ?case using call_ops_no_set [of A c] by (auto simp: prefix_def)
  qed simp
  ultimately show ?thesis
    using gau.read_interleaving [OF wf_initialize assms(2), of now "''active_requests''"]
    by (simp add: run_ops_def)
qed

theorem requests_in_flight_witness:
  "0 \<le> gauge_value (run_ops (take 3 (call_ops demo_api (ExtractCall demo_clock demo_upload))) (initialize fzero))
     ''active_requests''"
proof -
  have "list_all2 (\<lambda>p c. prefix p (call_ops demo_api c))
      [take 3 (call_ops demo_api (ExtractCall demo_clock demo_upload))] [ExtractCall demo_clock demo_upload]"
    by (simp add: take_is_prefix)
  from requests_in_flight [OF this, of "take 3 (call_ops demo_api (ExtractCall demo_clock demo_upload))" fzero]
  show ?thesis by simp
qed

end
